(* ===== verification/Prelude.thy ===== *)
theory Prelude
  imports Main "HOL-Library.Word"
begin

text \<open>
  Shared vocabulary of the development: the machine types of \<^verbatim>\<open>eNET-types.h\<close>, the outcome
  type every fallible or partial C++ operation returns in the model, the little-endian byte
  codec (\<open>stuff\<close> of \<^verbatim>\<open>utilities.h\<close> and the reads \<open>*(T *)p\<close> of the sources), and the
  collections of rewrite rules the component theories extend.
\<close>

unbundle bit_operations_syntax

named_theorems byte_simps "lengths, prefixes and round trips of byte strings"
named_theorems outcome_simps "evaluation of outcomes and of their composition"
named_theorems item_defs "constructors and operations of the data item classes"
named_theorems reg_simps "register access"

subsection \<open>Machine types\<close>

type_synonym u8 = "8 word"
type_synonym u16 = "16 word"
type_synonym u32 = "32 word"
type_synonym u64 = "64 word"
type_synonym TBytes = "u8 list"

subsection \<open>Outcomes\<close>

text \<open>
  An operation of the program returns, throws, or reaches behaviour the language leaves
  undefined (a null or out-of-range access, a shift by the width or more), or never returns
  (\<open>Hang\<close>). Nothing is said about an execution after \<open>Undef\<close>. An operation that changes state returns the outcome with
  the state reached, so that a state change made before a throw is kept, as in the code.
\<close>

datatype exn = LogicError string | RuntimeError string

datatype 'a res = Ok 'a | Throw exn | Undef | Hang

primrec bindR :: "'a res \<Rightarrow> ('a \<Rightarrow> 'b res) \<Rightarrow> 'b res" where
  "bindR (Ok x) f = f x"
| "bindR (Throw e) f = Throw e"
| "bindR Undef f = Undef"
| "bindR Hang f = Hang"

definition bindS :: "'a res \<times> 's \<Rightarrow> ('a \<Rightarrow> 's \<Rightarrow> 'b res \<times> 's) \<Rightarrow> 'b res \<times> 's" where
  "bindS m f = (case fst m of Ok x \<Rightarrow> f x (snd m) | Throw e \<Rightarrow> (Throw e, snd m)
                            | Undef \<Rightarrow> (Undef, snd m) | Hang \<Rightarrow> (Hang, snd m))"

lemma bindS_simps [simp, outcome_simps]:
  "bindS (Ok x, s) f = f x s"
  "bindS (Throw e, s) f = (Throw e, s)"
  "bindS (Undef, s) f = (Undef, s)"
  "bindS (Hang, s) f = (Hang, s)"
  by (simp_all add: bindS_def)

lemma bindR_eq_Ok [outcome_simps]:
  "bindR m f = Ok y \<longleftrightarrow> (\<exists>x. m = Ok x \<and> f x = Ok y)"
  by (cases m) auto

lemma bindS_eq_Ok [outcome_simps]:
  "bindS m f = (Ok y, t) \<longleftrightarrow> (\<exists>x s. m = (Ok x, s) \<and> f x s = (Ok y, t))"
  by (cases m; cases "fst m") (auto simp: bindS_def)

definition is_Ok :: "'a res \<Rightarrow> bool" where
  "is_Ok r = (case r of Ok _ \<Rightarrow> True | _ \<Rightarrow> False)"

lemma is_Ok_simps [simp]: "is_Ok (Ok x)" "\<not> is_Ok (Throw e)" "\<not> is_Ok Undef" "\<not> is_Ok Hang"
  by (simp_all add: is_Ok_def)

text \<open>An outcome that is a value or an exception.\<close>

definition safe :: "'a res \<Rightarrow> bool" where
  "safe r \<longleftrightarrow> r \<noteq> Undef \<and> r \<noteq> Hang"

lemma safe_simps [simp]: "safe (Ok x)" "safe (Throw e)" "\<not> safe Undef" "\<not> safe Hang"
  by (simp_all add: safe_def)

lemma safe_map_res [simp]: "safe (map_res f r) = safe r"
  by (cases r) simp_all

lemma safe_bindR: "safe (bindR m f) \<longleftrightarrow> safe m \<and> (\<forall>x. m = Ok x \<longrightarrow> safe (f x))"
  by (cases m) simp_all

lemma safe_bindS: "safe (fst (bindS m f)) \<longleftrightarrow>
    safe (fst m) \<and> (\<forall>x. fst m = Ok x \<longrightarrow> safe (fst (f x (snd m))))"
  by (cases "fst m") (simp_all add: bindS_def)

subsection \<open>Little-endian bytes\<close>

text \<open>The loop of \<open>stuff\<close>: push the low byte, shift right by eight, \<open>sizeof(T)\<close> times.\<close>

fun stuff_loop :: "nat \<Rightarrow> 'a::len word \<Rightarrow> TBytes" where
  "stuff_loop 0 v = []"
| "stuff_loop (Suc n) v = ucast (v AND 0xFF) # stuff_loop n (drop_bit 8 v)"

definition stuff :: "TBytes \<Rightarrow> 'a::len word \<Rightarrow> TBytes" where
  "stuff buf v = buf @ stuff_loop (LENGTH('a) div 8) v"

text \<open>A little-endian read of the bytes of an object.\<close>

fun le_read :: "TBytes \<Rightarrow> 'a::len word" where
  "le_read [] = 0"
| "le_read (b # bs) = ucast b OR push_bit 8 (le_read bs)"

lemma length_stuff_loop [simp, byte_simps]: "length (stuff_loop n v) = n"
  by (induction n arbitrary: v) auto

lemma stuff_append: "stuff buf v = buf @ stuff [] v"
  by (simp add: stuff_def)

lemma stuff_stuff: "stuff (stuff buf a) b = stuff buf a @ stuff [] b"
  by (rule stuff_append)

lemma stuff_cat: "stuff (as @ bs) v = as @ stuff bs v"
  by (simp add: stuff_def)

lemma length_stuff [simp, byte_simps]:
  "length (stuff buf (v :: 'a::len word)) = length buf + LENGTH('a) div 8"
  by (simp add: stuff_def)

lemma bit_le_read:
  "bit (le_read bs :: 'a::len word) n \<longleftrightarrow>
     n < LENGTH('a) \<and> n div 8 < length bs \<and> bit (bs ! (n div 8)) (n mod 8)"
proof (induction bs arbitrary: n)
  case Nil
  then show ?case by simp
next
  case (Cons b bs)
  show ?case
  proof (cases "n < 8")
    case True
    then show ?thesis by (auto simp: bit_simps)
  next
    case False
    then have d: "n div 8 = Suc ((n - 8) div 8)" and m: "n mod 8 = (n - 8) mod 8"
      by (simp_all add: le_div_geq le_mod_geq)
    from False have "\<not> bit b n"
      using bit_imp_le_length [of b n] by auto
    then have "bit (le_read (b # bs) :: 'a word) n \<longleftrightarrow>
        n < LENGTH('a) \<and> bit (le_read bs :: 'a word) (n - 8)"
      using False by (auto simp: bit_simps)
    also have "\<dots> \<longleftrightarrow> n < LENGTH('a) \<and> n div 8 < length (b # bs) \<and>
        bit ((b # bs) ! (n div 8)) (n mod 8)"
      unfolding Cons.IH d m by auto
    finally show ?thesis .
  qed
qed

lemma ucast_low_byte [simp]: "(ucast (v AND 0xFF) :: u8) = ucast v"
proof -
  have "(0xFF :: 'a::len word) = mask 8" by (simp add: mask_eq_exp_minus_1)
  show ?thesis unfolding \<open>0xFF = mask 8\<close>
    by (rule bit_word_eqI) (auto simp: bit_simps dest: bit_imp_le_length)
qed

lemma and_0xFF_u8 [simp]: "(b :: u8) AND 0xFF = b"
proof -
  have "(0xFF :: u8) = - 1" by simp
  then show ?thesis by (simp only: and.right_neutral)
qed

lemma stuff_loop_nth:
  "k < n \<Longrightarrow> stuff_loop n v ! k = ucast (drop_bit (8 * k) v)"
proof (induction n arbitrary: v k)
  case 0
  then show ?case by simp
next
  case (Suc n)
  then show ?case
    by (cases k) (simp_all add: drop_bit_drop_bit add.commute)
qed

lemma le_read_stuff_loop [byte_simps]:
  "(le_read (stuff_loop n (v :: 'a::len word)) :: 'a word) = take_bit (8 * n) v"
proof (rule bit_word_eqI)
  fix i :: nat
  assume i: "i < LENGTH('a)"
  show "bit (le_read (stuff_loop n v) :: 'a word) i \<longleftrightarrow> bit (take_bit (8 * n) v) i"
  proof (cases "i div 8 < n")
    case True
    then have "i < 8 * n" by (simp add: div_less_iff_less_mult mult.commute)
    with True i show ?thesis
      by (simp add: bit_le_read stuff_loop_nth bit_simps)
  next
    case False
    then have "\<not> i < 8 * n" by (simp add: div_less_iff_less_mult mult.commute)
    with False show ?thesis by (simp add: bit_le_read bit_simps)
  qed
qed

lemma stuff_loop_le_read [byte_simps]:
  assumes "length bs = n" and "8 * n \<le> LENGTH('a::len)"
  shows "stuff_loop n (le_read bs :: 'a word) = bs"
proof (rule nth_equalityI)
  show "length (stuff_loop n (le_read bs :: 'a word)) = length bs" by (simp add: assms)
next
  fix k assume "k < length (stuff_loop n (le_read bs :: 'a word))"
  then have k: "k < n" by simp
  show "stuff_loop n (le_read bs :: 'a word) ! k = bs ! k"
  proof (rule bit_word_eqI)
    fix i :: nat
    assume i: "i < LENGTH(8)"
    then have "8 * k + i < LENGTH('a)" and "(8 * k + i) div 8 = k" and "(8 * k + i) mod 8 = i"
      using k assms(2) by auto
    with i k assms(1) show "bit (stuff_loop n (le_read bs :: 'a word) ! k) i \<longleftrightarrow> bit (bs ! k) i"
      by (simp add: stuff_loop_nth bit_simps bit_le_read)
  qed
qed

lemma stuff8: "stuff buf (v :: u8) = buf @ [v]"
  by (simp add: stuff_def)

lemma stuff16_eq: "stuff buf (v :: u16) = buf @ stuff_loop 2 v"
  by (simp add: stuff_def)

lemma stuff32_eq: "stuff buf (v :: u32) = buf @ stuff_loop 4 v"
  by (simp add: stuff_def)

lemma le_read_stuff [simp, byte_simps]:
  "(le_read (stuff [] (a :: u8)) :: u8) = a"
  "(le_read (stuff [] (b :: u16)) :: u16) = b"
  "(le_read (stuff [] (c :: u32)) :: u32) = c"
  by (simp_all add: stuff_def le_read_stuff_loop take_bit_word_eq_self del: stuff_loop.simps)

lemma stuff_le_read [byte_simps]:
  "length as = 2 \<Longrightarrow> stuff [] (le_read as :: u16) = as"
  "length bs = 4 \<Longrightarrow> stuff [] (le_read bs :: u32) = bs"
  by (simp_all add: stuff_def stuff_loop_le_read del: stuff_loop.simps)

text \<open>The little-endian \<open>u8\<close> sum of a byte string, as a loop that adds each byte computes it.\<close>

primrec byte_sum :: "TBytes \<Rightarrow> u8" where
  "byte_sum [] = 0"
| "byte_sum (b # bs) = b + byte_sum bs"

lemma byte_sum_append [simp, byte_simps]: "byte_sum (xs @ ys) = byte_sum xs + byte_sum ys"
  by (induction xs) (simp_all add: add.assoc)

lemma foldl_plus_byte_sum: "foldl (+) (a :: u8) bs = a + byte_sum bs"
  by (induction bs arbitrary: a) (simp_all add: add.assoc)

end
