(* ===== verification/EnetTypes.thy ===== *)
theory EnetTypes
  imports Prelude
begin

text \<open>
  The protocol's constants: the error codes and their texts (\<^verbatim>\<open>TError.h\<close>,
  \<^verbatim>\<open>TError.cpp\<close>), the Data Item identifiers and the wire headers
  (\<^verbatim>\<open>eNET-types.h\<close>, \<^verbatim>\<open>DataItems/TDataItem.h\<close>), the guard that reports a bad parameter as an exception
  whose text the server later parses (\<open>GUARD\<close> of \<^verbatim>\<open>utilities.h\<close>), and the number formatting
  it relies on.
\<close>

subsection \<open>Error codes\<close>

text \<open>\<open>TError\<close> is an unsigned 32-bit integer; the codes are small negative numbers in it.\<close>

type_synonym TError = u32

abbreviation (input) ERR_SUCCESS :: TError where "ERR_SUCCESS \<equiv> 0"
abbreviation (input) ERR_MSG_TOO_SHORT :: TError where "ERR_MSG_TOO_SHORT \<equiv> - 1"
abbreviation (input) ERR_MSG_CHECKSUM :: TError where "ERR_MSG_CHECKSUM \<equiv> - 2"
abbreviation (input) ERR_MSG_PARSE :: TError where "ERR_MSG_PARSE \<equiv> - 3"
abbreviation (input) ERR_MSG_START :: TError where "ERR_MSG_START \<equiv> - 4"
abbreviation (input) ERR_MSG_ID_UNKNOWN :: TError where "ERR_MSG_ID_UNKNOWN \<equiv> - 5"
abbreviation (input) ERR_MSG_LEN_MISMATCH :: TError where "ERR_MSG_LEN_MISMATCH \<equiv> - 6"
abbreviation (input) ERR_MSG_PAYLOAD_DATAITEM_LEN_MISMATCH :: TError where "ERR_MSG_PAYLOAD_DATAITEM_LEN_MISMATCH \<equiv> - 7"
abbreviation (input) ERR_MSG_DATAITEM_ID_UNKNOWN :: TError where "ERR_MSG_DATAITEM_ID_UNKNOWN \<equiv> - 8"
abbreviation (input) ERR_MSG_DATAITEM_TOO_SHORT :: TError where "ERR_MSG_DATAITEM_TOO_SHORT \<equiv> - 9"
abbreviation (input) ERR_DId_BAD_PARAM :: TError where "ERR_DId_BAD_PARAM \<equiv> - 10"
abbreviation (input) ERR_DId_BAD_OFFSET :: TError where "ERR_DId_BAD_OFFSET \<equiv> - 11"
abbreviation (input) ERR_DId_INVALID :: TError where "ERR_DId_INVALID \<equiv> - 12"
abbreviation (input) ERR_NYI :: TError where "ERR_NYI \<equiv> - 13"
abbreviation (input) ERR_ADC_BUSY :: TError where "ERR_ADC_BUSY \<equiv> - 14"
abbreviation (input) ERR_ADC_FATAL :: TError where "ERR_ADC_FATAL \<equiv> - 15"

definition error_codes :: "TError list" where
  "error_codes = [
    ERR_SUCCESS, ERR_MSG_TOO_SHORT, ERR_MSG_CHECKSUM, ERR_MSG_PARSE, ERR_MSG_START,
    ERR_MSG_ID_UNKNOWN, ERR_MSG_LEN_MISMATCH, ERR_MSG_PAYLOAD_DATAITEM_LEN_MISMATCH,
    ERR_MSG_DATAITEM_ID_UNKNOWN, ERR_MSG_DATAITEM_TOO_SHORT, ERR_DId_BAD_PARAM,
    ERR_DId_BAD_OFFSET, ERR_DId_INVALID, ERR_NYI, ERR_ADC_BUSY, ERR_ADC_FATAL]"

definition err_msg :: "string list" where
  "err_msg = [
    ''VALID'',
    ''Message too short'',
    ''Checksum error'',
    ''Parse error'',
    ''Invalid Start symbol found'',
    ''Unknown Message ID'',
    ''Length mismatch'',
    ''DataItem length mismatch'',
    ''DataItem ID unknown'',
    ''DataItem too short'',
    ''DataItem Payload error'',
    ''DId Offset Arg error'',
    ''DId Invalid'',
    ''Not Yet Implemented'',
    ''ADC Busy'',
    ''ADC FATAL'']"

text \<open>
  \<open>err_msg[-code]\<close>: the negation is taken in \<open>TError\<close>, so the index is unsigned. The seventeenth
  entry of the table is a null pointer and beyond it lies no table.
\<close>

definition err_text :: "TError \<Rightarrow> string res" where
  "err_text code = (if unat (- code) < length err_msg then Ok (err_msg ! unat (- code)) else Undef)"

subsection \<open>Data Item identifiers\<close>

type_synonym TDataId = u16

abbreviation (input) DId_INVALID :: TDataId where "DId_INVALID \<equiv> 0xFFFE"
abbreviation (input) DId_BRD_group :: TDataId where "DId_BRD_group \<equiv> 0x0000"
abbreviation (input) DId_BRD_Reset :: TDataId where "DId_BRD_Reset \<equiv> 0x0001"
abbreviation (input) DId_BRD_DeviceID :: TDataId where "DId_BRD_DeviceID \<equiv> 0x0002"
abbreviation (input) DId_BRD_Features :: TDataId where "DId_BRD_Features \<equiv> 0x0003"
abbreviation (input) DId_BRD_FpgaID :: TDataId where "DId_BRD_FpgaID \<equiv> 0x0004"
abbreviation (input) DId_BRD_Model :: TDataId where "DId_BRD_Model \<equiv> 0x0008"
abbreviation (input) DId_BRD_GetModel :: TDataId where "DId_BRD_GetModel \<equiv> 0x0009"
abbreviation (input) DId_BRD_SerialNumber :: TDataId where "DId_BRD_SerialNumber \<equiv> 0x0010"
abbreviation (input) DId_BRD_GetSerialNumber :: TDataId where "DId_BRD_GetSerialNumber \<equiv> 0x0011"
abbreviation (input) DId_BRD_NumberOfSubmuxes :: TDataId where "DId_BRD_NumberOfSubmuxes \<equiv> 0x0021"
abbreviation (input) DId_BRD_SubmuxScale :: TDataId where "DId_BRD_SubmuxScale \<equiv> 0x0023"
abbreviation (input) DId_BRD_SubmuxOffset :: TDataId where "DId_BRD_SubmuxOffset \<equiv> 0x0024"
abbreviation (input) DId_BRD_GetNumberOfAdcChannels :: TDataId where "DId_BRD_GetNumberOfAdcChannels \<equiv> 0x0030"
abbreviation (input) DId_BRD_GetNumberOfSubmuxes :: TDataId where "DId_BRD_GetNumberOfSubmuxes \<equiv> 0x0031"
abbreviation (input) DId_BRD_GetSubmuxScale :: TDataId where "DId_BRD_GetSubmuxScale \<equiv> 0x0033"
abbreviation (input) DId_BRD_GetSubmuxOffset :: TDataId where "DId_BRD_GetSubmuxOffset \<equiv> 0x0034"
abbreviation (input) DId_BRD_stuff_needed :: TDataId where "DId_BRD_stuff_needed \<equiv> 0x0035"
abbreviation (input) DId_BRD_REBOOT :: TDataId where "DId_BRD_REBOOT \<equiv> 0x00FF"
abbreviation (input) DId_REG_group :: TDataId where "DId_REG_group \<equiv> 0x0100"
abbreviation (input) DId_REG_Read1 :: TDataId where "DId_REG_Read1 \<equiv> 0x0101"
abbreviation (input) DId_REG_ReadAll :: TDataId where "DId_REG_ReadAll \<equiv> 0x0103"
abbreviation (input) DId_REG_ReadBuf :: TDataId where "DId_REG_ReadBuf \<equiv> 0x0104"
abbreviation (input) DId_REG_Write1 :: TDataId where "DId_REG_Write1 \<equiv> 0x0105"
abbreviation (input) DId_REG_WriteBuf :: TDataId where "DId_REG_WriteBuf \<equiv> 0x0107"
abbreviation (input) DId_REG_ClearBits :: TDataId where "DId_REG_ClearBits \<equiv> 0x0108"
abbreviation (input) DId_REG_SetBits :: TDataId where "DId_REG_SetBits \<equiv> 0x0109"
abbreviation (input) DId_REG_ToggleBits :: TDataId where "DId_REG_ToggleBits \<equiv> 0x010A"
abbreviation (input) DId_REG_ReadBit :: TDataId where "DId_REG_ReadBit \<equiv> 0x0121"
abbreviation (input) DId_REG_WriteBit :: TDataId where "DId_REG_WriteBit \<equiv> 0x0122"
abbreviation (input) DId_REG_ClearBit :: TDataId where "DId_REG_ClearBit \<equiv> 0x0123"
abbreviation (input) DId_REG_SetBit :: TDataId where "DId_REG_SetBit \<equiv> 0x0124"
abbreviation (input) DId_REG_ToggleBit :: TDataId where "DId_REG_ToggleBit \<equiv> 0x0125"
abbreviation (input) DId_DAC_group :: TDataId where "DId_DAC_group \<equiv> 0x0200"
abbreviation (input) DId_DAC_Output1 :: TDataId where "DId_DAC_Output1 \<equiv> 0x0201"
abbreviation (input) DId_DAC_OutputAll :: TDataId where "DId_DAC_OutputAll \<equiv> 0x0202"
abbreviation (input) DId_DAC_Output1V :: TDataId where "DId_DAC_Output1V \<equiv> 0x0203"
abbreviation (input) DId_DAC_Range1 :: TDataId where "DId_DAC_Range1 \<equiv> 0x0204"
abbreviation (input) DId_DAC_Calibrate1 :: TDataId where "DId_DAC_Calibrate1 \<equiv> 0x020C"
abbreviation (input) DId_DAC_CalibrateAll :: TDataId where "DId_DAC_CalibrateAll \<equiv> 0x020D"
abbreviation (input) DId_DAC_Offset1 :: TDataId where "DId_DAC_Offset1 \<equiv> 0x020E"
abbreviation (input) DId_DAC_OffsetAll :: TDataId where "DId_DAC_OffsetAll \<equiv> 0x020F"
abbreviation (input) DId_DAC_Scale1 :: TDataId where "DId_DAC_Scale1 \<equiv> 0x0210"
abbreviation (input) DId_DAC_ScaleAll :: TDataId where "DId_DAC_ScaleAll \<equiv> 0x0211"
abbreviation (input) DId_DAC_Configure1 :: TDataId where "DId_DAC_Configure1 \<equiv> 0x02C0"
abbreviation (input) DId_DAC_ConfigAndOutput1 :: TDataId where "DId_DAC_ConfigAndOutput1 \<equiv> 0x02C1"
abbreviation (input) DId_DIO_group :: TDataId where "DId_DIO_group \<equiv> 0x0300"
abbreviation (input) DId_DIO_ConfigureBit :: TDataId where "DId_DIO_ConfigureBit \<equiv> 0x0301"
abbreviation (input) DId_DIO_Configure :: TDataId where "DId_DIO_Configure \<equiv> 0x0302"
abbreviation (input) DId_DIO_InputBit :: TDataId where "DId_DIO_InputBit \<equiv> 0x0303"
abbreviation (input) DId_DIO_Input :: TDataId where "DId_DIO_Input \<equiv> 0x0305"
abbreviation (input) DId_DIO_InputBuf1 :: TDataId where "DId_DIO_InputBuf1 \<equiv> 0x0306"
abbreviation (input) DId_DIO_InputBufAll :: TDataId where "DId_DIO_InputBufAll \<equiv> 0x0307"
abbreviation (input) DId_DIO_OutputBit :: TDataId where "DId_DIO_OutputBit \<equiv> 0x0308"
abbreviation (input) DId_DIO_Output :: TDataId where "DId_DIO_Output \<equiv> 0x0309"
abbreviation (input) DId_DIO_OutputBuf :: TDataId where "DId_DIO_OutputBuf \<equiv> 0x030A"
abbreviation (input) DId_DIO_ConfigureReadWriteReadSome :: TDataId where "DId_DIO_ConfigureReadWriteReadSome \<equiv> 0x030B"
abbreviation (input) DId_DIO_ClearBit :: TDataId where "DId_DIO_ClearBit \<equiv> 0x030C"
abbreviation (input) DId_DIO_ClearAll :: TDataId where "DId_DIO_ClearAll \<equiv> 0x030D"
abbreviation (input) DId_DIO_SetBit :: TDataId where "DId_DIO_SetBit \<equiv> 0x030E"
abbreviation (input) DId_DIO_SetAll :: TDataId where "DId_DIO_SetAll \<equiv> 0x030F"
abbreviation (input) DId_DIO_SetSome :: TDataId where "DId_DIO_SetSome \<equiv> 0x0310"
abbreviation (input) DId_DIO_ToggleBit :: TDataId where "DId_DIO_ToggleBit \<equiv> 0x0311"
abbreviation (input) DId_DIO_ToggleAll :: TDataId where "DId_DIO_ToggleAll \<equiv> 0x0312"
abbreviation (input) DId_DIO_PulseBit :: TDataId where "DId_DIO_PulseBit \<equiv> 0x0313"
abbreviation (input) DId_DIO_PulseAll :: TDataId where "DId_DIO_PulseAll \<equiv> 0x0314"
abbreviation (input) DId_PWM_group :: TDataId where "DId_PWM_group \<equiv> 0x0400"
abbreviation (input) DId_PWM_Configure1 :: TDataId where "DId_PWM_Configure1 \<equiv> 0x0401"
abbreviation (input) DId_PWM_ConfigureAll :: TDataId where "DId_PWM_ConfigureAll \<equiv> 0x0402"
abbreviation (input) DId_PWM_Input1 :: TDataId where "DId_PWM_Input1 \<equiv> 0x0403"
abbreviation (input) DId_PWM_InputAll :: TDataId where "DId_PWM_InputAll \<equiv> 0x0404"
abbreviation (input) DId_PWM_Output1 :: TDataId where "DId_PWM_Output1 \<equiv> 0x0405"
abbreviation (input) DId_PWM_OutputAll :: TDataId where "DId_PWM_OutputAll \<equiv> 0x0406"
abbreviation (input) DId_ADC_group :: TDataId where "DId_ADC_group \<equiv> 0x1000"
abbreviation (input) DId_ADC_Claim :: TDataId where "DId_ADC_Claim \<equiv> 0x1001"
abbreviation (input) DId_ADC_Release :: TDataId where "DId_ADC_Release \<equiv> 0x1002"
abbreviation (input) DId_ADC_BaseClock :: TDataId where "DId_ADC_BaseClock \<equiv> 0x1003"
abbreviation (input) DId_ADC_StartHz :: TDataId where "DId_ADC_StartHz \<equiv> 0x1004"
abbreviation (input) DId_ADC_StartDivisor :: TDataId where "DId_ADC_StartDivisor \<equiv> 0x1005"
abbreviation (input) DId_ADC_ConfigurationOfEverything :: TDataId where "DId_ADC_ConfigurationOfEverything \<equiv> 0x1006"
abbreviation (input) DId_ADC_Differential1 :: TDataId where "DId_ADC_Differential1 \<equiv> 0x1007"
abbreviation (input) DId_ADC_DifferentialAll :: TDataId where "DId_ADC_DifferentialAll \<equiv> 0x1008"
abbreviation (input) DId_ADC_Range1 :: TDataId where "DId_ADC_Range1 \<equiv> 0x1009"
abbreviation (input) DId_ADC_RangeAll :: TDataId where "DId_ADC_RangeAll \<equiv> 0x100A"
abbreviation (input) DId_ADC_Calibration1 :: TDataId where "DId_ADC_Calibration1 \<equiv> 0x100C"
abbreviation (input) DId_ADC_CalibrationAll :: TDataId where "DId_ADC_CalibrationAll \<equiv> 0x100D"
abbreviation (input) DId_ADC_Scale1 :: TDataId where "DId_ADC_Scale1 \<equiv> 0x100E"
abbreviation (input) DId_ADC_ScaleAll :: TDataId where "DId_ADC_ScaleAll \<equiv> 0x100F"
abbreviation (input) DId_ADC_Offset1 :: TDataId where "DId_ADC_Offset1 \<equiv> 0x1010"
abbreviation (input) DId_ADC_OffsetAll :: TDataId where "DId_ADC_OffsetAll \<equiv> 0x1011"
abbreviation (input) DId_ADC_Volts1 :: TDataId where "DId_ADC_Volts1 \<equiv> 0x1020"
abbreviation (input) DId_ADC_VoltsAll :: TDataId where "DId_ADC_VoltsAll \<equiv> 0x1021"
abbreviation (input) DId_ADC_Counts1 :: TDataId where "DId_ADC_Counts1 \<equiv> 0x1030"
abbreviation (input) DId_ADC_CountsAll :: TDataId where "DId_ADC_CountsAll \<equiv> 0x1031"
abbreviation (input) DId_ADC_Raw1 :: TDataId where "DId_ADC_Raw1 \<equiv> 0x1040"
abbreviation (input) DId_ADC_RawAll :: TDataId where "DId_ADC_RawAll \<equiv> 0x1041"
abbreviation (input) DId_ADC_Stream :: TDataId where "DId_ADC_Stream \<equiv> 0x1100"
abbreviation (input) DId_ADC_StreamStart :: TDataId where "DId_ADC_StreamStart \<equiv> 0x1101"
abbreviation (input) DId_ADC_StreamStop :: TDataId where "DId_ADC_StreamStop \<equiv> 0x1102"
abbreviation (input) DId_ADC_Streaming_stuff :: TDataId where "DId_ADC_Streaming_stuff \<equiv> 0x1103"
abbreviation (input) DId_SCRIPT_group :: TDataId where "DId_SCRIPT_group \<equiv> 0x3000"
abbreviation (input) DId_SCRIPT_Pause :: TDataId where "DId_SCRIPT_Pause \<equiv> 0x3001"
abbreviation (input) DId_WDG_group :: TDataId where "DId_WDG_group \<equiv> 0x4000"
abbreviation (input) DId_DEF_group :: TDataId where "DId_DEF_group \<equiv> 0x5000"
abbreviation (input) DId_SERVICE_group :: TDataId where "DId_SERVICE_group \<equiv> 0x5001"
abbreviation (input) DId_TCP_group :: TDataId where "DId_TCP_group \<equiv> 0x7000"
abbreviation (input) DId_TCP_ConnectionID :: TDataId where "DId_TCP_ConnectionID \<equiv> 0x7001"
abbreviation (input) DId_PNP_group :: TDataId where "DId_PNP_group \<equiv> 0x7002"
abbreviation (input) DId_CFG_group :: TDataId where "DId_CFG_group \<equiv> 0x9000"
abbreviation (input) DId_CFG_Hostname :: TDataId where "DId_CFG_Hostname \<equiv> 0x9001"
abbreviation (input) DId_SYS_UploadFileName :: TDataId where "DId_SYS_UploadFileName \<equiv> 0xEF01"
abbreviation (input) DId_SYS_UploadFileData :: TDataId where "DId_SYS_UploadFileData \<equiv> 0xEF02"
abbreviation (input) DId_SYS_Error :: TDataId where "DId_SYS_Error \<equiv> 0xEFF0"
abbreviation (input) DId_SYS_ItemError :: TDataId where "DId_SYS_ItemError \<equiv> 0xEFF1"
abbreviation (input) DId_DOC_Get :: TDataId where "DId_DOC_Get \<equiv> 0xFFFF"

text \<open>The enumerators of \<open>DataItemIds\<close>, in the order of their declaration.\<close>

definition DataItemIds :: "TDataId list" where
  "DataItemIds = [
    DId_INVALID, DId_BRD_group, DId_BRD_Reset, DId_BRD_DeviceID, DId_BRD_Features, DId_BRD_FpgaID,
    DId_BRD_Model, DId_BRD_GetModel, DId_BRD_SerialNumber, DId_BRD_GetSerialNumber,
    DId_BRD_NumberOfSubmuxes, DId_BRD_SubmuxScale, DId_BRD_SubmuxOffset,
    DId_BRD_GetNumberOfAdcChannels, DId_BRD_GetNumberOfSubmuxes, DId_BRD_GetSubmuxScale,
    DId_BRD_GetSubmuxOffset, DId_BRD_stuff_needed, DId_BRD_REBOOT, DId_REG_group, DId_REG_Read1,
    DId_REG_ReadAll, DId_REG_ReadBuf, DId_REG_Write1, DId_REG_WriteBuf, DId_REG_ClearBits,
    DId_REG_SetBits, DId_REG_ToggleBits, DId_REG_ReadBit, DId_REG_WriteBit, DId_REG_ClearBit,
    DId_REG_SetBit, DId_REG_ToggleBit, DId_DAC_group, DId_DAC_Output1, DId_DAC_OutputAll,
    DId_DAC_Output1V, DId_DAC_Range1, DId_DAC_Calibrate1, DId_DAC_CalibrateAll,
    DId_DAC_Offset1, DId_DAC_OffsetAll, DId_DAC_Scale1, DId_DAC_ScaleAll, DId_DAC_Configure1,
    DId_DAC_ConfigAndOutput1, DId_DIO_group, DId_DIO_ConfigureBit, DId_DIO_Configure,
    DId_DIO_InputBit, DId_DIO_Input, DId_DIO_InputBuf1, DId_DIO_InputBufAll,
    DId_DIO_OutputBit, DId_DIO_Output, DId_DIO_OutputBuf, DId_DIO_ConfigureReadWriteReadSome,
    DId_DIO_ClearBit, DId_DIO_ClearAll, DId_DIO_SetBit, DId_DIO_SetAll, DId_DIO_SetSome,
    DId_DIO_ToggleBit, DId_DIO_ToggleAll, DId_DIO_PulseBit, DId_DIO_PulseAll, DId_PWM_group,
    DId_PWM_Configure1, DId_PWM_ConfigureAll, DId_PWM_Input1, DId_PWM_InputAll,
    DId_PWM_Output1, DId_PWM_OutputAll, DId_ADC_group, DId_ADC_Claim, DId_ADC_Release,
    DId_ADC_BaseClock, DId_ADC_StartHz, DId_ADC_StartDivisor,
    DId_ADC_ConfigurationOfEverything, DId_ADC_Differential1, DId_ADC_DifferentialAll,
    DId_ADC_Range1, DId_ADC_RangeAll, DId_ADC_Calibration1, DId_ADC_CalibrationAll,
    DId_ADC_Scale1, DId_ADC_ScaleAll, DId_ADC_Offset1, DId_ADC_OffsetAll, DId_ADC_Volts1,
    DId_ADC_VoltsAll, DId_ADC_Counts1, DId_ADC_CountsAll, DId_ADC_Raw1, DId_ADC_RawAll,
    DId_ADC_Stream, DId_ADC_StreamStart, DId_ADC_StreamStop, DId_ADC_Streaming_stuff,
    DId_SCRIPT_group, DId_SCRIPT_Pause, DId_WDG_group, DId_DEF_group, DId_SERVICE_group, DId_TCP_group,
    DId_TCP_ConnectionID, DId_PNP_group, DId_CFG_group, DId_CFG_Hostname, DId_SYS_UploadFileName,
    DId_SYS_UploadFileData, DId_SYS_Error, DId_SYS_ItemError, DId_DOC_Get]"

subsection \<open>Wire headers\<close>

text \<open>
  Both headers are packed and little-endian: \<open>TMessageHeader\<close> is one byte of Message Id and four
  of payload size, \<open>TDataItemHeader\<close> two bytes of Data Item Id and two of data length. The code
  reads them through a pointer to the first byte of a buffer.
\<close>

definition sizeof_TMessageHeader :: nat where
  "sizeof_TMessageHeader = 5"

definition sizeof_TDataItemHeader :: nat where
  "sizeof_TDataItemHeader = 4"

definition head_type :: "TBytes \<Rightarrow> u8" where
  "head_type buf = buf ! 0"

definition head_payload_size :: "TBytes \<Rightarrow> u32" where
  "head_payload_size buf = le_read (take 4 (drop 1 buf))"

definition head_DId :: "TBytes \<Rightarrow> TDataId" where
  "head_DId bytes = le_read (take 2 bytes)"

definition head_dataLength :: "TBytes \<Rightarrow> u16" where
  "head_dataLength bytes = le_read (take 2 (drop 2 bytes))"

definition minimumMessageLength :: u32 where
  "minimumMessageLength = of_nat (sizeof_TMessageHeader + 1)"

definition maxDataLength :: u16 where
  "maxDataLength = 0xFFFF"

definition maxPayloadLength :: u32 where
  "maxPayloadLength = of_nat (sizeof_TDataItemHeader + unat maxDataLength) * 16"

lemma header_sizes [simp]:
  "sizeof_TMessageHeader = 5" "sizeof_TDataItemHeader = 4" "minimumMessageLength = 6"
  "maxPayloadLength = 1048624"
  by (simp_all add: sizeof_TMessageHeader_def sizeof_TDataItemHeader_def minimumMessageLength_def
      maxPayloadLength_def maxDataLength_def)

lemma head_DId_stuff [simp]: "head_DId (stuff [] (d :: u16) @ rest) = d"
  by (simp add: head_DId_def)

lemma head_dataLength_stuff [simp]:
  "head_dataLength (stuff [] (d :: u16) @ stuff [] (l :: u16) @ rest) = l"
  by (simp add: head_dataLength_def)

lemma head_payload_size_stuff [simp]:
  "head_payload_size (b # stuff [] (l :: u32) @ rest) = l"
  by (simp add: head_payload_size_def)

lemma unat_u16_le: "unat (w :: u16) \<le> 65535"
proof -
  have "unat w < 2 ^ LENGTH(16)" by (rule unsigned_less)
  then show ?thesis by simp
qed

lemma head_dataLength_le: "unat (head_dataLength bytes) \<le> 65535"
  by (rule unat_u16_le)

lemma header_split:
  assumes "4 \<le> length bytes"
  shows "bytes = stuff [] (head_DId bytes) @ stuff [] (head_dataLength bytes) @ drop 4 bytes"
proof -
  have "bytes = take 2 bytes @ take 2 (drop 2 bytes) @ drop 4 bytes"
    by (metis append_take_drop_id drop_drop numeral_Bit0)
  then show ?thesis
    using assms by (simp add: head_DId_def head_dataLength_def stuff_le_read)
qed

text \<open>A header is read from the bytes it occupies and from no others.\<close>

lemma header_prefix:
  assumes "take 4 as = take 4 bs"
  shows "head_DId as = head_DId bs" "head_dataLength as = head_dataLength bs"
proof -
  have "take 2 as = take 2 bs"
    using assms by (metis min.absorb1 numeral_le_iff semiring_norm(68) semiring_norm(71) take_take)
  then show "head_DId as = head_DId bs" by (simp add: head_DId_def)
  have "take 2 (drop 2 as) = take 2 (drop 2 bs)"
    using assms by (simp add: take_drop)
  then show "head_dataLength as = head_dataLength bs" by (simp add: head_dataLength_def)
qed

subsection \<open>The error table\<close>

lemma err_text_code:
  "code \<in> set error_codes \<Longrightarrow> \<exists>t. err_text code = Ok t"
  by (auto simp: error_codes_def err_text_def err_msg_def)

end
