(* ===== verification/Utilities.thy ===== *)
theory Utilities
  imports EnetTypes
begin

text \<open>
  The text side of \<^verbatim>\<open>utilities.h\<close> and \<^verbatim>\<open>utilities.cpp\<close>: number formatting and parsing, the guard
  that throws a formatted exception, splitting, host names and the updater of the hosts file.
  The character classes are those of the C locale, the one a C++ program starts in.
\<close>

subsection \<open>Characters\<close>

definition isspace :: "char \<Rightarrow> bool" where
  "isspace c = (of_char c = (32 :: nat) \<or> (9 :: nat) \<le> of_char c \<and> of_char c \<le> (13 :: nat))"

definition isdigit :: "char \<Rightarrow> bool" where
  "isdigit c = ((48 :: nat) \<le> of_char c \<and> of_char c \<le> (57 :: nat))"

definition isupper :: "char \<Rightarrow> bool" where
  "isupper c = ((65 :: nat) \<le> of_char c \<and> of_char c \<le> (90 :: nat))"

definition islower :: "char \<Rightarrow> bool" where
  "islower c = ((97 :: nat) \<le> of_char c \<and> of_char c \<le> (122 :: nat))"

definition isalnum :: "char \<Rightarrow> bool" where
  "isalnum c = (isdigit c \<or> isupper c \<or> islower c)"

definition toupper :: "char \<Rightarrow> char" where
  "toupper c = (if islower c then char_of (of_char c - (32 :: nat)) else c)"

definition tolower :: "char \<Rightarrow> char" where
  "tolower c = (if isupper c then char_of (of_char c + (32 :: nat)) else c)"

lemma of_char_less_256 [simp]: "(of_char c :: nat) < 256"
  using of_char_mod_256 [of c, where ?'a = nat] by (metis mod_less_divisor zero_less_numeral)

lemma of_char_of_small [simp]: "n < 256 \<Longrightarrow> (of_char (char_of n) :: nat) = n"
  by (simp add: of_char_of)

subsection \<open>Numbers as text\<close>

text \<open>\<open>std::to_chars\<close>: the shortest representation, lower-case digits.\<close>

definition digit_char :: "nat \<Rightarrow> char" where
  "digit_char d = char_of (if d < 10 then 48 + d else 87 + d)"

function to_chars :: "nat \<Rightarrow> nat \<Rightarrow> string" where
  "to_chars b n = (if n < b \<or> b < 2 then [digit_char n]
                   else to_chars b (n div b) @ [digit_char (n mod b)])"
  by pat_completeness auto
termination
  by (relation "measure snd") auto

declare to_chars.simps [simp del]

definition to_string :: "nat \<Rightarrow> string" where
  "to_string n = to_chars 10 n"

text \<open>
  \<open>to_hex<T>\<close>: the minimal digits, padded with leading zeros to two per byte and made upper-case.
  The result always fits the buffer of \<open>2 * sizeof(T) + 1\<close> characters, so \<open>to_chars\<close> cannot fail.
\<close>

definition to_hex :: "'a::len word \<Rightarrow> string" where
  "to_hex i = (let buffer = to_chars 16 (unat i); needed = 2 * (LENGTH('a) div 8)
               in map toupper (replicate (needed - length buffer) CHR ''0'' @ buffer))"

text \<open>
  \<open>std::stoul\<close>: skip white space, accept a sign, accept \<open>0x\<close> when the base is sixteen and a digit
  follows, read the longest run of digits; no digit is \<open>invalid_argument\<close>, a value beyond
  \<open>unsigned long\<close> is \<open>out_of_range\<close> (both are logic errors), and a minus sign negates modulo \<open>2 ^ 64\<close>.
\<close>

definition digit_val :: "char \<Rightarrow> nat" where
  "digit_val c = (if isdigit c then of_char c - 48 else if islower c then of_char c - 87
                  else if isupper c then of_char c - 55 else 99)"

definition digits_value :: "nat \<Rightarrow> string \<Rightarrow> nat" where
  "digits_value b s = foldl (\<lambda>a c. a * b + digit_val c) 0 s"

definition skip_0x :: "nat \<Rightarrow> string \<Rightarrow> string" where
  "skip_0x b s = (if b = 16 \<and> 3 \<le> length s \<and> s ! 0 = CHR ''0'' \<and> s ! 1 \<in> {CHR ''x'', CHR ''X''}
                     \<and> digit_val (s ! 2) < 16 then drop 2 s else s)"

definition stoul :: "nat \<Rightarrow> string \<Rightarrow> u64 res" where
  "stoul b s =
     (let t = dropWhile isspace s;
          neg = (t \<noteq> [] \<and> hd t = CHR ''-'');
          u = (if t \<noteq> [] \<and> hd t \<in> {CHR ''+'', CHR ''-''} then tl t else t);
          ds = takeWhile (\<lambda>c. digit_val c < b) (skip_0x b u);
          v = digits_value b ds
      in if ds = [] \<or> 2 ^ 64 \<le> v then Throw (LogicError ''stoul'')
         else Ok (if neg then - of_nat v else of_nat v))"

text \<open>What the digits of a number are, whatever the number.\<close>

lemma digit_val_digit_char [simp]: "d < 16 \<Longrightarrow> digit_val (digit_char d) = d"
  by (auto simp: digit_val_def digit_char_def isdigit_def islower_def isupper_def)

lemma toupper_digit_char: "d < 16 \<Longrightarrow> digit_val (toupper (digit_char d)) = d"
  by (auto simp: digit_val_def digit_char_def isdigit_def islower_def isupper_def toupper_def)

lemma digit_val_mod [simp]:
  assumes "2 \<le> b" and "b \<le> 16"
  shows "digit_val (digit_char (n mod b)) = n mod b"
    and "digit_val (toupper (digit_char (n mod b))) = n mod b"
proof -
  have "n mod b < 16" using assms by (auto intro: less_le_trans [OF mod_less_divisor])
  then show "digit_val (digit_char (n mod b)) = n mod b"
    and "digit_val (toupper (digit_char (n mod b))) = n mod b"
    by (simp_all add: toupper_digit_char)
qed

lemma toupper_zero [simp]: "toupper CHR ''0'' = CHR ''0''"
  by (simp add: toupper_def islower_def)

lemma digits_value_snoc [simp]: "digits_value b (s @ [c]) = digits_value b s * b + digit_val c"
  by (simp add: digits_value_def)

lemma digits_value_zeros [simp]: "digits_value b (replicate k CHR ''0'' @ s) = digits_value b s"
  by (induction k) (simp_all add: digits_value_def digit_val_def isdigit_def)

lemma to_chars_value:
  "2 \<le> b \<Longrightarrow> b \<le> 16 \<Longrightarrow> digits_value b (to_chars b n) = n"
proof (induction b n rule: to_chars.induct)
  case (1 b n)
  then show ?case
    by (subst to_chars.simps) (auto simp: digits_value_def [of b "[_]"])
qed

lemma to_chars_upper_value:
  "2 \<le> b \<Longrightarrow> b \<le> 16 \<Longrightarrow> digits_value b (map toupper (to_chars b n)) = n"
proof (induction b n rule: to_chars.induct)
  case (1 b n)
  then show ?case
    by (subst to_chars.simps) (auto simp: digits_value_def [of b "[_]"] toupper_digit_char)
qed

lemma to_chars_digits:
  "2 \<le> b \<Longrightarrow> set (to_chars b n) \<subseteq> digit_char ` {..<b}"
proof (induction b n rule: to_chars.induct)
  case (1 b n)
  then show ?case by (subst to_chars.simps) auto
qed

lemma to_chars_not_Nil [simp]: "to_chars b n \<noteq> []"
  by (subst to_chars.simps) simp

lemma length_to_chars_le:
  "n < b ^ Suc k \<Longrightarrow> length (to_chars b n) \<le> Suc k"
proof (induction k arbitrary: n)
  case 0
  then show ?case by (subst to_chars.simps) simp
next
  case (Suc k)
  show ?case
  proof (cases "n < b \<or> b < 2")
    case True
    then show ?thesis by (subst to_chars.simps) simp
  next
    case False
    then have "n div b < b ^ Suc k"
      using Suc.prems by (simp add: div_less_iff_less_mult mult.commute)
    then show ?thesis using False Suc.IH by (subst to_chars.simps) simp
  qed
qed

subsection \<open>Reading a number back\<close>

lemma isspace_digit_char: "d < 16 \<Longrightarrow> \<not> isspace (toupper (digit_char d)) \<and> \<not> isspace (digit_char d)"
  by (auto simp: isspace_def digit_char_def toupper_def islower_def)

lemma digit_less_of_val:
  "digit_val c < 16 \<Longrightarrow> \<not> isspace c \<and> c \<noteq> CHR ''-'' \<and> c \<noteq> CHR ''+'' \<and> c \<noteq> CHR ''x'' \<and> c \<noteq> CHR ''X''"
  by (auto simp: digit_val_def isspace_def isdigit_def islower_def isupper_def split: if_splits)

lemma skip_0x_digits:
  "list_all (\<lambda>c. digit_val c < 16) s \<Longrightarrow> skip_0x b s = s"
proof -
  assume all: "list_all (\<lambda>c. digit_val c < 16) s"
  have "s ! 1 \<notin> {CHR ''x'', CHR ''X''}" if "3 \<le> length s"
    using all that digit_less_of_val [of "s ! 1"] by (auto simp: list_all_length)
  then show ?thesis by (auto simp: skip_0x_def)
qed

lemma stoul_digits:
  assumes "s \<noteq> []" and "list_all (\<lambda>c. digit_val c < b) s" and "b \<le> 16"
    and "digits_value b s < 2 ^ 64"
  shows "stoul b s = Ok (of_nat (digits_value b s))"
proof -
  have all16: "list_all (\<lambda>c. digit_val c < 16) s"
    using assms(2,3) by (auto simp: list_all_iff)
  obtain c cs where s: "s = c # cs" using assms(1) by (cases s) auto
  from all16 s have c: "\<not> isspace c" "c \<noteq> CHR ''-''" "c \<noteq> CHR ''+''"
    using digit_less_of_val [of c] by auto
  have "takeWhile (\<lambda>c. digit_val c < b) s = s"
    using assms(2) by (simp add: takeWhile_eq_all_conv list_all_iff)
  with c s assms(4) skip_0x_digits [OF all16] show ?thesis
    by (auto simp: stoul_def Let_def)
qed

lemma stoul_to_string: "n < 2 ^ 64 \<Longrightarrow> stoul 10 (to_string n) = Ok (of_nat n)"
proof -
  assume n: "n < 2 ^ 64"
  have "list_all (\<lambda>c. digit_val c < 10) (to_string n)"
    using to_chars_digits [of 10 n] by (auto simp: to_string_def list_all_iff)
  then show ?thesis
    using stoul_digits [of "to_string n" 10] n
    by (simp add: to_string_def to_chars_value)
qed

lemma to_hex_digits: "list_all (\<lambda>c. digit_val c < 16) (to_hex i)"
proof -
  have "digit_val (toupper CHR ''0'') < 16"
    by (simp add: digit_val_def toupper_def islower_def isdigit_def)
  moreover have "\<forall>c \<in> set (to_chars 16 (unat i)). digit_val (toupper c) < 16"
    using to_chars_digits [of 16 "unat i"] by (auto simp: toupper_digit_char)
  ultimately show ?thesis by (auto simp: to_hex_def Let_def list_all_iff)
qed

lemma to_hex_value: "digits_value 16 (to_hex i) = unat i"
  by (simp add: to_hex_def Let_def to_chars_upper_value)

lemma to_hex_not_Nil [simp]: "to_hex i \<noteq> []"
  by (simp add: to_hex_def Let_def)

lemma length_to_hex:
  "length (to_hex (a :: u8)) = 2" "length (to_hex (b :: u16)) = 4" "length (to_hex (c :: u32)) = 8"
proof -
  have "unat a < 16 ^ Suc 1" "unat b < 16 ^ Suc 3" "unat c < 16 ^ Suc 7"
    using unsigned_less [of a] unsigned_less [of b] unsigned_less [of c] by simp_all
  from this [THEN length_to_chars_le]
  show "length (to_hex a) = 2" "length (to_hex b) = 4" "length (to_hex c) = 8"
    by (simp_all add: to_hex_def Let_def)
qed

lemma stoul_to_hex:
  "stoul 16 (to_hex (a :: u8)) = Ok (ucast a)"
  "stoul 16 (to_hex (c :: u32)) = Ok (ucast c)"
proof -
  have "unat a < 2 ^ 64" "unat c < 2 ^ 64"
    using unsigned_less [of a, where ?'a = nat] unsigned_less [of c, where ?'a = nat] by simp_all
  then show "stoul 16 (to_hex a) = Ok (ucast a)" "stoul 16 (to_hex c) = Ok (ucast c)"
    using stoul_digits [OF to_hex_not_Nil to_hex_digits]
    by (simp_all add: to_hex_value unsigned_ucast_eq of_nat_unat)
qed

subsection \<open>The guard\<close>

text \<open>
  \<open>GUARD(allGood, resultcode, intInfo)\<close> with the line, the file and the function of the call, which
  the compiler supplies. The code is printed in decimal after its sign is dropped, the
  information word in hexadecimal.
\<close>

definition GUARD_what :: "TError \<Rightarrow> u32 \<Rightarrow> nat \<Rightarrow> string \<Rightarrow> string \<Rightarrow> string \<Rightarrow> string" where
  "GUARD_what resultcode intInfo lineno file fname txt =
     CHR 0x0A # ''GUARD! '' @ file @ '': '' @ fname @ ''('' @ to_string lineno @ ''): -''
       @ to_string (unat (- resultcode)) @ '' '' @ txt @ '' = '' @ to_hex intInfo"

definition GUARD ::
  "bool \<Rightarrow> TError \<Rightarrow> u32 \<Rightarrow> nat \<Rightarrow> string \<Rightarrow> string \<Rightarrow> unit res" where
  "GUARD allGood resultcode intInfo lineno file fname =
     (if allGood then Ok ()
      else bindR (err_text resultcode)
        (\<lambda>txt. Throw (LogicError (GUARD_what resultcode intInfo lineno file fname txt))))"

lemma GUARD_True [simp, outcome_simps]: "GUARD True c i l f g = Ok ()"
  by (simp add: GUARD_def)

lemma GUARD_False [outcome_simps]:
  "err_text c = Ok t \<Longrightarrow> GUARD False c i l f g = Throw (LogicError (GUARD_what c i l f g t))"
  by (simp add: GUARD_def)

lemma GUARD_eq_Ok [outcome_simps]: "GUARD b c i l f g = Ok u \<longleftrightarrow> b"
  by (cases b; cases "err_text c") (auto simp: GUARD_def)

lemma safe_GUARD [simp]: "code \<in> set error_codes \<Longrightarrow> safe (GUARD b code i l f g)"
  using err_text_code [of code] by (auto simp: GUARD_def)

subsection \<open>Splitting text\<close>

text \<open>
  The pieces \<open>std::getline\<close> returns one after the other: what follows the last delimiter is a
  piece only if it is not empty.
\<close>

function getlines :: "char \<Rightarrow> string \<Rightarrow> string list" where
  "getlines d [] = []"
| "getlines d (c # cs) =
     takeWhile (\<lambda>x. x \<noteq> d) (c # cs) # getlines d (tl (dropWhile (\<lambda>x. x \<noteq> d) (c # cs)))"
  by pat_completeness auto
termination
proof (relation "measure (\<lambda>(d, s). length s)")
  fix d c cs
  have "length (dropWhile (\<lambda>x. x \<noteq> d) (c # cs)) \<le> Suc (length cs)"
    using length_dropWhile_le [of "\<lambda>x. x \<noteq> d" "c # cs"] by simp
  then show "((d, tl (dropWhile (\<lambda>x. x \<noteq> d) (c # cs))), d, c # cs) \<in> measure (\<lambda>(d, s). length s)"
    by simp
qed simp

definition split :: "string \<Rightarrow> char \<Rightarrow> string list" where
  "split s delim = [token \<leftarrow> getlines delim s. token \<noteq> []]"

lemma getlines_append:
  assumes "d \<notin> set l"
  shows "getlines d (l @ d # s) = l # getlines d s"
proof -
  have "takeWhile (\<lambda>x. x \<noteq> d) (l @ d # s) = l \<and> dropWhile (\<lambda>x. x \<noteq> d) (l @ d # s) = d # s"
    using assms by (induction l) auto
  then show ?thesis by (cases l) auto
qed

lemma getlines_concat [simp]:
  "\<forall>l \<in> set ls. d \<notin> set l \<Longrightarrow> getlines d (concat (map (\<lambda>l. l @ [d]) ls)) = ls"
  by (induction ls) (simp_all add: getlines_append)

lemma getlines_no_delim: "l \<in> set (getlines d s) \<Longrightarrow> d \<notin> set l"
  by (induction d s rule: getlines.induct) (auto dest: set_takeWhileD)

lemma split_no_delim: "token \<in> set (split s d) \<Longrightarrow> token \<noteq> [] \<and> d \<notin> set token"
  by (auto simp: split_def dest: getlines_no_delim)

subsection \<open>Host names\<close>

definition IsValidHostnameLabel :: "string \<Rightarrow> bool" where
  "IsValidHostnameLabel s =
     (if s = [] \<or> 63 < length s then False
      else if hd s = CHR ''-'' \<or> last s = CHR ''-'' then False
      else list_all (\<lambda>c. isalnum c \<or> c = CHR ''-'') s)"

definition SanitizeHostname :: "string \<Rightarrow> string" where
  "SanitizeHostname s =
     map tolower (rev (dropWhile isspace (rev (dropWhile isspace s))))"

text \<open>The loop of \<open>IsValidHostname\<close> on what is left of the name, one label at each turn.\<close>

function hostname_loop :: "string \<Rightarrow> bool" where
  "hostname_loop [] = True"
| "hostname_loop (c # cs) =
     (if \<not> IsValidHostnameLabel (takeWhile (\<lambda>x. x \<noteq> CHR ''.'') (c # cs)) then False
      else hostname_loop (tl (dropWhile (\<lambda>x. x \<noteq> CHR ''.'') (c # cs))))"
  by pat_completeness auto
termination
proof (relation "measure length")
  fix c :: char and cs
  have "length (dropWhile (\<lambda>x. x \<noteq> CHR ''.'') (c # cs)) \<le> Suc (length cs)"
    using length_dropWhile_le [of "\<lambda>x. x \<noteq> CHR ''.''" "c # cs"] by simp
  then show "(tl (dropWhile (\<lambda>x. x \<noteq> CHR ''.'') (c # cs)), c # cs) \<in> measure length"
    by simp
qed simp

definition IsValidHostname :: "string \<Rightarrow> bool" where
  "IsValidHostname host = (if host = [] \<or> 253 < length host then False else hostname_loop host)"

lemma hostname_loop_labels:
  "hostname_loop s = list_all IsValidHostnameLabel (getlines CHR ''.'' s)"
  by (induction s rule: hostname_loop.induct) auto

lemma IsValidHostnameLabel_iff:
  "IsValidHostnameLabel s \<longleftrightarrow> s \<noteq> [] \<and> length s \<le> 63 \<and> hd s \<noteq> CHR ''-'' \<and> last s \<noteq> CHR ''-''
     \<and> (\<forall>c \<in> set s. isalnum c \<or> c = CHR ''-'')"
  by (auto simp: IsValidHostnameLabel_def list_all_iff)

subsection \<open>The hosts file\<close>

definition hosts_entry :: "string \<Rightarrow> string" where
  "hosts_entry newHost = ''127.0.1.1'' @ CHR 0x09 # newHost"

definition is_hosts_entry :: "string \<Rightarrow> bool" where
  "is_hosts_entry line =
     (let trimmed = dropWhile isspace line
      in trimmed \<noteq> [] \<and> hd trimmed \<noteq> CHR ''#'' \<and>
         takeWhile (\<lambda>c. c \<noteq> CHR '' '' \<and> c \<noteq> CHR 0x09) trimmed = ''127.0.1.1'')"

text \<open>The loop over the lines of the file: the text written so far and whether a line was replaced.\<close>

fun hosts_loop :: "string \<Rightarrow> string \<Rightarrow> bool \<Rightarrow> string list \<Rightarrow> string \<times> bool" where
  "hosts_loop newHost out replaced [] = (out, replaced)"
| "hosts_loop newHost out replaced (line # ls) =
     (if is_hosts_entry line
      then hosts_loop newHost (out @ hosts_entry newHost @ [CHR 0x0A]) True ls
      else hosts_loop newHost (out @ line @ [CHR 0x0A]) replaced ls)"

definition updated_hosts :: "string \<Rightarrow> string \<Rightarrow> string" where
  "updated_hosts newHost content =
     (let (out, replaced) = hosts_loop newHost [] False (getlines (CHR 0x0A) content)
      in if replaced then out else out @ hosts_entry newHost @ [CHR 0x0A])"

abbreviation unlines :: "string list \<Rightarrow> string" where
  "unlines ls \<equiv> concat (map (\<lambda>l. l @ [CHR 0x0A]) ls)"

lemma hosts_loop_eq:
  "hosts_loop h out r ls =
     (out @ unlines (map (\<lambda>l. if is_hosts_entry l then hosts_entry h else l) ls),
      r \<or> (\<exists>l \<in> set ls. is_hosts_entry l))"
  by (induction ls arbitrary: out r) auto

lemma is_hosts_entry_hosts_entry [simp]: "is_hosts_entry (hosts_entry h)"
  by (simp add: is_hosts_entry_def hosts_entry_def isspace_def)

text \<open>What the updater writes, as a function of the lines of the file.\<close>

definition hosts_lines :: "string \<Rightarrow> string list \<Rightarrow> string list" where
  "hosts_lines h ls =
     map (\<lambda>l. if is_hosts_entry l then hosts_entry h else l) ls
     @ (if \<exists>l \<in> set ls. is_hosts_entry l then [] else [hosts_entry h])"

lemma updated_hosts_lines:
  "updated_hosts h content = unlines (hosts_lines h (getlines (CHR 0x0A) content))"
  by (simp add: updated_hosts_def hosts_loop_eq hosts_lines_def)

lemma getlines_updated_hosts:
  assumes "CHR 0x0A \<notin> set h"
  shows "getlines (CHR 0x0A) (updated_hosts h content) = hosts_lines h (getlines (CHR 0x0A) content)"
  unfolding updated_hosts_lines
proof (rule getlines_concat)
  show "\<forall>l \<in> set (hosts_lines h (getlines (CHR 0x0A) content)). CHR 0x0A \<notin> set l"
    using assms by (auto simp: hosts_lines_def hosts_entry_def dest: getlines_no_delim)
qed

lemma hosts_lines_twice: "hosts_lines h2 (hosts_lines h1 ls) = hosts_lines h2 ls"
proof -
  have keep: "is_hosts_entry (if is_hosts_entry l then hosts_entry h1 else l) = is_hosts_entry l" for l
    by simp
  have twice: "(if is_hosts_entry (if is_hosts_entry l then hosts_entry h1 else l)
      then hosts_entry h2 else if is_hosts_entry l then hosts_entry h1 else l) =
      (if is_hosts_entry l then hosts_entry h2 else l)" for l
    by simp
  show ?thesis
    by (cases "\<exists>l \<in> set ls. is_hosts_entry l")
      (simp_all only: hosts_lines_def map_append map_map o_def set_append set_map bex_Un
        bex_simps keep twice, simp_all add: keep twice)
qed

subsection \<open>Upload paths\<close>

text \<open>
  \<open>std::filesystem::absolute\<close> joins a relative path to the working directory and changes nothing
  else; the empty path makes it throw a \<open>filesystem_error\<close>, which is no logic error. The path is
  passed by reference, so the result carries its final value.
\<close>

definition fs_absolute :: "string \<Rightarrow> string \<Rightarrow> string res" where
  "fs_absolute cwd p =
     (if p = [] then Throw (RuntimeError ''filesystem error: cannot make absolute path'')
      else if hd p = CHR ''/'' then Ok p
      else Ok (cwd @ (if cwd \<noteq> [] \<and> last cwd = CHR ''/'' then [] else ''/'') @ p))"

definition sanitizePath :: "string \<Rightarrow> string \<Rightarrow> (bool \<times> string) res" where
  "sanitizePath cwd path =
     bindR (fs_absolute cwd ''/home/acces/'') (\<lambda>basePath.
       if CHR 0x00 \<in> set path then Ok (False, path)
       else bindR (fs_absolute cwd path) (\<lambda>p.
         let absPath = map (\<lambda>c. if c = CHR 0x5C then CHR ''/'' else c) p
         in if take (length basePath) absPath \<noteq> basePath then Ok (False, path)
            else Ok (True, absPath)))"

lemma sanitizePath_base: "fs_absolute cwd ''/home/acces/'' = Ok ''/home/acces/''"
  by (simp add: fs_absolute_def)

text \<open>
  Where a path leads once its \<^verbatim>\<open>.\<close> and \<^verbatim>\<open>..\<close> components are followed, in a tree without symbolic
  links: the components from the root.
\<close>

fun walk :: "string list \<Rightarrow> string list \<Rightarrow> string list" where
  "walk at [] = at"
| "walk at (c # cs) = walk (if c = ''..'' then butlast at else if c = ''.'' then at else at @ [c]) cs"

definition resolved :: "string \<Rightarrow> string list" where
  "resolved p = walk [] (split p CHR ''/'')"

lemma walk_no_dotdot: "''..'' \<notin> set cs \<Longrightarrow> walk at cs = at @ filter (\<lambda>c. c \<noteq> ''.'') cs"
  by (induction cs arbitrary: at) auto

end
