(* ===== verification/FileSystem.thy ===== *)
theory FileSystem
  imports Utilities "HOL-Library.AList"
begin

text \<open>
  The files the program writes: the system calls it makes, on a model of the file system whose
  every call can fail, and the two routines that replace a file atomically
  (\<open>AtomicWriteTextFile\<close> of \<^verbatim>\<open>config.cpp\<close>, \<open>WriteFileAtomic\<close> of \<^verbatim>\<open>utilities.cpp\<close>).
\<close>

subsection \<open>System calls\<close>

text \<open>
  The files by path, the number of system calls made so far, the error number each call ends
  with (zero for success) and how many bytes a write accepts beyond the first. Both scripts are
  arbitrary, so what is proved holds whichever calls fail, and a process killed after some call
  is the case in which every later call fails.
\<close>

record fs =
  files :: "(string \<times> string) list"
  calls :: nat
  fs_errno :: "nat \<Rightarrow> nat"
  fs_more :: "nat \<Rightarrow> nat"

text \<open>No files and no failures.\<close>

definition empty_fs :: fs where
  "empty_fs = \<lparr>files = [], calls = 0, fs_errno = \<lambda>_. 0, fs_more = \<lambda>_. 0\<rparr>"

definition lookup_file :: "fs \<Rightarrow> string \<Rightarrow> string option" where
  "lookup_file s path = map_of (files s) path"

definition tick :: "fs \<Rightarrow> nat \<times> fs" where
  "tick s = (fs_errno s (calls s), s\<lparr>calls := Suc (calls s)\<rparr>)"

definition no_errors :: "fs \<Rightarrow> bool" where
  "no_errors s = (\<forall>k \<ge> calls s. fs_errno s k = 0)"

definition set_file :: "string \<Rightarrow> string \<Rightarrow> fs \<Rightarrow> fs" where
  "set_file path contents s = s\<lparr>files := AList.update path contents (files s)\<rparr>"

definition remove_file :: "string \<Rightarrow> fs \<Rightarrow> fs" where
  "remove_file path s = s\<lparr>files := AList.delete path (files s)\<rparr>"

text \<open>\<open>fs::exists(path, ec)\<close>: an error counts as absence.\<close>

definition sys_exists :: "string \<Rightarrow> fs \<Rightarrow> bool \<times> fs" where
  "sys_exists path s = (let (e, s) = tick s in (e = 0 \<and> lookup_file s path \<noteq> None, s))"

text \<open>\<open>open\<close> for writing with truncation, with or without \<open>O_CREAT\<close>; the result is an error number.\<close>

definition sys_open_trunc :: "bool \<Rightarrow> string \<Rightarrow> fs \<Rightarrow> nat \<times> fs" where
  "sys_open_trunc creat path s =
     (let (e, s) = tick s in
      if e \<noteq> 0 then (e, s)
      else if \<not> creat \<and> lookup_file s path = None then (2, s)
      else (0, set_file path [] s))"

text \<open>\<open>write\<close> appends a prefix of the data, at least one byte of it; the result is its length.\<close>

definition sys_write :: "string \<Rightarrow> string \<Rightarrow> fs \<Rightarrow> (nat + nat) \<times> fs" where
  "sys_write path buf s =
     (let k = calls s; (e, s) = tick s in
      if e \<noteq> 0 then (Inl e, s)
      else let n = min (length buf) (Suc (fs_more s k));
               old = (case lookup_file s path of None \<Rightarrow> [] | Some c \<Rightarrow> c)
           in (Inr n, set_file path (old @ take n buf) s))"

definition sys_simple :: "fs \<Rightarrow> nat \<times> fs" where
  "sys_simple s = tick s"

definition sys_unlink :: "string \<Rightarrow> fs \<Rightarrow> nat \<times> fs" where
  "sys_unlink path s = (let (e, s) = tick s in if e \<noteq> 0 then (e, s) else (0, remove_file path s))"

definition sys_rename :: "string \<Rightarrow> string \<Rightarrow> fs \<Rightarrow> nat \<times> fs" where
  "sys_rename from to s =
     (let (e, s) = tick s in
      if e \<noteq> 0 then (e, s)
      else case lookup_file s from of
             None \<Rightarrow> (2, s)
           | Some c \<Rightarrow> (0, set_file to c (remove_file from s)))"

subsection \<open>\<open>AtomicWriteTextFile\<close>\<close>

definition FsyncDir :: "string \<Rightarrow> fs \<Rightarrow> int \<times> fs" where
  "FsyncDir dirPath s =
     (let (e, s) = sys_simple s in
      if e \<noteq> 0 then (- int e, s)
      else let (e, s) = sys_simple s in (if e = 0 then 0 else - int e, s))"

text \<open>\<open>MkdirP\<close>: whether the directory is there is decided by the script of the calls.\<close>

definition MkdirP :: "string \<Rightarrow> fs \<Rightarrow> int \<times> fs" where
  "MkdirP path s =
     (let (e, s) = sys_simple s in
      if e = 0 then (0, s)
      else let (e, s) = sys_simple s in
           if e \<noteq> 0 then (- int e, s) else FsyncDir path s)"

text \<open>The loop over what is left to write; it ends because a write accepts at least one byte.\<close>

function write_all :: "string \<Rightarrow> string \<Rightarrow> fs \<Rightarrow> int \<times> fs" where
  "write_all tmp buf s =
     (if buf = [] then (0, s)
      else case sys_write tmp buf s of
             (Inl e, s) \<Rightarrow> (- int e, s)
           | (Inr n, s) \<Rightarrow> write_all tmp (drop n buf) s)"
  by pat_completeness auto
termination
  by (relation "measure (\<lambda>(tmp, buf, s). length buf)")
    (auto simp: sys_write_def Let_def split: prod.splits if_splits)

declare write_all.simps [simp del]

definition AtomicWriteTextFile :: "string \<Rightarrow> string \<Rightarrow> fs \<Rightarrow> int \<times> fs" where
  "AtomicWriteTextFile path contents s =
     (let tmp = path @ ''.tmp''; (e, s) = sys_open_trunc True tmp s in
      if e \<noteq> 0 then (- int e, s)
      else let (r, s) = write_all tmp contents s in
           if r \<noteq> 0 then (r, s)
           else let (e, s) = sys_simple s in
                if e \<noteq> 0 then (- int e, s)
                else let (e, s) = sys_rename tmp path s in
                     if e \<noteq> 0 then (- int e, s)
                     else let (r, s) = FsyncDir path s in (0, s))"

subsection \<open>\<open>WriteFileAtomic\<close>\<close>

text \<open>
  \<open>mkstemp\<close> picks six characters (\<open>pick\<close>) and creates the file, which must not exist.
  The result is the empty name on failure, as in \<open>GetTempFileNameInDir\<close>.
\<close>

definition dirname :: "string \<Rightarrow> string" where
  "dirname path = (let d = rev (dropWhile (\<lambda>c. c \<noteq> CHR ''/'') (rev path))
                   in if d = [] then ''.'' else if d = ''/'' then d else butlast d)"

definition basename :: "string \<Rightarrow> string" where
  "basename path = rev (takeWhile (\<lambda>c. c \<noteq> CHR ''/'') (rev path))"

definition GetTempFileNameInDir ::
  "(fs \<Rightarrow> string) \<Rightarrow> string \<Rightarrow> string \<Rightarrow> fs \<Rightarrow> string res \<times> fs" where
  "GetTempFileNameInDir pick dir prefix s =
     (let (e, s) = sys_simple s in
      if e \<noteq> 0 then (Throw (RuntimeError ''filesystem error: cannot create directories''), s)
      else let name = dir @ ''/'' @ prefix @ ''.'' @ pick s; (e, s) = tick s in
           if e \<noteq> 0 \<or> lookup_file s name \<noteq> None then (Ok [], s)
           else (Ok name, set_file name [] s))"

text \<open>
  The message names the call, its file and the text of the error number, which the C library
  gives (\<open>strerror\<close>). A short write reports an error number no call of this run has set: zero here.
\<close>

record os_lib =
  os_pick :: "fs \<Rightarrow> string"
  os_strerror :: "nat \<Rightarrow> string"

definition fail_unlink ::
  "os_lib \<Rightarrow> string \<Rightarrow> string \<Rightarrow> string \<Rightarrow> nat \<Rightarrow> fs \<Rightarrow> unit res \<times> fs" where
  "fail_unlink os call arg tmp e s =
     (Throw (RuntimeError (call @ ''('' @ arg @ ''): '' @ os_strerror os e)), snd (sys_unlink tmp s))"

definition WriteFileAtomic :: "os_lib \<Rightarrow> string \<Rightarrow> string \<Rightarrow> fs \<Rightarrow> unit res \<times> fs" where
  "WriteFileAtomic os path content s =
     bindS (GetTempFileNameInDir (os_pick os) (dirname path) (basename path) s) (\<lambda>tmp s.
       if tmp = [] then (Throw (RuntimeError ''WriteFileAtomic: could not create temp file''), s)
       else let (e, s) = sys_open_trunc False tmp s in
       if e \<noteq> 0 then fail_unlink os ''open'' tmp tmp e s
       else let (e, s) = sys_simple s in
       if e \<noteq> 0 then fail_unlink os ''fchmod'' tmp tmp e s
       else case sys_write tmp content s of
         (Inl e, s) \<Rightarrow> fail_unlink os ''write'' tmp tmp e s
       | (Inr w, s) \<Rightarrow>
           if w \<noteq> length content then fail_unlink os ''write'' tmp tmp 0 s
           else let (e, s) = sys_simple s in
           if e \<noteq> 0 then fail_unlink os ''fsync'' tmp tmp e s
           else let (e, s) = sys_rename tmp path s in
           if e \<noteq> 0 then fail_unlink os ''rename'' (tmp @ [CHR 0x20, CHR 0xE2, CHR 0x86, CHR 0x92, CHR 0x20] @ path) tmp e s
           else (Ok (), s))"

subsection \<open>Two helpers no other code calls\<close>

text \<open>
  The name of the temporary directory comes from the C++ library, which may fail; the template is copied into a
  buffer of 1024 characters.
\<close>

definition GetTempFileName :: "(fs \<Rightarrow> string) \<Rightarrow> string res \<Rightarrow> fs \<Rightarrow> string res \<times> fs" where
  "GetTempFileName pick temp_directory_path s =
     bindS (temp_directory_path, s) (\<lambda>tmpDir s.
       let tmpFile = tmpDir @ (if tmpDir \<noteq> [] \<and> last tmpDir \<noteq> CHR ''/'' then ''/'' else []) @ ''aioenet_upload_'' in
       if 1024 < length tmpFile + 7 then (Undef, s)
       else let name = tmpFile @ pick s; (e, s) = tick s in
         if e \<noteq> 0 \<or> lookup_file s name \<noteq> None then (Ok [], s)
         else (Ok name, set_file name [] s))"

text \<open>As in \<open>MkdirP\<close>, whether the directory is there is decided by the script of the calls.\<close>

definition EnsureDir :: "os_lib \<Rightarrow> string \<Rightarrow> fs \<Rightarrow> unit res \<times> fs" where
  "EnsureDir os path s =
     (let (e, s) = sys_simple s in
      if e = 0 then (Ok (), s)
      else let (e, s) = sys_simple s in
        if e \<noteq> 0 then (Throw (RuntimeError (''EnsureDir('' @ path @ ''): '' @ os_strerror os e)), s)
        else let (e, s) = sys_simple s in (Ok (), s))"

subsection \<open>What the system calls change\<close>

lemma lookup_set_file [simp]:
  "lookup_file (set_file p c s) q = (if q = p then Some c else lookup_file s q)"
  by (simp add: lookup_file_def set_file_def update_conv')

lemma lookup_remove_file [simp]:
  "lookup_file (remove_file p s) q = (if q = p then None else lookup_file s q)"
  by (simp add: lookup_file_def remove_file_def delete_conv')

lemma lookup_tick [simp]: "lookup_file (s\<lparr>calls := k\<rparr>) q = lookup_file s q"
  by (simp add: lookup_file_def)

lemma no_errors_tick [simp]: "no_errors s \<Longrightarrow> fs_errno s (calls s) = 0"
  "no_errors s \<Longrightarrow> no_errors (s\<lparr>calls := Suc (calls s)\<rparr>)"
  by (simp_all add: no_errors_def)

lemma no_errors_later [simp]: "no_errors s \<Longrightarrow> calls s \<le> k \<Longrightarrow> fs_errno s k = 0"
  by (simp add: no_errors_def)

lemma set_file_fields [simp]:
  "calls (set_file p c s) = calls s" "fs_errno (set_file p c s) = fs_errno s"
  "calls (remove_file p s) = calls s" "fs_errno (remove_file p s) = fs_errno s"
  by (simp_all add: set_file_def remove_file_def)

lemma no_errors_set_file [simp]: "no_errors (set_file p c s) = no_errors s"
  "no_errors (remove_file p s) = no_errors s"
  by (simp_all add: no_errors_def set_file_def remove_file_def)

lemmas sys_defs = sys_exists_def sys_open_trunc_def sys_write_def sys_simple_def sys_unlink_def
  sys_rename_def tick_def Let_def

lemma sys_frame [simp]:
  "lookup_file (snd (sys_exists p s)) q = lookup_file s q"
  "lookup_file (snd (sys_simple s)) q = lookup_file s q"
  "q \<noteq> p \<Longrightarrow> lookup_file (snd (sys_open_trunc c p s)) q = lookup_file s q"
  "q \<noteq> p \<Longrightarrow> lookup_file (snd (sys_write p b s)) q = lookup_file s q"
  "q \<noteq> p \<Longrightarrow> lookup_file (snd (sys_unlink p s)) q = lookup_file s q"
  "q \<noteq> p \<Longrightarrow> q \<noteq> r \<Longrightarrow> lookup_file (snd (sys_rename p r s)) q = lookup_file s q"
  by (simp_all add: sys_defs split: option.splits)

lemma EnsureDir_frame: "lookup_file (snd (EnsureDir os p s)) q = lookup_file s q"
  by (simp add: EnsureDir_def sys_simple_def tick_def lookup_file_def)

lemma GetTempFileName_fresh:
  assumes "GetTempFileName pick d s = (Ok name, s')" and "name \<noteq> []"
  shows "lookup_file s name = None" and "lookup_file s' name = Some []"
    and "q \<noteq> name \<Longrightarrow> lookup_file s' q = lookup_file s q"
  using assms
  by (auto simp: GetTempFileName_def Let_def tick_def set_file_def lookup_file_def outcome_simps update_conv
      split: if_splits)

lemma FsyncDir_frame [simp]: "lookup_file (snd (FsyncDir d s)) q = lookup_file s q"
  by (simp add: FsyncDir_def sys_defs)

lemma MkdirP_frame [simp]: "lookup_file (snd (MkdirP d s)) q = lookup_file s q"
  by (simp add: MkdirP_def sys_defs)

lemma write_all_frame:
  "write_all tmp buf s = (r, s') \<Longrightarrow> q \<noteq> tmp \<Longrightarrow> lookup_file s' q = lookup_file s q"
proof (induction tmp buf s arbitrary: r s' rule: write_all.induct)
  case (1 tmp buf s)
  show ?case
  proof (cases "buf = []")
    case True
    then show ?thesis using "1.prems" by (simp add: write_all.simps)
  next
    case False
    obtain x t where w: "sys_write tmp buf s = (x, t)" by fastforce
    have t: "lookup_file t q = lookup_file s q"
      using sys_frame(4) [of q tmp buf s] w "1.prems"(2) by simp
    show ?thesis
      using "1.prems" "1.IH" [OF False w [symmetric]] False w t
      by (cases x) (auto simp: write_all.simps [of tmp buf s])
  qed
qed

lemma write_all_result:
  "write_all tmp buf s = (r, s') \<Longrightarrow> lookup_file s tmp = Some old \<Longrightarrow>
    r \<le> 0 \<and> (r = 0 \<longrightarrow> lookup_file s' tmp = Some (old @ buf))"
proof (induction tmp buf s arbitrary: r s' old rule: write_all.induct)
  case (1 tmp buf s)
  show ?case
  proof (cases "buf = []")
    case True
    then show ?thesis using "1.prems" by (simp add: write_all.simps)
  next
    case False
    obtain x t where w: "sys_write tmp buf s = (x, t)" by fastforce
    show ?thesis
    proof (cases x)
      case (Inl e)
      then show ?thesis
        using "1.prems" False w by (auto simp: write_all.simps [of tmp buf s] sys_defs split: if_splits)
    next
      case (Inr n)
      then have t: "lookup_file t tmp = Some (old @ take n buf)"
        using w "1.prems"(2) by (auto simp: sys_defs split: if_splits)
      show ?thesis
        using "1.IH" [OF False w [symmetric] Inr _ t, of r s'] "1.prems"(1) False w Inr
        by (simp add: write_all.simps [of tmp buf s])
    qed
  qed
qed

lemma write_all_no_errors:
  "no_errors s \<Longrightarrow> fst (write_all tmp buf s) = 0 \<and> no_errors (snd (write_all tmp buf s))"
proof (induction tmp buf s rule: write_all.induct)
  case (1 tmp buf s)
  show ?case
  proof (cases "buf = []")
    case True
    then show ?thesis using "1.prems" by (simp add: write_all.simps)
  next
    case False
    obtain n t where w: "sys_write tmp buf s = (Inr n, t)" "no_errors t"
      using "1.prems" by (auto simp: sys_defs split: if_splits)
    show ?thesis
      using "1.IH" [OF False w(1) [symmetric] refl] w False by (simp add: write_all.simps [of tmp buf s])
  qed
qed

subsection \<open>Atomic replacement\<close>

lemma length_dirname_basename: "length path \<le> length (dirname path) + 1 + length (basename path)"
proof -
  let ?P = "\<lambda>c. c \<noteq> CHR ''/''"
  have "length path = length (takeWhile ?P (rev path) @ dropWhile ?P (rev path))" by simp
  then have "length path = length (basename path) + length (dropWhile ?P (rev path))"
    by (simp only: length_append basename_def length_rev)
  moreover have "length (dropWhile ?P (rev path)) \<le> length (dirname path) + 1"
  proof -
    define d where "d = dropWhile ?P (rev path)"
    show ?thesis unfolding dirname_def Let_def d_def [symmetric] by auto
  qed
  ultimately show ?thesis by simp
qed

lemma temp_name_neq: "dirname path @ ''/'' @ basename path @ ''.'' @ x \<noteq> path"
proof
  assume "dirname path @ ''/'' @ basename path @ ''.'' @ x = path"
  then have "length (dirname path @ ''/'' @ basename path @ ''.'' @ x) = length path" by (rule arg_cong)
  then show False using length_dirname_basename [of path] by simp
qed

lemma atomic_write_old_or_new_core:
  assumes "AtomicWriteTextFile path contents s = (r, s')"
  shows "r \<le> 0 \<and> lookup_file s' path = (if r = 0 then Some contents else lookup_file s path) \<and>
    (\<forall>q. q \<noteq> path \<and> q \<noteq> path @ ''.tmp'' \<longrightarrow> lookup_file s' q = lookup_file s q) \<and>
    (no_errors s \<longrightarrow> r = 0)"
proof -
  let ?tmp = "path @ ''.tmp''"
  have neq: "path \<noteq> ?tmp" by simp
  obtain e1 s1 where o1: "sys_open_trunc True ?tmp s = (e1, s1)" by fastforce
  have f1: "lookup_file s1 q = lookup_file s q" if "q \<noteq> ?tmp" for q
    using sys_frame(3) [OF that, of True s] o1 by simp
  have n1: "no_errors s \<Longrightarrow> e1 = 0 \<and> no_errors s1" using o1 by (auto simp: sys_defs)
  show ?thesis
  proof (cases "e1 = 0")
    case False
    then show ?thesis using assms o1 f1 neq n1 by (auto simp: AtomicWriteTextFile_def)
  next
    case True
    then have t1: "lookup_file s1 ?tmp = Some []" using o1 by (auto simp: sys_defs split: if_splits)
    obtain r2 s2 where w2: "write_all ?tmp contents s1 = (r2, s2)" by fastforce
    note f2 = write_all_frame [OF w2] and t2 = write_all_result [OF w2 t1]
    have n2: "no_errors s \<Longrightarrow> r2 = 0 \<and> no_errors s2"
      using write_all_no_errors [of s1 ?tmp contents] n1 w2 by simp
    show ?thesis
    proof (cases "r2 = 0")
      case False
      then show ?thesis using assms o1 True w2 f1 f2 t2 neq n2 by (auto simp: AtomicWriteTextFile_def)
    next
      case r2: True
      then have t2': "lookup_file s2 ?tmp = Some contents" using t2 by simp
      then show ?thesis
        using assms o1 True w2 r2 f1 f2 neq n2
        by (auto simp: AtomicWriteTextFile_def sys_defs FsyncDir_def split: if_splits prod.splits)
    qed
  qed
qed

text \<open>
  C21: The configuration writer replaces a file atomically. Whatever system calls fail and however
  short the writes are, \<open>AtomicWriteTextFile\<close> returns zero or a negative error number; the file
  then holds exactly the new contents or exactly what it held before, and no file but it and its
  \<^verbatim>\<open>.tmp\<close> has changed. With no failing call it returns zero.
\<close>

theorem atomic_write_old_or_new:
  assumes "AtomicWriteTextFile path contents s = (r, s')"
  shows "r \<le> 0 \<and> lookup_file s' path = (if r = 0 then Some contents else lookup_file s path) \<and>
    (\<forall>q. q \<noteq> path \<and> q \<noteq> path @ ''.tmp'' \<longrightarrow> lookup_file s' q = lookup_file s q) \<and>
    (no_errors s \<longrightarrow> r = 0)"
  by (rule atomic_write_old_or_new_core [OF assms])

theorem atomic_write_old_or_new_witness:
  "fst (AtomicWriteTextFile ''k'' ''v''
     \<lparr>files = [(''k'', ''old'')], calls = 0, fs_errno = \<lambda>_. 0, fs_more = \<lambda>_. 0\<rparr>) = 0"
  using atomic_write_old_or_new [OF surjective_pairing, of "''k''" "''v''"
      "\<lparr>files = [(''k'', ''old'')], calls = 0, fs_errno = \<lambda>_. 0, fs_more = \<lambda>_. 0\<rparr>"]
  by (simp add: no_errors_def)

end
