(* ===== verification/Registers.thy ===== *)
theory Registers
  imports EnetTypes
begin

text \<open>
  Register access: \<^verbatim>\<open>apci.cpp\<close> over the driver library, the register map of
  \<^verbatim>\<open>eNET-AIO16-16F.h\<close>, and the two helpers of \<^verbatim>\<open>utilities\<close> that depend on it. The driver
  library is a parameter (\<open>apci_lib\<close>); what a property needs of it is the interface
  \<open>storage_registers\<close>, and the interface the clients of \<open>in\<close> and \<open>out\<close> reason with is \<open>reg_io\<close>.
\<close>

subsection \<open>The driver library\<close>

text \<open>
  The calls of \<^verbatim>\<open>apcilib\<close> the program makes, on a state \<open>'h\<close> of the device. Each takes the device
  index, the base address register and the offset; a read returns a status, the value stored
  through the pointer and the device after it. The handle is a constant of the process.
\<close>

record 'h apci_lib =
  apci_read8 :: "nat \<Rightarrow> nat \<Rightarrow> int \<Rightarrow> 'h \<Rightarrow> int \<times> u8 \<times> 'h"
  apci_read16 :: "nat \<Rightarrow> nat \<Rightarrow> int \<Rightarrow> 'h \<Rightarrow> int \<times> u16 \<times> 'h"
  apci_read32 :: "nat \<Rightarrow> nat \<Rightarrow> int \<Rightarrow> 'h \<Rightarrow> int \<times> u32 \<times> 'h"
  apci_write8 :: "nat \<Rightarrow> nat \<Rightarrow> int \<Rightarrow> u8 \<Rightarrow> 'h \<Rightarrow> int \<times> 'h"
  apci_write16 :: "nat \<Rightarrow> nat \<Rightarrow> int \<Rightarrow> u16 \<Rightarrow> 'h \<Rightarrow> int \<times> 'h"
  apci_write32 :: "nat \<Rightarrow> nat \<Rightarrow> int \<Rightarrow> u32 \<Rightarrow> 'h \<Rightarrow> int \<times> 'h"

subsection \<open>The register map\<close>

definition BAR_REGISTER :: nat where "BAR_REGISTER = 1"

abbreviation (input) ofsReset :: int where "ofsReset \<equiv> 0x00"
abbreviation (input) ofsAdcRange :: int where "ofsAdcRange \<equiv> 0x01"
abbreviation (input) ofsAdcCalibrationMode :: int where "ofsAdcCalibrationMode \<equiv> 0x11"
abbreviation (input) ofsAdcTriggerOptions :: int where "ofsAdcTriggerOptions \<equiv> 0x12"
abbreviation (input) ofsAdcStartChannel :: int where "ofsAdcStartChannel \<equiv> 0x13"
abbreviation (input) ofsAdcStopChannel :: int where "ofsAdcStopChannel \<equiv> 0x14"
abbreviation (input) ofsAdcOversamples :: int where "ofsAdcOversamples \<equiv> 0x15"
abbreviation (input) ofsAdcSoftwareStart :: int where "ofsAdcSoftwareStart \<equiv> 0x16"
abbreviation (input) ofsAdcRateDivisor :: int where "ofsAdcRateDivisor \<equiv> 0x18"
abbreviation (input) ofsAdcDataFifo :: int where "ofsAdcDataFifo \<equiv> 0x1C"
abbreviation (input) ofsAdcFifoIrqThreshold :: int where "ofsAdcFifoIrqThreshold \<equiv> 0x20"
abbreviation (input) ofsAdcFifoCount :: int where "ofsAdcFifoCount \<equiv> 0x24"
abbreviation (input) ofsIrqEnables :: int where "ofsIrqEnables \<equiv> 0x28"
abbreviation (input) ofsIrqStatus_Clear :: int where "ofsIrqStatus_Clear \<equiv> 0x2C"
abbreviation (input) ofsDac :: int where "ofsDac \<equiv> 0x30"
abbreviation (input) ofsDacSpiBusy :: int where "ofsDacSpiBusy \<equiv> 0x30"
abbreviation (input) ofsDacSleep :: int where "ofsDacSleep \<equiv> 0x34"
abbreviation (input) ofsDioDirections :: int where "ofsDioDirections \<equiv> 0x3C"
abbreviation (input) ofsDioSpiBusy :: int where "ofsDioSpiBusy \<equiv> 0x3C"
abbreviation (input) ofsDioOutputs :: int where "ofsDioOutputs \<equiv> 0x40"
abbreviation (input) ofsDioInputs :: int where "ofsDioInputs \<equiv> 0x44"
abbreviation (input) ofsSubMuxSelect :: int where "ofsSubMuxSelect \<equiv> 0x9C"
abbreviation (input) ofsFpgaID :: int where "ofsFpgaID \<equiv> 0xA0"
abbreviation (input) ofsFeatures :: int where "ofsFeatures \<equiv> 0xA4"
abbreviation (input) ofsDeviceID :: int where "ofsDeviceID \<equiv> 0xA8"
abbreviation (input) ofsAdcBaseClock :: int where "ofsAdcBaseClock \<equiv> 0xAC"
abbreviation (input) ofsAdcCalScale :: int where "ofsAdcCalScale \<equiv> 0xC0"
abbreviation (input) ofsAdcCalScaleStride :: int where "ofsAdcCalScaleStride \<equiv> 8"
abbreviation (input) ofsAdcCalOffset :: int where "ofsAdcCalOffset \<equiv> 0xC4"
abbreviation (input) ofsAdcCalOffsetStride :: int where "ofsAdcCalOffsetStride \<equiv> 8"
abbreviation (input) bmDacSpiBusy :: u32 where "bmDacSpiBusy \<equiv> 0x80000000"
abbreviation (input) bmDioSpiBusy :: u32 where "bmDioSpiBusy \<equiv> 0x80000000"
abbreviation (input) bmSingleEnded :: u8 where "bmSingleEnded \<equiv> 8"

definition widthFromOffset :: "int \<Rightarrow> int" where
  "widthFromOffset ofs =
     (if ofs < 0x18 then 8
      else if ofs \<le> 0xFC \<and> ofs mod 4 = 0 then 32
      else 0)"

lemma widthFromOffset_cases: "widthFromOffset ofs \<in> {0, 8, 32}"
  by (simp add: widthFromOffset_def)

subsection \<open>Register reads and writes\<close>

definition in8 :: "'h apci_lib \<Rightarrow> int \<Rightarrow> 'h \<Rightarrow> u8 \<times> 'h" where
  "in8 L offset h =
     (let (status, v, h') = apci_read8 L 0 BAR_REGISTER offset h
      in (if status \<noteq> 0 then - 1 else v, h'))"

definition in16 :: "'h apci_lib \<Rightarrow> int \<Rightarrow> 'h \<Rightarrow> u16 \<times> 'h" where
  "in16 L offset h =
     (let (status, v, h') = apci_read16 L 0 BAR_REGISTER offset h
      in (if status \<noteq> 0 then - 1 else v, h'))"

definition in32 :: "'h apci_lib \<Rightarrow> int \<Rightarrow> 'h \<Rightarrow> u32 \<times> 'h" where
  "in32 L offset h =
     (let (status, v, h') = apci_read32 L 0 BAR_REGISTER offset h
      in (if status \<noteq> 0 then - 1 else v, h'))"

text \<open>\<open>in\<close> and \<open>out\<close>: the width is the register map's, an offset outside it touches nothing.\<close>

definition in_reg :: "'h apci_lib \<Rightarrow> int \<Rightarrow> 'h \<Rightarrow> u32 \<times> 'h" where
  "in_reg L offset h =
     (let w = widthFromOffset offset in
      if w = 8 then apfst ucast (in8 L offset h)
      else if w = 16 then apfst ucast (in16 L offset h)
      else if w = 32 then in32 L offset h
      else (- 1, h))"

definition out8 :: "'h apci_lib \<Rightarrow> int \<Rightarrow> u8 \<Rightarrow> 'h \<Rightarrow> TError \<times> 'h" where
  "out8 L offset v h = apfst word_of_int (apci_write8 L 0 BAR_REGISTER offset v h)"

definition out16 :: "'h apci_lib \<Rightarrow> int \<Rightarrow> u16 \<Rightarrow> 'h \<Rightarrow> TError \<times> 'h" where
  "out16 L offset v h = apfst word_of_int (apci_write16 L 0 BAR_REGISTER offset v h)"

definition out32 :: "'h apci_lib \<Rightarrow> int \<Rightarrow> u32 \<Rightarrow> 'h \<Rightarrow> TError \<times> 'h" where
  "out32 L offset v h = apfst word_of_int (apci_write32 L 0 BAR_REGISTER offset v h)"

definition out_reg :: "'h apci_lib \<Rightarrow> int \<Rightarrow> u32 \<Rightarrow> 'h \<Rightarrow> TError \<times> 'h" where
  "out_reg L offset v h =
     (let w = widthFromOffset offset in
      if w = 8 then out8 L offset (ucast v) h
      else if w = 16 then out16 L offset (ucast v) h
      else if w = 32 then out32 L offset v h
      else (- 1, h))"

lemma in_reg_invalid [reg_simps]: "widthFromOffset r = 0 \<Longrightarrow> in_reg L r h = (- 1, h)"
  by (simp add: in_reg_def)

lemma out_reg_invalid [reg_simps]: "widthFromOffset r = 0 \<Longrightarrow> out_reg L r v h = (- 1, h)"
  by (simp add: out_reg_def)

subsection \<open>Helpers\<close>

text \<open>\<open>1 << n\<close> on an \<open>int\<close> of 32 bits; the shift by the width or more is undefined.\<close>

definition shl1 :: "u8 \<Rightarrow> u32 res" where
  "shl1 n = (if unat n < 32 then Ok (push_bit (unat n) 1) else Undef)"

text \<open>\<open>(v >> n) & 1\<close> on an unsigned word of 32 bits.\<close>

definition bit_of :: "u32 \<Rightarrow> u8 \<Rightarrow> u8 res" where
  "bit_of v n = (if unat n < 32 then Ok (ucast (drop_bit (unat n) v AND 1)) else Undef)"

text \<open>
  \<open>regextract\<close> reads through a pointer; the model has the bytes of the buffer from that pointer on,
  and reading past them is undefined.
\<close>

definition regextract :: "TBytes \<Rightarrow> int \<Rightarrow> u32 res" where
  "regextract buf regofs =
     (let w = widthFromOffset regofs in
      if w = 8 then (if 1 \<le> length buf then Ok (ucast (hd buf)) else Undef)
      else if w = 16 then (if 2 \<le> length buf then Ok (le_read (take 2 buf)) else Undef)
      else if w = 32 then (if 4 \<le> length buf then Ok (le_read (take 4 buf)) else Undef)
      else Ok 0)"

text \<open>
  The wait for the SPI bus: read, give up on the hundred-and-first attempt with \<open>-ETIMEDOUT\<close>,
  repeat while a bit of the mask is set. The result is the \<open>int\<close> the code returns.
\<close>

definition ETIMEDOUT :: int where "ETIMEDOUT = 110"

function wait_loop :: "'h apci_lib \<Rightarrow> u8 \<Rightarrow> u32 \<Rightarrow> nat \<Rightarrow> 'h \<Rightarrow> int \<times> 'h" where
  "wait_loop L offset bitMask attempt h =
     (let (v, h') = in_reg L (uint offset) h in
      if 100 < attempt + 1 then (- ETIMEDOUT, h')
      else if v AND bitMask \<noteq> 0 then wait_loop L offset bitMask (attempt + 1) h'
      else (0, h'))"
  by pat_completeness auto
termination
  by (relation "measure (\<lambda>(L, offset, bitMask, attempt, h). 101 - attempt)") auto

declare wait_loop.simps [simp del]

definition WaitUntilRegisterBitIsLow :: "'h apci_lib \<Rightarrow> u8 \<Rightarrow> u32 \<Rightarrow> 'h \<Rightarrow> int \<times> 'h" where
  "WaitUntilRegisterBitIsLow L offset bitMask h = wait_loop L offset bitMask 0 h"

text \<open>The device after \<open>k\<close> reads of a register, and the value the next read returns.\<close>

primrec after_reads :: "'h apci_lib \<Rightarrow> int \<Rightarrow> nat \<Rightarrow> 'h \<Rightarrow> 'h" where
  "after_reads L r 0 h = h"
| "after_reads L r (Suc k) h = after_reads L r k (snd (in_reg L r h))"

definition nth_read :: "'h apci_lib \<Rightarrow> int \<Rightarrow> nat \<Rightarrow> 'h \<Rightarrow> u32" where
  "nth_read L r k h = fst (in_reg L r (after_reads L r k h))"

lemma nth_read_Suc: "nth_read L r (Suc k) h = nth_read L r k (snd (in_reg L r h))"
  by (simp add: nth_read_def)

lemma wait_loop_low:
  assumes "\<forall>j < k. nth_read L (uint ofs) j h AND m \<noteq> 0" and "nth_read L (uint ofs) k h AND m = 0"
    and "a + k < 100"
  shows "wait_loop L ofs m a h = (0, after_reads L (uint ofs) (Suc k) h)"
  using assms
proof (induction k arbitrary: a h)
  case 0
  then show ?case
    by (subst wait_loop.simps) (auto simp: nth_read_def split: prod.splits)
next
  case (Suc k)
  obtain v h' where in_h: "in_reg L (uint ofs) h = (v, h')" by fastforce
  have "v AND m \<noteq> 0" using Suc.prems(1) in_h by (auto simp: nth_read_def dest: spec [of _ 0])
  moreover have "wait_loop L ofs m (a + 1) h' = (0, after_reads L (uint ofs) (Suc k) h')"
  proof (rule Suc.IH)
    show "\<forall>j < k. nth_read L (uint ofs) j h' AND m \<noteq> 0"
      using Suc.prems(1) in_h by (metis Suc_less_eq nth_read_Suc snd_conv)
    show "nth_read L (uint ofs) k h' AND m = 0"
      using Suc.prems(2) in_h by (simp add: nth_read_Suc)
    show "a + 1 + k < 100" using Suc.prems(3) by simp
  qed
  ultimately show ?case
    using Suc.prems(3) in_h by (subst wait_loop.simps) simp
qed

lemma wait_loop_timeout:
  assumes "\<forall>j < 100 - a. nth_read L (uint ofs) j h AND m \<noteq> 0" and "a \<le> 100"
  shows "wait_loop L ofs m a h = (- ETIMEDOUT, after_reads L (uint ofs) (101 - a) h)"
  using assms
proof (induction "100 - a" arbitrary: a h)
  case 0
  then have "a = 100" by simp
  then show ?case by (subst wait_loop.simps) (simp split: prod.splits)
next
  case (Suc n)
  obtain v h' where in_h: "in_reg L (uint ofs) h = (v, h')" by fastforce
  have a: "a < 100" "101 - a = Suc (101 - (a + 1))" using Suc.hyps(2) by simp_all
  have "v AND m \<noteq> 0" using Suc.prems(1) a(1) in_h by (auto simp: nth_read_def dest: spec [of _ 0])
  moreover have "wait_loop L ofs m (a + 1) h' =
      (- ETIMEDOUT, after_reads L (uint ofs) (101 - (a + 1)) h')"
  proof (rule Suc.hyps(1))
    show "n = 100 - (a + 1)" "a + 1 \<le> 100" using Suc.hyps(2) by simp_all
    show "\<forall>j < 100 - (a + 1). nth_read L (uint ofs) j h' AND m \<noteq> 0"
      using Suc.prems(1) in_h by (metis Suc_less_SucD less_diff_conv nth_read_Suc snd_conv
        add.commute plus_1_eq_Suc add_Suc_right Suc_less_eq)
  qed
  ultimately show ?case
    using a in_h by (subst wait_loop.simps) simp
qed

lemma shl1_eq_Ok [reg_simps]: "shl1 n = Ok m \<longleftrightarrow> unat n < 32 \<and> m = push_bit (unat n) 1"
  by (auto simp: shl1_def)

lemma ucast_u32_u8 [simp]: "(ucast (ucast (b :: u8) :: u32) :: u8) = b"
  by (rule bit_word_eqI) (auto simp: bit_simps dest: bit_imp_le_length)

lemma ucast_u8_u32: "(ucast (ucast (v :: u32) :: u8) :: u32) = take_bit 8 v"
  by (rule bit_word_eqI) (auto simp: bit_simps)

lemma ucast_take_bit_u8: "(ucast (take_bit 8 (v :: u32)) :: u8) = ucast v"
  by (rule bit_word_eqI) (auto simp: bit_simps)

lemma take_bit_u8_u32: "take_bit 8 (ucast (b :: u8) :: u32) = ucast b"
  by (rule bit_word_eqI) (auto simp: bit_simps dest: bit_imp_le_length)

subsection \<open>Interfaces\<close>

text \<open>
  Registers that hold what is written to them: what the driver and the board document for the
  outputs, the directions and the configuration registers. \<open>cell\<close> is the content of a register
  and \<open>S\<close> the offsets it is claimed for.
\<close>

locale storage_registers =
  fixes L :: "'h apci_lib" and cell :: "'h \<Rightarrow> int \<Rightarrow> u32" and S :: "int set"
  assumes read8: "r \<in> S \<Longrightarrow> widthFromOffset r = 8 \<Longrightarrow>
      apci_read8 L 0 BAR_REGISTER r h = (0, ucast (cell h r), h)"
    and read32: "r \<in> S \<Longrightarrow> widthFromOffset r = 32 \<Longrightarrow>
      apci_read32 L 0 BAR_REGISTER r h = (0, cell h r, h)"
    and write8: "r \<in> S \<Longrightarrow> widthFromOffset r = 8 \<Longrightarrow>
      \<exists>h'. apci_write8 L 0 BAR_REGISTER r b h = (0, h') \<and>
        (\<forall>q \<in> S. cell h' q = (if q = r then ucast b else cell h q))"
    and write32: "r \<in> S \<Longrightarrow> widthFromOffset r = 32 \<Longrightarrow>
      \<exists>h'. apci_write32 L 0 BAR_REGISTER r v h = (0, h') \<and>
        (\<forall>q \<in> S. cell h' q = (if q = r then v else cell h q))"
    and cell8: "r \<in> S \<Longrightarrow> widthFromOffset r = 8 \<Longrightarrow> take_bit 8 (cell h r) = cell h r"

text \<open>What the data items that read, modify and write a register rely on.\<close>

locale reg_io =
  fixes rd :: "int \<Rightarrow> 'h \<Rightarrow> u32 \<times> 'h" and wr :: "int \<Rightarrow> u32 \<Rightarrow> 'h \<Rightarrow> TError \<times> 'h"
    and cell :: "'h \<Rightarrow> int \<Rightarrow> u32" and width :: "int \<Rightarrow> nat" and S :: "int set"
  assumes rd_cell: "r \<in> S \<Longrightarrow> rd r h = (cell h r, h)"
    and wr_cell: "r \<in> S \<Longrightarrow> \<exists>h'. wr r v h = (0, h') \<and>
      (\<forall>q \<in> S. cell h' q = (if q = r then take_bit (width r) v else cell h q))"
    and cell_width: "r \<in> S \<Longrightarrow> take_bit (width r) (cell h r) = cell h r"
begin

lemma rmw_cell:
  assumes "r \<in> S" and "q \<in> S"
  shows "cell (snd (wr r (f (fst (rd r h))) (snd (rd r h)))) q =
    (if q = r then take_bit (width r) (f (cell h r)) else cell h q)"
  using wr_cell [OF assms(1), of "f (cell h r)" h] assms by (auto simp: rd_cell)

lemma rmw_set_bit:
  assumes "r \<in> S" and "n < width r"
  shows "bit (cell (snd (wr r (fst (rd r h) OR push_bit n 1) (snd (rd r h)))) r) i \<longleftrightarrow>
    i = n \<and> n < 32 \<or> bit (cell h r) i"
proof -
  have "bit (cell h r) i \<Longrightarrow> i < width r"
    using cell_width [OF assms(1), of h] by (metis bit_take_bit_iff)
  then show ?thesis
    using rmw_cell [OF assms(1) assms(1), of "\<lambda>v. v OR push_bit n 1" h] assms(2)
    by (auto simp: bit_simps dest: bit_imp_le_length)
qed

lemma rmw_clear_bit:
  assumes "r \<in> S"
  shows "bit (cell (snd (wr r (fst (rd r h) AND NOT (push_bit n 1)) (snd (rd r h)))) r) i \<longleftrightarrow>
    i \<noteq> n \<and> bit (cell h r) i"
proof -
  have "bit (cell h r) i \<Longrightarrow> i < width r"
    using cell_width [OF assms(1), of h] by (metis bit_take_bit_iff)
  then show ?thesis
    using rmw_cell [OF assms(1) assms(1), of "\<lambda>v. v AND NOT (push_bit n 1)" h]
    by (auto simp: bit_simps dest: bit_imp_le_length)
qed

lemma rmw_toggle_bit:
  assumes "r \<in> S" and "n < width r"
  shows "bit (cell (snd (wr r (fst (rd r h) XOR push_bit n 1) (snd (rd r h)))) r) i \<longleftrightarrow>
    (if i = n \<and> n < 32 then \<not> bit (cell h r) i else bit (cell h r) i)"
proof -
  have "bit (cell h r) i \<Longrightarrow> i < width r"
    using cell_width [OF assms(1), of h] by (metis bit_take_bit_iff)
  then show ?thesis
    using rmw_cell [OF assms(1) assms(1), of "\<lambda>v. v XOR push_bit n 1" h] assms(2)
    by (auto simp: bit_simps dest: bit_imp_le_length)
qed

lemma rmw_frame:
  assumes "r \<in> S" and "q \<in> S" and "q \<noteq> r"
  shows "cell (snd (wr r (f (fst (rd r h))) (snd (rd r h)))) q = cell h q"
  using rmw_cell [OF assms(1,2)] assms(3) by simp

end

text \<open>\<open>in\<close> and \<open>out\<close> of the program give that interface over every driver that stores.\<close>

lemma nat_width_cases:
  "widthFromOffset r = 8 \<or> widthFromOffset r = 32 \<or> widthFromOffset r = 0"
  using widthFromOffset_cases [of r] by auto

sublocale storage_registers \<subseteq> io: reg_io "in_reg L" "out_reg L" cell "\<lambda>r. nat (widthFromOffset r)"
  "{r \<in> S. widthFromOffset r \<noteq> 0}"
proof (unfold_locales, goal_cases)
  case (1 r h)
  then show ?case
    using nat_width_cases [of r] cell8 [of r h]
    by (auto simp: in_reg_def in8_def in32_def read8 read32 ucast_u8_u32)
next
  case (2 r v h)
  then show ?case
    using nat_width_cases [of r] write8 [of r "ucast v" h] write32 [of r v h]
    by (auto simp: out_reg_def out8_def out32_def ucast_u8_u32 take_bit_word_eq_self)
next
  case (3 r h)
  then show ?case
    using nat_width_cases [of r] cell8 [of r h] by (auto simp: take_bit_word_eq_self)
qed

text \<open>
  A bank of registers that store: each cell holds the last value written to it. It is the
  driver the witnesses of the register properties run on.
\<close>

type_synonym bank = "int \<Rightarrow> u32"

definition bank_lib :: "bank apci_lib" where
  "bank_lib = \<lparr>
     apci_read8 = \<lambda>dev bar r h. (0, ucast (h r), h),
     apci_read16 = \<lambda>dev bar r h. (0, ucast (h r), h),
     apci_read32 = \<lambda>dev bar r h. (0, h r, h),
     apci_write8 = \<lambda>dev bar r v h. (0, h(r := ucast v)),
     apci_write16 = \<lambda>dev bar r v h. (0, h(r := ucast v)),
     apci_write32 = \<lambda>dev bar r v h. (0, h(r := v))\<rparr>"

text \<open>A narrow register shows eight bits of its cell.\<close>

definition bank_cell :: "bank \<Rightarrow> int \<Rightarrow> u32" where
  "bank_cell h r = (if widthFromOffset r = 8 then take_bit 8 (h r) else h r)"

interpretation bank: storage_registers bank_lib bank_cell UNIV
  by unfold_locales
    (auto simp: bank_lib_def bank_cell_def ucast_take_bit_u8 take_bit_u8_u32)

end
