(* ===== verification/Config.thy ===== *)
theory Config
  imports FileSystem Registers
begin

text \<open>
  The configuration: the structure of \<^verbatim>\<open>config.h\<close>, and \<^verbatim>\<open>config.cpp\<close>, which keeps it in one small
  text file per key below \<^verbatim>\<open>/var/lib/aioenetd/\<close>, in a factory, a current and a user tree. A
  single-precision number is its bit pattern, the form in which the code stores it.
\<close>

type_synonym f32 = u32

record TConfig =
  Hostname :: string
  Model :: string
  Description :: string
  SerialNumber :: string
  FpgaVersionCode :: u32
  features :: u8
  numberOfSubmuxes :: u8
  submuxBarcodes :: "string list"
  submuxTypes :: "string list"
  submuxScaleFactors :: "f32 list list"
  submuxOffsets :: "f32 list list"
  adcChannels :: u8
  adcDifferential :: u8
  adcRangeCodes :: "u32 list"
  adcScaleCoefficients :: "f32 list"
  adcOffsetCoefficients :: "f32 list"
  NUM_DACs :: u8
  dacRanges :: "u32 list"
  dacScaleCoefficients :: "f32 list"
  dacOffsetCoefficients :: "f32 list"

text \<open>The arrays of the structure have the sizes of their declarations.\<close>

definition TConfig_ok :: "TConfig \<Rightarrow> bool" where
  "TConfig_ok c \<longleftrightarrow>
     length (submuxBarcodes c) = 4 \<and> length (submuxTypes c) = 4 \<and>
     length (submuxScaleFactors c) = 4 \<and> length (submuxOffsets c) = 4 \<and>
     (\<forall>r \<in> set (submuxScaleFactors c). length r = 4) \<and> (\<forall>r \<in> set (submuxOffsets c). length r = 4) \<and>
     length (adcRangeCodes c) = 16 \<and> length (adcScaleCoefficients c) = 8 \<and>
     length (adcOffsetCoefficients c) = 8 \<and> length (dacRanges c) = 4 \<and>
     length (dacScaleCoefficients c) = 4 \<and> length (dacOffsetCoefficients c) = 4"

abbreviation (input) f32_one :: f32 where "f32_one \<equiv> 0x3F800000"

text \<open>\<open>InitConfig\<close>; the two fields it leaves alone keep what they held.\<close>

definition InitConfig :: "TConfig \<Rightarrow> TConfig" where
  "InitConfig config = config\<lparr>
     Hostname := ''enetaio000000000000000'', Model := ''eNET-untested'',
     Description := ''eNET-untested Description'', SerialNumber := ''eNET-unset Serial Number'',
     FpgaVersionCode := 0xDEADBA57, adcChannels := 16, numberOfSubmuxes := 0,
     adcDifferential := 0, NUM_DACs := 4,
     submuxBarcodes := replicate 4 [], submuxTypes := replicate 4 [],
     submuxScaleFactors := replicate 4 (replicate 4 f32_one),
     submuxOffsets := replicate 4 (replicate 4 0),
     dacRanges := replicate 4 1, dacScaleCoefficients := replicate 4 f32_one,
     dacOffsetCoefficients := replicate 4 0,
     adcScaleCoefficients := replicate 8 f32_one, adcOffsetCoefficients := replicate 8 0,
     adcRangeCodes := replicate 16 1\<rparr>"

text \<open>The configuration of a new process.\<close>

definition blank_config :: TConfig where
  "blank_config = InitConfig \<lparr>Hostname = [], Model = [], Description = [], SerialNumber = [],
     FpgaVersionCode = 0, features = 0, numberOfSubmuxes = 0, submuxBarcodes = [], submuxTypes = [],
     submuxScaleFactors = [], submuxOffsets = [], adcChannels = 0, adcDifferential = 0,
     adcRangeCodes = [], adcScaleCoefficients = [], adcOffsetCoefficients = [], NUM_DACs = 0,
     dacRanges = [], dacScaleCoefficients = [], dacOffsetCoefficients = []\<rparr>"

lemma TConfig_ok_InitConfig [simp]: "TConfig_ok (InitConfig c)"
  by (simp add: TConfig_ok_def InitConfig_def)

lemma TConfig_ok_blank [simp]: "TConfig_ok blank_config"
  by (simp add: blank_config_def)

subsection \<open>Files of the configuration\<close>

definition CONFIG_PATH :: string where "CONFIG_PATH = ''/var/lib/aioenetd/''"
definition CONFIG_CURRENT :: string where "CONFIG_CURRENT = ''config.current/''"
definition CONFIG_FACTORY :: string where "CONFIG_FACTORY = ''config.factory/''"
definition CONFIG_USER :: string where "CONFIG_USER = ''config.user/''"

definition FilePathFor :: "string \<Rightarrow> string \<Rightarrow> string" where
  "FilePathFor which key = CONFIG_PATH @ which @ key @ ''.conf''"

definition ReadConfigStringRaw :: "string \<Rightarrow> string \<Rightarrow> fs \<Rightarrow> (int \<times> string option) \<times> fs" where
  "ReadConfigStringRaw key which s =
     (let path = FilePathFor which key; (e, s) = tick s in
      if e \<noteq> 0 then ((if e = 2 \<or> e = 20 then - 2 else - int e, None), s)
      else case lookup_file s path of
             None \<Rightarrow> ((- 2, None), s)
           | Some c \<Rightarrow>
               let (e, s) = tick s in
               if e \<noteq> 0 then ((- int e, None), s)
               else let v = takeWhile (\<lambda>x. x \<noteq> CHR 0x00) (take 1023 c);
                        v = rev (dropWhile (\<lambda>x. x = CHR 0x0A \<or> x = CHR 0x0D) (rev v))
                    in ((0, Some v), s))"

text \<open>The lookup order: the asked tree, the current tree for a user profile, the factory tree.\<close>

definition ReadConfigString :: "string \<Rightarrow> string \<Rightarrow> fs \<Rightarrow> (int \<times> string option) \<times> fs" where
  "ReadConfigString key which s =
     (let (here, s) = sys_exists (FilePathFor which key) s in
      if here then ReadConfigStringRaw key which s
      else let (cur, s) = (if take 12 which = CONFIG_USER
                           then sys_exists (FilePathFor CONFIG_CURRENT key) s else (False, s)) in
      if cur then ReadConfigStringRaw key CONFIG_CURRENT s
      else let (fac, s) = sys_exists (FilePathFor CONFIG_FACTORY key) s in
      if fac then ReadConfigStringRaw key CONFIG_FACTORY s
      else ((- 2, None), s))"

text \<open>A number of the configuration; text that is no number makes \<open>stoul\<close> throw.\<close>

definition ReadConfigU8 :: "string \<Rightarrow> string \<Rightarrow> fs \<Rightarrow> (int \<times> u8 option) res \<times> fs" where
  "ReadConfigU8 key which s =
     (let ((rc, ov), s) = ReadConfigString key which s; v = (case ov of None \<Rightarrow> [] | Some v \<Rightarrow> v) in
      if rc < 0 then (Ok (rc, None), s)
      else if length v < 2 then (Ok (- 22, None), s)
      else (bindR (stoul 16 v) (\<lambda>n. Ok (0, Some (ucast n))), s))"

definition ReadConfigU32 :: "string \<Rightarrow> string \<Rightarrow> fs \<Rightarrow> (int \<times> u32 option) res \<times> fs" where
  "ReadConfigU32 key which s =
     (let ((rc, ov), s) = ReadConfigString key which s; v = (case ov of None \<Rightarrow> [] | Some v \<Rightarrow> v) in
      if rc < 0 then (Ok (rc, None), s)
      else if length v < 8 then (Ok (- 22, None), s)
      else (bindR (stoul 16 v) (\<lambda>n. Ok (0, Some (ucast n))), s))"

definition ReadConfigFloat :: "string \<Rightarrow> string \<Rightarrow> fs \<Rightarrow> (int \<times> f32 option) res \<times> fs" where
  "ReadConfigFloat key which s = ReadConfigU32 key which s"

definition WriteConfigString :: "string \<Rightarrow> string \<Rightarrow> string \<Rightarrow> fs \<Rightarrow> int \<times> fs" where
  "WriteConfigString key v which s =
     (let path = FilePathFor which key; (r, s) = MkdirP path s in AtomicWriteTextFile path v s)"

definition WriteConfigU8 :: "string \<Rightarrow> u8 \<Rightarrow> string \<Rightarrow> fs \<Rightarrow> int \<times> fs" where
  "WriteConfigU8 key v which s = WriteConfigString key (to_hex v) which s"

definition WriteConfigU32 :: "string \<Rightarrow> u32 \<Rightarrow> string \<Rightarrow> fs \<Rightarrow> int \<times> fs" where
  "WriteConfigU32 key v which s = WriteConfigString key (to_hex v) which s"

definition WriteConfigFloat :: "string \<Rightarrow> f32 \<Rightarrow> string \<Rightarrow> fs \<Rightarrow> int \<times> fs" where
  "WriteConfigFloat key v which s = WriteConfigU32 key v which s"

subsection \<open>Loading\<close>

text \<open>
  A load is a sequence of reads, each of which assigns its field when it succeeds and is ignored
  when it reports an error; an exception leaves the rest of the sequence unread.
\<close>

type_synonym load = "TConfig \<times> fs \<Rightarrow> unit res \<times> (TConfig \<times> fs)"

definition assign :: "('a \<Rightarrow> TConfig \<Rightarrow> TConfig) \<Rightarrow> TConfig \<Rightarrow> (int \<times> 'a option) res \<times> fs \<Rightarrow>
    unit res \<times> (TConfig \<times> fs)" where
  "assign upd c r =
     (case fst r of
        Ok (rc, ov) \<Rightarrow> (Ok (), (case ov of None \<Rightarrow> c | Some v \<Rightarrow> upd v c, snd r))
      | Throw e \<Rightarrow> (Throw e, (c, snd r))
      | Undef \<Rightarrow> (Undef, (c, snd r)) | Hang \<Rightarrow> (Hang, (c, snd r)))"

definition load_string :: "string \<Rightarrow> (string \<Rightarrow> TConfig \<Rightarrow> TConfig) \<Rightarrow> string \<Rightarrow> load" where
  "load_string which upd key =
     (\<lambda>(c, s). assign upd c (let (v, s) = ReadConfigString key which s in (Ok v, s)))"

definition load_u8 :: "string \<Rightarrow> (u8 \<Rightarrow> TConfig \<Rightarrow> TConfig) \<Rightarrow> string \<Rightarrow> load" where
  "load_u8 which upd key = (\<lambda>(c, s). assign upd c (ReadConfigU8 key which s))"

definition load_u32 :: "string \<Rightarrow> (u32 \<Rightarrow> TConfig \<Rightarrow> TConfig) \<Rightarrow> string \<Rightarrow> load" where
  "load_u32 which upd key = (\<lambda>(c, s). assign upd c (ReadConfigU32 key which s))"

definition load_float :: "string \<Rightarrow> (f32 \<Rightarrow> TConfig \<Rightarrow> TConfig) \<Rightarrow> string \<Rightarrow> load" where
  "load_float which upd key = (\<lambda>(c, s). assign upd c (ReadConfigFloat key which s))"

primrec seqS :: "('s \<Rightarrow> unit res \<times> 's) list \<Rightarrow> 's \<Rightarrow> unit res \<times> 's" where
  "seqS [] s = (Ok (), s)"
| "seqS (m # ms) s = bindS (m s) (\<lambda>_. seqS ms)"

definition dec2 :: "nat \<Rightarrow> string" where
  "dec2 i = (if i < 10 then ''0'' @ to_string i else to_string i)"

definition LoadDacCalConfig :: "string \<Rightarrow> load" where
  "LoadDacCalConfig which = seqS
     (map (\<lambda>i. load_float which (\<lambda>v c. c\<lparr>dacScaleCoefficients := (dacScaleCoefficients c)[i := v]\<rparr>)
        (''DAC_ScaleCh'' @ to_string i)) [0..<4] @
      map (\<lambda>i. load_float which (\<lambda>v c. c\<lparr>dacOffsetCoefficients := (dacOffsetCoefficients c)[i := v]\<rparr>)
        (''DAC_OffsetCh'' @ to_string i)) [0..<4])"

definition LoadAdcCalConfig :: "string \<Rightarrow> load" where
  "LoadAdcCalConfig which = seqS
     (map (\<lambda>i. load_float which (\<lambda>v c. c\<lparr>adcScaleCoefficients := (adcScaleCoefficients c)[i := v]\<rparr>)
        (''ADC_ScaleRange'' @ to_string i)) [0..<8] @
      map (\<lambda>i. load_float which (\<lambda>v c. c\<lparr>adcOffsetCoefficients := (adcOffsetCoefficients c)[i := v]\<rparr>)
        (''ADC_OffsetRange'' @ to_string i)) [0..<8])"

definition LoadCalConfig :: "string \<Rightarrow> load" where
  "LoadCalConfig which = seqS [LoadDacCalConfig which, LoadAdcCalConfig which]"

definition LoadDacConfig :: "string \<Rightarrow> load" where
  "LoadDacConfig which = seqS
     (load_u8 which (\<lambda>v c. c\<lparr>NUM_DACs := v\<rparr>) ''BRD_NUM_DACs'' #
      map (\<lambda>i. load_u32 which (\<lambda>v c. c\<lparr>dacRanges := (dacRanges c)[i := v]\<rparr>)
        (''DAC_RangeCh'' @ to_string i)) [0..<4])"

definition LoadAdcConfig :: "string \<Rightarrow> load" where
  "LoadAdcConfig which = seqS
     (load_u8 which (\<lambda>v c. c\<lparr>adcDifferential := v\<rparr>) ''ADC_Differential'' #
      map (\<lambda>i. load_u32 which (\<lambda>v c. c\<lparr>adcRangeCodes := (adcRangeCodes c)[i := v]\<rparr>)
        (''ADC_RangeCodeCh'' @ dec2 i)) [0..<16])"

definition submux_key :: "string \<Rightarrow> nat \<Rightarrow> nat \<Rightarrow> string" where
  "submux_key what i g = ''BRD_Submux'' @ to_string i @ what @ to_string g"

definition LoadSubmuxConfig :: "string \<Rightarrow> load" where
  "LoadSubmuxConfig which = seqS
     (load_u8 which (\<lambda>v c. c\<lparr>numberOfSubmuxes := v\<rparr>) ''BRD_NumberOfSubmuxes'' #
      map (\<lambda>i. load_string which (\<lambda>v c. c\<lparr>submuxBarcodes := (submuxBarcodes c)[i := v]\<rparr>)
        (''BRD_SubmuxBarcode'' @ to_string i)) [0..<4] @
      map (\<lambda>i. load_string which (\<lambda>v c. c\<lparr>submuxTypes := (submuxTypes c)[i := v]\<rparr>)
        (''BRD_SubmuxType'' @ to_string i)) [0..<4] @
      map (\<lambda>(i, g). load_float which (\<lambda>v c. c\<lparr>submuxScaleFactors :=
          (submuxScaleFactors c)[i := (submuxScaleFactors c ! i)[g := v]]\<rparr>) (submux_key ''Range'' i g))
        (List.product [0..<4] [0..<4]) @
      map (\<lambda>(i, g). load_float which (\<lambda>v c. c\<lparr>submuxOffsets :=
          (submuxOffsets c)[i := (submuxOffsets c ! i)[g := v]]\<rparr>) (submux_key ''Offset'' i g))
        (List.product [0..<4] [0..<4]))"

definition LoadBrdConfig :: "string \<Rightarrow> load" where
  "LoadBrdConfig which = seqS
     [load_string which (\<lambda>v c. c\<lparr>Model := v\<rparr>) ''BRD_Model'',
      load_u8 which (\<lambda>v c. c\<lparr>adcChannels := v\<rparr>) ''BRD_NumberOfAdcChannels'',
      load_string which (\<lambda>v c. c\<lparr>Description := v\<rparr>) ''BRD_Description'',
      load_string which (\<lambda>v c. c\<lparr>SerialNumber := v\<rparr>) ''BRD_SerialNumber'']"

text \<open>The first line of the host name file; a file that cannot be opened leaves the field.\<close>

definition load_hostname :: load where
  "load_hostname = (\<lambda>(c, s).
     let (e, s) = tick s in
     (Ok (), (if e \<noteq> 0 then c
              else case lookup_file s ''/etc/hostname'' of
                     None \<Rightarrow> c
                   | Some t \<Rightarrow> c\<lparr>Hostname := (case getlines (CHR 0x0A) t of [] \<Rightarrow> [] | l # _ \<Rightarrow> l)\<rparr>, s)))"

definition LoadConfig :: "string \<Rightarrow> load" where
  "LoadConfig which = seqS
     [load_hostname, LoadBrdConfig which, LoadCalConfig which, LoadDacConfig which,
      LoadAdcConfig which, LoadSubmuxConfig which]"

subsection \<open>Saving\<close>

text \<open>A save writes its keys one after the other and ignores the results.\<close>

definition save_all :: "string \<Rightarrow> (string \<times> string) list \<Rightarrow> fs \<Rightarrow> fs" where
  "save_all which kvs s = fold (\<lambda>(key, v) s. snd (WriteConfigString key v which s)) kvs s"

definition dac_cal_keys :: "TConfig \<Rightarrow> (string \<times> string) list" where
  "dac_cal_keys c =
     map (\<lambda>i. (''DAC_ScaleCh'' @ to_string i, to_hex (dacScaleCoefficients c ! i))) [0..<4] @
     map (\<lambda>i. (''DAC_OffsetCh'' @ to_string i, to_hex (dacOffsetCoefficients c ! i))) [0..<4]"

definition SaveDacCalConfig :: "string \<Rightarrow> TConfig \<Rightarrow> fs \<Rightarrow> bool \<times> fs" where
  "SaveDacCalConfig which c s = (True, save_all which (dac_cal_keys c) s)"

definition adc_cal_keys :: "TConfig \<Rightarrow> (string \<times> string) list" where
  "adc_cal_keys c =
     map (\<lambda>i. (''ADC_ScaleRange'' @ to_string i, to_hex (adcScaleCoefficients c ! i))) [0..<8] @
     map (\<lambda>i. (''ADC_OffsetRange'' @ to_string i, to_hex (adcOffsetCoefficients c ! i))) [0..<8]"

definition SaveAdcCalConfig :: "string \<Rightarrow> TConfig \<Rightarrow> fs \<Rightarrow> bool \<times> fs" where
  "SaveAdcCalConfig which c s = (True, save_all which (adc_cal_keys c) s)"

definition SaveCalConfig :: "string \<Rightarrow> TConfig \<Rightarrow> fs \<Rightarrow> bool \<times> fs" where
  "SaveCalConfig which c s =
     (let (b, s) = SaveDacCalConfig which c s; (b, s) = SaveAdcCalConfig which c s in (True, s))"

definition dac_keys :: "TConfig \<Rightarrow> (string \<times> string) list" where
  "dac_keys c = (''BRD_NUM_DACs'', to_hex (NUM_DACs c)) #
     map (\<lambda>i. (''DAC_RangeCh'' @ to_string i, to_hex (dacRanges c ! i))) [0..<4]"

definition SaveDacConfig :: "string \<Rightarrow> TConfig \<Rightarrow> fs \<Rightarrow> bool \<times> fs" where
  "SaveDacConfig which c s = (True, save_all which (dac_keys c) s)"

definition adc_keys :: "TConfig \<Rightarrow> (string \<times> string) list" where
  "adc_keys c = (''ADC_Differential'', to_hex (adcDifferential c)) #
     map (\<lambda>i. (''ADC_RangeCodeCh'' @ dec2 i, to_hex (adcRangeCodes c ! i))) [0..<16]"

definition SaveAdcConfig :: "string \<Rightarrow> TConfig \<Rightarrow> fs \<Rightarrow> bool \<times> fs" where
  "SaveAdcConfig which c s = (True, save_all which (adc_keys c) s)"

definition submux_keys :: "TConfig \<Rightarrow> (string \<times> string) list" where
  "submux_keys c = (''BRD_NumberOfSubmuxes'', to_hex (numberOfSubmuxes c)) #
     map (\<lambda>i. (''BRD_SubmuxBarcode'' @ to_string i, submuxBarcodes c ! i)) [0..<4] @
     map (\<lambda>i. (''BRD_SubmuxType'' @ to_string i, submuxTypes c ! i)) [0..<4] @
     map (\<lambda>(i, g). (submux_key ''Range'' i g, to_hex (submuxScaleFactors c ! i ! g)))
       (List.product [0..<4] [0..<4]) @
     map (\<lambda>(i, g). (submux_key ''Offset'' i g, to_hex (submuxOffsets c ! i ! g)))
       (List.product [0..<4] [0..<4])"

definition SaveSubmuxConfig :: "string \<Rightarrow> TConfig \<Rightarrow> fs \<Rightarrow> bool \<times> fs" where
  "SaveSubmuxConfig which c s = (True, save_all which (submux_keys c) s)"

definition brd_keys :: "TConfig \<Rightarrow> (string \<times> string) list" where
  "brd_keys c = [(''BRD_Description'', Description c), (''BRD_Model'', Model c),
     (''BRD_NumberOfAdcChannels'', to_hex (adcChannels c)), (''BRD_SerialNumber'', SerialNumber c)]"

definition SaveBrdConfig :: "string \<Rightarrow> TConfig \<Rightarrow> fs \<Rightarrow> bool \<times> fs" where
  "SaveBrdConfig which c s = (True, save_all which (brd_keys c) s)"

definition SaveConfig :: "string \<Rightarrow> TConfig \<Rightarrow> fs \<Rightarrow> bool \<times> fs" where
  "SaveConfig which c s =
     (let (b, s) = SaveBrdConfig which c s; (b, s) = SaveCalConfig which c s;
          (b, s) = SaveDacConfig which c s; (b, s) = SaveAdcConfig which c s;
          (b, s) = SaveSubmuxConfig which c s
      in (True, s))"

subsection \<open>First boot\<close>

text \<open>
  Seeding writes the compiled-in values to the factory tree and copies what the current tree
  lacks from it. Both keep every file that is already there.
\<close>

definition EnsureConfigTree :: "fs \<Rightarrow> bool \<times> fs" where
  "EnsureConfigTree s =
     (let (r, s) = MkdirP CONFIG_PATH s in if r < 0 then (False, s) else
      let (r, s) = MkdirP (CONFIG_PATH @ CONFIG_FACTORY) s in if r < 0 then (False, s) else
      let (r, s) = MkdirP (CONFIG_PATH @ CONFIG_CURRENT) s in if r < 0 then (False, s) else
      let (r, s) = MkdirP (CONFIG_PATH @ CONFIG_USER) s in if r < 0 then (False, s) else
      (True, s))"

definition CONFIG_INIT_STAMP :: string where "CONFIG_INIT_STAMP = ''.initialized''"

definition IsFirstBoot :: "fs \<Rightarrow> bool \<times> fs" where
  "IsFirstBoot s = (let (b, s) = sys_exists (CONFIG_PATH @ CONFIG_INIT_STAMP) s in (\<not> b, s))"

definition WriteInitStamp :: "string \<Rightarrow> fs \<Rightarrow> bool \<times> fs" where
  "WriteInitStamp version s =
     (let (r, s) = AtomicWriteTextFile (CONFIG_PATH @ CONFIG_INIT_STAMP) version s in (r = 0, s))"

definition WriteIfMissing :: "string \<Rightarrow> string \<Rightarrow> string \<Rightarrow> fs \<Rightarrow> int \<times> fs" where
  "WriteIfMissing which key v s =
     (let path = FilePathFor which key; (b, s) = sys_exists path s in
      if b then (0, s) else AtomicWriteTextFile path v s)"

definition seed_keys :: "TConfig \<Rightarrow> (string \<times> string) list" where
  "seed_keys cfg =
     [(''BRD_Description'', Description cfg), (''BRD_Model'', Model cfg),
      (''BRD_SerialNumber'', SerialNumber cfg), (''ADC_Differential'', to_hex (adcDifferential cfg))] @
     map (\<lambda>i. (''ADC_RangeCodeCh'' @ dec2 i, to_hex (adcRangeCodes cfg ! i))) [0..<16] @
     concat (map (\<lambda>r. [(''ADC_ScaleRange'' @ to_string r, to_hex (adcScaleCoefficients cfg ! r)),
                       (''ADC_OffsetRange'' @ to_string r, to_hex (adcOffsetCoefficients cfg ! r))]) [0..<8]) @
     [(''DAC_NumDACs'', to_hex (NUM_DACs cfg))] @
     map (\<lambda>i. (''DAC_RangeCh'' @ to_string i, to_hex (dacRanges cfg ! i))) [0..<4] @
     concat (map (\<lambda>d. [(''DAC_ScaleCh'' @ to_string d, to_hex (dacScaleCoefficients cfg ! d)),
                       (''DAC_OffsetCh'' @ to_string d, to_hex (dacOffsetCoefficients cfg ! d))]) [0..<4]) @
     [(''BRD_NumberOfSubmuxes'', to_hex (numberOfSubmuxes cfg))] @
     concat (map (\<lambda>i.
       [(''BRD_SubmuxBarcode'' @ to_string i, submuxBarcodes cfg ! i),
        (''BRD_SubmuxType'' @ to_string i, submuxTypes cfg ! i)] @
       concat (map (\<lambda>g. [(submux_key ''Range'' i g, to_hex (submuxScaleFactors cfg ! i ! g)),
                         (submux_key ''Offset'' i g, to_hex (submuxOffsets cfg ! i ! g))]) [0..<4])) [0..<4])"

definition SeedFactoryFromStruct :: "TConfig \<Rightarrow> fs \<Rightarrow> fs" where
  "SeedFactoryFromStruct cfg s =
     fold (\<lambda>(key, v) s. snd (WriteIfMissing CONFIG_FACTORY key v s)) (seed_keys cfg) s"

text \<open>The names of a directory, in the order the model keeps the files.\<close>

definition dir_names :: "string \<Rightarrow> fs \<Rightarrow> string list" where
  "dir_names dir s =
     map (drop (length dir)) [p \<leftarrow> map fst (files s). take (length dir) p = dir \<and>
       CHR ''/'' \<notin> set (drop (length dir) p)]"

definition is_conf :: "string \<Rightarrow> bool" where
  "is_conf name = (6 \<le> length name \<and> drop (length name - 5) name = ''.conf'')"

definition seed_current_entry :: "string \<Rightarrow> string \<Rightarrow> string \<Rightarrow> fs \<Rightarrow> fs" where
  "seed_current_entry facDir curDir name s =
     (if \<not> is_conf name then s
      else let (b, s) = sys_exists (curDir @ name) s in
           if b then s
           else let (e, s) = tick s;
                    contents = (case lookup_file s (facDir @ name) of
                                  None \<Rightarrow> [] | Some c \<Rightarrow> if e = 0 then c else [])
                in snd (AtomicWriteTextFile (curDir @ name) contents s))"

definition SeedCurrentFromFactoryIfMissing :: "fs \<Rightarrow> fs" where
  "SeedCurrentFromFactoryIfMissing s =
     (let facDir = CONFIG_PATH @ CONFIG_FACTORY; curDir = CONFIG_PATH @ CONFIG_CURRENT;
          (e, s) = tick s
      in if e \<noteq> 0 then s
         else fold (seed_current_entry facDir curDir) (dir_names facDir s) s)"

definition InitializeConfigFiles :: "string \<Rightarrow> TConfig \<Rightarrow> fs \<Rightarrow> fs" where
  "InitializeConfigFiles version config s =
     (let (ok, s) = EnsureConfigTree s in if \<not> ok then s else
      let (first, s) = IsFirstBoot s in if \<not> first then s else
      let s = SeedFactoryFromStruct config s;
          s = SeedCurrentFromFactoryIfMissing s;
          (ok, s) = WriteInitStamp version s
      in s)"

subsection \<open>Applying the calibration\<close>

definition ApplyAdcCalConfig :: "'h apci_lib \<Rightarrow> TConfig \<Rightarrow> 'h \<Rightarrow> 'h" where
  "ApplyAdcCalConfig L c h =
     fold (\<lambda>cal h.
       let (st, h) = out_reg L (ofsAdcCalScale + int cal * ofsAdcCalScaleStride) (adcScaleCoefficients c ! cal) h;
           (st, h) = out_reg L (ofsAdcCalOffset + int cal * ofsAdcCalOffsetStride) (adcOffsetCoefficients c ! cal) h
       in h) [0..<8] h"

definition ApplyConfig :: "'h apci_lib \<Rightarrow> TConfig \<Rightarrow> 'h \<Rightarrow> 'h" where
  "ApplyConfig L c h = ApplyAdcCalConfig L c h"

end
