(* ===== verification/ConfigStore.thy ===== *)
theory ConfigStore
  imports Config
begin

text \<open>
  What the configuration files promise their users, as the interface \<open>cfg_store\<close>, the proof that
  the files of \<open>Config\<close> keep the promise, and the round trip of the whole structure through them.
\<close>

subsection \<open>A key-value store\<close>

locale cfg_store =
  fixes put :: "string \<Rightarrow> string \<Rightarrow> 's \<Rightarrow> 's" and get :: "string \<Rightarrow> 's \<Rightarrow> string option"
    and ok :: "'s \<Rightarrow> bool" and storable :: "string \<Rightarrow> bool"
  assumes get_put: "ok s \<Longrightarrow> storable v \<Longrightarrow> get k (put k v s) = Some v"
    and get_put_other: "ok s \<Longrightarrow> k' \<noteq> k \<Longrightarrow> get k' (put k v s) = get k' s"
    and ok_put: "ok s \<Longrightarrow> ok (put k v s)"
begin

definition put_all :: "(string \<times> string) list \<Rightarrow> 's \<Rightarrow> 's" where
  "put_all kvs s = fold (\<lambda>(k, v). put k v) kvs s"

lemma ok_put_all: "ok s \<Longrightarrow> ok (put_all kvs s)"
  unfolding put_all_def by (induction kvs arbitrary: s) (auto simp: ok_put)

lemma get_put_all_other: "ok s \<Longrightarrow> k \<notin> fst ` set kvs \<Longrightarrow> get k (put_all kvs s) = get k s"
  unfolding put_all_def
  by (induction kvs arbitrary: s) (auto simp: ok_put get_put_other)

lemma get_put_all:
  assumes "ok s" and "distinct (map fst kvs)" and "(k, v) \<in> set kvs" and "storable v"
  shows "get k (put_all kvs s) = Some v"
  using assms
proof (induction kvs arbitrary: s)
  case Nil
  then show ?case by simp
next
  case (Cons kv kvs)
  obtain k0 v0 where kv: "kv = (k0, v0)" by fastforce
  have step: "put_all (kv # kvs) s = put_all kvs (put k0 v0 s)"
    by (simp add: put_all_def kv)
  show ?case
  proof (cases "(k, v) \<in> set kvs")
    case True
    then show ?thesis using Cons by (simp add: step ok_put)
  next
    case False
    with Cons.prems kv have eq: "k = k0" "v = v0" by auto
    with Cons.prems kv have "k \<notin> fst ` set kvs" by auto
    then show ?thesis
      using Cons.prems eq by (simp add: step get_put_all_other ok_put get_put)
  qed
qed

end

subsection \<open>The configuration files are such a store\<close>

text \<open>Text that survives the reader: short, no null byte, no line end at the end.\<close>

definition storable :: "string \<Rightarrow> bool" where
  "storable v \<longleftrightarrow> length v \<le> 1023 \<and> CHR 0x00 \<notin> set v \<and>
     (v = [] \<or> last v \<notin> {CHR 0x0A, CHR 0x0D})"

definition cfg_put :: "string \<Rightarrow> string \<Rightarrow> string \<Rightarrow> fs \<Rightarrow> fs" where
  "cfg_put which k v s = snd (WriteConfigString k v which s)"

definition cfg_get :: "string \<Rightarrow> string \<Rightarrow> fs \<Rightarrow> string option" where
  "cfg_get which k s = snd (fst (ReadConfigString k which s))"

text \<open>What the reader makes of the contents of a file, and the file it takes them from.\<close>

definition as_read :: "string \<Rightarrow> string" where
  "as_read c = rev (dropWhile (\<lambda>x. x = CHR 0x0A \<or> x = CHR 0x0D)
     (rev (takeWhile (\<lambda>x. x \<noteq> CHR 0x00) (take 1023 c))))"

definition found :: "string \<Rightarrow> string \<Rightarrow> fs \<Rightarrow> string option" where
  "found which k s =
     (case lookup_file s (FilePathFor which k) of
        Some c \<Rightarrow> Some c
      | None \<Rightarrow> (case (if take 12 which = CONFIG_USER
                    then lookup_file s (FilePathFor CONFIG_CURRENT k) else None) of
                 Some c \<Rightarrow> Some c
               | None \<Rightarrow> lookup_file s (FilePathFor CONFIG_FACTORY k)))"

lemma as_read_storable: "storable v \<Longrightarrow> as_read v = v"
proof -
  assume v: "storable v"
  have "takeWhile (\<lambda>x. x \<noteq> CHR 0x00) v = v" using v by (auto simp: storable_def takeWhile_eq_all_conv)
  moreover have "dropWhile (\<lambda>x. x = CHR 0x0A \<or> x = CHR 0x0D) (rev v) = rev v"
    using v by (cases v rule: rev_cases) (auto simp: storable_def)
  ultimately show ?thesis using v by (simp only: as_read_def storable_def take_all rev_rev_ident)
qed

lemma tick_no_errors: "no_errors s \<Longrightarrow> tick s = (0, s\<lparr>calls := Suc (calls s)\<rparr>)"
  by (simp add: tick_def)

lemma ReadRaw_no_errors:
  assumes "no_errors s"
  shows "\<exists>s'. ReadConfigStringRaw k which s =
      ((case lookup_file s (FilePathFor which k) of None \<Rightarrow> (- 2, None) | Some c \<Rightarrow> (0, Some (as_read c))), s')
    \<and> no_errors s' \<and> files s' = files s"
  using assms
  by (auto simp: ReadConfigStringRaw_def tick_def as_read_def Let_def no_errors_def split: option.splits)

lemma sys_exists_no_errors: "no_errors s \<Longrightarrow>
    sys_exists p s = (lookup_file s p \<noteq> None, s\<lparr>calls := Suc (calls s)\<rparr>)"
  by (simp add: sys_exists_def tick_no_errors)

lemma Read_no_errors:
  assumes "no_errors s"
  shows "\<exists>s'. ReadConfigString k which s =
      ((case found which k s of None \<Rightarrow> (- 2, None) | Some c \<Rightarrow> (0, Some (as_read c))), s')
    \<and> no_errors s' \<and> files s' = files s"
proof -
  let ?t = "\<lambda>s. s\<lparr>calls := Suc (calls s)\<rparr>"
  note raw = ReadRaw_no_errors [of "?t s" k which] ReadRaw_no_errors [of "?t (?t s)" k CONFIG_CURRENT]
    ReadRaw_no_errors [of "?t (?t s)" k CONFIG_FACTORY] ReadRaw_no_errors [of "?t (?t (?t s))" k CONFIG_FACTORY]
  have n: "no_errors (?t s)" "no_errors (?t (?t s))" "no_errors (?t (?t (?t s)))"
    using assms by (simp_all only: no_errors_tick)
  show ?thesis
    using raw n assms
    by (auto simp: ReadConfigString_def sys_exists_no_errors found_def Let_def split: option.splits if_splits)
qed

lemma cfg_get_found: "no_errors s \<Longrightarrow> cfg_get which k s = map_option as_read (found which k s)"
  using Read_no_errors [of s k which] by (auto simp: cfg_get_def split: option.splits)

lemma MkdirP_no_errors:
  "no_errors s \<Longrightarrow> fst (MkdirP d s) = 0 \<and> no_errors (snd (MkdirP d s))"
  by (simp add: MkdirP_def sys_simple_def tick_no_errors)

lemma AtomicWrite_no_errors:
  assumes "no_errors s"
  shows "no_errors (snd (AtomicWriteTextFile path c s))"
proof -
  let ?s1 = "set_file (path @ ''.tmp'') [] (s\<lparr>calls := Suc (calls s)\<rparr>)"
  obtain r2 s2 where w2: "write_all (path @ ''.tmp'') c ?s1 = (r2, s2)" by fastforce
  have n2: "r2 = 0" "no_errors s2"
    using write_all_no_errors [of ?s1 "path @ ''.tmp''" c] assms w2 by simp_all
  then show ?thesis
    using assms w2
    by (auto simp: AtomicWriteTextFile_def sys_defs FsyncDir_def split: option.splits)
      (auto simp: no_errors_def)
qed

lemma FilePathFor_inj [simp]: "FilePathFor which k = FilePathFor which k' \<longleftrightarrow> k = k'"
  by (simp add: FilePathFor_def)

definition trees :: "string set" where
  "trees = {CONFIG_CURRENT, CONFIG_FACTORY, CONFIG_USER}"

lemma FilePathFor_tree:
  "which \<in> trees \<Longrightarrow> w' \<in> trees \<Longrightarrow> FilePathFor which k = FilePathFor w' k' \<longleftrightarrow> which = w' \<and> k = k'"
  by (auto simp: trees_def FilePathFor_def CONFIG_CURRENT_def CONFIG_FACTORY_def CONFIG_USER_def)

lemma FilePathFor_not_tmp: "FilePathFor which k \<noteq> FilePathFor which' k' @ ''.tmp''"
proof
  assume "FilePathFor which k = FilePathFor which' k' @ ''.tmp''"
  then have "last (FilePathFor which k) = last (FilePathFor which' k' @ ''.tmp'')" by (rule arg_cong)
  then show False by (simp add: FilePathFor_def)
qed

lemma WriteConfig_files:
  assumes "no_errors s"
  shows "lookup_file (cfg_put which k v s) (FilePathFor which k) = Some v"
    and "which \<in> trees \<Longrightarrow> w' \<in> trees \<Longrightarrow> k' \<noteq> k \<Longrightarrow>
      lookup_file (cfg_put which k v s) (FilePathFor w' k') = lookup_file s (FilePathFor w' k')"
    and "no_errors (cfg_put which k v s)"
proof -
  obtain r s1 where m: "MkdirP (FilePathFor which k) s = (r, s1)" by fastforce
  have n: "no_errors s1" using MkdirP_no_errors [OF assms] m by (metis snd_conv)
  obtain r2 s2 where w: "AtomicWriteTextFile (FilePathFor which k) v s1 = (r2, s2)" by fastforce
  note core = atomic_write_old_or_new_core [OF w]
  have put: "cfg_put which k v s = s2" by (simp add: cfg_put_def WriteConfigString_def m w)
  show "lookup_file (cfg_put which k v s) (FilePathFor which k) = Some v"
    using core n put by simp
  have s1: "lookup_file s1 q = lookup_file s q" for q
    using MkdirP_frame [of "FilePathFor which k" s q] m by simp
  show "which \<in> trees \<Longrightarrow> w' \<in> trees \<Longrightarrow> k' \<noteq> k \<Longrightarrow>
      lookup_file (cfg_put which k v s) (FilePathFor w' k') = lookup_file s (FilePathFor w' k')"
    using core put s1 FilePathFor_not_tmp [of w' k' which k] by (simp add: FilePathFor_tree)
  show "no_errors (cfg_put which k v s)"
    using AtomicWrite_no_errors [OF n, of "FilePathFor which k" v] w put by simp
qed

lemma cfg_store_tree:
  assumes "which \<in> trees"
  shows "cfg_store (cfg_put which) (cfg_get which) no_errors storable"
proof (unfold_locales, goal_cases)
  case (1 s v k)
  then show ?case
    by (simp add: cfg_get_found WriteConfig_files found_def as_read_storable)
next
  case (2 s k' k v)
  have trees: "CONFIG_CURRENT \<in> trees" "CONFIG_FACTORY \<in> trees" by (simp_all add: trees_def)
  note same = WriteConfig_files(2) [OF 2(1) assms _ 2(2)]
  have "found which k' (cfg_put which k v s) = found which k' s"
    unfolding found_def same [OF assms] same [OF trees(1)] same [OF trees(2)] by (rule refl)
  then show ?case
    using 2 by (simp add: cfg_get_found WriteConfig_files(3))
next
  case (3 s k v)
  then show ?case by (rule WriteConfig_files)
qed

interpretation current: cfg_store "cfg_put CONFIG_CURRENT" "cfg_get CONFIG_CURRENT" no_errors storable
  by (rule cfg_store_tree) (simp add: trees_def)

interpretation factory: cfg_store "cfg_put CONFIG_FACTORY" "cfg_get CONFIG_FACTORY" no_errors storable
  by (rule cfg_store_tree) (simp add: trees_def)

interpretation user: cfg_store "cfg_put CONFIG_USER" "cfg_get CONFIG_USER" no_errors storable
  by (rule cfg_store_tree) (simp add: trees_def)

subsection \<open>Reads of numbers\<close>

text \<open>
  A load that returns, applies a function to the configuration and leaves the files as they are.
\<close>

definition loads :: "(string \<times> string) list \<Rightarrow> load \<Rightarrow> (TConfig \<Rightarrow> TConfig) \<Rightarrow> bool" where
  "loads F m f \<longleftrightarrow> (\<forall>c s. no_errors s \<longrightarrow> files s = F \<longrightarrow>
     (\<exists>s'. m (c, s) = (Ok (), (f c, s')) \<and> no_errors s' \<and> files s' = F))"

lemma loads_seqS_Nil: "loads F (seqS []) id"
  by (simp add: loads_def)

lemma loads_seqS_Cons:
  assumes "loads F m f" and "loads F (seqS ms) g"
  shows "loads F (seqS (m # ms)) (g \<circ> f)"
  unfolding loads_def
proof (intro allI impI)
  fix c s
  assume s: "no_errors s" "files s = F"
  then obtain s1 where "m (c, s) = (Ok (), (f c, s1))" "no_errors s1" "files s1 = F"
    using assms(1) unfolding loads_def by blast
  moreover then obtain s2 where "seqS ms (f c, s1) = (Ok (), (g (f c), s2))" "no_errors s2" "files s2 = F"
    using assms(2) unfolding loads_def by blast
  ultimately show "\<exists>s'. seqS (m # ms) (c, s) = (Ok (), ((g \<circ> f) c, s')) \<and> no_errors s' \<and> files s' = F"
    by simp
qed

lemma seqS_append: "seqS (ms @ ns) s = bindS (seqS ms s) (\<lambda>_. seqS ns)"
proof (induction ms arbitrary: s)
  case Nil
  then show ?case by simp
next
  case (Cons m ms)
  then show ?case by (cases "m s"; cases "fst (m s)") auto
qed

lemma loads_seqS_append:
  assumes "loads F (seqS ms) f" and "loads F (seqS ns) g"
  shows "loads F (seqS (ms @ ns)) (g \<circ> f)"
  unfolding loads_def
proof (intro allI impI)
  fix c s
  assume s: "no_errors s" "files s = F"
  then obtain s1 where "seqS ms (c, s) = (Ok (), (f c, s1))" "no_errors s1" "files s1 = F"
    using assms(1) unfolding loads_def by blast
  moreover then obtain s2 where "seqS ns (f c, s1) = (Ok (), (g (f c), s2))" "no_errors s2" "files s2 = F"
    using assms(2) unfolding loads_def by blast
  ultimately show "\<exists>s'. seqS (ms @ ns) (c, s) = (Ok (), ((g \<circ> f) c, s')) \<and> no_errors s' \<and> files s' = F"
    by (simp add: seqS_append)
qed

lemma loads_seqS_map:
  "(\<And>x. x \<in> set xs \<Longrightarrow> loads F (m x) (f x)) \<Longrightarrow> loads F (seqS (map m xs)) (fold f xs)"
proof (induction xs)
  case Nil
  then show ?case by (simp add: loads_def)
next
  case (Cons x xs)
  have "loads F (seqS (m x # map m xs)) (fold f xs \<circ> f x)"
    using Cons by (intro loads_seqS_Cons) simp_all
  then show ?case by (simp only: list.map fold_Cons)
qed

text \<open>The file a key is found in depends on the files only.\<close>

definition stored :: "string \<Rightarrow> (string \<times> string) list \<Rightarrow> string \<Rightarrow> string \<Rightarrow> bool" where
  "stored which F k v \<longleftrightarrow> (\<forall>s. no_errors s \<longrightarrow> files s = F \<longrightarrow> cfg_get which k s = Some v)"

lemma storedI: "no_errors s \<Longrightarrow> cfg_get which k s = Some v \<Longrightarrow> stored which (files s) k v"
proof -
  assume s: "no_errors s" "cfg_get which k s = Some v"
  show ?thesis
    unfolding stored_def
  proof (intro allI impI)
    fix t
    assume t: "no_errors t" "files t = files s"
    have "found which k t = found which k s"
      unfolding found_def lookup_file_def t(2) by (rule refl)
    then show "cfg_get which k t = Some v"
      using s t(1) by (simp only: cfg_get_found)
  qed
qed

lemma stored_read:
  assumes "stored which F k v" and "no_errors s" and "files s = F"
  shows "\<exists>s'. ReadConfigString k which s = ((0, Some v), s') \<and> no_errors s' \<and> files s' = F"
  using Read_no_errors [OF assms(2), of k which] assms
  by (auto simp: stored_def cfg_get_def split: option.splits)

lemma loads_string:
  assumes "stored which F k v"
  shows "loads F (load_string which upd k) (upd v)"
  using stored_read [OF assms] by (fastforce simp: loads_def load_string_def assign_def)

lemma loads_u8:
  assumes "stored which F k (to_hex v)"
  shows "loads F (load_u8 which upd k) (upd v)"
proof -
  have "(ucast (ucast v :: u64) :: u8) = v" by (rule bit_word_eqI) (auto simp: bit_simps dest: bit_imp_le_length)
  then show ?thesis
    using stored_read [OF assms] length_to_hex(1) [of v]
    by (fastforce simp: loads_def load_u8_def assign_def ReadConfigU8_def stoul_to_hex)
qed

lemma loads_u32:
  assumes "stored which F k (to_hex v)"
  shows "loads F (load_u32 which upd k) (upd v)"
proof -
  have "(ucast (ucast v :: u64) :: u32) = v" by (rule bit_word_eqI) (auto simp: bit_simps dest: bit_imp_le_length)
  then show ?thesis
    using stored_read [OF assms] length_to_hex(3) [of v]
    by (fastforce simp: loads_def load_u32_def assign_def ReadConfigU32_def stoul_to_hex)
qed

lemma loads_float:
  "stored which F k (to_hex v) \<Longrightarrow> loads F (load_float which upd k) (upd v)"
  using loads_u32 [of which F k v upd] by (simp add: load_float_def load_u32_def ReadConfigFloat_def)

subsection \<open>Fields filled element by element\<close>

lemma fold_field:
  assumes "\<And>x c. get (put x c) = x" and "\<And>x y c. put x (put y c) = put x c"
    and "\<And>c. put (get c) c = c"
  shows "fold (\<lambda>i c. put (h i (get c)) c) is d = put (fold h is (get d)) d"
  using assms by (induction "is" arbitrary: d) simp_all

lemma fold_list_update:
  "n \<le> length xs \<Longrightarrow> length l = length xs \<Longrightarrow>
    fold (\<lambda>i l. l[i := xs ! i]) [0..<n] l = take n xs @ drop n l"
proof (induction n)
  case 0
  then show ?case by simp
next
  case (Suc n)
  then have "drop n l = l ! n # drop (Suc n) l" by (simp add: Cons_nth_drop_Suc)
  with Suc show ?case by (simp add: list_update_append take_Suc_conv_app_nth)
qed

lemma fold_list_update_all:
  "length l = length xs \<Longrightarrow> length xs = n \<Longrightarrow> fold (\<lambda>i l. l[i := xs ! i]) [0..<n] l = xs"
  by (simp add: fold_list_update)

lemma fold_matrix_update:
  assumes "length l = 4" and "\<forall>r \<in> set l. length r = 4" and "length xs = 4" and "\<forall>r \<in> set xs. length r = 4"
  shows "fold (\<lambda>(i, g) l. l[i := (l ! i)[g := xs ! i ! g]]) (List.product [0..<4] [0..<4]) l = xs"
proof -
  have four: "length r = 4 \<longleftrightarrow> (\<exists>a b c d. r = [a, b, c, d])" for r :: "'x list"
    by (auto simp: length_Suc_conv eval_nat_numeral)
  show ?thesis using assms by (auto simp: four upt_rec)
qed

subsection \<open>Groups of keys\<close>

definition stored_all :: "string \<Rightarrow> (string \<times> string) list \<Rightarrow> (string \<times> string) list \<Rightarrow> bool" where
  "stored_all which F kvs \<longleftrightarrow> (\<forall>(k, v) \<in> set kvs. stored which F k v)"

lemma stored_all_simps [simp]:
  "stored_all which F []" 
  "stored_all which F ((k, v) # kvs) \<longleftrightarrow> stored which F k v \<and> stored_all which F kvs"
  "stored_all which F (kvs @ kvs') \<longleftrightarrow> stored_all which F kvs \<and> stored_all which F kvs'"
  "stored_all which F (map g xs) \<longleftrightarrow> (\<forall>x \<in> set xs. case g x of (k, v) \<Rightarrow> stored which F k v)"
  by (auto simp: stored_all_def)

text \<open>The loads that, on a configuration of the right shape, act as a given function.\<close>

definition loads_ok :: "(string \<times> string) list \<Rightarrow> load \<Rightarrow> (TConfig \<Rightarrow> TConfig) \<Rightarrow> bool" where
  "loads_ok F m f \<longleftrightarrow> (\<exists>g. loads F m g \<and> (\<forall>d. TConfig_ok d \<longrightarrow> g d = f d))"

lemma loads_ok_comp:
  assumes "loads_ok F m f" and "loads_ok F (seqS ms) g" and "\<And>d. TConfig_ok d \<Longrightarrow> TConfig_ok (f d)"
  shows "loads_ok F (seqS (m # ms)) (\<lambda>d. g (f d))"
proof -
  obtain f' g' where "loads F m f'" "loads F (seqS ms) g'"
    and "\<forall>d. TConfig_ok d \<longrightarrow> f' d = f d" "\<forall>d. TConfig_ok d \<longrightarrow> g' d = g d"
    using assms(1,2) unfolding loads_ok_def by blast
  then show ?thesis
    using loads_seqS_Cons [of F m f' ms g'] assms(3) unfolding loads_ok_def
    by (metis comp_apply)
qed

lemma loads_okD:
  assumes "loads_ok F m f" and "TConfig_ok d" and "no_errors s" and "files s = F"
  shows "\<exists>s'. m (d, s) = (Ok (), (f d, s'))"
proof -
  obtain g where "loads F m g" "g d = f d" using assms(1,2) unfolding loads_ok_def by blast
  then show ?thesis using assms(3,4) unfolding loads_def by metis
qed

lemma loads_ok_Nil: "loads_ok F (seqS []) (\<lambda>d. d)"
  unfolding loads_ok_def using loads_seqS_Nil by (metis id_apply)

lemma loads_ok_append:
  assumes "loads_ok F (seqS ms) f" and "loads_ok F (seqS ns) g"
    and "\<And>d. TConfig_ok d \<Longrightarrow> TConfig_ok (f d)"
  shows "loads_ok F (seqS (ms @ ns)) (\<lambda>d. g (f d))"
proof -
  obtain f' g' where "loads F (seqS ms) f'" "loads F (seqS ns) g'"
    and "\<forall>d. TConfig_ok d \<longrightarrow> f' d = f d" "\<forall>d. TConfig_ok d \<longrightarrow> g' d = g d"
    using assms(1,2) unfolding loads_ok_def by blast
  then show ?thesis
    using loads_seqS_append [of F ms f' ns g'] assms(3) unfolding loads_ok_def
    by (metis comp_apply)
qed

lemma loads_ok_one: "loads F m f \<Longrightarrow> loads_ok F m f"
  by (auto simp: loads_ok_def)

lemma loads_column:
  assumes "\<And>i upd f. i < n \<Longrightarrow> f = upd (xs ! i) \<Longrightarrow> loads F (ld upd (key i)) f" and "length xs = n"
    and "\<And>d. TConfig_ok d \<Longrightarrow> length (get d) = n"
    and "\<And>x c. get (put x c) = x" and "\<And>x y c. put x (put y c) = put x c" and "\<And>c. put (get c) c = c"
  shows "loads_ok F (seqS (map (\<lambda>i. ld (\<lambda>v c. put ((get c)[i := v]) c) (key i)) [0..<n])) (put xs)"
proof -
  let ?f = "\<lambda>i c. put ((get c)[i := xs ! i]) c"
  have "loads F (seqS (map (\<lambda>i. ld (\<lambda>v c. put ((get c)[i := v]) c) (key i)) [0..<n])) (fold ?f [0..<n])"
    by (rule loads_seqS_map, rule assms(1)) simp_all
  moreover have "fold ?f [0..<n] d = put xs d" if "TConfig_ok d" for d
    using fold_field [of get put "\<lambda>i l. l[i := xs ! i]" "[0..<n]" d] assms(2-) that
    by (simp add: fold_list_update_all)
  ultimately show ?thesis by (auto simp: loads_ok_def)
qed

lemma loads_matrix:
  assumes "\<And>i g upd f. i < 4 \<Longrightarrow> g < 4 \<Longrightarrow> f = upd (xs ! i ! g) \<Longrightarrow> loads F (ld upd (key i g)) f"
    and "length xs = 4" and "\<forall>r \<in> set xs. length r = 4"
    and "\<And>d. TConfig_ok d \<Longrightarrow> length (get d) = 4 \<and> (\<forall>r \<in> set (get d). length r = 4)"
    and "\<And>x c. get (put x c) = x" and "\<And>x y c. put x (put y c) = put x c" and "\<And>c. put (get c) c = c"
  shows "loads_ok F (seqS (map (\<lambda>(i, g). ld (\<lambda>v c. put ((get c)[i := (get c ! i)[g := v]]) c) (key i g))
    (List.product [0..<4] [0..<4]))) (put xs)"
proof -
  let ?h = "\<lambda>(i, g) l. l[i := (l ! i)[g := xs ! i ! g]]"
  let ?f = "\<lambda>p c. put (?h p (get c)) c"
  have "loads F (seqS (map (\<lambda>(i, g). ld (\<lambda>v c. put ((get c)[i := (get c ! i)[g := v]]) c) (key i g))
      (List.product [0..<4] [0..<4]))) (fold ?f (List.product [0..<4] [0..<4]))"
    by (rule loads_seqS_map, clarsimp, rule assms(1)) simp_all
  moreover have "fold ?f (List.product [0..<4] [0..<4]) d = put xs d" if "TConfig_ok d" for d
    using fold_field [of get put ?h "List.product [0..<4] [0..<4]" d] assms(2-) that
    by (simp add: fold_matrix_update)
  ultimately show ?thesis by (auto simp: loads_ok_def)
qed

text \<open>The columns of the structure, each with the key of its elements.\<close>

lemma loads_f32_column:
  assumes "\<forall>i < n. stored which F (key i) (to_hex (xs ! i))" and "length xs = n"
    and "\<And>d. TConfig_ok d \<Longrightarrow> length (get d) = n"
    and "\<And>x c. get (put x c) = x" and "\<And>x y c. put x (put y c) = put x c" and "\<And>c. put (get c) c = c"
  shows "loads_ok F (seqS (map (\<lambda>i. load_float which (\<lambda>v c. put ((get c)[i := v]) c) (key i)) [0..<n])) (put xs)"
    and "loads_ok F (seqS (map (\<lambda>i. load_u32 which (\<lambda>v c. put ((get c)[i := v]) c) (key i)) [0..<n])) (put xs)"
  by (rule loads_column [where ld = "load_float which"]; (use assms loads_float in blast))
     (rule loads_column [where ld = "load_u32 which"]; (use assms loads_u32 in blast))

lemma TConfig_ok_update [simp]:
  "TConfig_ok d \<Longrightarrow> length xs = 4 \<Longrightarrow> TConfig_ok (d\<lparr>dacScaleCoefficients := xs\<rparr>)"
  "TConfig_ok d \<Longrightarrow> length xs = 4 \<Longrightarrow> TConfig_ok (d\<lparr>dacOffsetCoefficients := xs\<rparr>)"
  "TConfig_ok d \<Longrightarrow> length xs = 4 \<Longrightarrow> TConfig_ok (d\<lparr>dacRanges := xs\<rparr>)"
  "TConfig_ok d \<Longrightarrow> length xs = 8 \<Longrightarrow> TConfig_ok (d\<lparr>adcScaleCoefficients := xs\<rparr>)"
  "TConfig_ok d \<Longrightarrow> length xs = 8 \<Longrightarrow> TConfig_ok (d\<lparr>adcOffsetCoefficients := xs\<rparr>)"
  "TConfig_ok d \<Longrightarrow> length xs = 16 \<Longrightarrow> TConfig_ok (d\<lparr>adcRangeCodes := xs\<rparr>)"
  "TConfig_ok d \<Longrightarrow> length ss = 4 \<Longrightarrow> TConfig_ok (d\<lparr>submuxBarcodes := ss\<rparr>)"
  "TConfig_ok d \<Longrightarrow> length ss = 4 \<Longrightarrow> TConfig_ok (d\<lparr>submuxTypes := ss\<rparr>)"
  "TConfig_ok d \<Longrightarrow> length m = 4 \<Longrightarrow> \<forall>r \<in> set m. length r = 4 \<Longrightarrow> TConfig_ok (d\<lparr>submuxScaleFactors := m\<rparr>)"
  "TConfig_ok d \<Longrightarrow> length m = 4 \<Longrightarrow> \<forall>r \<in> set m. length r = 4 \<Longrightarrow> TConfig_ok (d\<lparr>submuxOffsets := m\<rparr>)"
  "TConfig_ok (d\<lparr>NUM_DACs := b\<rparr>) = TConfig_ok d" "TConfig_ok (d\<lparr>adcDifferential := b\<rparr>) = TConfig_ok d"
  "TConfig_ok (d\<lparr>numberOfSubmuxes := b\<rparr>) = TConfig_ok d" "TConfig_ok (d\<lparr>adcChannels := b\<rparr>) = TConfig_ok d"
  "TConfig_ok (d\<lparr>Model := t\<rparr>) = TConfig_ok d" "TConfig_ok (d\<lparr>Description := t\<rparr>) = TConfig_ok d"
  "TConfig_ok (d\<lparr>SerialNumber := t\<rparr>) = TConfig_ok d" "TConfig_ok (d\<lparr>Hostname := t\<rparr>) = TConfig_ok d"
  by (simp_all add: TConfig_ok_def)

lemma TConfig_ok_lengths:
  assumes "TConfig_ok c"
  shows "length (dacScaleCoefficients c) = 4" "length (dacOffsetCoefficients c) = 4"
    "length (dacRanges c) = 4" "length (adcScaleCoefficients c) = 8" "length (adcOffsetCoefficients c) = 8"
    "length (adcRangeCodes c) = 16" "length (submuxBarcodes c) = 4" "length (submuxTypes c) = 4"
    "length (submuxScaleFactors c) = 4 \<and> (\<forall>r \<in> set (submuxScaleFactors c). length r = 4)"
    "length (submuxOffsets c) = 4 \<and> (\<forall>r \<in> set (submuxOffsets c). length r = 4)"
  using assms by (simp_all add: TConfig_ok_def)

lemma loads_DacCal:
  assumes "stored_all which F (dac_cal_keys c)" and "TConfig_ok c"
  shows "loads_ok F (LoadDacCalConfig which) (\<lambda>d. d\<lparr>dacScaleCoefficients := dacScaleCoefficients c, dacOffsetCoefficients := dacOffsetCoefficients c\<rparr>)"
proof -
  note len = TConfig_ok_lengths [OF assms(2)]
  have col0: "loads_ok F (seqS (map (\<lambda>i. load_float which (\<lambda>v c. c\<lparr>dacScaleCoefficients := (dacScaleCoefficients c)[i := v]\<rparr>)
      (''DAC_ScaleCh'' @ to_string i)) [0..<4])) (\<lambda>d. d\<lparr>dacScaleCoefficients := dacScaleCoefficients c\<rparr>)"
    by (rule loads_f32_column(1) [where put = "\<lambda>x d. d\<lparr>dacScaleCoefficients := x\<rparr>"])
      (use assms(1) len in \<open>simp_all add: dac_cal_keys_def TConfig_ok_def\<close>)
  have col1: "loads_ok F (seqS (map (\<lambda>i. load_float which (\<lambda>v c. c\<lparr>dacOffsetCoefficients := (dacOffsetCoefficients c)[i := v]\<rparr>)
      (''DAC_OffsetCh'' @ to_string i)) [0..<4])) (\<lambda>d. d\<lparr>dacOffsetCoefficients := dacOffsetCoefficients c\<rparr>)"
    by (rule loads_f32_column(1) [where put = "\<lambda>x d. d\<lparr>dacOffsetCoefficients := x\<rparr>"])
      (use assms(1) len in \<open>simp_all add: dac_cal_keys_def TConfig_ok_def\<close>)
  show ?thesis
    unfolding LoadDacCalConfig_def using loads_ok_append [OF col0 col1] len by simp
qed

lemma loads_AdcCal:
  assumes "stored_all which F (adc_cal_keys c)" and "TConfig_ok c"
  shows "loads_ok F (LoadAdcCalConfig which) (\<lambda>d. d\<lparr>adcScaleCoefficients := adcScaleCoefficients c, adcOffsetCoefficients := adcOffsetCoefficients c\<rparr>)"
proof -
  note len = TConfig_ok_lengths [OF assms(2)]
  have col0: "loads_ok F (seqS (map (\<lambda>i. load_float which (\<lambda>v c. c\<lparr>adcScaleCoefficients := (adcScaleCoefficients c)[i := v]\<rparr>)
      (''ADC_ScaleRange'' @ to_string i)) [0..<8])) (\<lambda>d. d\<lparr>adcScaleCoefficients := adcScaleCoefficients c\<rparr>)"
    by (rule loads_f32_column(1) [where put = "\<lambda>x d. d\<lparr>adcScaleCoefficients := x\<rparr>"])
      (use assms(1) len in \<open>simp_all add: adc_cal_keys_def TConfig_ok_def\<close>)
  have col1: "loads_ok F (seqS (map (\<lambda>i. load_float which (\<lambda>v c. c\<lparr>adcOffsetCoefficients := (adcOffsetCoefficients c)[i := v]\<rparr>)
      (''ADC_OffsetRange'' @ to_string i)) [0..<8])) (\<lambda>d. d\<lparr>adcOffsetCoefficients := adcOffsetCoefficients c\<rparr>)"
    by (rule loads_f32_column(1) [where put = "\<lambda>x d. d\<lparr>adcOffsetCoefficients := x\<rparr>"])
      (use assms(1) len in \<open>simp_all add: adc_cal_keys_def TConfig_ok_def\<close>)
  show ?thesis
    unfolding LoadAdcCalConfig_def using loads_ok_append [OF col0 col1] len by simp
qed

lemma loads_Dac:
  assumes "stored_all which F (dac_keys c)" and "TConfig_ok c"
  shows "loads_ok F (LoadDacConfig which) (\<lambda>d. d\<lparr>NUM_DACs := NUM_DACs c, dacRanges := dacRanges c\<rparr>)"
proof -
  note len = TConfig_ok_lengths [OF assms(2)]
  have col0: "loads_ok F (seqS (map (\<lambda>i. load_u32 which (\<lambda>v c. c\<lparr>dacRanges := (dacRanges c)[i := v]\<rparr>)
      (''DAC_RangeCh'' @ to_string i)) [0..<4])) (\<lambda>d. d\<lparr>dacRanges := dacRanges c\<rparr>)"
    by (rule loads_f32_column(2) [where put = "\<lambda>x d. d\<lparr>dacRanges := x\<rparr>"])
      (use assms(1) len in \<open>simp_all add: dac_keys_def TConfig_ok_def\<close>)
  have hd: "loads_ok F (load_u8 which (\<lambda>v c. c\<lparr>NUM_DACs := v\<rparr>) ''BRD_NUM_DACs'') (\<lambda>d. d\<lparr>NUM_DACs := NUM_DACs c\<rparr>)"
    by (rule loads_ok_one, rule loads_u8) (use assms(1) in \<open>simp add: dac_keys_def\<close>)
  show ?thesis
    unfolding LoadDacConfig_def using loads_ok_comp [OF hd col0] by simp
qed

lemma loads_Adc:
  assumes "stored_all which F (adc_keys c)" and "TConfig_ok c"
  shows "loads_ok F (LoadAdcConfig which) (\<lambda>d. d\<lparr>adcDifferential := adcDifferential c, adcRangeCodes := adcRangeCodes c\<rparr>)"
proof -
  note len = TConfig_ok_lengths [OF assms(2)]
  have col0: "loads_ok F (seqS (map (\<lambda>i. load_u32 which (\<lambda>v c. c\<lparr>adcRangeCodes := (adcRangeCodes c)[i := v]\<rparr>)
      (''ADC_RangeCodeCh'' @ dec2 i)) [0..<16])) (\<lambda>d. d\<lparr>adcRangeCodes := adcRangeCodes c\<rparr>)"
    by (rule loads_f32_column(2) [where put = "\<lambda>x d. d\<lparr>adcRangeCodes := x\<rparr>"])
      (use assms(1) len in \<open>simp_all add: adc_keys_def TConfig_ok_def\<close>)
  have hd: "loads_ok F (load_u8 which (\<lambda>v c. c\<lparr>adcDifferential := v\<rparr>) ''ADC_Differential'') (\<lambda>d. d\<lparr>adcDifferential := adcDifferential c\<rparr>)"
    by (rule loads_ok_one, rule loads_u8) (use assms(1) in \<open>simp add: adc_keys_def\<close>)
  show ?thesis
    unfolding LoadAdcConfig_def using loads_ok_comp [OF hd col0] by simp
qed

lemma loads_Submux:
  assumes "stored_all which F (submux_keys c)" and "TConfig_ok c"
  shows "loads_ok F (LoadSubmuxConfig which) (\<lambda>d. d\<lparr>numberOfSubmuxes := numberOfSubmuxes c,
    submuxBarcodes := submuxBarcodes c, submuxTypes := submuxTypes c,
    submuxScaleFactors := submuxScaleFactors c, submuxOffsets := submuxOffsets c\<rparr>)"
proof -
  note len = TConfig_ok_lengths [OF assms(2)]
  have col0: "loads_ok F (seqS (map (\<lambda>i. load_string which (\<lambda>v c. c\<lparr>submuxBarcodes := (submuxBarcodes c)[i := v]\<rparr>)
      (''BRD_SubmuxBarcode'' @ to_string i)) [0..<4])) (\<lambda>d. d\<lparr>submuxBarcodes := submuxBarcodes c\<rparr>)"
  proof (rule loads_column [where ld = "load_string which" and put = "\<lambda>x d. d\<lparr>submuxBarcodes := x\<rparr>"])
    fix i :: nat and upd :: "string \<Rightarrow> TConfig \<Rightarrow> TConfig" and f
    assume i: "i < 4" "f = upd (submuxBarcodes c ! i)"
    have "stored which F (''BRD_SubmuxBarcode'' @ to_string i) (submuxBarcodes c ! i)"
      using assms(1) i(1) by (simp add: submux_keys_def)
    then show "loads F (load_string which upd (''BRD_SubmuxBarcode'' @ to_string i)) f"
      unfolding i(2) by (rule loads_string)
  qed (use len in \<open>simp_all add: TConfig_ok_def\<close>)
  have col1: "loads_ok F (seqS (map (\<lambda>i. load_string which (\<lambda>v c. c\<lparr>submuxTypes := (submuxTypes c)[i := v]\<rparr>)
      (''BRD_SubmuxType'' @ to_string i)) [0..<4])) (\<lambda>d. d\<lparr>submuxTypes := submuxTypes c\<rparr>)"
  proof (rule loads_column [where ld = "load_string which" and put = "\<lambda>x d. d\<lparr>submuxTypes := x\<rparr>"])
    fix i :: nat and upd :: "string \<Rightarrow> TConfig \<Rightarrow> TConfig" and f
    assume i: "i < 4" "f = upd (submuxTypes c ! i)"
    have "stored which F (''BRD_SubmuxType'' @ to_string i) (submuxTypes c ! i)"
      using assms(1) i(1) by (simp add: submux_keys_def)
    then show "loads F (load_string which upd (''BRD_SubmuxType'' @ to_string i)) f"
      unfolding i(2) by (rule loads_string)
  qed (use len in \<open>simp_all add: TConfig_ok_def\<close>)
  have col2: "loads_ok F (seqS (map (\<lambda>(i, g). load_float which (\<lambda>v c. c\<lparr>submuxScaleFactors :=
      (submuxScaleFactors c)[i := (submuxScaleFactors c ! i)[g := v]]\<rparr>) (submux_key ''Range'' i g)) (List.product [0..<4] [0..<4])))
      (\<lambda>d. d\<lparr>submuxScaleFactors := submuxScaleFactors c\<rparr>)"
  proof (rule loads_matrix [where ld = "load_float which" and put = "\<lambda>x d. d\<lparr>submuxScaleFactors := x\<rparr>"])
    fix i g :: nat and upd :: "f32 \<Rightarrow> TConfig \<Rightarrow> TConfig" and f
    assume i: "i < 4" "g < 4" "f = upd (submuxScaleFactors c ! i ! g)"
    have "stored which F (submux_key ''Range'' i g) (to_hex (submuxScaleFactors c ! i ! g))"
      using assms(1) i(1,2) by (simp add: submux_keys_def)
    then show "loads F (load_float which upd (submux_key ''Range'' i g)) f"
      unfolding i(3) by (rule loads_float)
  qed (use len in \<open>simp_all add: TConfig_ok_def\<close>)
  have col3: "loads_ok F (seqS (map (\<lambda>(i, g). load_float which (\<lambda>v c. c\<lparr>submuxOffsets :=
      (submuxOffsets c)[i := (submuxOffsets c ! i)[g := v]]\<rparr>) (submux_key ''Offset'' i g)) (List.product [0..<4] [0..<4])))
      (\<lambda>d. d\<lparr>submuxOffsets := submuxOffsets c\<rparr>)"
  proof (rule loads_matrix [where ld = "load_float which" and put = "\<lambda>x d. d\<lparr>submuxOffsets := x\<rparr>"])
    fix i g :: nat and upd :: "f32 \<Rightarrow> TConfig \<Rightarrow> TConfig" and f
    assume i: "i < 4" "g < 4" "f = upd (submuxOffsets c ! i ! g)"
    have "stored which F (submux_key ''Offset'' i g) (to_hex (submuxOffsets c ! i ! g))"
      using assms(1) i(1,2) by (simp add: submux_keys_def)
    then show "loads F (load_float which upd (submux_key ''Offset'' i g)) f"
      unfolding i(3) by (rule loads_float)
  qed (use len in \<open>simp_all add: TConfig_ok_def\<close>)
  have hd: "loads_ok F (load_u8 which (\<lambda>v c. c\<lparr>numberOfSubmuxes := v\<rparr>) ''BRD_NumberOfSubmuxes'')
      (\<lambda>d. d\<lparr>numberOfSubmuxes := numberOfSubmuxes c\<rparr>)"
    by (rule loads_ok_one, rule loads_u8) (use assms(1) in \<open>simp add: submux_keys_def\<close>)
  show ?thesis
    unfolding LoadSubmuxConfig_def
    using loads_ok_comp [OF hd loads_ok_append [OF col0 loads_ok_append [OF col1 loads_ok_append [OF col2 col3]]]]
      len by simp
qed

lemma loads_Brd:
  assumes "stored_all which F (brd_keys c)"
  shows "loads_ok F (LoadBrdConfig which) (\<lambda>d. d\<lparr>Model := Model c, adcChannels := adcChannels c,
    Description := Description c, SerialNumber := SerialNumber c\<rparr>)"
proof -
  have keys: "stored which F ''BRD_Model'' (Model c)" "stored which F ''BRD_Description'' (Description c)"
      "stored which F ''BRD_NumberOfAdcChannels'' (to_hex (adcChannels c))"
      "stored which F ''BRD_SerialNumber'' (SerialNumber c)"
    using assms by (simp_all add: brd_keys_def)
  show ?thesis
    unfolding LoadBrdConfig_def
    using loads_ok_comp [OF loads_ok_one [OF loads_string [OF keys(1), of "\<lambda>v c. c\<lparr>Model := v\<rparr>"]]
      loads_ok_comp [OF loads_ok_one [OF loads_u8 [OF keys(3), of "\<lambda>v c. c\<lparr>adcChannels := v\<rparr>"]]
      loads_ok_comp [OF loads_ok_one [OF loads_string [OF keys(2), of "\<lambda>v c. c\<lparr>Description := v\<rparr>"]]
      loads_ok_comp [OF loads_ok_one [OF loads_string [OF keys(4), of "\<lambda>v c. c\<lparr>SerialNumber := v\<rparr>"]]
      loads_ok_Nil]]]] by simp
qed

lemma loads_hostname: "\<exists>f. loads F load_hostname f \<and> (\<forall>d. \<exists>n. f d = d\<lparr>Hostname := n\<rparr>)"
proof -
  let ?f = "\<lambda>c. case map_of F ''/etc/hostname'' of None \<Rightarrow> c
     | Some t \<Rightarrow> c\<lparr>Hostname := (case getlines (CHR 0x0A) t of [] \<Rightarrow> [] | l # _ \<Rightarrow> l)\<rparr>"
  have "loads F load_hostname ?f"
    by (auto simp: loads_def load_hostname_def tick_no_errors lookup_file_def split: option.splits)
  moreover have "\<exists>n. ?f d = d\<lparr>Hostname := n\<rparr>" for d
  proof (cases "map_of F ''/etc/hostname''")
    case None
    then have "?f d = d\<lparr>Hostname := Hostname d\<rparr>" by simp
    then show ?thesis by blast
  next
    case (Some t)
    then show ?thesis by auto
  qed
  ultimately show ?thesis by blast
qed

subsection \<open>The whole structure\<close>

definition all_keys :: "TConfig \<Rightarrow> (string \<times> string) list" where
  "all_keys c = brd_keys c @ dac_cal_keys c @ adc_cal_keys c @ dac_keys c @ adc_keys c @ submux_keys c"

lemma all_keys_distinct: "distinct (map fst (all_keys c))"
  unfolding all_keys_def brd_keys_def dac_cal_keys_def adc_cal_keys_def dac_keys_def adc_keys_def
    submux_keys_def submux_key_def dec2_def to_string_def
  by code_simp

lemma storable_to_hex: "storable (to_hex (a :: u8))" "storable (to_hex (b :: u32))"
proof -
  have digits: "CHR 0x00 \<notin> set (to_hex i) \<and> last (to_hex i) \<notin> {CHR 0x0A, CHR 0x0D}" for i :: "'x::len word"
  proof -
    have bad: "\<not> digit_val CHR 0x00 < 16" "\<not> digit_val CHR 0x0A < 16" "\<not> digit_val CHR 0x0D < 16"
      by (simp_all add: digit_val_def isdigit_def islower_def isupper_def)
    have "\<forall>x \<in> set (to_hex i). digit_val x < 16" using to_hex_digits [of i] by (simp add: list_all_iff)
    moreover have "last (to_hex i) \<in> set (to_hex i)" by simp
    ultimately show ?thesis using bad by (metis insertE singletonD)
  qed
  show "storable (to_hex a)" "storable (to_hex b)"
    using digits [of a] digits [of b] by (auto simp: storable_def length_to_hex)
qed

definition texts_storable :: "TConfig \<Rightarrow> bool" where
  "texts_storable c \<longleftrightarrow> storable (Model c) \<and> storable (Description c) \<and> storable (SerialNumber c) \<and>
     (\<forall>i < 4. storable (submuxBarcodes c ! i) \<and> storable (submuxTypes c ! i))"

lemma all_keys_storable:
  "texts_storable c \<Longrightarrow> (k, v) \<in> set (all_keys c) \<Longrightarrow> storable v"
  by (auto simp: texts_storable_def all_keys_def brd_keys_def dac_cal_keys_def adc_cal_keys_def
      dac_keys_def adc_keys_def submux_keys_def storable_to_hex)

lemma save_all_put_all: "save_all which kvs s = cfg_store.put_all (cfg_put which) kvs s"
  if "which \<in> trees"
  unfolding save_all_def cfg_store.put_all_def [OF cfg_store_tree [OF that]] cfg_put_def by (rule refl)

lemma SaveConfig_save_all: "SaveConfig which c s = (True, save_all which (all_keys c) s)"
  by (simp add: SaveConfig_def SaveBrdConfig_def SaveCalConfig_def SaveDacCalConfig_def
      SaveAdcCalConfig_def SaveDacConfig_def SaveAdcConfig_def SaveSubmuxConfig_def all_keys_def
      save_all_def)

lemma stored_after_save:
  assumes "which \<in> trees" and "no_errors s" and "texts_storable c"
  shows "no_errors (save_all which (all_keys c) s)"
    and "stored_all which (files (save_all which (all_keys c) s)) (all_keys c)"
proof -
  note tree = cfg_store_tree [OF assms(1)]
  show n: "no_errors (save_all which (all_keys c) s)"
    unfolding save_all_put_all [OF assms(1)] by (rule cfg_store.ok_put_all [OF tree assms(2)])
  show "stored_all which (files (save_all which (all_keys c) s)) (all_keys c)"
    unfolding stored_all_def
  proof clarify
    fix k v
    assume kv: "(k, v) \<in> set (all_keys c)"
    have "cfg_get which k (save_all which (all_keys c) s) = Some v"
      unfolding save_all_put_all [OF assms(1)]
      by (rule cfg_store.get_put_all [OF tree assms(2) all_keys_distinct kv all_keys_storable [OF assms(3) kv]])
    then show "stored which (files (save_all which (all_keys c) s)) k v"
      by (rule storedI [OF n])
  qed
qed

lemma loads_Cal:
  assumes "stored_all which F (dac_cal_keys c)" and "stored_all which F (adc_cal_keys c)" and "TConfig_ok c"
  shows "loads_ok F (LoadCalConfig which) (\<lambda>d. d\<lparr>dacScaleCoefficients := dacScaleCoefficients c,
    dacOffsetCoefficients := dacOffsetCoefficients c, adcScaleCoefficients := adcScaleCoefficients c,
    adcOffsetCoefficients := adcOffsetCoefficients c\<rparr>)"
  unfolding LoadCalConfig_def
  using loads_ok_comp [OF loads_DacCal [OF assms(1,3)] loads_ok_comp [OF loads_AdcCal [OF assms(2,3)] loads_ok_Nil]]
    TConfig_ok_lengths [OF assms(3)] by simp

text \<open>
  C12: A saved configuration is the configuration loaded back. With no failing system call, for each
  of the three trees, whatever the files held before: after \<open>SaveConfig\<close>, \<open>LoadConfig\<close> into any
  configuration \<open>d\<close> returns without an exception and yields the saved one, every number bit for bit,
  but for the two fields read off the hardware and the host name, which are not saved. The texts
  saved must be ones the reader can give back (at most 1023 bytes, no null, no final line end).
\<close>

theorem config_save_load_roundtrip:
  assumes "which \<in> trees" and "no_errors s" and "TConfig_ok c" and "TConfig_ok d" and "texts_storable c"
  shows "\<exists>n s'. LoadConfig which (d, snd (SaveConfig which c s)) =
    (Ok (), (c\<lparr>Hostname := n, FpgaVersionCode := FpgaVersionCode d, features := features d\<rparr>, s'))"
proof -
  let ?s = "save_all which (all_keys c) s"
  let ?g = "\<lambda>d. d\<lparr>Model := Model c, adcChannels := adcChannels c,
      Description := Description c, SerialNumber := SerialNumber c,
      dacScaleCoefficients := dacScaleCoefficients c, dacOffsetCoefficients := dacOffsetCoefficients c,
      adcScaleCoefficients := adcScaleCoefficients c, adcOffsetCoefficients := adcOffsetCoefficients c,
      NUM_DACs := NUM_DACs c, dacRanges := dacRanges c,
      adcDifferential := adcDifferential c, adcRangeCodes := adcRangeCodes c,
      numberOfSubmuxes := numberOfSubmuxes c, submuxBarcodes := submuxBarcodes c,
      submuxTypes := submuxTypes c, submuxScaleFactors := submuxScaleFactors c,
      submuxOffsets := submuxOffsets c\<rparr>"
  note keys = stored_after_save(2) [OF assms(1,2,5), unfolded all_keys_def stored_all_simps,
      folded all_keys_def]
  note len = TConfig_ok_lengths [OF assms(3)]
  obtain f where f: "loads (files ?s) load_hostname f" "\<forall>d. \<exists>n. f d = d\<lparr>Hostname := n\<rparr>"
    using loads_hostname by blast
  have f_ok: "TConfig_ok (f d)" if "TConfig_ok d" for d
  proof -
    obtain n where "f d = d\<lparr>Hostname := n\<rparr>" using f(2) by blast
    with that show ?thesis by simp
  qed
  have brd: "loads_ok (files ?s) (LoadBrdConfig which) (\<lambda>d. d\<lparr>Model := Model c, adcChannels := adcChannels c,
    Description := Description c, SerialNumber := SerialNumber c\<rparr>)"
    by (rule loads_Brd) (use keys in simp)
  have cal: "loads_ok (files ?s) (LoadCalConfig which) (\<lambda>d. d\<lparr>dacScaleCoefficients := dacScaleCoefficients c,
    dacOffsetCoefficients := dacOffsetCoefficients c, adcScaleCoefficients := adcScaleCoefficients c,
    adcOffsetCoefficients := adcOffsetCoefficients c\<rparr>)"
    by (rule loads_Cal) (use keys assms(3) in simp_all)
  note dac = loads_Dac [OF _ assms(3), of which "files ?s"]
  note adc = loads_Adc [OF _ assms(3), of which "files ?s"]
  note sub = loads_Submux [OF _ assms(3), of which "files ?s"]
  have "loads_ok (files ?s) (LoadConfig which) (\<lambda>d. ?g (f d))"
    unfolding LoadConfig_def
    using loads_ok_comp [OF loads_ok_one [OF f(1)] loads_ok_comp [OF brd loads_ok_comp [OF cal
      loads_ok_comp [OF dac loads_ok_comp [OF adc loads_ok_comp [OF sub loads_ok_Nil]]]]]]
      keys len f_ok by simp
  then obtain s' where "LoadConfig which (d, ?s) = (Ok (), (?g (f d), s'))"
    using loads_okD [OF _ assms(4) stored_after_save(1) [OF assms(1,2,5)] refl] by blast
  moreover obtain n where "f d = d\<lparr>Hostname := n\<rparr>" using f(2) by blast
  moreover have "?g (d\<lparr>Hostname := n\<rparr>) =
      c\<lparr>Hostname := n, FpgaVersionCode := FpgaVersionCode d, features := features d\<rparr>"
    by (rule TConfig.equality) simp_all
  ultimately show ?thesis unfolding SaveConfig_save_all by (metis snd_conv)
qed

lemma blank_config_ok: "TConfig_ok blank_config" "texts_storable blank_config"
  by (simp_all add: TConfig_ok_def texts_storable_def storable_def blank_config_def InitConfig_def)

theorem config_save_load_roundtrip_witness:
  "\<exists>n s'. LoadConfig CONFIG_CURRENT (blank_config, snd (SaveConfig CONFIG_CURRENT blank_config empty_fs)) =
     (Ok (), (blank_config\<lparr>Hostname := n\<rparr>, s'))"
  using config_save_load_roundtrip [of CONFIG_CURRENT empty_fs blank_config blank_config] blank_config_ok
  by (simp add: trees_def no_errors_def empty_fs_def)

text \<open>
  The key under which the number of converters is seeded is not the key it is loaded from.
  Whatever calls fail, seeding the factory tree on first boot leaves every file named after
  \<open>BRD_NUM_DACs\<close>, the key \<open>LoadDacConfig\<close> reads and \<open>SaveDacConfig\<close> writes, as it was.
\<close>

lemma seeding_misses_num_dacs:
  assumes "w \<in> trees"
  shows "(''DAC_NumDACs'', to_hex (NUM_DACs cfg)) \<in> set (seed_keys cfg) \<and>
    (''BRD_NUM_DACs'', to_hex (NUM_DACs cfg)) \<in> set (dac_keys cfg) \<and>
    lookup_file (SeedFactoryFromStruct cfg s) (FilePathFor w ''BRD_NUM_DACs'') =
      lookup_file s (FilePathFor w ''BRD_NUM_DACs'')"
proof -
  have step: "lookup_file (snd (WriteIfMissing CONFIG_FACTORY k v t)) (FilePathFor w q) =
      lookup_file t (FilePathFor w q)" if "k \<noteq> q" for k v t q
  proof -
    obtain b t1 where x: "sys_exists (FilePathFor CONFIG_FACTORY k) t = (b, t1)" by fastforce
    obtain r t2 where w2: "AtomicWriteTextFile (FilePathFor CONFIG_FACTORY k) v t1 = (r, t2)" by fastforce
    have "FilePathFor w q \<noteq> FilePathFor CONFIG_FACTORY k"
      using assms that FilePathFor_tree [of w CONFIG_FACTORY q k] by (simp add: trees_def)
    then show ?thesis
      using atomic_write_old_or_new_core [OF w2] FilePathFor_not_tmp [of w q CONFIG_FACTORY k]
        sys_frame(1) [of "FilePathFor CONFIG_FACTORY k" t "FilePathFor w q"]
      by (simp add: WriteIfMissing_def x w2)
  qed
  have "lookup_file (fold (\<lambda>(key, v) s. snd (WriteIfMissing CONFIG_FACTORY key v s)) kvs s) (FilePathFor w q) =
      lookup_file s (FilePathFor w q)" if "q \<notin> fst ` set kvs" for kvs q
    using that by (induction kvs arbitrary: s) (auto simp: step)
  moreover have "''BRD_NUM_DACs'' \<notin> fst ` set (seed_keys cfg)"
    by (auto simp: seed_keys_def submux_key_def)
  ultimately show ?thesis
    by (simp add: SeedFactoryFromStruct_def) (simp add: seed_keys_def dac_keys_def)
qed

lemma seeding_misses_num_dacs_example:
  "lookup_file (SeedFactoryFromStruct blank_config empty_fs) (FilePathFor CONFIG_FACTORY ''BRD_NUM_DACs'') = None"
  using seeding_misses_num_dacs [of CONFIG_FACTORY blank_config empty_fs]
  by (simp add: trees_def empty_fs_def lookup_file_def)

end
