(* ===== verification/DioItems.thy ===== *)
theory DioItems
  imports Registers
begin

text \<open>
  The digital input/output data items (\<^verbatim>\<open>DataItems/DIO_.h\<close>, \<^verbatim>\<open>DataItems/DIO_.cpp\<close>) and the part of
  the template \<open>TDataItem\<close> (\<^verbatim>\<open>DataItems/TDataItem.h\<close>) every data item class inherits. Each class
  gives three functions: the constructor from the bytes of a message, \<open>Go\<close>, which acts on the
  device, and \<open>calcPayload\<close>, which serialises the item as a request or as a reply.
\<close>

subsection \<open>The parameters of a data item\<close>

text \<open>
  The constructor of \<open>TDataItem<ParamStruct>\<close> copies the data over the parameter structure when
  there are at least as many bytes, and leaves the structure as the allocation found it when
  there are fewer: \<open>g\<close> stands for the bytes that were there. The structures are packed.
\<close>

type_synonym storage = "nat \<Rightarrow> u8"

definition TDataItem_params :: "storage \<Rightarrow> nat \<Rightarrow> TBytes \<Rightarrow> TBytes" where
  "TDataItem_params g n bytes = (if n \<le> length bytes then take n bytes else map g [0..<n])"

lemma length_TDataItem_params [simp]: "length (TDataItem_params g n bytes) = n"
  by (simp add: TDataItem_params_def)

lemma TDataItem_params_nth:
  "n \<le> length bytes \<Longrightarrow> i < n \<Longrightarrow> TDataItem_params g n bytes ! i = bytes ! i"
  by (simp add: TDataItem_params_def)

text \<open>\<open>data[0] | data[1] << 8\<close>, in \<open>int\<close> and cut to sixteen bits.\<close>

definition u16_of :: "u8 \<Rightarrow> u8 \<Rightarrow> u16" where
  "u16_of lo hi = ucast lo OR push_bit 8 (ucast hi)"

definition u16_bytes :: "u16 \<Rightarrow> TBytes" where
  "u16_bytes v = [ucast (v AND 0xFF), ucast (drop_bit 8 v AND 0xFF)]"

lemma u16_of_u16_bytes [simp]: "u16_of (ucast v) (ucast (drop_bit 8 v)) = (v :: u16)"
  by (rule bit_word_eqI) (auto simp: u16_of_def bit_simps)

lemma u16_bytes_u16_of [simp]:
  "ucast (u16_of lo hi) = lo" "ucast (drop_bit 8 (u16_of lo hi)) = hi"
  by (rule bit_word_eqI, auto simp: u16_of_def bit_simps dest: bit_imp_le_length)+

subsection \<open>Parameter structures\<close>

record DIO_ConfigureBitParams =
  cb_bitNumber :: u8
  cb_direction :: u8

record DIO_InputBitParams =
  ib_bitNumber :: u8
  ib_bitValue :: u8

record DIO_OutputBitParams =
  ob_bitNumber :: u8
  ob_value :: u8

text \<open>\<open>DIO_ClearBitParams\<close>, \<open>DIO_SetBitParams\<close> and \<open>DIO_ToggleBitParams\<close> are one structure.\<close>

record DIO_BitParams =
  bit_bitNumber :: u8

text \<open>\<open>TDIO_ConfigureParams\<close>, \<open>TDIO_InputParams\<close> and \<open>TDIO_OutputParams\<close> are one structure.\<close>

record TDIO_WordParams =
  dio_value :: u16

subsection \<open>All sixteen lines\<close>

definition TDIO_Word_params :: "storage \<Rightarrow> TBytes \<Rightarrow> TDIO_WordParams" where
  "TDIO_Word_params g data =
     (let p = TDataItem_params g 2 data in \<lparr>dio_value = u16_of (p ! 0) (p ! 1)\<rparr>)"

definition TDIO_Configure_new :: "storage \<Rightarrow> TBytes \<Rightarrow> TDIO_WordParams" where
  "TDIO_Configure_new g data =
     (let p = TDIO_Word_params g data
      in if 2 \<le> length data then p\<lparr>dio_value := u16_of (data ! 0) (data ! 1)\<rparr> else p)"

definition TDIO_Configure_Go ::
  "'h apci_lib \<Rightarrow> TDIO_WordParams \<Rightarrow> 'h \<Rightarrow> TDIO_WordParams res \<times> 'h" where
  "TDIO_Configure_Go L p h =
     (let (st, h1) = out_reg L ofsDioDirections (ucast (dio_value p)) h in (Ok p, h1))"

definition TDIO_Configure_calcPayload :: "TDIO_WordParams \<Rightarrow> bool \<Rightarrow> TBytes" where
  "TDIO_Configure_calcPayload p bAsReply = u16_bytes (dio_value p)"

definition TDIO_Input_new :: "storage \<Rightarrow> TBytes \<Rightarrow> TDIO_WordParams" where
  "TDIO_Input_new g data = TDIO_Word_params g data"

definition TDIO_Input_Go ::
  "'h apci_lib \<Rightarrow> TDIO_WordParams \<Rightarrow> 'h \<Rightarrow> TDIO_WordParams res \<times> 'h" where
  "TDIO_Input_Go L p h =
     (let (regValue, h1) = in_reg L ofsDioInputs h
      in (Ok (p\<lparr>dio_value := ucast (regValue AND 0xFFFF)\<rparr>), h1))"

definition TDIO_Input_calcPayload :: "TDIO_WordParams \<Rightarrow> bool \<Rightarrow> TBytes" where
  "TDIO_Input_calcPayload p bAsReply = (if bAsReply then u16_bytes (dio_value p) else [])"

definition TDIO_Output_new :: "storage \<Rightarrow> TBytes \<Rightarrow> TDIO_WordParams" where
  "TDIO_Output_new g data =
     (let p = TDIO_Word_params g data
      in if 2 \<le> length data then p\<lparr>dio_value := u16_of (data ! 0) (data ! 1)\<rparr> else p)"

definition TDIO_Output_Go ::
  "'h apci_lib \<Rightarrow> TDIO_WordParams \<Rightarrow> 'h \<Rightarrow> TDIO_WordParams res \<times> 'h" where
  "TDIO_Output_Go L p h =
     (let (st, h1) = out_reg L ofsDioOutputs (ucast (dio_value p)) h in (Ok p, h1))"

definition TDIO_Output_calcPayload :: "TDIO_WordParams \<Rightarrow> bool \<Rightarrow> TBytes" where
  "TDIO_Output_calcPayload p bAsReply = u16_bytes (dio_value p)"

subsection \<open>One line\<close>

definition TDIO_ConfigureBit_new :: "storage \<Rightarrow> TBytes \<Rightarrow> DIO_ConfigureBitParams" where
  "TDIO_ConfigureBit_new g data =
     (let p = TDataItem_params g 2 data; q = \<lparr>cb_bitNumber = p ! 0, cb_direction = p ! 1\<rparr>
      in if 2 \<le> length data then q\<lparr>cb_bitNumber := data ! 0, cb_direction := data ! 1\<rparr> else q)"

definition TDIO_ConfigureBit_Go ::
  "'h apci_lib \<Rightarrow> DIO_ConfigureBitParams \<Rightarrow> 'h \<Rightarrow> DIO_ConfigureBitParams res \<times> 'h" where
  "TDIO_ConfigureBit_Go L p h =
     (let (regValue, h1) = in_reg L ofsDioDirections h in
      bindS (shl1 (cb_bitNumber p), h1) (\<lambda>m h1.
        let regValue = regValue AND NOT m;
            regValue = (if cb_direction p \<noteq> 0 then regValue OR m else regValue);
            (st, h2) = out_reg L ofsDioDirections regValue h1
        in (Ok p, h2)))"

definition TDIO_ConfigureBit_calcPayload :: "DIO_ConfigureBitParams \<Rightarrow> bool \<Rightarrow> TBytes" where
  "TDIO_ConfigureBit_calcPayload p bAsReply = [cb_bitNumber p, cb_direction p]"

definition TDIO_InputBit_new :: "storage \<Rightarrow> TBytes \<Rightarrow> DIO_InputBitParams" where
  "TDIO_InputBit_new g data =
     (let p = TDataItem_params g 2 data; q = \<lparr>ib_bitNumber = p ! 0, ib_bitValue = p ! 1\<rparr>
      in if 1 \<le> length data then q\<lparr>ib_bitNumber := data ! 0\<rparr> else q)"

definition TDIO_InputBit_Go ::
  "'h apci_lib \<Rightarrow> DIO_InputBitParams \<Rightarrow> 'h \<Rightarrow> DIO_InputBitParams res \<times> 'h" where
  "TDIO_InputBit_Go L p h =
     (let (regValue, h1) = in_reg L ofsDioInputs h in
      bindS (bit_of regValue (ib_bitNumber p), h1) (\<lambda>b h1. (Ok (p\<lparr>ib_bitValue := b\<rparr>), h1)))"

definition TDIO_InputBit_calcPayload :: "DIO_InputBitParams \<Rightarrow> bool \<Rightarrow> TBytes" where
  "TDIO_InputBit_calcPayload p bAsReply =
     [ib_bitNumber p] @ (if bAsReply then [ib_bitValue p] else [])"

definition TDIO_OutputBit_new :: "storage \<Rightarrow> TBytes \<Rightarrow> DIO_OutputBitParams" where
  "TDIO_OutputBit_new g data =
     (let p = TDataItem_params g 2 data; q = \<lparr>ob_bitNumber = p ! 0, ob_value = p ! 1\<rparr>
      in if 2 \<le> length data then q\<lparr>ob_bitNumber := data ! 0, ob_value := data ! 1\<rparr> else q)"

definition TDIO_OutputBit_Go ::
  "'h apci_lib \<Rightarrow> DIO_OutputBitParams \<Rightarrow> 'h \<Rightarrow> DIO_OutputBitParams res \<times> 'h" where
  "TDIO_OutputBit_Go L p h =
     (let (regValue, h1) = in_reg L ofsDioOutputs h in
      bindS (shl1 (ob_bitNumber p), h1) (\<lambda>m h1.
        let regValue = regValue AND NOT m;
            regValue = (if ob_value p \<noteq> 0 then regValue OR m else regValue);
            (st, h2) = out_reg L ofsDioOutputs regValue h1
        in (Ok p, h2)))"

definition TDIO_OutputBit_calcPayload :: "DIO_OutputBitParams \<Rightarrow> bool \<Rightarrow> TBytes" where
  "TDIO_OutputBit_calcPayload p bAsReply = [ob_bitNumber p, ob_value p]"

text \<open>The constructors of \<open>TDIO_ClearBit\<close>, \<open>TDIO_SetBit\<close> and \<open>TDIO_ToggleBit\<close> have one text.\<close>

definition TDIO_Bit_new :: "storage \<Rightarrow> TBytes \<Rightarrow> DIO_BitParams" where
  "TDIO_Bit_new g data =
     (let p = TDataItem_params g 1 data; q = \<lparr>bit_bitNumber = p ! 0\<rparr>
      in if 1 \<le> length data then q\<lparr>bit_bitNumber := data ! 0\<rparr> else q)"

definition TDIO_Bit_calcPayload :: "DIO_BitParams \<Rightarrow> bool \<Rightarrow> TBytes" where
  "TDIO_Bit_calcPayload p bAsReply = [bit_bitNumber p]"

text \<open>Each class by its name.\<close>

abbreviation (input) TDIO_ClearBit_new :: "storage \<Rightarrow> TBytes \<Rightarrow> DIO_BitParams" where "TDIO_ClearBit_new \<equiv> TDIO_Bit_new"
abbreviation (input) TDIO_SetBit_new :: "storage \<Rightarrow> TBytes \<Rightarrow> DIO_BitParams" where "TDIO_SetBit_new \<equiv> TDIO_Bit_new"
abbreviation (input) TDIO_ToggleBit_new :: "storage \<Rightarrow> TBytes \<Rightarrow> DIO_BitParams" where "TDIO_ToggleBit_new \<equiv> TDIO_Bit_new"

abbreviation (input) TDIO_ClearBit_calcPayload :: "DIO_BitParams \<Rightarrow> bool \<Rightarrow> TBytes" where "TDIO_ClearBit_calcPayload \<equiv> TDIO_Bit_calcPayload"
abbreviation (input) TDIO_SetBit_calcPayload :: "DIO_BitParams \<Rightarrow> bool \<Rightarrow> TBytes" where "TDIO_SetBit_calcPayload \<equiv> TDIO_Bit_calcPayload"
abbreviation (input) TDIO_ToggleBit_calcPayload :: "DIO_BitParams \<Rightarrow> bool \<Rightarrow> TBytes" where "TDIO_ToggleBit_calcPayload \<equiv> TDIO_Bit_calcPayload"

definition TDIO_ClearBit_Go ::
  "'h apci_lib \<Rightarrow> DIO_BitParams \<Rightarrow> 'h \<Rightarrow> DIO_BitParams res \<times> 'h" where
  "TDIO_ClearBit_Go L p h =
     (let (regValue, h1) = in_reg L ofsDioOutputs h in
      bindS (shl1 (bit_bitNumber p), h1) (\<lambda>m h1.
        let regValue = regValue AND NOT m;
            (st, h2) = out_reg L ofsDioOutputs regValue h1
        in (Ok p, h2)))"

definition TDIO_SetBit_Go ::
  "'h apci_lib \<Rightarrow> DIO_BitParams \<Rightarrow> 'h \<Rightarrow> DIO_BitParams res \<times> 'h" where
  "TDIO_SetBit_Go L p h =
     (let (regValue, h1) = in_reg L ofsDioOutputs h in
      bindS (shl1 (bit_bitNumber p), h1) (\<lambda>m h1.
        let regValue = regValue OR m;
            (st, h2) = out_reg L ofsDioOutputs regValue h1
        in (Ok p, h2)))"

definition TDIO_ToggleBit_Go ::
  "'h apci_lib \<Rightarrow> DIO_BitParams \<Rightarrow> 'h \<Rightarrow> DIO_BitParams res \<times> 'h" where
  "TDIO_ToggleBit_Go L p h =
     (let (regValue, h1) = in_reg L ofsDioOutputs h in
      bindS (shl1 (bit_bitNumber p), h1) (\<lambda>m h1.
        let regValue = regValue XOR m;
            (st, h2) = out_reg L ofsDioOutputs regValue h1
        in (Ok p, h2)))"

subsection \<open>What the items do\<close>

lemmas dio_Go_defs =
  TDIO_Configure_Go_def TDIO_Input_Go_def TDIO_Output_Go_def TDIO_ConfigureBit_Go_def
  TDIO_InputBit_Go_def TDIO_OutputBit_Go_def TDIO_ClearBit_Go_def TDIO_SetBit_Go_def
  TDIO_ToggleBit_Go_def

lemmas dio_new_defs =
  TDIO_Word_params_def TDIO_Configure_new_def TDIO_Input_new_def TDIO_Output_new_def
  TDIO_ConfigureBit_new_def TDIO_InputBit_new_def TDIO_OutputBit_new_def TDIO_Bit_new_def

lemmas dio_payload_defs =
  TDIO_Configure_calcPayload_def TDIO_Input_calcPayload_def TDIO_Output_calcPayload_def
  TDIO_ConfigureBit_calcPayload_def TDIO_InputBit_calcPayload_def
  TDIO_OutputBit_calcPayload_def TDIO_Bit_calcPayload_def u16_bytes_def

declare dio_Go_defs [item_defs] dio_new_defs [item_defs] dio_payload_defs [item_defs]

text \<open>
  Every item of a valid length gives back, as a request, the bytes it was built from; the
  constructors read no byte of the storage they were allocated in then.
\<close>

lemma list_of_length_1: "length xs = 1 \<longleftrightarrow> xs = [xs ! 0]"
  by (cases xs) auto

lemma list_of_length_2: "length xs = 2 \<longleftrightarrow> xs = [xs ! 0, xs ! 1]"
  by (cases xs; cases "tl xs") auto

lemma list_of_length_3: "length xs = 3 \<longleftrightarrow> xs = [xs ! 0, xs ! 1, xs ! 2]"
  by (cases xs; cases "tl xs"; cases "tl (tl xs)") auto

lemma dio_request_bytes [byte_simps]:
  "length data = 2 \<Longrightarrow> TDIO_Configure_calcPayload (TDIO_Configure_new g data) False = data"
  "length data = 0 \<Longrightarrow> TDIO_Input_calcPayload (TDIO_Input_new g data) False = data"
  "length data = 2 \<Longrightarrow> TDIO_Output_calcPayload (TDIO_Output_new g data) False = data"
  "length data = 2 \<Longrightarrow> TDIO_ConfigureBit_calcPayload (TDIO_ConfigureBit_new g data) False = data"
  "length data = 1 \<Longrightarrow> TDIO_InputBit_calcPayload (TDIO_InputBit_new g data) False = data"
  "length data = 2 \<Longrightarrow> TDIO_OutputBit_calcPayload (TDIO_OutputBit_new g data) False = data"
  "length data = 1 \<Longrightarrow> TDIO_Bit_calcPayload (TDIO_Bit_new g data) False = data"
  using list_of_length_1 [of data] list_of_length_2 [of data]
  by (simp_all add: dio_new_defs dio_payload_defs)

text \<open>
  The lengths of the replies do not depend on the values read.
\<close>

lemma dio_payload_length [byte_simps]:
  "length (TDIO_Configure_calcPayload w r) = 2" "length (TDIO_Output_calcPayload w r) = 2"
  "length (TDIO_Input_calcPayload w r) = (if r then 2 else 0)"
  "length (TDIO_ConfigureBit_calcPayload c r) = 2"
  "length (TDIO_InputBit_calcPayload i r) = (if r then 2 else 1)"
  "length (TDIO_OutputBit_calcPayload b r) = 2" "length (TDIO_Bit_calcPayload s r) = 1"
  by (simp_all add: dio_payload_defs)

subsection \<open>Effect on the registers\<close>

lemma shl1_Ok [reg_simps]: "unat n < 32 \<Longrightarrow> shl1 n = Ok (push_bit (unat n) 1)"
  by (simp add: shl1_def)

lemma shl1_Undef [reg_simps]: "32 \<le> unat n \<Longrightarrow> shl1 n = Undef"
  by (simp add: shl1_def)

text \<open>Each item that changes one line is one read, one change of the word and one write.\<close>

definition rmw :: "'h apci_lib \<Rightarrow> int \<Rightarrow> (u32 \<Rightarrow> u32) \<Rightarrow> 'h \<Rightarrow> 'h" where
  "rmw L r f h = snd (out_reg L r (f (fst (in_reg L r h))) (snd (in_reg L r h)))"

lemma dio_bit_Go_rmw [reg_simps]:
  "unat (bit_bitNumber p) < 32 \<Longrightarrow> TDIO_SetBit_Go L p h =
     (Ok p, rmw L ofsDioOutputs (\<lambda>v. v OR push_bit (unat (bit_bitNumber p)) 1) h)"
  "unat (bit_bitNumber p) < 32 \<Longrightarrow> TDIO_ClearBit_Go L p h =
     (Ok p, rmw L ofsDioOutputs (\<lambda>v. v AND NOT (push_bit (unat (bit_bitNumber p)) 1)) h)"
  "unat (bit_bitNumber p) < 32 \<Longrightarrow> TDIO_ToggleBit_Go L p h =
     (Ok p, rmw L ofsDioOutputs (\<lambda>v. v XOR push_bit (unat (bit_bitNumber p)) 1) h)"
  "unat (ob_bitNumber q) < 32 \<Longrightarrow> TDIO_OutputBit_Go L q h =
     (Ok q, rmw L ofsDioOutputs (\<lambda>v. if ob_value q \<noteq> 0
        then v AND NOT (push_bit (unat (ob_bitNumber q)) 1) OR push_bit (unat (ob_bitNumber q)) 1
        else v AND NOT (push_bit (unat (ob_bitNumber q)) 1)) h)"
  "unat (cb_bitNumber c) < 32 \<Longrightarrow> TDIO_ConfigureBit_Go L c h =
     (Ok c, rmw L ofsDioDirections (\<lambda>v. if cb_direction c \<noteq> 0
        then v AND NOT (push_bit (unat (cb_bitNumber c)) 1) OR push_bit (unat (cb_bitNumber c)) 1
        else v AND NOT (push_bit (unat (cb_bitNumber c)) 1)) h)"
  by (simp_all add: dio_Go_defs rmw_def shl1_Ok Let_def split_beta)

context storage_registers
begin

abbreviation (input) IO :: "int set" where "IO \<equiv> {r \<in> S. widthFromOffset r \<noteq> 0}"

lemma rmw_write_bit:
  assumes "r \<in> IO" and "n < nat (widthFromOffset r)"
  shows "bit (cell (rmw L r (\<lambda>v. if b then v AND NOT (push_bit n 1) OR push_bit n 1
            else v AND NOT (push_bit n 1)) h) r) i \<longleftrightarrow>
    (if i = n then b else bit (cell h r) i)"
proof -
  have eq: "v AND NOT (push_bit n 1) OR push_bit n 1 = v OR push_bit n (1 :: u32)" for v :: u32
    by (rule bit_word_eqI) (auto simp: bit_simps)
  have "n < 32" using assms(2) widthFromOffset_cases [of r] by auto
  then show ?thesis
    unfolding eq rmw_def
    using io.rmw_set_bit [OF assms, where h = h and i = i]
      io.rmw_clear_bit [OF assms(1), where n = n and h = h and i = i]
    by auto
qed

lemma rmw_bits:
  assumes "r \<in> IO" and "n < nat (widthFromOffset r)"
  shows "bit (cell (rmw L r (\<lambda>v. v OR push_bit n 1) h) r) i \<longleftrightarrow> i = n \<or> bit (cell h r) i"
    and "bit (cell (rmw L r (\<lambda>v. v AND NOT (push_bit n 1)) h) r) i \<longleftrightarrow> i \<noteq> n \<and> bit (cell h r) i"
    and "bit (cell (rmw L r (\<lambda>v. v XOR push_bit n 1) h) r) i \<longleftrightarrow> (i = n) \<noteq> bit (cell h r) i"
proof -
  have "n < 32" using assms(2) widthFromOffset_cases [of r] by auto
  then show "bit (cell (rmw L r (\<lambda>v. v OR push_bit n 1) h) r) i \<longleftrightarrow> i = n \<or> bit (cell h r) i"
    and "bit (cell (rmw L r (\<lambda>v. v AND NOT (push_bit n 1)) h) r) i \<longleftrightarrow> i \<noteq> n \<and> bit (cell h r) i"
    and "bit (cell (rmw L r (\<lambda>v. v XOR push_bit n 1) h) r) i \<longleftrightarrow> (i = n) \<noteq> bit (cell h r) i"
    using io.rmw_set_bit [OF assms, where h = h and i = i] io.rmw_clear_bit [OF assms(1), where n = n and h = h and i = i]
      io.rmw_toggle_bit [OF assms, where h = h and i = i]
    by (auto simp: rmw_def)
qed

lemma rmw_frame: "r \<in> IO \<Longrightarrow> q \<in> IO \<Longrightarrow> q \<noteq> r \<Longrightarrow> cell (rmw L r f h) q = cell h q"
  unfolding rmw_def by (rule io.rmw_frame)

lemma rd_io: "r \<in> IO \<Longrightarrow> in_reg L r h = (cell h r, h)"
  by (rule io.rd_cell)

lemma wr_io: "r \<in> IO \<Longrightarrow> q \<in> IO \<Longrightarrow>
    cell (snd (out_reg L r v h)) q = (if q = r then take_bit (nat (widthFromOffset r)) v else cell h q)"
  using io.wr_cell [of r v h] by auto

lemma rmw_same:
  "r \<in> IO \<Longrightarrow> cell (rmw L r f h) r = take_bit (nat (widthFromOffset r)) (f (cell h r))"
  unfolding rmw_def using io.rmw_cell [of r r f h] by simp

lemma dio_registers: "ofsDioOutputs \<in> S \<Longrightarrow> ofsDioOutputs \<in> IO"
  "ofsDioDirections \<in> S \<Longrightarrow> ofsDioDirections \<in> IO"
  by (simp_all add: widthFromOffset_def)

end

lemma width_dio [simp]: "widthFromOffset ofsDioOutputs = 32" "widthFromOffset ofsDioDirections = 32"
  "widthFromOffset ofsDioInputs = 32"
  by (simp_all add: widthFromOffset_def)



end
