(* ===== verification/DacItems.thy ===== *)
theory DacItems
  imports DioItems Config
begin

text \<open>
  The analog output data items (\<^verbatim>\<open>DataItems/DAC_.h\<close>, \<^verbatim>\<open>DataItems/DAC_.cpp\<close>) and the functions the
  dictionary attaches to the calibration of the converters (\<^verbatim>\<open>DataItems/TDataItem.cpp\<close>).
\<close>

subsection \<open>Double-precision arithmetic\<close>

text \<open>
  The processor's arithmetic on doubles, each given by its bit pattern, is a parameter; the
  literals of the code are their patterns.
\<close>

record fpu =
  f_add :: "u64 \<Rightarrow> u64 \<Rightarrow> u64"
  f_sub :: "u64 \<Rightarrow> u64 \<Rightarrow> u64"
  f_mul :: "u64 \<Rightarrow> u64 \<Rightarrow> u64"
  f_div :: "u64 \<Rightarrow> u64 \<Rightarrow> u64"
  f_lt :: "u64 \<Rightarrow> u64 \<Rightarrow> bool"
  f_le :: "u64 \<Rightarrow> u64 \<Rightarrow> bool"
  f_of_f32 :: "u32 \<Rightarrow> u64"
  f_to_f32 :: "u64 \<Rightarrow> u32"
  f_of_int :: "int \<Rightarrow> u64"
  f_lround :: "u64 \<Rightarrow> int"

abbreviation (input) d_0 :: u64 where "d_0 \<equiv> 0"
abbreviation (input) d_5 :: u64 where "d_5 \<equiv> 0x4014000000000000"
abbreviation (input) d_10 :: u64 where "d_10 \<equiv> 0x4024000000000000"
abbreviation (input) d_20 :: u64 where "d_20 \<equiv> 0x4034000000000000"
abbreviation (input) d_m0_5 :: u64 where "d_m0_5 \<equiv> 0xBFE0000000000000"
abbreviation (input) d_65536 :: u64 where "d_65536 \<equiv> 0x40F0000000000000"
abbreviation (input) d_65535 :: u64 where "d_65535 \<equiv> 0x40EFFFE000000000"

subsection \<open>Ranges and counts\<close>

abbreviation (input) RC_UNIPOLAR_5 :: u32 where "RC_UNIPOLAR_5 \<equiv> 0x35303055"
abbreviation (input) RC_BIPOLAR_5 :: u32 where "RC_BIPOLAR_5 \<equiv> 0x3530E142"
abbreviation (input) RC_UNIPOLAR_10 :: u32 where "RC_UNIPOLAR_10 \<equiv> 0x30313055"
abbreviation (input) RC_BIPOLAR_10 :: u32 where "RC_BIPOLAR_10 \<equiv> 0x3031E142"

definition DacRangeIndexFromCode :: "u32 \<Rightarrow> int" where
  "DacRangeIndexFromCode code =
     (if code \<in> {RC_UNIPOLAR_5, 0} then 0
      else if code \<in> {RC_BIPOLAR_5, 1} then 1
      else if code \<in> {RC_UNIPOLAR_10, 2} then 2
      else if code \<in> {RC_BIPOLAR_10, 3} then 3
      else - 1)"

text \<open>Span and offset of each range.\<close>

definition kDacRangeLut :: "(u64 \<times> u64) list" where
  "kDacRangeLut = [(d_5, d_0), (d_10, d_m0_5), (d_10, d_0), (d_20, d_m0_5)]"

definition DACVoltsToCounts :: "fpu \<Rightarrow> TConfig \<Rightarrow> nat \<Rightarrow> u64 \<Rightarrow> u16 res" where
  "DACVoltsToCounts F c ch Vcal =
     (let ri = DacRangeIndexFromCode (dacRanges c ! ch) in
      if ri < 0 then Undef
      else let (span, offset) = kDacRangeLut ! nat ri;
               countsF = f_mul F d_65536 (f_sub F (f_div F Vcal span) offset);
               countsF = (if f_lt F countsF d_0 then d_0 else countsF);
               countsF = (if f_lt F d_65535 countsF then d_65535 else countsF)
           in Ok (word_of_int (f_lround F countsF)))"

definition sat_u16_from_double :: "fpu \<Rightarrow> u64 \<Rightarrow> u16" where
  "sat_u16_from_double F v =
     (if f_le F v d_0 then 0
      else if f_le F d_65535 v then 0xFFFF
      else word_of_int (f_lround F v))"

subsection \<open>\<open>TDAC_Output\<close> and \<open>TDAC_OutputV\<close>\<close>

text \<open>The parameters have default member initialisers; the object carries the write flag.\<close>

record TDAC_Output =
  dacChannel :: u8
  dacCounts :: u16
  dac_bWrite :: bool

definition file_DAC :: string where "file_DAC = ''DataItems/DAC_.cpp''"

text \<open>
  \<open>parseBytes\<close>, the same text in both classes but for its line numbers: one byte selects a
  channel, three give counts, five give volts; the calibration of the channel is applied to the
  counts at once, when the item is built. A channel number of four or more, like any other length,
  is a guard failure; a channel of the parameters beyond the coefficients cannot arise.
\<close>

definition DAC_parseBytes ::
  "nat \<Rightarrow> nat \<Rightarrow> fpu \<Rightarrow> TConfig \<Rightarrow> TBytes \<Rightarrow> TDAC_Output \<Rightarrow> TDAC_Output res" where
  "DAC_parseBytes l1 l2 F c bytes p =
     bindR (if 1 \<le> length bytes
            then bindR (GUARD (bytes ! 0 < 4) ERR_DId_BAD_PARAM (ucast (bytes ! 0)) l1 file_DAC ''parseBytes'')
                   (\<lambda>_. Ok (p\<lparr>dacChannel := bytes ! 0, dac_bWrite := False\<rparr>))
            else Ok p)
     (\<lambda>p. let ch = unat (dacChannel p);
              sc = f_of_f32 F (dacScaleCoefficients c ! ch);
              oc = f_of_f32 F (dacOffsetCoefficients c ! ch)
          in if length bytes = 3 then
               let inCounts = u16_of (bytes ! 1) (bytes ! 2);
                   outCountsF = f_add F (f_mul F (f_of_int F (uint inCounts)) sc) oc
               in Ok (p\<lparr>dac_bWrite := True, dacCounts := sat_u16_from_double F outCountsF\<rparr>)
             else if length bytes = 5 then
               let volts = le_read (take 4 (drop 1 bytes)) in
               bindR (DACVoltsToCounts F c ch (f_of_f32 F volts)) (\<lambda>countsNom.
                 let outCountsF = f_add F (f_mul F (f_of_int F (uint countsNom)) sc) oc
                 in Ok (p\<lparr>dac_bWrite := True, dacCounts := sat_u16_from_double F outCountsF\<rparr>))
             else bindR (GUARD (length bytes = 1) ERR_DId_BAD_PARAM (of_nat (length bytes)) l2 file_DAC ''parseBytes'')
                    (\<lambda>_. Ok p))"

text \<open>The base constructor copies the first three bytes over the parameters when it can.\<close>

definition DAC_OutputParams_init :: "TBytes \<Rightarrow> TDAC_Output" where
  "DAC_OutputParams_init bytes =
     (let p = TDataItem_params (\<lambda>_. 0) 3 bytes
      in \<lparr>dacChannel = p ! 0, dacCounts = u16_of (p ! 1) (p ! 2), dac_bWrite = False\<rparr>)"

definition TDAC_Output_new :: "fpu \<Rightarrow> TConfig \<Rightarrow> TBytes \<Rightarrow> TDAC_Output res" where
  "TDAC_Output_new F c bytes = DAC_parseBytes 56 93 F c bytes (DAC_OutputParams_init bytes)"

definition TDAC_OutputV_new :: "fpu \<Rightarrow> TConfig \<Rightarrow> TBytes \<Rightarrow> TDAC_Output res" where
  "TDAC_OutputV_new F c bytes = DAC_parseBytes 137 174 F c bytes (DAC_OutputParams_init bytes)"

definition TDAC_Output_calcPayload :: "TDAC_Output \<Rightarrow> bool \<Rightarrow> TBytes" where
  "TDAC_Output_calcPayload p bAsReply = stuff (stuff [] (dacChannel p)) (dacCounts p)"

text \<open>The volts item sends its counts as a single-precision number.\<close>

definition TDAC_OutputV_calcPayload :: "fpu \<Rightarrow> TDAC_Output \<Rightarrow> bool \<Rightarrow> TBytes" where
  "TDAC_OutputV_calcPayload F p bAsReply =
     stuff (stuff [] (dacChannel p)) (f_to_f32 F (f_of_int F (uint (dacCounts p))))"

definition dac_controlValue :: "u8 \<Rightarrow> u16 \<Rightarrow> u32" where
  "dac_controlValue ch counts = 0x00300000 OR push_bit 16 (ucast ch) OR ucast counts"

text \<open>\<open>Go\<close> of both classes.\<close>

definition TDAC_Output_Go ::
  "'h apci_lib \<Rightarrow> TDAC_Output \<Rightarrow> 'h \<Rightarrow> TDAC_Output res \<times> 'h" where
  "TDAC_Output_Go L p h =
     (let controlValue = dac_controlValue (dacChannel p) (dacCounts p);
          (rc, h1) = WaitUntilRegisterBitIsLow L (word_of_int ofsDacSpiBusy) bmDacSpiBusy h;
          (st, h2) = out_reg L ofsDac controlValue h1
      in (Ok p, h2))"

abbreviation (input) TDAC_OutputV_Go :: "'h apci_lib \<Rightarrow> TDAC_Output \<Rightarrow> 'h \<Rightarrow> TDAC_Output res \<times> 'h" where "TDAC_OutputV_Go \<equiv> TDAC_Output_Go"

subsection \<open>\<open>TDAC_Range1\<close>\<close>

record TDAC_Range1 =
  rng_dacChannel :: u8
  rng_dacRange :: u32
  rng_bWrite :: bool

definition TDAC_Range1_new :: "TBytes \<Rightarrow> TDAC_Range1 res" where
  "TDAC_Range1_new bytes =
     (let q = TDataItem_params (\<lambda>_. 0) 5 bytes;
          p = \<lparr>rng_dacChannel = q ! 0, rng_dacRange = le_read (drop 1 q), rng_bWrite = False\<rparr>
      in bindR (if 1 \<le> length bytes
                then bindR (GUARD (bytes ! 0 < 4) ERR_DId_BAD_PARAM (ucast (bytes ! 0)) 221 file_DAC ''parseBytes'')
                  (\<lambda>_. Ok (p\<lparr>rng_dacChannel := bytes ! 0, rng_dacRange := 0xFFFFFFFF, rng_bWrite := False\<rparr>))
                else Ok p)
         (\<lambda>p. if length bytes = 5 then
                let rangeCode = le_read (take 4 (drop 1 bytes)) :: u32 in
                if rangeCode < 4 \<or> rangeCode = RC_UNIPOLAR_10 \<or> rangeCode = RC_UNIPOLAR_5
                   \<or> rangeCode = RC_BIPOLAR_5 \<or> rangeCode = RC_BIPOLAR_10
                then Ok (p\<lparr>rng_bWrite := True, rng_dacRange := rangeCode\<rparr>)
                else Ok p
              else Ok p))"

definition TDAC_Range1_calcPayload :: "TDAC_Range1 \<Rightarrow> bool \<Rightarrow> TBytes" where
  "TDAC_Range1_calcPayload p bAsReply = stuff (stuff [] (rng_dacChannel p)) (rng_dacRange p)"

definition TDAC_Range1_Go ::
  "TDAC_Range1 \<Rightarrow> TConfig \<times> fs \<Rightarrow> TDAC_Range1 res \<times> (TConfig \<times> fs)" where
  "TDAC_Range1_Go p = (\<lambda>(c, s).
     if rng_bWrite p then
       let (rc, s) = WriteConfigString (''DAC_RangeCh'' @ to_string (unat (rng_dacChannel p)))
                       (to_hex (rng_dacRange p)) CONFIG_CURRENT s
       in if rc < 0 then (Ok (p\<lparr>rng_dacRange := dacRanges c ! unat (rng_dacChannel p)\<rparr>), (c, s))
          else (Ok p, (c\<lparr>dacRanges := (dacRanges c)[unat (rng_dacChannel p) := rng_dacRange p]\<rparr>, s))
     else (Ok p, (c, s)))"

subsection \<open>The calibration functions of the dictionary\<close>

definition file_TDataItem :: string where "file_TDataItem = ''DataItems/TDataItem.cpp''"

definition set_dac_scale :: "nat \<Rightarrow> f32 \<Rightarrow> TConfig \<Rightarrow> TConfig" where
  "set_dac_scale n v c = c\<lparr>dacScaleCoefficients := (dacScaleCoefficients c)[n := v]\<rparr>"

definition set_dac_offset :: "nat \<Rightarrow> f32 \<Rightarrow> TConfig \<Rightarrow> TConfig" where
  "set_dac_offset n v c = c\<lparr>dacOffsetCoefficients := (dacOffsetCoefficients c)[n := v]\<rparr>"

definition write_current :: "string \<Rightarrow> u32 \<Rightarrow> fs \<Rightarrow> fs" where
  "write_current key v s = snd (WriteConfigString key (to_hex v) CONFIG_CURRENT s)"

text \<open>Reads past the data, like the read of the first byte of no data, are undefined.\<close>

definition DAC_Calibrate1_go :: "TBytes \<Rightarrow> TConfig \<times> fs \<Rightarrow> unit res \<times> (TConfig \<times> fs)" where
  "DAC_Calibrate1_go buf = (\<lambda>(c, s).
     if buf = [] then (Undef, (c, s))
     else let dacnum = hd buf in
       bindS (GUARD (dacnum < 4) ERR_DId_BAD_PARAM (ucast dacnum) 186 file_TDataItem ''operator()'', (c, s))
       (\<lambda>_ (c, s). if length buf < 9 then (Undef, (c, s))
          else let offset = le_read (take 4 (drop 1 buf)); scale = le_read (take 4 (drop 5 buf));
                   n = unat dacnum;
                   c = set_dac_offset n offset (set_dac_scale n scale c);
                   s = write_current (''DAC_ScaleCh'' @ to_string n) scale s;
                   s = write_current (''DAC_OffsetCh'' @ to_string n) offset s
               in (Ok (), (c, s))))"

definition DAC_Offset1_go :: "TBytes \<Rightarrow> TConfig \<times> fs \<Rightarrow> unit res \<times> (TConfig \<times> fs)" where
  "DAC_Offset1_go buf = (\<lambda>(c, s).
     if buf = [] then (Undef, (c, s))
     else let dacnum = hd buf in
       bindS (GUARD (dacnum < 4) ERR_DId_BAD_PARAM (ucast dacnum) 210 file_TDataItem ''operator()'', (c, s))
       (\<lambda>_ (c, s). if length buf < 5 then (Undef, (c, s))
          else let offset = le_read (take 4 (drop 1 buf)); n = unat dacnum;
                   c = set_dac_offset n offset c;
                   s = write_current (''DAC_OffsetCh'' @ to_string n) offset s
               in (Ok (), (c, s))))"

definition DAC_Scale1_go :: "TBytes \<Rightarrow> TConfig \<times> fs \<Rightarrow> unit res \<times> (TConfig \<times> fs)" where
  "DAC_Scale1_go buf = (\<lambda>(c, s).
     if buf = [] then (Undef, (c, s))
     else let dacnum = hd buf in
       bindS (GUARD (dacnum < 4) ERR_DId_BAD_PARAM (ucast dacnum) 243 file_TDataItem ''operator()'', (c, s))
       (\<lambda>_ (c, s). if length buf < 5 then (Undef, (c, s))
          else let scale = le_read (take 4 (drop 1 buf)); n = unat dacnum;
                   c = set_dac_scale n scale c;
                   s = write_current (''DAC_ScaleCh'' @ to_string n) scale s
               in (Ok (), (c, s))))"

text \<open>
  The two loops over all converters: the offsets as many as the data hold, the scales at most
  four; a fifth offset would be stored beyond the array.
\<close>

fun DAC_OffsetAll_loop :: "nat \<Rightarrow> nat \<Rightarrow> TBytes \<Rightarrow> TConfig \<times> fs \<Rightarrow> unit res \<times> (TConfig \<times> fs)" where
  "DAC_OffsetAll_loop dacnum 0 buf = (\<lambda>(c, s). (Ok (), (c, s)))"
| "DAC_OffsetAll_loop dacnum (Suc n) buf = (\<lambda>(c, s).
     let v = le_read (take 4 (drop (dacnum * 4) buf)) in
     if 4 \<le> dacnum then (Undef, (c, s))
     else DAC_OffsetAll_loop (dacnum + 1) n buf
       (set_dac_offset dacnum v c, write_current (''DAC_OffsetCh'' @ to_string dacnum) v s))"

definition DAC_OffsetAll_go :: "TBytes \<Rightarrow> TConfig \<times> fs \<Rightarrow> unit res \<times> (TConfig \<times> fs)" where
  "DAC_OffsetAll_go buf = DAC_OffsetAll_loop 0 (length buf div 4) buf"

fun DAC_ScaleAll_loop :: "nat \<Rightarrow> nat \<Rightarrow> TBytes \<Rightarrow> TConfig \<times> fs \<Rightarrow> unit res \<times> (TConfig \<times> fs)" where
  "DAC_ScaleAll_loop dacnum 0 buf = (\<lambda>(c, s). (Ok (), (c, s)))"
| "DAC_ScaleAll_loop dacnum (Suc n) buf = (\<lambda>(c, s).
     let v = le_read (take 4 (drop (dacnum * 4) buf)) in
     if 4 \<le> dacnum then (Undef, (c, s))
     else DAC_ScaleAll_loop (dacnum + 1) n buf
       (set_dac_scale dacnum v c, write_current (''DAC_ScaleCh'' @ to_string dacnum) v s))"

definition DAC_ScaleAll_go :: "TBytes \<Rightarrow> TConfig \<times> fs \<Rightarrow> unit res \<times> (TConfig \<times> fs)" where
  "DAC_ScaleAll_go buf = DAC_ScaleAll_loop 0 (min 4 (length buf div 4)) buf"

end
