(* ===== verification/AdcItems.thy ===== *)
theory AdcItems
  imports DacItems
begin

text \<open>
  The analog input data items that set registers (\<^verbatim>\<open>DataItems/ADC_.h\<close>, lines 12 to 655 of
  \<^verbatim>\<open>DataItems/ADC_.cpp\<close>): the base clock, the start and the stop of the stream, the ranges and the
  calibration. The items that take one scan are in \<open>AdcScan\<close>.
\<close>

definition file_ADC :: string where "file_ADC = ''DataItems/ADC_.cpp''"

subsection \<open>The base clock\<close>

record ADC_BaseClockParams =
  baseClock :: u32

definition ADC_BaseClockParams_default :: ADC_BaseClockParams where
  "ADC_BaseClockParams_default = \<lparr>baseClock = 25000000\<rparr>"

definition TADC_BaseClock_new :: "TBytes \<Rightarrow> ADC_BaseClockParams res" where
  "TADC_BaseClock_new buf =
     (let p = (if 4 \<le> length buf then \<lparr>baseClock = le_read (take 4 buf)\<rparr> else ADC_BaseClockParams_default) in
      bindR (GUARD (length buf = 0 \<or> length buf = 4) ERR_MSG_PAYLOAD_DATAITEM_LEN_MISMATCH 0 16
               file_ADC ''TADC_BaseClock'')
        (\<lambda>_. Ok (if length buf = 4 then p\<lparr>baseClock := le_read buf\<rparr> else p)))"

definition TADC_BaseClock_calcPayload :: "ADC_BaseClockParams \<Rightarrow> bool \<Rightarrow> TBytes" where
  "TADC_BaseClock_calcPayload p bAsReply = stuff [] (baseClock p)"

definition TADC_BaseClock_Go ::
  "'h apci_lib \<Rightarrow> ADC_BaseClockParams \<Rightarrow> 'h \<Rightarrow> ADC_BaseClockParams res \<times> 'h" where
  "TADC_BaseClock_Go L p h =
     (let (v, h1) = in_reg L ofsAdcBaseClock h in (Ok (p\<lparr>baseClock := v\<rparr>), h1))"

subsection \<open>Starting and stopping the stream\<close>

text \<open>
  The globals of \<^verbatim>\<open>adc.cpp\<close> the items use, and the calls they make: three of the driver library
  (with the device index the code passes) and the creation of the worker thread, which returns
  its error number.
\<close>

record adc_stream =
  AdcStreamingConnection :: int
  AdcStreamTerminate :: bool
  AdcWorkerThreadID :: int

definition adc_idle :: adc_stream where
  "adc_idle = \<lparr>AdcStreamingConnection = - 1, AdcStreamTerminate = False, AdcWorkerThreadID = - 1\<rparr>"

record 'h stream_lib =
  apci_dma_transfer_size :: "nat \<Rightarrow> u8 \<Rightarrow> nat \<Rightarrow> 'h \<Rightarrow> int \<times> 'h"
  apci_start_dma :: "'h \<Rightarrow> int \<times> 'h"
  apci_cancel_irq :: "nat \<Rightarrow> 'h \<Rightarrow> int \<times> 'h"
  pthread_create_worker :: "'h \<Rightarrow> int \<times> 'h"

text \<open>The calls of \<^verbatim>\<open>apci.cpp\<close> for device 0.\<close>

abbreviation (input) apciDmaTransferSize :: "'h stream_lib \<Rightarrow> u8 \<Rightarrow> nat \<Rightarrow> 'h \<Rightarrow> int \<times> 'h"
  where "apciDmaTransferSize SL \<equiv> apci_dma_transfer_size SL 0"

abbreviation (input) apciDmaStart :: "'h stream_lib \<Rightarrow> 'h \<Rightarrow> int \<times> 'h"
  where "apciDmaStart SL \<equiv> apci_start_dma SL"

abbreviation (input) apciCancelWaitForIRQ :: "'h stream_lib \<Rightarrow> 'h \<Rightarrow> int \<times> 'h"
  where "apciCancelWaitForIRQ SL \<equiv> apci_cancel_irq SL 0"

definition RING_BUFFER_SLOTS :: nat where "RING_BUFFER_SLOTS = 255"
definition BYTES_PER_TRANSFER :: nat where "BYTES_PER_TRANSFER = 0x800 * (4 * 2)"

text \<open>\<open>std::to_string\<close> of an \<open>int\<close>.\<close>

definition int_to_string :: "int \<Rightarrow> string" where
  "int_to_string i = (if i < 0 then ''-'' @ to_string (nat (- i)) else to_string (nat i))"

record ADC_StreamStartParams =
  argConnectionID :: u32

text \<open>
  The constructor claims the stream: parsing the item of a message is enough to change the global.
  The result carries the raw bytes, which the inherited \<open>calcPayload\<close> returns.
\<close>

definition ADC_Busy :: "int \<Rightarrow> string" where
  "ADC_Busy conn = ''ADC Busy already on Connection: '' @ int_to_string conn"

definition TADC_StreamStart_new ::
  "TBytes \<Rightarrow> adc_stream \<Rightarrow> ADC_StreamStartParams res \<times> adc_stream" where
  "TADC_StreamStart_new bytes a =
     (let p = (if 4 \<le> length bytes then \<lparr>argConnectionID = le_read (take 4 bytes)\<rparr>
               else \<lparr>argConnectionID = - 1\<rparr>) in
      if length bytes = 4 then
        let cid = sint (le_read bytes :: u32) in
        if AdcStreamingConnection a = - 1
        then (Ok (p\<lparr>argConnectionID := word_of_int cid\<rparr>), a\<lparr>AdcStreamingConnection := cid\<rparr>)
        else (Throw (LogicError (ADC_Busy (AdcStreamingConnection a))), a)
      else (Ok p, a))"

definition TADC_StreamStart_Go ::
  "'h stream_lib \<Rightarrow> 'h \<times> adc_stream \<Rightarrow> unit res \<times> ('h \<times> adc_stream)" where
  "TADC_StreamStart_Go SL = (\<lambda>(h, a).
     let (status, h) = apciDmaTransferSize SL (of_nat RING_BUFFER_SLOTS) BYTES_PER_TRANSFER h in
     if status \<noteq> 0 then
       (case err_text (word_of_int status) of
          Ok t \<Rightarrow> (Throw (LogicError t), (h, a)) | _ \<Rightarrow> (Undef, (h, a)))
     else
       let a = a\<lparr>AdcStreamTerminate := False\<rparr>;
           (rc, h) = (if AdcWorkerThreadID a = - 1 then pthread_create_worker SL h else (0, h))
       in if rc \<noteq> 0 then (Throw (LogicError ''failed to start ADC worker thread''), (h, a))
          else let a = (if AdcWorkerThreadID a = - 1 then a\<lparr>AdcWorkerThreadID := 0\<rparr> else a);
                   (st, h) = apciDmaStart SL h
               in (Ok (), (h, a)))"

definition TADC_StreamStop_Go ::
  "'h stream_lib \<Rightarrow> 'h \<times> adc_stream \<Rightarrow> unit res \<times> ('h \<times> adc_stream)" where
  "TADC_StreamStop_Go SL = (\<lambda>(h, a).
     let a = a\<lparr>AdcStreamTerminate := True\<rparr>; (st, h) = apciCancelWaitForIRQ SL h in (Ok (), (h, a)))"

definition TADC_StreamStop_calcPayload :: "bool \<Rightarrow> TBytes" where
  "TADC_StreamStop_calcPayload bAsReply = []"

subsection \<open>Input type and range\<close>

record ADC_Differential1Params =
  df_channelGroup :: u8
  df_singleEnded :: u8

definition TADC_Differential1_new :: "storage \<Rightarrow> TBytes \<Rightarrow> ADC_Differential1Params" where
  "TADC_Differential1_new g data =
     (let p = TDataItem_params g 2 data; q = \<lparr>df_channelGroup = p ! 0, df_singleEnded = p ! 1\<rparr>
      in if 2 \<le> length data then q\<lparr>df_channelGroup := data ! 0, df_singleEnded := data ! 1\<rparr> else q)"

text \<open>The read and the write of one range register, common to both items.\<close>

definition set_input_type :: "'h apci_lib \<Rightarrow> int \<Rightarrow> u8 \<Rightarrow> 'h \<Rightarrow> 'h" where
  "set_input_type L grp singleEnded h =
     (let (v, h1) = in_reg L (ofsAdcRange + grp) h;
          reg = (ucast v :: u8);
          reg = (if singleEnded \<noteq> 0 then reg OR bmSingleEnded else reg AND NOT bmSingleEnded);
          (st, h2) = out_reg L (ofsAdcRange + grp) (ucast reg) h1
      in h2)"

definition TADC_Differential1_Go ::
  "'h apci_lib \<Rightarrow> ADC_Differential1Params \<Rightarrow> 'h \<Rightarrow> ADC_Differential1Params res \<times> 'h" where
  "TADC_Differential1_Go L p h =
     (Ok p, set_input_type L (uint (df_channelGroup p)) (df_singleEnded p) h)"

definition TADC_Differential1_calcPayload :: "ADC_Differential1Params \<Rightarrow> bool \<Rightarrow> TBytes" where
  "TADC_Differential1_calcPayload p bAsReply = [df_channelGroup p, df_singleEnded p]"

text \<open>The arrays of eight bytes of \<open>TADC_DifferentialAll\<close> and \<open>TADC_RangeAll\<close> and their constructors.\<close>

record ADC_AllParams =
  settings :: "u8 list"

definition TADC_All8_new :: "storage \<Rightarrow> TBytes \<Rightarrow> ADC_AllParams" where
  "TADC_All8_new g data =
     (let p = TDataItem_params g 8 data; q = \<lparr>settings = p\<rparr>
      in if 8 \<le> length data then q\<lparr>settings := map ((!) data) [0..<8]\<rparr> else q)"

definition TADC_All8_calcPayload :: "ADC_AllParams \<Rightarrow> bool \<Rightarrow> TBytes" where
  "TADC_All8_calcPayload p bAsReply = map ((!) (settings p)) [0..<8]"

text \<open>Each class by its name.\<close>

abbreviation (input) TADC_DifferentialAll_new :: "storage \<Rightarrow> TBytes \<Rightarrow> ADC_AllParams" where "TADC_DifferentialAll_new \<equiv> TADC_All8_new"
abbreviation (input) TADC_RangeAll_new :: "storage \<Rightarrow> TBytes \<Rightarrow> ADC_AllParams" where "TADC_RangeAll_new \<equiv> TADC_All8_new"

abbreviation (input) TADC_DifferentialAll_calcPayload :: "ADC_AllParams \<Rightarrow> bool \<Rightarrow> TBytes" where "TADC_DifferentialAll_calcPayload \<equiv> TADC_All8_calcPayload"
abbreviation (input) TADC_RangeAll_calcPayload :: "ADC_AllParams \<Rightarrow> bool \<Rightarrow> TBytes" where "TADC_RangeAll_calcPayload \<equiv> TADC_All8_calcPayload"

definition TADC_DifferentialAll_Go ::
  "'h apci_lib \<Rightarrow> ADC_AllParams \<Rightarrow> 'h \<Rightarrow> ADC_AllParams res \<times> 'h" where
  "TADC_DifferentialAll_Go L p h =
     (Ok p, fold (\<lambda>grp h. set_input_type L (int grp) (settings p ! grp) h) [0..<8] h)"

record ADC_Range1Params =
  ar_channelGroup :: u8
  ar_range :: u8

definition TADC_Range1_new :: "storage \<Rightarrow> TBytes \<Rightarrow> ADC_Range1Params" where
  "TADC_Range1_new g data =
     (let p = TDataItem_params g 2 data; q = \<lparr>ar_channelGroup = p ! 0, ar_range = p ! 1\<rparr>
      in if 2 \<le> length data then q\<lparr>ar_channelGroup := data ! 0, ar_range := data ! 1\<rparr> else q)"

definition TADC_Range1_Go ::
  "'h apci_lib \<Rightarrow> ADC_Range1Params \<Rightarrow> 'h \<Rightarrow> ADC_Range1Params res \<times> 'h" where
  "TADC_Range1_Go L p h =
     (let (st, h1) = out_reg L (ofsAdcRange + uint (ar_channelGroup p)) (ucast (ar_range p)) h
      in (Ok p, h1))"

definition TADC_Range1_calcPayload :: "ADC_Range1Params \<Rightarrow> bool \<Rightarrow> TBytes" where
  "TADC_Range1_calcPayload p bAsReply = [ar_channelGroup p, ar_range p]"

definition TADC_RangeAll_Go ::
  "'h apci_lib \<Rightarrow> ADC_AllParams \<Rightarrow> 'h \<Rightarrow> ADC_AllParams res \<times> 'h" where
  "TADC_RangeAll_Go L p h =
     (Ok p, fold (\<lambda>grp h. snd (out_reg L (ofsAdcRange + int grp) (ucast (settings p ! grp)) h)) [0..<8] h)"

subsection \<open>Calibration\<close>

text \<open>
  \<open>ADC_Span1Params\<close> and \<open>ADC_Offset1Params\<close> are one structure, and so are the constructors and
  the payloads of \<open>TADC_Scale1\<close> and \<open>TADC_Offset1\<close>.
\<close>

record ADC_Span1Params =
  sp_rangeIndex :: u8
  sp_value :: f32

definition TADC_Span1_new :: "storage \<Rightarrow> TBytes \<Rightarrow> ADC_Span1Params" where
  "TADC_Span1_new g data =
     (let p = TDataItem_params g 5 data; q = \<lparr>sp_rangeIndex = p ! 0, sp_value = le_read (drop 1 p)\<rparr>
      in if 5 \<le> length data
         then q\<lparr>sp_rangeIndex := data ! 0, sp_value := le_read (take 4 (drop 1 data))\<rparr> else q)"

definition TADC_Span1_calcPayload :: "ADC_Span1Params \<Rightarrow> bool \<Rightarrow> TBytes" where
  "TADC_Span1_calcPayload p bAsReply = [sp_rangeIndex p] @ stuff [] (sp_value p)"

text \<open>Each class by its name.\<close>

abbreviation (input) TADC_Scale1_new :: "storage \<Rightarrow> TBytes \<Rightarrow> ADC_Span1Params" where "TADC_Scale1_new \<equiv> TADC_Span1_new"
abbreviation (input) TADC_Offset1_new :: "storage \<Rightarrow> TBytes \<Rightarrow> ADC_Span1Params" where "TADC_Offset1_new \<equiv> TADC_Span1_new"

abbreviation (input) TADC_Scale1_calcPayload :: "ADC_Span1Params \<Rightarrow> bool \<Rightarrow> TBytes" where "TADC_Scale1_calcPayload \<equiv> TADC_Span1_calcPayload"
abbreviation (input) TADC_Offset1_calcPayload :: "ADC_Span1Params \<Rightarrow> bool \<Rightarrow> TBytes" where "TADC_Offset1_calcPayload \<equiv> TADC_Span1_calcPayload"

text \<open>
  The stores into the coefficients of the configuration; the arrays have eight elements, and an
  index beyond them is undefined.
\<close>

definition store_adc_scale :: "nat \<Rightarrow> f32 \<Rightarrow> 'h \<times> TConfig \<Rightarrow> unit res \<times> ('h \<times> TConfig)" where
  "store_adc_scale i v = (\<lambda>(h, c).
     if i < length (adcScaleCoefficients c)
     then (Ok (), (h, c\<lparr>adcScaleCoefficients := (adcScaleCoefficients c)[i := v]\<rparr>))
     else (Undef, (h, c)))"

definition store_adc_offset :: "nat \<Rightarrow> f32 \<Rightarrow> 'h \<times> TConfig \<Rightarrow> unit res \<times> ('h \<times> TConfig)" where
  "store_adc_offset i v = (\<lambda>(h, c).
     if i < length (adcOffsetCoefficients c)
     then (Ok (), (h, c\<lparr>adcOffsetCoefficients := (adcOffsetCoefficients c)[i := v]\<rparr>))
     else (Undef, (h, c)))"

definition TADC_Scale1_Go ::
  "'h apci_lib \<Rightarrow> ADC_Span1Params \<Rightarrow> 'h \<times> TConfig \<Rightarrow> unit res \<times> ('h \<times> TConfig)" where
  "TADC_Scale1_Go L p = (\<lambda>(h, c).
     let addr = ofsAdcCalScale + uint (sp_rangeIndex p) * ofsAdcCalScaleStride;
         (st, h) = out_reg L addr (sp_value p) h
     in store_adc_scale (unat (sp_rangeIndex p)) (sp_value p) (h, c))"

definition TADC_Offset1_Go ::
  "'h apci_lib \<Rightarrow> ADC_Span1Params \<Rightarrow> 'h \<times> TConfig \<Rightarrow> unit res \<times> ('h \<times> TConfig)" where
  "TADC_Offset1_Go L p = (\<lambda>(h, c).
     let addr = ofsAdcCalOffset + uint (sp_rangeIndex p) * ofsAdcCalOffsetStride;
         (st, h) = out_reg L addr (sp_value p) h
     in store_adc_offset (unat (sp_rangeIndex p)) (sp_value p) (h, c))"

text \<open>\<open>ADC_SpanAllParams\<close> and \<open>ADC_OffsetAllParams\<close>: eight floats.\<close>

record ADC_SpanAllParams =
  spans :: "f32 list"

definition float_at :: "TBytes \<Rightarrow> nat \<Rightarrow> f32" where
  "float_at data i = le_read (take 4 (drop (i * 4) data))"

definition TADC_SpanAll_new :: "storage \<Rightarrow> TBytes \<Rightarrow> ADC_SpanAllParams" where
  "TADC_SpanAll_new g data =
     (let p = TDataItem_params g 32 data; q = \<lparr>spans = map (float_at p) [0..<8]\<rparr>
      in if 8 * 4 \<le> length data then q\<lparr>spans := map (float_at data) [0..<8]\<rparr> else q)"

definition TADC_SpanAll_calcPayload :: "ADC_SpanAllParams \<Rightarrow> bool \<Rightarrow> TBytes" where
  "TADC_SpanAll_calcPayload p bAsReply = concat (map (\<lambda>i. stuff [] (spans p ! i)) [0..<8])"

text \<open>The two classes share constructor and payload.\<close>

abbreviation (input) TADC_ScaleAll_new :: "storage \<Rightarrow> TBytes \<Rightarrow> ADC_SpanAllParams" where "TADC_ScaleAll_new \<equiv> TADC_SpanAll_new"
abbreviation (input) TADC_OffsetAll_new :: "storage \<Rightarrow> TBytes \<Rightarrow> ADC_SpanAllParams" where "TADC_OffsetAll_new \<equiv> TADC_SpanAll_new"

abbreviation (input) TADC_ScaleAll_calcPayload :: "ADC_SpanAllParams \<Rightarrow> bool \<Rightarrow> TBytes" where "TADC_ScaleAll_calcPayload \<equiv> TADC_SpanAll_calcPayload"
abbreviation (input) TADC_OffsetAll_calcPayload :: "ADC_SpanAllParams \<Rightarrow> bool \<Rightarrow> TBytes" where "TADC_OffsetAll_calcPayload \<equiv> TADC_SpanAll_calcPayload"

text \<open>The loops over the eight ranges: each pass writes a register, then the configuration.\<close>

fun TADC_ScaleAll_loop ::
  "'h apci_lib \<Rightarrow> ADC_SpanAllParams \<Rightarrow> nat list \<Rightarrow> 'h \<times> TConfig \<Rightarrow> unit res \<times> ('h \<times> TConfig)" where
  "TADC_ScaleAll_loop L p [] st = (Ok (), st)"
| "TADC_ScaleAll_loop L p (i # is) st =
     (let (h, c) = st;
          addr = ofsAdcCalScale + int i * ofsAdcCalScaleStride;
          h = snd (out_reg L addr (spans p ! i) h)
      in bindS (store_adc_scale i (spans p ! i) (h, c)) (\<lambda>_. TADC_ScaleAll_loop L p is))"

definition TADC_ScaleAll_Go ::
  "'h apci_lib \<Rightarrow> ADC_SpanAllParams \<Rightarrow> 'h \<times> TConfig \<Rightarrow> unit res \<times> ('h \<times> TConfig)" where
  "TADC_ScaleAll_Go L p = TADC_ScaleAll_loop L p [0..<8]"

fun TADC_OffsetAll_loop ::
  "'h apci_lib \<Rightarrow> ADC_SpanAllParams \<Rightarrow> nat list \<Rightarrow> 'h \<times> TConfig \<Rightarrow> unit res \<times> ('h \<times> TConfig)" where
  "TADC_OffsetAll_loop L p [] st = (Ok (), st)"
| "TADC_OffsetAll_loop L p (i # is) st =
     (let (h, c) = st;
          addr = ofsAdcCalOffset + int i * ofsAdcCalOffsetStride;
          h = snd (out_reg L addr (spans p ! i) h)
      in bindS (store_adc_offset i (spans p ! i) (h, c)) (\<lambda>_. TADC_OffsetAll_loop L p is))"

definition TADC_OffsetAll_Go ::
  "'h apci_lib \<Rightarrow> ADC_SpanAllParams \<Rightarrow> 'h \<times> TConfig \<Rightarrow> unit res \<times> ('h \<times> TConfig)" where
  "TADC_OffsetAll_Go L p = TADC_OffsetAll_loop L p [0..<8]"

record ADC_Calibration1Params =
  cal_rangeIndex :: u8
  cal_scale :: f32
  cal_offset :: f32

definition TADC_Calibration1_new :: "storage \<Rightarrow> TBytes \<Rightarrow> ADC_Calibration1Params" where
  "TADC_Calibration1_new g data =
     (let p = TDataItem_params g 9 data;
          q = \<lparr>cal_rangeIndex = p ! 0, cal_scale = le_read (take 4 (drop 1 p)), cal_offset = le_read (drop 5 p)\<rparr>
      in if 9 \<le> length data
         then q\<lparr>cal_rangeIndex := data ! 0, cal_scale := le_read (take 4 (drop 1 data)),
                cal_offset := le_read (take 4 (drop 5 data))\<rparr>
         else q)"

definition TADC_Calibration1_calcPayload :: "ADC_Calibration1Params \<Rightarrow> bool \<Rightarrow> TBytes" where
  "TADC_Calibration1_calcPayload p bAsReply =
     [cal_rangeIndex p] @ stuff [] (cal_scale p) @ stuff [] (cal_offset p)"

definition TADC_Calibration1_Go ::
  "'h apci_lib \<Rightarrow> ADC_Calibration1Params \<Rightarrow> 'h \<times> TConfig \<Rightarrow> unit res \<times> ('h \<times> TConfig)" where
  "TADC_Calibration1_Go L p = (\<lambda>(h, c).
     let addrScale = ofsAdcCalScale + uint (cal_rangeIndex p) * ofsAdcCalScaleStride;
         addrOffset = ofsAdcCalOffset + uint (cal_rangeIndex p) * ofsAdcCalOffsetStride;
         (st, h) = out_reg L addrScale (cal_scale p) h;
         (st, h) = out_reg L addrOffset (cal_offset p) h
     in bindS (store_adc_scale (unat (cal_rangeIndex p)) (cal_scale p) (h, c))
          (\<lambda>_. store_adc_offset (unat (cal_rangeIndex p)) (cal_offset p)))"

text \<open>The data interleave a scale and an offset; the structure keeps the scales first.\<close>

record ADC_CalibrationAllParams =
  cal_scales :: "f32 list"
  cal_offsets :: "f32 list"

definition TADC_CalibrationAll_new :: "storage \<Rightarrow> TBytes \<Rightarrow> ADC_CalibrationAllParams" where
  "TADC_CalibrationAll_new g data =
     (let p = TDataItem_params g 64 data;
          q = \<lparr>cal_scales = map (float_at p) [0..<8], cal_offsets = map (float_at p) [8..<16]\<rparr>
      in if 16 * 4 \<le> length data
         then q\<lparr>cal_scales := map (\<lambda>i. float_at data (2 * i)) [0..<8],
                cal_offsets := map (\<lambda>i. float_at data (2 * i + 1)) [0..<8]\<rparr>
         else q)"

definition TADC_CalibrationAll_calcPayload :: "ADC_CalibrationAllParams \<Rightarrow> bool \<Rightarrow> TBytes" where
  "TADC_CalibrationAll_calcPayload p bAsReply =
     concat (map (\<lambda>i. stuff [] (cal_scales p ! i) @ stuff [] (cal_offsets p ! i)) [0..<8])"

fun TADC_CalibrationAll_loop ::
  "'h apci_lib \<Rightarrow> ADC_CalibrationAllParams \<Rightarrow> nat list \<Rightarrow> 'h \<times> TConfig \<Rightarrow> unit res \<times> ('h \<times> TConfig)" where
  "TADC_CalibrationAll_loop L p [] st = (Ok (), st)"
| "TADC_CalibrationAll_loop L p (i # is) st =
     (let (h, c) = st;
          addrScale = ofsAdcCalScale + int i * ofsAdcCalScaleStride;
          addrOffset = ofsAdcCalOffset + int i * ofsAdcCalOffsetStride;
          h = snd (out_reg L addrScale (cal_scales p ! i) h);
          h = snd (out_reg L addrOffset (cal_offsets p ! i) h)
      in bindS (store_adc_scale i (cal_scales p ! i) (h, c))
           (\<lambda>_ st. bindS (store_adc_offset i (cal_offsets p ! i) st)
              (\<lambda>_. TADC_CalibrationAll_loop L p is)))"

definition TADC_CalibrationAll_Go ::
  "'h apci_lib \<Rightarrow> ADC_CalibrationAllParams \<Rightarrow> 'h \<times> TConfig \<Rightarrow> unit res \<times> ('h \<times> TConfig)" where
  "TADC_CalibrationAll_Go L p = TADC_CalibrationAll_loop L p [0..<8]"

subsection \<open>What the items send\<close>

lemma nth_map_upt8: "length xs = 8 \<Longrightarrow> map ((!) xs) [0..<8] = xs"
  using map_nth [of xs] by simp

lemma concat_chunks:
  "length data = k * n \<Longrightarrow> concat (map (\<lambda>i. take k (drop (i * k) data)) [0..<n]) = data"
proof (induction n arbitrary: data)
  case 0
  then show ?case by simp
next
  case (Suc n)
  have chunk: "take k (drop (i * k) data) = take k (drop (i * k) (take (k * n) data))" if "i < n" for i
  proof -
    have "Suc i * k \<le> n * k" using that by (intro mult_le_mono1) simp
    then have "k \<le> k * n - i * k" by (simp add: mult.commute)
    then show ?thesis by (simp only: drop_take take_take min.absorb1)
  qed
  then have *: "map (\<lambda>i. take k (drop (i * k) data)) [0..<n] =
      map (\<lambda>i. take k (drop (i * k) (take (k * n) data))) [0..<n]"
    by (intro map_cong) auto
  have "length (take (k * n) data) = k * n" using Suc.prems by simp
  then have "concat (map (\<lambda>i. take k (drop (i * k) data)) [0..<n]) = take (k * n) data"
    unfolding * by (rule Suc.IH)
  moreover have "take k (drop (n * k) data) = drop (k * n) data"
    using Suc.prems by (simp add: mult.commute)
  ultimately show ?case by simp
qed

lemma stuff_float_at: "length data = 4 * n \<Longrightarrow> i < n \<Longrightarrow>
    stuff [] (float_at data i) = take 4 (drop (i * 4) data)"
  by (simp add: float_at_def stuff_le_read)

lemma concat_pairs: "concat (map (\<lambda>i. f (2 * i) @ f (2 * i + 1)) [0..<n]) = concat (map f [0..<2 * n])"
  by (induction n) simp_all

lemma adc_request_bytes [byte_simps]:
  "length data = 2 \<Longrightarrow> TADC_Differential1_calcPayload (TADC_Differential1_new g data) r = data"
  "length data = 2 \<Longrightarrow> TADC_Range1_calcPayload (TADC_Range1_new g data) r = data"
  "length data = 8 \<Longrightarrow> TADC_All8_calcPayload (TADC_All8_new g data) r = data"
  "length data = 5 \<Longrightarrow> TADC_Span1_calcPayload (TADC_Span1_new g data) r = data"
  "length data = 9 \<Longrightarrow> TADC_Calibration1_calcPayload (TADC_Calibration1_new g data) r = data"
proof -
  show "length data = 2 \<Longrightarrow> TADC_Differential1_calcPayload (TADC_Differential1_new g data) r = data"
    "length data = 2 \<Longrightarrow> TADC_Range1_calcPayload (TADC_Range1_new g data) r = data"
    using list_of_length_2 [of data]
    by (simp_all add: TADC_Differential1_calcPayload_def TADC_Differential1_new_def
        TADC_Range1_calcPayload_def TADC_Range1_new_def)
  show "length data = 8 \<Longrightarrow> TADC_All8_calcPayload (TADC_All8_new g data) r = data"
    by (simp add: TADC_All8_calcPayload_def TADC_All8_new_def nth_map_upt8)
next
  assume d: "length data = 5"
  then have "data = [data ! 0] @ take 4 (drop 1 data)"
    by (cases data) simp_all
  with d show "TADC_Span1_calcPayload (TADC_Span1_new g data) r = data"
    by (simp add: TADC_Span1_calcPayload_def TADC_Span1_new_def stuff_le_read)
next
  assume d: "length data = 9"
  then have "drop 1 data = take 4 (drop 1 data) @ take 4 (drop 5 data)"
    using append_take_drop_id [of 4 "drop 1 data"] by simp
  with d have "data = [data ! 0] @ take 4 (drop 1 data) @ take 4 (drop 5 data)"
    by (cases data) simp_all
  with d show "TADC_Calibration1_calcPayload (TADC_Calibration1_new g data) r = data"
    by (simp add: TADC_Calibration1_calcPayload_def TADC_Calibration1_new_def stuff_le_read)
qed

lemma adc_all_request_bytes [byte_simps]:
  "length data = 32 \<Longrightarrow> TADC_SpanAll_calcPayload (TADC_SpanAll_new g data) r = data"
  "length data = 64 \<Longrightarrow> TADC_CalibrationAll_calcPayload (TADC_CalibrationAll_new g data) r = data"
proof -
  assume d: "length data = 32"
  have "concat (map (\<lambda>i. stuff [] (map (float_at data) [0..<8] ! i)) [0..<8]) =
      concat (map (\<lambda>i. take 4 (drop (i * 4) data)) [0..<8])"
    using d by (intro arg_cong [of _ _ concat] map_cong) (simp_all add: stuff_float_at [of _ 8])
  with d show "TADC_SpanAll_calcPayload (TADC_SpanAll_new g data) r = data"
    by (simp add: TADC_SpanAll_calcPayload_def TADC_SpanAll_new_def concat_chunks
        del: upt.simps upt_conv_Cons)
next
  assume d: "length data = 64"
  have "concat (map (\<lambda>i. stuff [] (map (\<lambda>i. float_at data (2 * i)) [0..<8] ! i) @
        stuff [] (map (\<lambda>i. float_at data (2 * i + 1)) [0..<8] ! i)) [0..<8]) =
      concat (map (\<lambda>i. (\<lambda>k. take 4 (drop (k * 4) data)) (2 * i) @
        (\<lambda>k. take 4 (drop (k * 4) data)) (2 * i + 1)) [0..<8])"
    using d by (intro arg_cong [of _ _ concat] map_cong) (simp_all add: stuff_float_at [of _ 16])
  also have "\<dots> = concat (map (\<lambda>k. take 4 (drop (k * 4) data)) [0..<2 * 8])"
    by (rule concat_pairs)
  also have "\<dots> = data" using d by (intro concat_chunks) simp
  finally show "TADC_CalibrationAll_calcPayload (TADC_CalibrationAll_new g data) r = data"
    using d by (simp add: TADC_CalibrationAll_calcPayload_def TADC_CalibrationAll_new_def
        del: upt.simps upt_conv_Cons)
qed

subsection \<open>Effect on the registers and the configuration\<close>

abbreviation (input) scale_reg :: "nat \<Rightarrow> int" where
  "scale_reg i \<equiv> ofsAdcCalScale + int i * ofsAdcCalScaleStride"

abbreviation (input) offset_reg :: "nat \<Rightarrow> int" where
  "offset_reg i \<equiv> ofsAdcCalOffset + int i * ofsAdcCalOffsetStride"

lemma width_cal: "i < 8 \<Longrightarrow> widthFromOffset (scale_reg i) = 32"
  "i < 8 \<Longrightarrow> widthFromOffset (offset_reg i) = 32"
proof -
  have "(0xC0 + int i * 8) mod 4 = 0" "(0xC4 + int i * 8) mod 4 = 0" by presburger+
  then show "i < 8 \<Longrightarrow> widthFromOffset (scale_reg i) = 32" "i < 8 \<Longrightarrow> widthFromOffset (offset_reg i) = 32"
    by (simp_all add: widthFromOffset_def)
qed

lemma cal_regs_distinct: "scale_reg i \<noteq> offset_reg j"
  by presburger

lemma width_range: "i < 8 \<Longrightarrow> widthFromOffset (ofsAdcRange + int i) = 8"
  by (simp add: widthFromOffset_def)

text \<open>A list of coefficients with the positions of a set overwritten.\<close>

definition overwrite :: "nat set \<Rightarrow> f32 list \<Rightarrow> f32 list \<Rightarrow> f32 list" where
  "overwrite I new old = map (\<lambda>i. if i \<in> I then new ! i else old ! i) [0..<length old]"

lemma overwrite_empty: "overwrite {} new old = old"
  by (simp add: overwrite_def map_nth)

lemma overwrite_step: "i < length old \<Longrightarrow> overwrite I new (old[i := new ! i]) = overwrite (insert i I) new old"
  by (auto simp: overwrite_def nth_list_update)

lemma overwrite_all: "length new = length old \<Longrightarrow> {0..<length old} \<subseteq> I \<Longrightarrow> overwrite I new old = new"
  by (rule nth_equalityI) (auto simp: overwrite_def)

lemma length_overwrite [simp]: "length (overwrite I new old) = length old"
  by (simp add: overwrite_def)

lemma bit_u8: "bit (v :: u8) n \<Longrightarrow> n < 8"
  using bit_imp_le_length [of v n] by simp

context storage_registers
begin

lemma calibration_loop:
  assumes "\<forall>i < 8. scale_reg i \<in> S \<and> offset_reg i \<in> S"
    and "set is \<subseteq> {..<8}" and "length (adcScaleCoefficients c) = 8" "length (adcOffsetCoefficients c) = 8"
  shows "\<exists>h'. TADC_CalibrationAll_loop L p is (h, c) = (Ok (), (h', c\<lparr>
             adcScaleCoefficients := overwrite (set is) (cal_scales p) (adcScaleCoefficients c),
             adcOffsetCoefficients := overwrite (set is) (cal_offsets p) (adcOffsetCoefficients c)\<rparr>)) \<and>
      (\<forall>q \<in> IO. cell h' q =
         (if \<exists>i \<in> set is. q = scale_reg i then cal_scales p ! (nat (q - ofsAdcCalScale) div 8)
          else if \<exists>i \<in> set is. q = offset_reg i then cal_offsets p ! (nat (q - ofsAdcCalOffset) div 8)
          else cell h q))"
  using assms(2-)
proof (induction "is" arbitrary: h c)
  case Nil
  then show ?case by (simp add: overwrite_empty)
next
  case (Cons i "is")
  define h1 where "h1 = snd (out_reg L (scale_reg i) (cal_scales p ! i) h)"
  define h2 where "h2 = snd (out_reg L (offset_reg i) (cal_offsets p ! i) h1)"
  define c2 where "c2 = c\<lparr>adcScaleCoefficients := (adcScaleCoefficients c)[i := cal_scales p ! i],
    adcOffsetCoefficients := (adcOffsetCoefficients c)[i := cal_offsets p ! i]\<rparr>"
  have i: "i < 8" "set is \<subseteq> {..<8}" using Cons.prems(1) by auto
  have regs: "scale_reg i \<in> IO" "offset_reg i \<in> IO"
    using assms(1) i(1) width_cal [of i] by auto
  have step: "TADC_CalibrationAll_loop L p (i # is) (h, c) = TADC_CalibrationAll_loop L p is (h2, c2)"
    using i Cons.prems(2,3)
    by (simp add: Let_def store_adc_scale_def store_adc_offset_def h1_def h2_def c2_def)
  have cells: "cell h2 q = (if q = scale_reg i then cal_scales p ! i
      else if q = offset_reg i then cal_offsets p ! i else cell h q)" if "q \<in> IO" for q
    using regs width_cal [OF i(1)] that cal_regs_distinct [of i i]
    by (simp add: h1_def h2_def wr_io take_bit_word_eq_self)
  from Cons.IH [OF i(2), of c2 h2] Cons.prems(2,3) obtain h' where h':
    "TADC_CalibrationAll_loop L p is (h2, c2) = (Ok (), (h', c2\<lparr>
       adcScaleCoefficients := overwrite (set is) (cal_scales p) (adcScaleCoefficients c2),
       adcOffsetCoefficients := overwrite (set is) (cal_offsets p) (adcOffsetCoefficients c2)\<rparr>))"
    "\<forall>q \<in> IO. cell h' q =
       (if \<exists>i \<in> set is. q = scale_reg i then cal_scales p ! (nat (q - ofsAdcCalScale) div 8)
        else if \<exists>i \<in> set is. q = offset_reg i then cal_offsets p ! (nat (q - ofsAdcCalOffset) div 8)
        else cell h2 q)"
    by (auto simp: c2_def)
  have "\<forall>q \<in> IO. cell h' q =
       (if \<exists>k \<in> set (i # is). q = scale_reg k then cal_scales p ! (nat (q - ofsAdcCalScale) div 8)
        else if \<exists>k \<in> set (i # is). q = offset_reg k then cal_offsets p ! (nat (q - ofsAdcCalOffset) div 8)
        else cell h q)"
    using h'(2) cells cal_regs_distinct by (simp add: nat_mult_distrib)
  moreover have "overwrite (set is) new (old[i := new ! i]) = overwrite (set (i # is)) new old"
    if "length old = 8" for new old
    using overwrite_step [of i old "set is" new] i(1) that by simp
  ultimately show ?case
    unfolding step using h'(1) Cons.prems(2,3)
    by (auto simp: c2_def)
qed

lemma range_write:
  assumes "r \<in> IO" and "q \<in> IO"
  shows "cell (snd (out_reg L r (ucast (v :: u8)) h)) q = (if q = r then ucast v else cell h q)"
proof -
  have "take_bit (nat (widthFromOffset r)) (ucast v :: u32) = ucast v"
    using assms(1) widthFromOffset_cases [of r] bit_u8
    by (auto intro!: bit_word_eqI simp: bit_simps)
  then show ?thesis using wr_io [OF assms] by simp
qed

lemma input_type_bits:
  assumes "i < 8" and "\<forall>k < 8. ofsAdcRange + int k \<in> S" and "q \<in> IO"
  shows "bit (cell (set_input_type L (int i) v h) q) n \<longleftrightarrow>
    (if q = ofsAdcRange + int i \<and> n = 3 then v \<noteq> 0 else bit (cell h q) n)"
proof -
  let ?r = "ofsAdcRange + int i"
  have r: "?r \<in> IO" using assms(1,2) width_range [OF assms(1)] by simp
  then have low: "bit (cell h ?r) k \<Longrightarrow> k < 8" for k
    using io.cell_width [of ?r h] width_range [OF assms(1)] by (metis bit_take_bit_iff nat_numeral)
  define reg where "reg = (if v \<noteq> 0 then ucast (cell h ?r) OR bmSingleEnded
     else ucast (cell h ?r) AND NOT bmSingleEnded :: u8)"
  have eight: "bit (8 :: u8) k \<longleftrightarrow> k = 3" for k
  proof -
    have "bit (8 :: u8) k \<longleftrightarrow> bit (2 ^ 3 :: u8) k" by simp
    also have "\<dots> \<longleftrightarrow> k = 3" unfolding bit_exp_iff by auto
    finally show ?thesis .
  qed
  have "bit reg n \<longleftrightarrow> (if n = 3 then v \<noteq> 0 else bit (cell h ?r) n)"
    using low [of n] eight [of n] bit_u8 [of 8 n] by (auto simp: reg_def bit_simps)
  moreover have "set_input_type L (int i) v h = snd (out_reg L ?r (ucast reg) h)"
    using rd_io [OF r, of h] by (simp add: set_input_type_def reg_def Let_def split_beta)
  ultimately show ?thesis
    using range_write [OF r assms(3), of reg h] by (auto simp: bit_simps dest: bit_imp_le_length)
qed

lemma input_types_fold:
  assumes "\<forall>k < 8. ofsAdcRange + int k \<in> S" and "q \<in> IO" and "set is \<subseteq> {..<8}" and "distinct is"
  shows "bit (cell (fold (\<lambda>grp h. set_input_type L (int grp) (v grp) h) is h) q) n \<longleftrightarrow>
    (if n = 3 \<and> (\<exists>i \<in> set is. q = ofsAdcRange + int i) then v (nat (q - ofsAdcRange)) \<noteq> 0
     else bit (cell h q) n)"
  using assms(3,4)
proof (induction "is" arbitrary: h)
  case Nil
  then show ?case by simp
next
  case (Cons i "is")
  have "i < 8" using Cons.prems(1) by simp
  then show ?case
    using Cons.IH [of "set_input_type L (int i) (v i) h"] Cons.prems
      input_type_bits [OF _ assms(1,2), of i "v i" h n]
    by auto
qed

end

subsection \<open>Properties\<close>



text \<open>
  The range index of a calibration is not checked. On a well-formed configuration, an
  \<open>ADC_Scale1\<close>, \<open>ADC_Offset1\<close> or \<open>ADC_Calibration1\<close> of the length the dictionary asks for, whose
  range index is eight or more, stores past the end of an array of the configuration; with a
  smaller index it returns.
\<close>

lemma adc_calibration_index_unchecked:
  assumes "TConfig_ok c" and "length d5 = 5" and "length d9 = 9"
  shows "(fst (TADC_Scale1_Go L (TADC_Span1_new g d5) (h, c)) = Undef \<longleftrightarrow> 8 \<le> unat (d5 ! 0)) \<and>
      (fst (TADC_Offset1_Go L (TADC_Span1_new g d5) (h, c)) = Undef \<longleftrightarrow> 8 \<le> unat (d5 ! 0)) \<and>
      (fst (TADC_Calibration1_Go L (TADC_Calibration1_new g d9) (h, c)) = Undef \<longleftrightarrow> 8 \<le> unat (d9 ! 0))"
  using assms
  by (auto simp: TADC_Scale1_Go_def TADC_Offset1_Go_def TADC_Calibration1_Go_def TADC_Span1_new_def
      TADC_Calibration1_new_def store_adc_scale_def store_adc_offset_def TConfig_ok_def
      Let_def split_beta)

lemma adc_calibration_index_unchecked_example:
  "fst (TADC_Scale1_Go bank_lib (TADC_Span1_new (\<lambda>_. 0) [9, 0, 0, 0, 0]) (\<lambda>_. 0, blank_config)) = Undef"
  using adc_calibration_index_unchecked [where c = blank_config and ?d5.0 = "[9, 0, 0, 0, 0]"
      and ?d9.0 = "replicate 9 0" and L = bank_lib and g = "\<lambda>_. 0" and h = "\<lambda>_. 0"]
  by simp

text \<open>
  Input type. With the range registers storing what is written to them, \<open>ADC_Differential1\<close>
  for a channel group below eight sets or clears bit 3 of that group's range register and no other
  bit of any register; \<open>ADC_DifferentialAll\<close> does so for the eight groups at once.
\<close>

lemma adc_differential_changes_one_bit:
  assumes "storage_registers L cell S" and "\<forall>k < 8. ofsAdcRange + int k \<in> S"
    and "unat (df_channelGroup p) < 8" and "q \<in> S" and "widthFromOffset q \<noteq> 0"
  shows "(\<exists>h'. TADC_Differential1_Go L p h = (Ok p, h') \<and> (\<forall>n. bit (cell h' q) n \<longleftrightarrow>
            (if q = ofsAdcRange + uint (df_channelGroup p) \<and> n = 3 then df_singleEnded p \<noteq> 0
             else bit (cell h q) n))) \<and>
      (\<exists>h'. TADC_DifferentialAll_Go L a h = (Ok a, h') \<and> (\<forall>n. bit (cell h' q) n \<longleftrightarrow>
            (if n = 3 \<and> ofsAdcRange \<le> q \<and> q < ofsAdcRange + 8
             then settings a ! nat (q - ofsAdcRange) \<noteq> 0 else bit (cell h q) n)))"
proof -
  have q: "q \<in> {r \<in> S. widthFromOffset r \<noteq> 0}" using assms(4,5) by simp
  have eq: "int (unat (df_channelGroup p)) = uint (df_channelGroup p)" by simp
  have ex: "(\<exists>i \<in> set [0..<8]. q = ofsAdcRange + int i) \<longleftrightarrow> ofsAdcRange \<le> q \<and> q < ofsAdcRange + 8"
    by (auto intro!: bexI [of _ "nat (q - ofsAdcRange)"])
  have sub: "set [0..<8] \<subseteq> {..<8}" by auto
  show ?thesis
    using storage_registers.input_type_bits [OF assms(1) assms(3,2) q, of "df_singleEnded p" h]
      storage_registers.input_types_fold [OF assms(1,2) q sub distinct_upt, of "(!) (settings a)" h]
    unfolding TADC_Differential1_Go_def TADC_DifferentialAll_Go_def eq ex
    by (auto simp del: upt_rec_numeral)
qed

lemma adc_differential_changes_one_bit_example:
  "fst (TADC_Differential1_Go bank_lib \<lparr>df_channelGroup = 2, df_singleEnded = 1\<rparr> (\<lambda>_. 0)) =
     Ok \<lparr>df_channelGroup = 2, df_singleEnded = 1\<rparr>"
  using adc_differential_changes_one_bit [OF bank.storage_registers_axioms,
      of "\<lparr>df_channelGroup = 2, df_singleEnded = 1\<rparr>" 3 "\<lambda>_. 0" "\<lparr>settings = replicate 8 1\<rparr>"]
  by (auto simp: widthFromOffset_def)

text \<open>
  The channel group of a range is not checked. Whatever register of the map stores, other than
  register zero, there is an \<open>ADC_Range1\<close> of valid length that writes a byte of the client's choice
  into it, the trigger and the converter registers included.
\<close>

lemma adc_range1_writes_any_register:
  assumes "storage_registers L cell S" and "r \<in> S" and "0 < r" and "widthFromOffset r \<noteq> 0"
  shows "\<exists>data. length data = 2 \<and>
      (\<exists>h'. TADC_Range1_Go L (TADC_Range1_new g data) h = (Ok (TADC_Range1_new g data), h') \<and>
            cell h' r = ucast (v :: u8))"
proof -
  have r: "r \<in> {q \<in> S. widthFromOffset q \<noteq> 0}" "r \<le> 0xFC"
    using assms(2,4) by (auto simp: widthFromOffset_def split: if_splits)
  have "uint (word_of_int (r - 1) :: u8) = r - 1"
    using r(2) assms(3) by (intro word_of_int_inverse) simp_all
  then show ?thesis
    using storage_registers.range_write [OF assms(1) r(1) r(1), of v h]
    by (intro exI [of _ "[word_of_int (r - 1), v]"])
      (auto simp: TADC_Range1_Go_def TADC_Range1_new_def Let_def split_beta)
qed

lemma adc_range1_writes_any_register_example:
  "\<exists>data h'. length data = 2 \<and>
     TADC_Range1_Go bank_lib (TADC_Range1_new (\<lambda>_. 0) data) (\<lambda>_. 0) =
       (Ok (TADC_Range1_new (\<lambda>_. 0) data), h') \<and> bank_cell h' ofsAdcTriggerOptions = ucast (4 :: u8)"
  using adc_range1_writes_any_register [OF bank.storage_registers_axioms, of ofsAdcTriggerOptions
      "\<lambda>_. 0" "\<lambda>_. 0" 4]
  by (auto simp: widthFromOffset_def)

end
