(* ===== verification/AdcStream.thy ===== *)
theory AdcStream
  imports AdcItems
begin

text \<open>
  \<^verbatim>\<open>adc.cpp\<close>: the two threads that move samples. The worker copies each block the driver has transferred
  from the mapped DMA buffer into a slot of the ring buffer; the logger sends the slots, in turn, to the
  streaming client. Two counting semaphores and a mutex stand between them. Each call that another
  thread can observe is one step of its thread; the answers of the system and of the driver are an
  argument of the step.
\<close>

subsection \<open>State\<close>

datatype worker_pc = W_Init | W_Map | W_Logger | W_Loop | W_Ready | W_WaitIRQ | W_Next | W_Take | W_Lock
  | W_Copy | W_Unlock | W_Post | W_DataDone | W_TurnOff | W_Terminate | W_Wake | W_Join | W_Idle
  | W_Ended | W_Undef

datatype logger_pc = L_None | L_Start | L_Loop | L_Wait | L_Lock | L_Send | L_Unlock bool | L_Post
  | L_Advance | L_Broken | L_Ended

text \<open>
  The shared globals, the locals of both threads, and three histories: the blocks slot_copied into the ring,
  the blocks given to \<^verbatim>\<open>send\<close>, and the calls that returned blocks to the driver.
\<close>

record 'b stream =
  ring_buffer :: "'b list"
  dma_buffer :: "nat \<Rightarrow> 'b"
  sem_empty :: nat
  sem_full :: nat
  mutex_held :: bool
  globals :: adc_stream
  AdcLoggerTerminate :: bool
  AdcLoggerThreadID :: int
  done_flag :: bool
  start_modes :: bool
  worker :: worker_pc
  first_slot :: int
  num_slots :: int
  slot_i :: int
  logger_started :: bool
  logger :: logger_pc
  conn :: int
  ring_read_index :: nat
  captured :: "'b list"
  offered :: "(int \<times> 'b) list"
  returned :: nat

definition ring_slot :: "int \<Rightarrow> nat option" where
  "ring_slot k = (if 0 \<le> k \<and> k < 2 ^ 31 then Some (nat k mod RING_BUFFER_SLOTS) else None)"

text \<open>
  What the outside answers: an error number (0 is success), the two numbers of \<^verbatim>\<open>apci_dma_data_ready\<close>,
  and whether a call failed (a wait that timed out, a socket whose peer is gone).
\<close>

record answers =
  ans_status :: int
  ans_first :: int
  ans_num :: int
  ans_timeout :: bool
  ans_pipe :: bool

subsection \<open>The worker\<close>

text \<open>\<open>None\<close> is a thread that is blocked or has ended.\<close>

definition worker_step :: "answers \<Rightarrow> 'b stream \<Rightarrow> 'b stream option" where
  "worker_step a s =
     (case worker s of
        W_Init \<Rightarrow> if ans_status a = 0
           then Some (s\<lparr>done_flag := False, sem_empty := 255, sem_full := 0, mutex_held := False, worker := W_Map\<rparr>)
           else Some (s\<lparr>done_flag := False, worker := W_Ended\<rparr>)
      | W_Map \<Rightarrow> Some (s\<lparr>worker := (if ans_status a = 0 then W_Logger else W_Ended)\<rparr>)
      | W_Logger \<Rightarrow>
          if AdcLoggerThreadID s = - 1 then
            if ans_status a = 0
            then Some (s\<lparr>AdcLoggerTerminate := False, logger_started := True, AdcLoggerThreadID := 0,
                         logger := L_Start, worker := W_Loop\<rparr>)
            else Some (s\<lparr>AdcLoggerTerminate := False, logger_started := False, worker := W_Loop\<rparr>)
          else Some (s\<lparr>worker := W_Loop\<rparr>)
      | W_Loop \<Rightarrow> Some (s\<lparr>worker := (if done_flag s then W_TurnOff else W_Ready)\<rparr>)
      | W_Ready \<Rightarrow> Some (s\<lparr>first_slot := ans_first a, num_slots := ans_num a, slot_i := 0,
                          worker := (if ans_num a = 0 then W_WaitIRQ else W_Next)\<rparr>)
      | W_WaitIRQ \<Rightarrow>
          if ans_status a = 0 then Some (s\<lparr>worker := W_Loop\<rparr>)
          else Some (s\<lparr>globals := (globals s)\<lparr>AdcStreamTerminate := True\<rparr>, AdcLoggerTerminate := True,
                       worker := W_TurnOff\<rparr>)
      | W_Next \<Rightarrow> Some (s\<lparr>worker := (if slot_i s < num_slots s then W_Take else W_Loop)\<rparr>)
      | W_Take \<Rightarrow> if sem_empty s = 0 then None else Some (s\<lparr>sem_empty := sem_empty s - 1, worker := W_Lock\<rparr>)
      | W_Lock \<Rightarrow> if mutex_held s then None else Some (s\<lparr>mutex_held := True, worker := W_Copy\<rparr>)
      | W_Copy \<Rightarrow>
          (case ring_slot (first_slot s + slot_i s) of
             None \<Rightarrow> Some (s\<lparr>worker := W_Undef\<rparr>)
           | Some k \<Rightarrow> Some (s\<lparr>ring_buffer := (ring_buffer s)[k := dma_buffer s k],
                              captured := captured s @ [dma_buffer s k], worker := W_Unlock\<rparr>))
      | W_Unlock \<Rightarrow> Some (s\<lparr>mutex_held := False, worker := W_Post\<rparr>)
      | W_Post \<Rightarrow> Some (s\<lparr>sem_full := sem_full s + 1, worker := W_DataDone\<rparr>)
      | W_DataDone \<Rightarrow> Some (s\<lparr>returned := returned s + 1, slot_i := slot_i s + 1, worker := W_Next\<rparr>)
      | W_TurnOff \<Rightarrow> Some (s\<lparr>start_modes := False, worker := W_Terminate\<rparr>)
      | W_Terminate \<Rightarrow> Some (s\<lparr>AdcLoggerTerminate := True, worker := W_Wake\<rparr>)
      | W_Wake \<Rightarrow> Some (s\<lparr>sem_full := sem_full s + 1, worker := W_Join\<rparr>)
      | W_Join \<Rightarrow>
          if logger_started s then
            if logger s = L_Ended
            then Some (s\<lparr>logger_started := False, AdcLoggerThreadID := - 1, worker := W_Idle\<rparr>)
            else None
          else Some (s\<lparr>worker := W_Idle\<rparr>)
      | W_Idle \<Rightarrow>
          Some (s\<lparr>globals := (globals s)\<lparr>AdcStreamingConnection := - 1, AdcWorkerThreadID := - 1\<rparr>, worker := W_Ended\<rparr>)
      | W_Ended \<Rightarrow> None
      | W_Undef \<Rightarrow> None)"

subsection \<open>The logger\<close>

definition logger_step :: "answers \<Rightarrow> 'b stream \<Rightarrow> 'b stream option" where
  "logger_step a s =
     (case logger s of
        L_None \<Rightarrow> None
      | L_Start \<Rightarrow> Some (s\<lparr>AdcLoggerTerminate := False, conn := AdcStreamingConnection (globals s),
                          ring_read_index := 0, logger := L_Loop\<rparr>)
      | L_Loop \<Rightarrow> Some (s\<lparr>logger := (if AdcLoggerTerminate s then L_Ended else L_Wait)\<rparr>)
      | L_Wait \<Rightarrow>
          if ans_status a \<noteq> 0 then Some (s\<lparr>logger := L_Ended\<rparr>)
          else if 0 < sem_full s then Some (s\<lparr>sem_full := sem_full s - 1, logger := L_Lock\<rparr>)
          else if ans_timeout a then Some (s\<lparr>logger := L_Loop\<rparr>)
          else None
      | L_Lock \<Rightarrow> if mutex_held s then None else Some (s\<lparr>mutex_held := True, logger := L_Send\<rparr>)
      | L_Send \<Rightarrow> Some (s\<lparr>offered := offered s @ [(conn s, ring_buffer s ! ring_read_index s)],
                         logger := L_Unlock (ans_pipe a)\<rparr>)
      | L_Unlock broken \<Rightarrow> Some (s\<lparr>mutex_held := False, logger := (if broken then L_Broken else L_Post)\<rparr>)
      | L_Broken \<Rightarrow> Some (s\<lparr>globals := (globals s)\<lparr>AdcStreamTerminate := True\<rparr>, AdcLoggerTerminate := True,
                           logger := L_Loop\<rparr>)
      | L_Post \<Rightarrow> Some (s\<lparr>sem_empty := sem_empty s + 1, logger := L_Advance\<rparr>)
      | L_Advance \<Rightarrow> Some (s\<lparr>ring_read_index := (ring_read_index s + 1) mod RING_BUFFER_SLOTS, logger := L_Loop\<rparr>)
      | L_Ended \<Rightarrow> None)"

subsection \<open>The threads together\<close>

text \<open>
  One run of the worker, from its creation by \<open>TADC_StreamStart_Go\<close>, with everything that can happen
  meanwhile: the device writes to the DMA buffer, another thread asks the server to end or the stream to
  stop. \<open>D\<close> says which answers the driver may give in a state.
\<close>

inductive stream_step :: "('b stream \<Rightarrow> answers \<Rightarrow> bool) \<Rightarrow> 'b stream \<Rightarrow> 'b stream \<Rightarrow> bool" for D where
  works: "D s a \<Longrightarrow> worker_step a s = Some t \<Longrightarrow> stream_step D s t"
| logs: "D s a \<Longrightarrow> logger_step a s = Some t \<Longrightarrow> stream_step D s t"
| transfers: "stream_step D s (s\<lparr>dma_buffer := m\<rparr>)"
| finishes: "stream_step D s (s\<lparr>done_flag := True\<rparr>)"
| stop_asked: "stream_step D s (s\<lparr>globals := (globals s)\<lparr>AdcStreamTerminate := True\<rparr>\<rparr>)"

inductive stream_steps :: "('b stream \<Rightarrow> answers \<Rightarrow> bool) \<Rightarrow> 'b stream \<Rightarrow> 'b stream \<Rightarrow> bool" for D where
  no_step: "stream_steps D s s"
| a_step: "stream_steps D s t \<Longrightarrow> stream_step D t u \<Longrightarrow> stream_steps D s u"

text \<open>
  The worker as it is created for connection \<open>c\<close>. The ring buffer is a static array: it holds what the
  last stream left in it.
\<close>

definition stream_start :: "'b list \<Rightarrow> (nat \<Rightarrow> 'b) \<Rightarrow> int \<Rightarrow> 'b stream" where
  "stream_start r m c = \<lparr>ring_buffer = r, dma_buffer = m, sem_empty = 0, sem_full = 0, mutex_held = False,
     globals = \<lparr>AdcStreamingConnection = c, AdcStreamTerminate = False, AdcWorkerThreadID = 0\<rparr>,
     AdcLoggerTerminate = False, AdcLoggerThreadID = - 1, done_flag = False, start_modes = True,
     worker = W_Init, first_slot = 0, num_slots = 0, slot_i = 0, logger_started = False, logger = L_None,
     conn = 0, ring_read_index = 0, captured = [], offered = [], returned = 0\<rparr>"

text \<open>
  What the driver promises: it reports no more slots than there are, starting after the last one that was
  returned to it.
\<close>

definition slots_driver :: "'b stream \<Rightarrow> answers \<Rightarrow> bool" where
  "slots_driver s a \<longleftrightarrow> ans_first a = int (returned s mod RING_BUFFER_SLOTS) \<and> ans_num a \<le> int RING_BUFFER_SLOTS"

definition slots_in_order :: "('b stream \<Rightarrow> answers \<Rightarrow> bool) \<Rightarrow> bool" where
  "slots_in_order D \<longleftrightarrow> (\<forall>s a. D s a \<longrightarrow> slots_driver s a)"

subsection \<open>The invariant\<close>

text \<open>Before the worker has started the logger there is nothing in the ring.\<close>

definition phase_inv :: "'b stream \<Rightarrow> bool" where
  "phase_inv s \<longleftrightarrow> worker s \<noteq> W_Undef \<and>
     (worker s \<in> {W_Init, W_Map, W_Logger} \<longrightarrow> logger s = L_None \<and> captured s = []) \<and>
     (logger s \<in> {L_None, L_Start} \<longrightarrow> offered s = []) \<and>
     (logger s \<notin> {L_None, L_Ended} \<longrightarrow> logger_started s \<and> worker s \<notin> {W_Idle, W_Ended})"

text \<open>The semaphores count the full and the free slots; a slot in the hands of a thread is in neither count.\<close>

fun full_owed :: "worker_pc \<Rightarrow> nat" where
  "full_owed W_Unlock = 1"
| "full_owed W_Post = 1"
| "full_owed _ = 0"

fun full_taken :: "logger_pc \<Rightarrow> nat" where
  "full_taken L_Lock = 1"
| "full_taken L_Send = 1"
| "full_taken _ = 0"

fun empty_taken :: "worker_pc \<Rightarrow> nat" where
  "empty_taken W_Lock = 1"
| "empty_taken W_Copy = 1"
| "empty_taken _ = 0"

fun empty_owed :: "logger_pc \<Rightarrow> nat" where
  "empty_owed (L_Unlock _) = 1"
| "empty_owed L_Post = 1"
| "empty_owed _ = 0"

fun wake_posted :: "worker_pc \<Rightarrow> nat" where
  "wake_posted W_Join = 1"
| "wake_posted W_Idle = 1"
| "wake_posted W_Ended = 1"
| "wake_posted _ = 0"

definition count_inv :: "'b stream \<Rightarrow> bool" where
  "count_inv s \<longleftrightarrow>
     sem_full s + length (offered s) + full_owed (worker s) + full_taken (logger s)
       \<le> length (captured s) + wake_posted (worker s) \<and>
     sem_empty s + length (captured s) + empty_taken (worker s) + empty_owed (logger s)
       \<le> RING_BUFFER_SLOTS + length (offered s)"

text \<open>The worker's slot is the next one of the ring, and so is the logger's.\<close>

fun has_slot :: "worker_pc \<Rightarrow> bool" where
  "has_slot W_Take = True"
| "has_slot W_Lock = True"
| "has_slot W_Copy = True"
| "has_slot _ = False"

fun slot_copied :: "worker_pc \<Rightarrow> bool" where
  "slot_copied W_Unlock = True"
| "slot_copied W_Post = True"
| "slot_copied W_DataDone = True"
| "slot_copied _ = False"

definition slot_inv :: "'b stream \<Rightarrow> bool" where
  "slot_inv s \<longleftrightarrow> num_slots s \<le> int RING_BUFFER_SLOTS \<and> 0 \<le> first_slot s \<and> first_slot s < int RING_BUFFER_SLOTS \<and> 0 \<le> slot_i s \<and>
     (has_slot (worker s) \<longrightarrow> slot_i s < num_slots s) \<and>
     (worker s = W_Next \<or> has_slot (worker s) \<or> slot_copied (worker s) \<longrightarrow>
        nat (first_slot s + slot_i s) mod RING_BUFFER_SLOTS = returned s mod RING_BUFFER_SLOTS) \<and>
     length (captured s) = returned s + of_bool (slot_copied (worker s))"

fun before_read :: "logger_pc \<Rightarrow> bool" where
  "before_read L_Wait = True"
| "before_read L_Lock = True"
| "before_read L_Send = True"
| "before_read _ = False"

fun after_read :: "logger_pc \<Rightarrow> bool" where
  "after_read (L_Unlock _) = True"
| "after_read L_Post = True"
| "after_read L_Advance = True"
| "after_read _ = False"

definition read_inv :: "'b stream \<Rightarrow> bool" where
  "read_inv s \<longleftrightarrow>
     (before_read (logger s) \<longrightarrow> ring_read_index s = length (offered s) mod RING_BUFFER_SLOTS) \<and>
     (logger s = L_Loop \<longrightarrow> AdcLoggerTerminate s \<or> ring_read_index s = length (offered s) mod RING_BUFFER_SLOTS) \<and>
     (after_read (logger s) \<longrightarrow>
        (ring_read_index s + 1) mod RING_BUFFER_SLOTS = length (offered s) mod RING_BUFFER_SLOTS)"

text \<open>The slots between the two hold the blocks that were captured and not yet sent.\<close>

definition ring_inv :: "'b stream \<Rightarrow> bool" where
  "ring_inv s \<longleftrightarrow> length (ring_buffer s) = RING_BUFFER_SLOTS \<and>
     (\<forall>k. length (offered s) \<le> k \<and> k < length (captured s) \<longrightarrow>
        ring_buffer s ! (k mod RING_BUFFER_SLOTS) = captured s ! k) \<and>
     take (length (captured s)) (map snd (offered s)) = take (length (offered s)) (captured s)"

definition conn_inv :: "int \<Rightarrow> 'b stream \<Rightarrow> bool" where
  "conn_inv c s \<longleftrightarrow> (worker s \<noteq> W_Ended \<longrightarrow> AdcStreamingConnection (globals s) = c) \<and>
     (logger s \<notin> {L_None, L_Start} \<longrightarrow> conn s = c) \<and> (\<forall>x \<in> set (offered s). fst x = c)"

fun worker_inside :: "worker_pc \<Rightarrow> bool" where
  "worker_inside W_Copy = True"
| "worker_inside W_Unlock = True"
| "worker_inside _ = False"

fun logger_inside :: "logger_pc \<Rightarrow> bool" where
  "logger_inside L_Send = True"
| "logger_inside (L_Unlock _) = True"
| "logger_inside _ = False"

definition mutex_inv :: "'b stream \<Rightarrow> bool" where
  "mutex_inv s \<longleftrightarrow> (mutex_held s \<longleftrightarrow> worker_inside (worker s) \<or> logger_inside (logger s)) \<and>
     \<not> (worker_inside (worker s) \<and> logger_inside (logger s))"

lemmas inv_defs = phase_inv_def count_inv_def slot_inv_def read_inv_def ring_inv_def conn_inv_def
  mutex_inv_def

lemma ring_slots_apart:
  assumes "t \<le> k" and "k < c" and "c < t + n"
  shows "k mod n \<noteq> c mod (n :: nat)"
proof
  assume "k mod n = c mod n"
  then have "n dvd c - k" using assms(2) by (metis less_imp_le mod_eq_dvd_iff_nat)
  then show False using assms by (auto dest: dvd_imp_le)
qed

lemma RING_pos [simp]: "0 < RING_BUFFER_SLOTS" "n mod RING_BUFFER_SLOTS < RING_BUFFER_SLOTS"
  by (simp_all add: RING_BUFFER_SLOTS_def)

lemma phase_inv_worker:
  assumes "worker_step a s = Some t" and "phase_inv s" and "slot_inv s"
  shows "phase_inv t"
  using assms by (cases "worker s"; clarsimp simp: worker_step_def phase_inv_def slot_inv_def ring_slot_def RING_BUFFER_SLOTS_def split: if_splits option.splits)

lemma phase_inv_logger:
  assumes "logger_step a s = Some t" and "phase_inv s"
  shows "phase_inv t"
  using assms by (cases "logger s"; clarsimp simp: logger_step_def phase_inv_def split: if_splits)

lemma count_inv_worker:
  assumes "worker_step a s = Some t" and "phase_inv s" and "count_inv s"
  shows "count_inv t"
  using assms by (cases "worker s"; clarsimp simp: worker_step_def phase_inv_def count_inv_def RING_BUFFER_SLOTS_def
      split: if_splits option.splits)

lemma count_inv_logger:
  assumes "logger_step a s = Some t" and "phase_inv s" and "count_inv s"
  shows "count_inv t"
  using assms by (cases "logger s"; clarsimp simp: logger_step_def phase_inv_def count_inv_def split: if_splits)

lemma conn_inv_worker:
  assumes "worker_step a s = Some t" and "conn_inv c s"
  shows "conn_inv c t"
  using assms by (cases "worker s"; clarsimp simp: worker_step_def conn_inv_def split: if_splits option.splits)

lemma conn_inv_logger:
  assumes "logger_step a s = Some t" and "phase_inv s" and "conn_inv c s"
  shows "conn_inv c t"
  using assms by (cases "logger s"; clarsimp simp: logger_step_def phase_inv_def conn_inv_def split: if_splits)

lemma mutex_inv_worker:
  assumes "worker_step a s = Some t" and "phase_inv s" and "phase_inv t" and "mutex_inv s"
  shows "mutex_inv t"
  using assms by (cases "worker s"; clarsimp simp: worker_step_def phase_inv_def mutex_inv_def split: if_splits option.splits)

lemma mutex_inv_logger:
  assumes "logger_step a s = Some t" and "mutex_inv s"
  shows "mutex_inv t"
  using assms by (cases "logger s"; clarsimp simp: logger_step_def mutex_inv_def split: if_splits)

lemma nat_Suc_mod:
  assumes "nat x mod n = m mod n" and "0 \<le> x"
  shows "nat (x + 1) mod n = Suc m mod n"
  using assms by (metis Suc_nat_eq_nat_zadd1 add.commute mod_Suc_eq)

lemma slot_inv_worker:
  assumes "worker_step a s = Some t" and "phase_inv t" and "slot_inv s"
    and "ans_first a = int (returned s mod RING_BUFFER_SLOTS)" and "ans_num a \<le> int RING_BUFFER_SLOTS"
  shows "slot_inv t"
proof (cases "worker s = W_DataDone")
  case True
  then have "nat (first_slot s + slot_i s + 1) mod RING_BUFFER_SLOTS = Suc (returned s) mod RING_BUFFER_SLOTS"
    using assms(3) by (intro nat_Suc_mod) (auto simp: slot_inv_def)
  then show ?thesis
    using assms(1,3) True by (auto simp: worker_step_def slot_inv_def add.assoc)
next
  case False
  then show ?thesis
    using assms
    by (cases "worker s"; clarsimp simp: worker_step_def phase_inv_def slot_inv_def split: if_splits option.splits)
qed

lemma slot_inv_logger:
  assumes "logger_step a s = Some t" and "slot_inv s"
  shows "slot_inv t"
  using assms by (cases "logger s"; clarsimp simp: logger_step_def slot_inv_def split: if_splits)

lemma read_inv_worker:
  assumes "worker_step a s = Some t" and "phase_inv s" and "read_inv s"
  shows "read_inv t"
  using assms
  by (cases "worker s"; clarsimp simp: worker_step_def phase_inv_def read_inv_def split: if_splits option.splits)

lemma read_inv_logger:
  assumes "logger_step a s = Some t" and "phase_inv s" and "read_inv s"
  shows "read_inv t"
  using assms
  by (cases "logger s"; clarsimp simp: logger_step_def phase_inv_def read_inv_def mod_Suc_eq split: if_splits)

lemma ring_inv_copy:
  assumes "ring_inv s" and "count_inv s" and "slot_inv s" and "worker s = W_Copy"
    and k: "k = length (captured s) mod RING_BUFFER_SLOTS"
  shows "ring_inv (s\<lparr>ring_buffer := (ring_buffer s)[k := x], captured := captured s @ [x], worker := W_Unlock\<rparr>)"
proof -
  have less: "length (captured s) < length (offered s) + RING_BUFFER_SLOTS" and le: "length (offered s) \<le> length (captured s)"
    using assms(2,4) by (auto simp: count_inv_def)
  have "k \<noteq> j mod RING_BUFFER_SLOTS" if "length (offered s) \<le> j" "j < length (captured s)" for j
    unfolding k using ring_slots_apart [OF that less] by simp
  moreover have "k < RING_BUFFER_SLOTS" by (simp add: k RING_BUFFER_SLOTS_def)
  ultimately show ?thesis
    using assms(1) le by (auto simp: ring_inv_def less_Suc_eq nth_append k [symmetric])
qed

lemma ring_inv_worker:
  assumes "worker_step a s = Some t" and "phase_inv t" and "count_inv s" and "slot_inv s" and "ring_inv s"
  shows "ring_inv t"
proof (cases "worker s = W_Copy")
  case True
  then obtain k where k: "ring_slot (first_slot s + slot_i s) = Some k"
    using assms(1,2) by (auto simp: worker_step_def phase_inv_def split: option.splits)
  then have "k = length (captured s) mod RING_BUFFER_SLOTS"
    using assms(4) True by (auto simp: slot_inv_def ring_slot_def split: if_splits)
  then show ?thesis
    using assms(1) True k ring_inv_copy [OF assms(5,3,4) True] by (auto simp: worker_step_def)
next
  case False
  then show ?thesis
    using assms(1,5) by (cases "worker s"; clarsimp simp: worker_step_def ring_inv_def split: if_splits)
qed

lemma ring_inv_logger:
  assumes "logger_step a s = Some t" and "count_inv s" and "read_inv s" and "ring_inv s"
  shows "ring_inv t"
proof (cases "logger s = L_Send")
  case True
  let ?t = "length (offered s)" and ?c = "length (captured s)"
  have t: "t = s\<lparr>offered := offered s @ [(conn s, ring_buffer s ! (?t mod RING_BUFFER_SLOTS))], logger := L_Unlock (ans_pipe a)\<rparr>"
    using assms(1,3) True by (simp add: logger_step_def read_inv_def)
  show ?thesis
  proof (cases "?t < ?c")
    case True
    then have "ring_buffer s ! (?t mod RING_BUFFER_SLOTS) = captured s ! ?t"
      using assms(4) by (simp add: ring_inv_def)
    then show ?thesis
      using assms(4) True by (simp add: ring_inv_def t take_Suc_conv_app_nth)
  next
    case False
    then show ?thesis using assms(4) by (simp add: ring_inv_def t)
  qed
next
  case False
  then show ?thesis
    using assms(1,4) by (cases "logger s"; clarsimp simp: logger_step_def ring_inv_def split: if_splits)
qed

definition stream_inv :: "int \<Rightarrow> 'b stream \<Rightarrow> bool" where
  "stream_inv c s \<longleftrightarrow> phase_inv s \<and> count_inv s \<and> slot_inv s \<and> read_inv s \<and> ring_inv s \<and> conn_inv c s \<and> mutex_inv s"

lemmas worker_keeps = phase_inv_worker count_inv_worker slot_inv_worker read_inv_worker ring_inv_worker
  conn_inv_worker mutex_inv_worker

lemmas logger_keeps = phase_inv_logger count_inv_logger slot_inv_logger read_inv_logger ring_inv_logger
  conn_inv_logger mutex_inv_logger

text \<open>What happens outside the two threads touches none of this.\<close>

lemma stream_inv_env:
  "stream_inv c (s\<lparr>dma_buffer := m\<rparr>) \<longleftrightarrow> stream_inv c s"
  "stream_inv c (s\<lparr>done_flag := b\<rparr>) \<longleftrightarrow> stream_inv c s"
  "stream_inv c (s\<lparr>globals := (globals s)\<lparr>AdcStreamTerminate := b\<rparr>\<rparr>) \<longleftrightarrow> stream_inv c s"
  unfolding stream_inv_def
  by (intro arg_cong2 [where f = "(\<and>)"]; simp only: inv_defs stream.simps adc_stream.simps stream.ext_inject cong: if_cong; simp)+

lemma stream_inv_step:
  assumes "stream_step D s t" and "slots_in_order D" and "stream_inv c s"
  shows "stream_inv c t"
  using assms
proof (induction rule: stream_step.induct)
  case (works s a t)
  then have a: "ans_first a = int (returned s mod RING_BUFFER_SLOTS)" "ans_num a \<le> int RING_BUFFER_SLOTS"
    by (auto simp: slots_in_order_def slots_driver_def)
  have s: "phase_inv s" "count_inv s" "slot_inv s" "read_inv s" "ring_inv s" "conn_inv c s" "mutex_inv s"
    using works.prems(2) by (auto simp: stream_inv_def)
  have t: "phase_inv t" using worker_keeps(1) [OF works(2) s(1,3)] .
  show ?case
    unfolding stream_inv_def
    using t worker_keeps(2) [OF works(2) s(1,2)] worker_keeps(3) [OF works(2) t s(3) a]
      worker_keeps(4) [OF works(2) s(1,4)] worker_keeps(5) [OF works(2) t s(2,3,5)]
      worker_keeps(6) [OF works(2) s(6)] worker_keeps(7) [OF works(2) s(1) t s(7)] by blast
next
  case (logs s a t)
  then show ?case
    unfolding stream_inv_def by (intro conjI; elim conjE; blast intro: logger_keeps)
qed (simp_all add: stream_inv_env)

lemma stream_inv_start: "length r = RING_BUFFER_SLOTS \<Longrightarrow> stream_inv c (stream_start r m c)"
  by (simp add: stream_inv_def inv_defs stream_start_def RING_BUFFER_SLOTS_def)

lemma stream_inv_steps:
  "stream_steps D s t \<Longrightarrow> slots_in_order D \<Longrightarrow> stream_inv c s \<Longrightarrow> stream_inv c t"
  by (induction rule: stream_steps.induct) (auto intro: stream_inv_step)

subsection \<open>What is sent\<close>


text \<open>
  After the stream has ended the client has what was captured, in order, possibly without the last blocks, or all
  of it and one block more, never more than one.
\<close>

lemma stream_at_most_one_extra:
  assumes "length r = RING_BUFFER_SLOTS" and "stream_steps D (stream_start r m c) s" and "slots_in_order D"
  shows "map snd (offered s) = take (length (offered s)) (captured s) \<or>
      (worker s \<in> {W_Join, W_Idle, W_Ended} \<and> (\<exists>x. map snd (offered s) = captured s @ [x]))"
proof (cases "length (offered s) \<le> length (captured s)")
  case True
  then show ?thesis
    using stream_inv_steps [OF assms(2,3) stream_inv_start [OF assms(1)]] by (auto simp: stream_inv_def ring_inv_def)
next
  case False
  have inv: "stream_inv c s"
    using stream_inv_steps [OF assms(2,3) stream_inv_start [OF assms(1)]] .
  have "wake_posted (worker s) \<le> 1" by (cases "worker s") auto
  then have n: "wake_posted (worker s) = 1" "length (offered s) = Suc (length (captured s))"
    using inv False by (auto simp: stream_inv_def count_inv_def)
  then have "worker s \<in> {W_Join, W_Idle, W_Ended}" by (cases "worker s") auto
  moreover have "take (length (captured s)) (map snd (offered s)) = captured s"
    using inv False by (auto simp: stream_inv_def ring_inv_def)
  then have "map snd (offered s) = captured s @ [map snd (offered s) ! length (captured s)]"
    using n(2) take_Suc_conv_app_nth [of "length (captured s)" "map snd (offered s)"] by simp
  ultimately show ?thesis by blast
qed

subsection \<open>Runs\<close>

text \<open>
  A schedule: whose turn it is (the worker's or the logger's) and what the outside answers. The answers
  used below: \<open>n\<close> blocks are ready and every call succeeds, or the peer of the socket is gone.
\<close>

definition ready :: "int \<Rightarrow> bool \<Rightarrow> 'b stream \<Rightarrow> answers" where
  "ready n broken s = \<lparr>ans_status = 0, ans_first = int (returned s mod RING_BUFFER_SLOTS), ans_num = n,
     ans_timeout = False, ans_pipe = broken\<rparr>"

lemma slots_driver_ready: "n \<le> 255 \<Longrightarrow> slots_driver s (ready n p s)"
  by (simp add: slots_driver_def ready_def RING_BUFFER_SLOTS_def)

fun drive :: "(bool \<times> ('b stream \<Rightarrow> answers)) list \<Rightarrow> 'b stream \<Rightarrow> 'b stream option" where
  "drive [] s = Some s"
| "drive ((w, f) # fs) s =
     (case (if w then worker_step else logger_step) (f s) s of None \<Rightarrow> None | Some t \<Rightarrow> drive fs t)"

lemma steps_trans: "stream_steps D t u \<Longrightarrow> stream_steps D s t \<Longrightarrow> stream_steps D s u"
  by (induction rule: stream_steps.induct) (auto intro: stream_steps.intros)

lemma drive_steps:
  "drive fs s = Some t \<Longrightarrow> (\<And>w f s. (w, f) \<in> set fs \<Longrightarrow> D s (f s)) \<Longrightarrow> stream_steps D s t"
proof (induction fs s rule: drive.induct)
  case (1 s)
  then show ?case by (simp add: stream_steps.no_step)
next
  case (2 w f fs s)
  then obtain u where u: "(if w then worker_step else logger_step) (f s) s = Some u" "drive fs u = Some t"
    by (auto split: option.splits)
  have "stream_step D s u"
    using u(1) 2(3) [of w f s] by (cases w) (auto intro: stream_step.intros)
  then have "stream_steps D s u" by (auto intro: stream_steps.intros)
  then show ?case using 2(1) [OF u] 2(3) by (auto intro: steps_trans)
qed

definition started :: "'b stream \<Rightarrow> bool" where
  "started s \<longleftrightarrow> worker s = W_Loop \<and> logger s = L_Wait \<and> \<not> done_flag s \<and> \<not> AdcLoggerTerminate s \<and> \<not> mutex_held s \<and>
     sem_empty s = 255 \<and> sem_full s = 0 \<and> captured s = [] \<and> offered s = [] \<and> ring_read_index s = 0 \<and> returned s = 0"

lemma run_start:
  "\<exists>s. drive (replicate 3 (True, ready n False) @ replicate 2 (False, ready n False)) (stream_start r m c) = Some s \<and>
     started s \<and> ring_buffer s = r \<and> dma_buffer s = m \<and> conn s = c \<and> AdcStreamingConnection (globals s) = c"
  by (simp add: eval_nat_numeral worker_step_def logger_step_def stream_start_def ready_def started_def)

text \<open>
  C32: The last wake-up sends a block that was never captured. A client whose stream ends before the first
  block is ready is sent the contents of the first slot of the ring, left there by an earlier stream.
\<close>

theorem stream_end_sends_stale_block:
  assumes "\<And>s. D s (ready 0 False s)"
  shows "\<exists>s. stream_steps D (stream_start r m c) s \<and> captured s = [] \<and> offered s = [(c, r ! 0)]"
proof -
  obtain s where s: "drive (replicate 3 (True, ready 0 False) @ replicate 2 (False, ready 0 False)) (stream_start r m c) = Some s"
    "started s" "ring_buffer s = r" "conn s = c"
    using run_start [of 0 r m c] by blast
  let ?d = "s\<lparr>done_flag := True\<rparr>"
  have "\<exists>t. drive (replicate 4 (True, ready 0 False) @ replicate 3 (False, ready 0 False)) ?d = Some t \<and>
      captured t = [] \<and> offered t = [(c, r ! 0)]"
    using s(2-4) by (simp add: eval_nat_numeral started_def worker_step_def logger_step_def ready_def)
  then obtain t where t: "drive (replicate 4 (True, ready 0 False) @ replicate 3 (False, ready 0 False)) ?d = Some t"
    "captured t = []" "offered t = [(c, r ! 0)]" by blast
  have "stream_steps D (stream_start r m c) s" "stream_steps D ?d t"
    using drive_steps [OF s(1)] drive_steps [OF t(1)] assms by auto
  then show ?thesis
    using t(2,3) stream_step.finishes by (blast intro: steps_trans stream_steps.intros)
qed

subsection \<open>A stream that never ends\<close>

definition stuck :: "int \<Rightarrow> 'b stream \<Rightarrow> bool" where
  "stuck c s \<longleftrightarrow> worker s = W_Take \<and> sem_empty s = 0 \<and> logger s = L_Ended \<and> AdcStreamingConnection (globals s) = c"

lemma stuck_step: "stream_step D s t \<Longrightarrow> stuck c s \<Longrightarrow> stuck c t"
  by (induction rule: stream_step.induct) (simp_all add: stuck_def worker_step_def logger_step_def)

lemma stuck_steps: "stream_steps D s t \<Longrightarrow> stuck c s \<Longrightarrow> stuck c t"
  by (induction rule: stream_steps.induct) (blast intro: stuck_step)+

definition filling :: "int \<Rightarrow> nat \<Rightarrow> 'b stream \<Rightarrow> bool" where
  "filling c e s \<longleftrightarrow> worker s = W_Loop \<and> logger s = L_Ended \<and> \<not> done_flag s \<and> \<not> mutex_held s \<and>
     sem_empty s = e \<and> AdcStreamingConnection (globals s) = c"

lemma ring_slot_ready: "ring_slot (int (n mod RING_BUFFER_SLOTS)) = Some (n mod RING_BUFFER_SLOTS)"
  using RING_pos(2) [of n] by (simp add: ring_slot_def RING_BUFFER_SLOTS_def)

lemma capture_one:
  assumes "worker s = W_Loop" "\<not> done_flag s" "\<not> mutex_held s" "sem_empty s = Suc e"
  shows "\<exists>t. drive (replicate 10 (True, ready 1 False)) s = Some t \<and>
    worker t = W_Loop \<and> \<not> done_flag t \<and> \<not> mutex_held t \<and> sem_empty t = e \<and> sem_full t = Suc (sem_full s) \<and>
    logger t = logger s \<and> globals t = globals s \<and> AdcLoggerTerminate t = AdcLoggerTerminate s"
  using assms by (simp add: eval_nat_numeral worker_step_def ready_def ring_slot_ready)

lemma capture_many:
  assumes "\<And>s. D s (ready 1 False s)"
  shows "filling c e s \<Longrightarrow> \<exists>t. stream_steps D s t \<and> filling c 0 t"
proof (induction e arbitrary: s)
  case 0
  then show ?case using stream_steps.no_step by blast
next
  case (Suc e)
  then have "worker s = W_Loop" "\<not> done_flag s" "\<not> mutex_held s" "sem_empty s = Suc e"
    by (auto simp: filling_def)
  from capture_one [OF this] obtain t where t: "drive (replicate 10 (True, ready 1 False)) s = Some t" "filling c e t"
    using Suc.prems by (auto simp: filling_def)
  have "stream_steps D s t" using drive_steps [OF t(1)] assms by auto
  then show ?case using Suc.IH [OF t(2)] by (blast intro: steps_trans)
qed

text \<open>
  C31: A client that hangs up at the wrong moment ends streaming for good. When the logger finds the connection
  closed it ends without returning the slot it holds, and while blocks keep coming the worker never
  waits for the device, where it would notice; it fills the ring and then waits for a free slot for ever,
  whatever happens and even when the server is told to end. The stream stays claimed, so every later
  request to stream is refused.
\<close>

theorem stream_stuck_after_hangup:
  assumes "\<And>s p. D s (ready 1 p s)" and "c \<noteq> - 1"
  shows "\<exists>s. stream_steps D (stream_start r m c) s \<and>
      (\<forall>t bytes. stream_steps D s t \<and> length bytes = 4 \<longrightarrow> worker_step a t = None \<and> logger_step a t = None \<and>
         TADC_StreamStart_new bytes (globals t) = (Throw (LogicError (ADC_Busy c)), globals t))"
proof -
  obtain s where s: "drive (replicate 3 (True, ready 1 False) @ replicate 2 (False, ready 1 False)) (stream_start r m c) = Some s"
    "started s" "AdcStreamingConnection (globals s) = c"
    using run_start [of 1 r m c] by blast
  obtain t where t: "drive (replicate 10 (True, ready 1 False)) s = Some t" "worker t = W_Loop" "\<not> done_flag t"
    "\<not> mutex_held t" "sem_empty t = 254" "sem_full t = 1" "logger t = L_Wait" "globals t = globals s"
    using capture_one [of s 254] s(2) by (auto simp: started_def)
  have "\<exists>u. drive (replicate 6 (False, ready 1 True)) t = Some u \<and> filling c 254 u"
    using t(2-) s(3) by (simp add: eval_nat_numeral logger_step_def ready_def filling_def)
  then obtain u where u: "drive (replicate 6 (False, ready 1 True)) t = Some u" "filling c 254 u" by blast
  obtain v where v: "stream_steps D u v" "filling c 0 v" using capture_many u(2) assms(1) by blast
  have "\<exists>w. drive (replicate 3 (True, ready 1 False)) v = Some w \<and> stuck c w"
    using v(2) by (simp add: eval_nat_numeral worker_step_def ready_def filling_def stuck_def)
  then obtain w where w: "drive (replicate 3 (True, ready 1 False)) v = Some w" "stuck c w" by blast
  have D: "stream_steps D x y" if "drive fs x = Some y" "\<forall>(w, f) \<in> set fs. \<exists>p. f = ready 1 p" for fs x y
    using that assms(1) by (intro drive_steps [of fs x y D]) auto
  have "stream_steps D (stream_start r m c) s" "stream_steps D s t" "stream_steps D t u" "stream_steps D v w"
    by (rule D [OF s(1)] D [OF t(1)] D [OF u(1)] D [OF w(1)]; auto)+
  then have "stream_steps D (stream_start r m c) w" using v(1) by (blast intro: steps_trans)
  moreover have "worker_step a x = None \<and> logger_step a x = None \<and>
      TADC_StreamStart_new bytes (globals x) = (Throw (LogicError (ADC_Busy c)), globals x)"
    if "stream_steps D w x" "length bytes = 4" for x bytes
    using stuck_steps [OF that(1) w(2)] that(2) assms(2)
    by (simp add: stuck_def worker_step_def logger_step_def TADC_StreamStart_new_def Let_def)
  ultimately show ?thesis by blast
qed

subsection \<open>Witnesses\<close>

lemma slots_driver_in_order: "slots_in_order slots_driver"
  by (simp add: slots_in_order_def)

theorem stream_end_sends_stale_block_witness:
  "\<exists>s. stream_steps slots_driver (stream_start (replicate 255 (7 :: nat)) (\<lambda>_. 0) 5) s \<and> captured s = [] \<and> offered s = [(5, 7)]"
  using stream_end_sends_stale_block [of slots_driver "replicate 255 (7 :: nat)" "\<lambda>_. 0" 5]
  by (simp add: slots_driver_ready)

theorem stream_stuck_after_hangup_witness:
  "\<exists>s. stream_steps slots_driver (stream_start (replicate 255 (0 :: nat)) (\<lambda>_. 0) 5) s \<and>
     worker_step \<lparr>ans_status = 0, ans_first = 0, ans_num = 1, ans_timeout = True, ans_pipe = False\<rparr> s = None \<and>
     TADC_StreamStart_new [6, 0, 0, 0] (globals s) = (Throw (LogicError (ADC_Busy 5)), globals s)"
proof -
  obtain s where "stream_steps slots_driver (stream_start (replicate 255 (0 :: nat)) (\<lambda>_. 0) 5) s"
    and s: "\<forall>t bytes. stream_steps slots_driver s t \<and> length bytes = 4 \<longrightarrow>
      worker_step \<lparr>ans_status = 0, ans_first = 0, ans_num = 1, ans_timeout = True, ans_pipe = False\<rparr> t = None \<and>
      TADC_StreamStart_new bytes (globals t) = (Throw (LogicError (ADC_Busy 5)), globals t)"
    using stream_stuck_after_hangup [of slots_driver 5 "replicate 255 (0 :: nat)" "\<lambda>_. 0"
        "\<lparr>ans_status = 0, ans_first = 0, ans_num = 1, ans_timeout = True, ans_pipe = False\<rparr>"]
    by (auto simp: slots_driver_ready)
  moreover have "stream_steps slots_driver s s" "length [6 :: u8, 0, 0, 0] = 4"
    by (simp_all add: stream_steps.no_step)
  then have "worker_step \<lparr>ans_status = 0, ans_first = 0, ans_num = 1, ans_timeout = True, ans_pipe = False\<rparr> s = None \<and>
      TADC_StreamStart_new [6, 0, 0, 0] (globals s) = (Throw (LogicError (ADC_Busy 5)), globals s)"
    using s by blast
  ultimately show ?thesis by blast
qed

lemma one_captured:
  "\<exists>s. stream_steps slots_driver (stream_start (replicate 255 (0 :: nat)) (\<lambda>_. 9) 5) s \<and> worker s = W_Loop \<and> captured s = [9]"
proof -
  let ?s = "stream_start (replicate 255 (0 :: nat)) (\<lambda>_. 9) 5"
  obtain s where s: "drive (replicate 3 (True, ready 1 False) @ replicate 2 (False, ready 1 False)) ?s = Some s"
    "started s" "dma_buffer s = (\<lambda>_. 9)"
    using run_start [of 1 "replicate 255 (0 :: nat)" "\<lambda>_. 9" 5] by blast
  have "\<exists>t. drive (replicate 10 (True, ready 1 False)) s = Some t \<and> worker t = W_Loop \<and> captured t = [9]"
    using s(2,3) by (simp add: eval_nat_numeral started_def worker_step_def ready_def ring_slot_def)
  then obtain t where t: "drive (replicate 10 (True, ready 1 False)) s = Some t" "worker t = W_Loop" "captured t = [9]"
    by blast
  have "stream_steps slots_driver ?s s" "stream_steps slots_driver s t"
    by (rule drive_steps [OF s(1)] drive_steps [OF t(1)]; auto simp: slots_driver_ready)+
  then show ?thesis using t by (blast intro: steps_trans)
qed


end
