(* ===== verification/CfgSysItems.thy ===== *)
theory CfgSysItems
  imports DioItems Config
begin

text \<open>
  The host name item (\<^verbatim>\<open>DataItems/CFG_.cpp\<close>), the upload items and the two error items
  (\<^verbatim>\<open>DataItems/SYS_.cpp\<close>).
\<close>

text \<open>Bytes as characters and back.\<close>

definition bytes_string :: "TBytes \<Rightarrow> string" where
  "bytes_string bs = map (\<lambda>b. char_of (unat b)) bs"

definition string_bytes :: "string \<Rightarrow> TBytes" where
  "string_bytes s = map (\<lambda>c. of_nat (of_char c)) s"

lemma string_bytes_string [simp]: "string_bytes (bytes_string bs) = bs"
proof -
  have "(of_char (char_of (unat b)) :: nat) = unat b" for b :: u8
    using unsigned_less [of b, where ?'a = nat] by simp
  then show ?thesis by (simp add: string_bytes_def bytes_string_def o_def of_nat_unat)
qed

lemma length_string_bytes [simp]: "length (string_bytes s) = length s"
  "length (bytes_string bs) = length bs"
  by (simp_all add: string_bytes_def bytes_string_def)

lemma string_bytes_inj [simp]: "bytes_string (string_bytes s) = s"
proof -
  have "char_of (unat (of_nat (of_char c) :: u8)) = c" for c
    by (simp add: unsigned_of_nat take_bit_nat_eq_self)
  then show ?thesis by (simp add: string_bytes_def bytes_string_def o_def)
qed

subsection \<open>\<open>CFG_Hostname\<close>\<close>

text \<open>The parameter is an array of 256 characters, cleared before at most 255 are copied.\<close>

record HostnameParams =
  hn_hostname :: TBytes

definition TCFG_Hostname_new :: "TBytes \<Rightarrow> HostnameParams" where
  "TCFG_Hostname_new buf =
     (let copyLen = min (length buf) 255
      in \<lparr>hn_hostname = take copyLen buf @ replicate (256 - copyLen) 0\<rparr>)"

definition TCFG_Hostname_calcPayload :: "HostnameParams \<Rightarrow> bool \<Rightarrow> TBytes" where
  "TCFG_Hostname_calcPayload p bAsReply = takeWhile (\<lambda>b. b \<noteq> 0) (hn_hostname p)"

definition UpdateEtcHosts127011 :: "os_lib \<Rightarrow> string \<Rightarrow> fs \<Rightarrow> unit res \<times> fs" where
  "UpdateEtcHosts127011 os newHost s =
     (let (e, s) = tick s;
          content = (case lookup_file s ''/etc/hosts'' of
                       None \<Rightarrow> [] | Some c \<Rightarrow> if e = 0 then c else [])
      in WriteFileAtomic os ''/etc/hosts'' (updated_hosts newHost content) s)"

text \<open>
  The steps after the files are written (the kernel's host name and two service restarts) have
  no effect on the state of the model and their results are only logged.
\<close>

definition TCFG_Hostname_Go ::
  "os_lib \<Rightarrow> HostnameParams \<Rightarrow> TConfig \<times> fs \<Rightarrow> HostnameParams res \<times> (TConfig \<times> fs)" where
  "TCFG_Hostname_Go os p = (\<lambda>(c, s).
     let requested = SanitizeHostname (bytes_string (takeWhile (\<lambda>b. b \<noteq> 0) (hn_hostname p))) in
     if \<not> IsValidHostname requested then (Ok p, (c, s))
     else case WriteFileAtomic os ''/etc/hostname'' (requested @ [CHR 0x0A]) s of
            (Undef, s) \<Rightarrow> (Undef, (c, s))
          | (Hang, s) \<Rightarrow> (Hang, (c, s))
          | (Throw ex, s) \<Rightarrow> (Ok p, (c, s))
          | (Ok u, s) \<Rightarrow>
              (case UpdateEtcHosts127011 os requested s of
                 (Undef, s) \<Rightarrow> (Undef, (c, s))
               | (Hang, s) \<Rightarrow> (Hang, (c, s))
               | (_, s) \<Rightarrow> (Ok p, (c\<lparr>Hostname := requested\<rparr>, s))))"

subsection \<open>Uploads\<close>

text \<open>
  The stream and the name of the upload are globals. The stream is open or not, and failed or
  not: a successful open clears the failure, a failed open, write or close sets it, and a write
  on a failed stream writes nothing. Data are counted as written when the stream takes them.
\<close>

record upload =
  up_open :: bool
  up_fail :: bool
  up_filename :: string

definition upload_close :: "upload \<Rightarrow> fs \<Rightarrow> upload \<times> fs" where
  "upload_close u s =
     (let (e, s) = tick s in (u\<lparr>up_open := False, up_fail := up_fail u \<or> e \<noteq> 0\<rparr>, s))"

definition upload_open :: "string \<Rightarrow> upload \<Rightarrow> fs \<Rightarrow> upload \<times> fs" where
  "upload_open name u s =
     (let (e, s) = (if name = [] then (2, s) else sys_open_trunc True name s) in
      if e \<noteq> 0 then (u\<lparr>up_open := False, up_fail := True\<rparr>, s)
      else (u\<lparr>up_open := True, up_fail := False\<rparr>, s))"

definition upload_write :: "TBytes \<Rightarrow> upload \<Rightarrow> fs \<Rightarrow> upload \<times> fs" where
  "upload_write data u s =
     (if up_fail u then (u, s)
      else let (e, s) = tick s in
           if e \<noteq> 0 then (u\<lparr>up_fail := True\<rparr>, s)
           else let old = (case lookup_file s (up_filename u) of None \<Rightarrow> [] | Some c \<Rightarrow> c)
                in (u, set_file (up_filename u) (old @ bytes_string data) s))"

text \<open>
  The name that starts the replacement of the server itself. The replacement (\<open>Update\<close>,
  \<open>Revert\<close>: copies and symbolic links) is an argument here; \<open>SelfUpdate\<close> models it and shows that no upload
  reaches it.
\<close>

definition update_trigger :: string where
  "update_trigger = ''/home/pb/eNET_TCP_Server/aioenetd.new''"

definition UploadFileName_open :: "TBytes \<Rightarrow> upload \<times> fs \<Rightarrow> unit res \<times> (upload \<times> fs)" where
  "UploadFileName_open data = (\<lambda>(u, s).
     let name = bytes_string data; (u, s) = upload_open name (u\<lparr>up_filename := name\<rparr>) s in
     if up_fail u then (Throw (RuntimeError (''File Upload process cannot open file '' @ name)), (u, s))
     else (Ok (), (u, s)))"

definition UploadFileName_step :: "TBytes \<Rightarrow> upload \<times> fs \<Rightarrow> unit res \<times> (upload \<times> fs)" where
  "UploadFileName_step data = (\<lambda>(u, s).
     if up_open u then
       let (u, s) = upload_close u s in
       if up_fail u
       then (Throw (RuntimeError (''File Upload process failed to close file '' @ up_filename u)), (u, s))
       else UploadFileName_open data (u, s)
     else UploadFileName_open data (u, s))"

definition UploadFileData_step ::
  "(string \<Rightarrow> fs \<Rightarrow> fs) \<Rightarrow> TBytes \<Rightarrow> upload \<times> fs \<Rightarrow> unit res \<times> (upload \<times> fs)" where
  "UploadFileData_step upd data = (\<lambda>(u, s).
     if \<not> up_open u
     then (Throw (RuntimeError ''File Upload process received data item before filename''), (u, s))
     else if data = [] then
       let (u, s) = upload_close u s in
       if up_fail u
       then (Throw (RuntimeError (''File Upload process failed to close file '' @ up_filename u)), (u, s))
       else if up_filename u = update_trigger then
         (let (e, s) = tick s in
          case lookup_file s (up_filename u) of
            None \<Rightarrow> (Throw (RuntimeError (''Cannot open '' @ up_filename u @ '' for reading.'')), (u, s))
          | Some c \<Rightarrow>
              if e \<noteq> 0
              then (Throw (RuntimeError (''Cannot open '' @ up_filename u @ '' for reading.'')), (u, s))
              else (Ok (), (u, upd c s)))
       else (Ok (), (u, s))
     else
       let (u, s) = upload_write data u s in
       if up_fail u
       then (Throw (RuntimeError (''File Upload process failed to write to file '' @ up_filename u)), (u, s))
       else (Ok (), (u, s)))"

text \<open>
  The items. The constructor of the name item keeps the sanitised path as its data, or no data
  when the path is refused; both \<open>Go\<close> catch what the step throws.
\<close>

definition TSYS_UploadFileName_new :: "string \<Rightarrow> TBytes \<Rightarrow> TBytes res" where
  "TSYS_UploadFileName_new cwd buf =
     bindR (sanitizePath cwd (bytes_string buf)) (\<lambda>(ok, str).
       if ok then Ok (string_bytes str) else Ok [])"

definition TSYS_UploadFileName_Go :: "TBytes \<Rightarrow> upload \<times> fs \<Rightarrow> unit res \<times> (upload \<times> fs)" where
  "TSYS_UploadFileName_Go data st = (Ok (), snd (UploadFileName_step data st))"

definition TSYS_UploadFileData_Go ::
  "(string \<Rightarrow> fs \<Rightarrow> fs) \<Rightarrow> TBytes \<Rightarrow> upload \<times> fs \<Rightarrow> unit res \<times> (upload \<times> fs)" where
  "TSYS_UploadFileData_Go upd data st = (Ok (), snd (UploadFileData_step upd data st))"

subsection \<open>\<open>SYS_Error\<close> and \<open>SYS_ItemError\<close>\<close>

definition ReadU16LE :: "TBytes \<Rightarrow> nat \<Rightarrow> u16" where
  "ReadU16LE b ofs = (if length b < ofs + 2 then 0 else le_read (take 2 (drop ofs b)))"

definition ReadU32LE :: "TBytes \<Rightarrow> nat \<Rightarrow> u32" where
  "ReadU32LE b ofs = (if length b < ofs + 4 then 0 else le_read (take 4 (drop ofs b)))"

record SYS_ErrorParams =
  er_Stage :: u32
  er_ErrorCode :: u32
  er_Info :: u32

record SYS_ItemErrorParams =
  ie_ItemIndex :: u16
  ie_DId :: u16
  ie_ErrorCode :: u32
  ie_Info :: u32

definition TSYS_Error_new :: "TBytes \<Rightarrow> SYS_ErrorParams" where
  "TSYS_Error_new b = \<lparr>er_Stage = ReadU32LE b 0, er_ErrorCode = ReadU32LE b 4, er_Info = ReadU32LE b 8\<rparr>"

definition TSYS_Error_calcPayload :: "SYS_ErrorParams \<Rightarrow> bool \<Rightarrow> TBytes" where
  "TSYS_Error_calcPayload p bAsReply =
     stuff (stuff (stuff [] (er_Stage p)) (er_ErrorCode p)) (er_Info p)"

definition TSYS_ItemError_new :: "TBytes \<Rightarrow> SYS_ItemErrorParams" where
  "TSYS_ItemError_new b = \<lparr>ie_ItemIndex = ReadU16LE b 0, ie_DId = ReadU16LE b 2,
     ie_ErrorCode = ReadU32LE b 4, ie_Info = ReadU32LE b 8\<rparr>"

definition TSYS_ItemError_calcPayload :: "SYS_ItemErrorParams \<Rightarrow> bool \<Rightarrow> TBytes" where
  "TSYS_ItemError_calcPayload p bAsReply =
     stuff (stuff (stuff (stuff [] (ie_ItemIndex p)) (ie_DId p)) (ie_ErrorCode p)) (ie_Info p)"

subsection \<open>What the items send\<close>

lemma hostname_echo [byte_simps]:
  assumes "0 \<notin> set buf" and "length buf \<le> 255"
  shows "TCFG_Hostname_calcPayload (TCFG_Hostname_new buf) r = buf"
proof -
  have "takeWhile (\<lambda>b. b \<noteq> 0) (buf @ replicate n 0) = buf" for n
    using assms(1) by (induction buf) (auto simp: takeWhile_replicate)
  with assms(2) show ?thesis
    by (simp add: TCFG_Hostname_calcPayload_def TCFG_Hostname_new_def min_def)
qed

lemma sys_error_payload_length [byte_simps]:
  "length (TSYS_Error_calcPayload p r) = 12" "length (TSYS_ItemError_calcPayload q r) = 12"
  by (simp_all add: TSYS_Error_calcPayload_def TSYS_ItemError_calcPayload_def)

lemma split12: "length b = 12 \<Longrightarrow>
    b = take 2 b @ take 2 (drop 2 b) @ take 4 (drop 4 b) @ take 4 (drop 8 b)"
proof -
  assume "length b = 12"
  then have "take 4 (drop 8 b) = drop 8 b" by simp
  moreover have "drop 4 b = take 4 (drop 4 b) @ drop 8 b"
    using append_take_drop_id [of 4 "drop 4 b"] by simp
  moreover have "drop 2 b = take 2 (drop 2 b) @ drop 4 b"
    using append_take_drop_id [of 2 "drop 2 b"] by simp
  ultimately show ?thesis by (metis append_take_drop_id)
qed

lemma sys_error_echo [byte_simps]:
  assumes "length b = 12"
  shows "TSYS_Error_calcPayload (TSYS_Error_new b) r = b"
    and "TSYS_ItemError_calcPayload (TSYS_ItemError_new b) r = b"
proof -
  have four: "take 4 b = take 2 b @ take 2 (drop 2 b)"
    using take_add [of 2 2 b] by simp
  have "TSYS_Error_calcPayload (TSYS_Error_new b) r = take 4 b @ take 4 (drop 4 b) @ take 4 (drop 8 b)"
    using assms
    by (simp add: TSYS_Error_calcPayload_def TSYS_Error_new_def ReadU32LE_def stuff_append [of "take _ _"]
        stuff_stuff stuff_cat stuff_le_read)
  then show "TSYS_Error_calcPayload (TSYS_Error_new b) r = b"
    using split12 [OF assms] four by simp
  have "TSYS_ItemError_calcPayload (TSYS_ItemError_new b) r =
      take 2 b @ take 2 (drop 2 b) @ take 4 (drop 4 b) @ take 4 (drop 8 b)"
    using assms
    by (simp add: TSYS_ItemError_calcPayload_def TSYS_ItemError_new_def ReadU32LE_def ReadU16LE_def
        stuff_stuff stuff_cat stuff_le_read stuff_append [of "take _ _"])
  then show "TSYS_ItemError_calcPayload (TSYS_ItemError_new b) r = b"
    using split12 [OF assms] by simp
qed

end
