(* ===== verification/SelfUpdate.thy ===== *)
theory SelfUpdate
  imports CfgSysItems
begin

text \<open>
  The replacement of the server's own program (\<open>Update\<close>, \<open>Revert\<close>, \<open>update_symlink_atomic\<close> of
  \<^verbatim>\<open>DataItems/SYS_.cpp\<close>): on a disk with symbolic links, every state of which is recorded, so that what
  holds at each moment holds when the power fails. Whether an uploaded file gets here at all is the
  last section.
\<close>

subsection \<open>The disk\<close>

text \<open>A file has contents and the executable bit. A path is a file, a symbolic link, or free.\<close>

record disk =
  dk_file :: "string \<Rightarrow> (TBytes \<times> bool) option"
  dk_link :: "string \<Rightarrow> string option"

text \<open>
  The disk, its past (the newest first), the number of calls made, the error number of each call, and how
  many bytes a copy or a write that fails has written.
\<close>

record machine =
  dk :: disk
  past :: "disk list"
  mc_calls :: nat
  mc_errno :: "nat \<Rightarrow> nat"
  mc_part :: "nat \<Rightarrow> nat"

definition put_disk :: "disk \<Rightarrow> machine \<Rightarrow> machine" where
  "put_disk d m = m\<lparr>dk := d, past := dk m # past m\<rparr>"

definition mc_tick :: "machine \<Rightarrow> nat \<times> machine" where
  "mc_tick m = (mc_errno m (mc_calls m), m\<lparr>mc_calls := Suc (mc_calls m)\<rparr>)"

definition set_entry :: "string \<Rightarrow> (TBytes \<times> bool) option \<Rightarrow> string option \<Rightarrow> disk \<Rightarrow> disk" where
  "set_entry p f l d = d\<lparr>dk_file := (dk_file d)(p := f), dk_link := (dk_link d)(p := l)\<rparr>"

text \<open>What a path leads to; one link is enough for the paths used here.\<close>

definition leads_to :: "disk \<Rightarrow> string \<Rightarrow> (TBytes \<times> bool) option" where
  "leads_to d p = (case dk_link d p of None \<Rightarrow> dk_file d p | Some t \<Rightarrow> dk_file d t)"

text \<open>A call that changes the disk at once, if it is possible at all.\<close>

definition disk_call :: "(disk \<Rightarrow> nat + disk) \<Rightarrow> machine \<Rightarrow> nat \<times> machine" where
  "disk_call f m =
     (let (e, m) = mc_tick m in
      if e \<noteq> 0 then (e, m)
      else case f (dk m) of Inl e \<Rightarrow> (e, m) | Inr d \<Rightarrow> (0, put_disk d m))"

definition ENOENT :: nat where "ENOENT = 2"
definition EEXIST :: nat where "EEXIST = 17"

definition free :: "disk \<Rightarrow> string \<Rightarrow> bool" where
  "free d p \<longleftrightarrow> dk_file d p = None \<and> dk_link d p = None"

definition sys_symlink :: "string \<Rightarrow> string \<Rightarrow> machine \<Rightarrow> nat \<times> machine" where
  "sys_symlink target p = disk_call (\<lambda>d. if free d p then Inr (set_entry p None (Some target) d) else Inl EEXIST)"

definition sys_exchange :: "string \<Rightarrow> string \<Rightarrow> machine \<Rightarrow> nat \<times> machine" where
  "sys_exchange p q = disk_call (\<lambda>d. if free d p \<or> free d q then Inl ENOENT
     else Inr (set_entry q (dk_file d p) (dk_link d p) (set_entry p (dk_file d q) (dk_link d q) d)))"

definition sys_move :: "string \<Rightarrow> string \<Rightarrow> machine \<Rightarrow> nat \<times> machine" where
  "sys_move p q = disk_call (\<lambda>d. if free d p then Inl ENOENT
     else Inr (set_entry p None None (set_entry q (dk_file d p) (dk_link d p) d)))"

definition sys_remove :: "string \<Rightarrow> machine \<Rightarrow> nat \<times> machine" where
  "sys_remove p = disk_call (\<lambda>d. Inr (set_entry p None None d))"

definition sys_chmod_x :: "string \<Rightarrow> machine \<Rightarrow> nat \<times> machine" where
  "sys_chmod_x p = disk_call (\<lambda>d. case dk_file d p of None \<Rightarrow> Inl ENOENT
     | Some (c, x) \<Rightarrow> Inr (set_entry p (Some (c, True)) None d))"

definition sys_create :: "string \<Rightarrow> machine \<Rightarrow> nat \<times> machine" where
  "sys_create p = disk_call (\<lambda>d. Inr (set_entry p
     (Some ([], case dk_file d p of None \<Rightarrow> False | Some (c, x) \<Rightarrow> x)) None d))"

text \<open>Bytes reach a file one after the other; a failure leaves those written before it.\<close>

fun write_bytes :: "string \<Rightarrow> bool \<Rightarrow> TBytes \<Rightarrow> TBytes \<Rightarrow> machine \<Rightarrow> machine" where
  "write_bytes p x old [] m = m"
| "write_bytes p x old (b # bs) m =
     write_bytes p x (old @ [b]) bs (put_disk (set_entry p (Some (old @ [b], x)) None (dk m)) m)"

definition write_part :: "string \<Rightarrow> bool \<Rightarrow> TBytes \<Rightarrow> machine \<Rightarrow> nat \<times> machine" where
  "write_part p x bs m =
     (let k = mc_calls m; (e, m) = mc_tick m in
      (e, write_bytes p x [] (if e = 0 then bs else take (mc_part m k) bs) m))"

subsection \<open>Update and Revert\<close>

definition PATH_ROOT :: string where "PATH_ROOT = ''/home/acces/eNET_TCP_Server/''"
definition boot_link :: string where "boot_link = ''/opt/aioenet/aioenetd''"
definition actual_file :: string where "actual_file = PATH_ROOT @ ''aioenetd''"

text \<open>The time stamp is the build time of the running program: the same in every call.\<close>

definition generateBackupFilenameWithBuildTime :: "string \<Rightarrow> string \<Rightarrow> string" where
  "generateBackupFilenameWithBuildTime timestamp base = base @ timestamp @ ''.backup''"

definition backup_file :: "string \<Rightarrow> string" where
  "backup_file ts = PATH_ROOT @ generateBackupFilenameWithBuildTime ts ''aioenetd_''"

definition temp_link :: "string \<Rightarrow> string" where
  "temp_link ts = generateBackupFilenameWithBuildTime ts (PATH_ROOT @ ''temp_link'')"

text \<open>An error of \<^verbatim>\<open>exists\<close> or \<^verbatim>\<open>remove\<close> is thrown; its text is only logged.\<close>

definition filesystem_error :: exn where
  "filesystem_error = RuntimeError ''filesystem error''"

definition remove_old_link :: "string \<Rightarrow> machine \<Rightarrow> unit res \<times> machine" where
  "remove_old_link tmp m =
     (let (e, m) = mc_tick m in
      if e \<noteq> 0 then (Throw filesystem_error, m)
      else if leads_to (dk m) tmp = None then (Ok (), m)
      else let (e, m) = sys_remove tmp m in (if e \<noteq> 0 then Throw filesystem_error else Ok (), m))"

definition update_symlink_atomic :: "string \<Rightarrow> string \<Rightarrow> string \<Rightarrow> machine \<Rightarrow> nat res \<times> machine" where
  "update_symlink_atomic ts target linkpath m =
     (let tmp = temp_link ts in
      bindS (remove_old_link tmp m) (\<lambda>_ m.
        let (e, m) = sys_symlink target tmp m in
        if e \<noteq> 0 then (Ok e, m)
        else let (e, m) = sys_exchange tmp linkpath m in (Ok e, m)))"

definition copy_file :: "string \<Rightarrow> string \<Rightarrow> machine \<Rightarrow> nat \<times> machine" where
  "copy_file from to m =
     (let (e, m) = mc_tick m in
      if e \<noteq> 0 then (e, m)
      else case leads_to (dk m) from of
             None \<Rightarrow> (ENOENT, m)
           | Some (c, x) \<Rightarrow>
               if \<not> free (dk m) to then (EEXIST, m)
               else write_part to x c (put_disk (set_entry to (Some ([], x)) None (dk m)) m))"

text \<open>Step 3: the new contents in place of the old ones.\<close>

definition write_program :: "TBytes \<Rightarrow> machine \<Rightarrow> nat \<times> machine" where
  "write_program newfile m =
     (let (e, m) = sys_create actual_file m in
      if e \<noteq> 0 then (e, m)
      else let x = (case dk_file (dk m) actual_file of None \<Rightarrow> False | Some (c, x) \<Rightarrow> x);
               (e, m) = write_part actual_file x newfile m
           in if e \<noteq> 0 then (e, m)
              else let (e, m) = mc_tick m in
                   if e \<noteq> 0 then (e, m) else sys_chmod_x actual_file m)"

definition Update :: "string \<Rightarrow> TBytes \<Rightarrow> machine \<Rightarrow> nat res \<times> machine" where
  "Update ts newfile m =
     (let (e, m) = copy_file actual_file (backup_file ts) m in
      if e \<noteq> 0 then (Ok e, m)
      else bindS (update_symlink_atomic ts (backup_file ts) boot_link m) (\<lambda>e m.
        if e \<noteq> 0 then (Ok e, m)
        else let (e, m) = write_program newfile m in
          if e \<noteq> 0 then (Ok e, m)
          else update_symlink_atomic ts actual_file boot_link m))"

definition Revert :: "string \<Rightarrow> machine \<Rightarrow> nat res \<times> machine" where
  "Revert ts m =
     (let (e, m) = mc_tick m in
      if e \<noteq> 0 then (Throw filesystem_error, m)
      else if leads_to (dk m) (backup_file ts) = None then (Ok ENOENT, m)
      else let (e, m) = sys_move (backup_file ts) actual_file m in
        if e \<noteq> 0 then (Ok e, m)
        else update_symlink_atomic ts actual_file boot_link m)"

text \<open>What the upload does with a complete new program.\<close>

definition install :: "string \<Rightarrow> TBytes \<Rightarrow> machine \<Rightarrow> unit res \<times> machine" where
  "install ts newfile m =
     bindS (Update ts newfile m) (\<lambda>e m. if e = 0 then (Ok (), m) else bindS (Revert ts m) (\<lambda>_ m. (Ok (), m)))"

subsection \<open>What holds at every moment\<close>

text \<open>\<open>I\<close> holds now; every earlier state satisfied the weaker \<open>B\<close>.\<close>

definition holds :: "(disk \<Rightarrow> bool) \<Rightarrow> (disk \<Rightarrow> bool) \<Rightarrow> machine \<Rightarrow> bool" where
  "holds B I m \<longleftrightarrow> I (dk m) \<and> (\<forall>d \<in> set (past m). B d) \<and> (\<forall>d. I d \<longrightarrow> B d)"

lemma holds_now: "holds B I m \<Longrightarrow> I (dk m)"
  by (simp add: holds_def)

lemma holds_put: "holds B I m \<Longrightarrow> I d \<Longrightarrow> holds B I (put_disk d m)"
  by (auto simp: holds_def put_disk_def)

lemma holds_next: "holds B I m \<Longrightarrow> J (dk m) \<Longrightarrow> (\<And>d. J d \<Longrightarrow> B d) \<Longrightarrow> holds B J m"
  by (simp add: holds_def)

lemma dk_put [simp]: "dk (put_disk d m) = d"
  by (simp add: put_disk_def)

lemma mc_tick_simps [simp]:
  "holds B I (snd (mc_tick m)) \<longleftrightarrow> holds B I m" "dk (snd (mc_tick m)) = dk m"
  by (simp_all add: holds_def mc_tick_def)

lemma set_entry_simps [simp]:
  "dk_file (set_entry p f l d) q = (if q = p then f else dk_file d q)"
  "dk_link (set_entry p f l d) q = (if q = p then l else dk_link d q)"
  by (simp_all add: set_entry_def)

lemma paths_differ [simp]:
  "boot_link \<noteq> actual_file" "actual_file \<noteq> boot_link"
  "boot_link \<noteq> backup_file ts" "backup_file ts \<noteq> boot_link"
  "boot_link \<noteq> temp_link ts" "temp_link ts \<noteq> boot_link"
  "actual_file \<noteq> backup_file ts" "backup_file ts \<noteq> actual_file"
  "actual_file \<noteq> temp_link ts" "temp_link ts \<noteq> actual_file"
  "backup_file ts \<noteq> temp_link ts" "temp_link ts \<noteq> backup_file ts"
  by (auto simp: boot_link_def actual_file_def backup_file_def temp_link_def PATH_ROOT_def
      generateBackupFilenameWithBuildTime_def)

lemma disk_call_result:
  assumes "disk_call f m = (e, m')"
  shows "dk m' = dk m \<and> past m' = past m \<and> (e = 0 \<longrightarrow> f (dk m) = Inl 0) \<or>
    f (dk m) = Inr (dk m') \<and> e = 0 \<and> past m' = dk m # past m"
  using assms by (auto simp: disk_call_def mc_tick_def put_disk_def split: if_splits sum.splits)

lemma disk_call_holds:
  assumes "disk_call f m = (e, m')" and "holds B I m" and "\<And>d. f (dk m) = Inr d \<Longrightarrow> I d"
  shows "holds B I m'"
  using disk_call_result [OF assms(1)] assms(2,3) by (auto simp: holds_def)

lemmas sys_defs = sys_symlink_def sys_exchange_def sys_move_def sys_remove_def sys_chmod_x_def sys_create_def

lemma write_bytes_keeps:
  assumes "\<And>d c. I d \<Longrightarrow> I (set_entry p (Some (c, x)) None d)"
  shows "holds B I m \<Longrightarrow> holds B I (write_bytes p x old bs m)"
proof (induction bs arbitrary: old m)
  case Nil
  then show ?case by simp
next
  case (Cons b bs)
  have "I (dk m)" using Cons.prems by (rule holds_now)
  from holds_put [OF Cons.prems assms [OF this]]
  have "holds B I (put_disk (set_entry p (Some (old @ [b], x)) None (dk m)) m)" .
  from Cons.IH [OF this, of "old @ [b]"] show ?case by (simp only: write_bytes.simps)
qed

lemma dk_write_bytes:
  "dk_file (dk m) p = Some (old, x) \<Longrightarrow> dk_file (dk (write_bytes p x old bs m)) p = Some (old @ bs, x)"
  by (induction bs arbitrary: old m) auto

lemma write_part_keeps:
  assumes "write_part p x bs m = (e, m')" and "holds B I m" and "\<And>d c. I d \<Longrightarrow> I (set_entry p (Some (c, x)) None d)"
  shows "holds B I m'"
proof -
  have "m' = write_bytes p x [] (if e = 0 then bs else take (mc_part m (mc_calls m)) bs) (snd (mc_tick m))"
    using assms(1) by (auto simp: write_part_def mc_tick_def Let_def)
  moreover have "holds B I (snd (mc_tick m))" using assms(2) by simp
  ultimately show ?thesis using write_bytes_keeps [of I p x, OF assms(3)] by simp
qed

lemma write_part_whole:
  assumes "write_part p x bs m = (0, m')" and "dk_file (dk m) p = Some ([], x)"
  shows "dk_file (dk m') p = Some (bs, x)"
proof -
  have "m' = write_bytes p x [] bs (snd (mc_tick m))"
    using assms(1) by (auto simp: write_part_def mc_tick_def Let_def)
  then show ?thesis using assms(2) dk_write_bytes [of "snd (mc_tick m)" p "[]" x bs] by simp
qed

lemma mc_write_bytes:
  "mc_calls (write_bytes p x old bs m) = mc_calls m" "mc_errno (write_bytes p x old bs m) = mc_errno m"
  by (induction bs arbitrary: old m) (simp_all add: put_disk_def)

lemma dk_link_write_bytes:
  "dk_link (dk m) p = None \<Longrightarrow> dk_link (dk (write_bytes p x old bs m)) p = None"
  by (induction bs arbitrary: old m) auto

lemma write_part_link:
  assumes "write_part p x bs m = (e, m')" and "dk_link (dk m) p = None"
  shows "dk_link (dk m') p = None"
proof -
  have "m' = write_bytes p x [] (if e = 0 then bs else take (mc_part m (mc_calls m)) bs) (snd (mc_tick m))"
    using assms(1) by (auto simp: write_part_def mc_tick_def Let_def)
  then show ?thesis using assms(2) by (simp add: dk_link_write_bytes)
qed

lemma remove_old_link_keeps:
  assumes "remove_old_link tmp m = (r, m')" and "holds B I m" and "\<And>d f l. I d \<Longrightarrow> I (set_entry tmp f l d)"
  shows "holds B I m'"
proof -
  obtain e n where n: "sys_remove tmp (snd (mc_tick m)) = (e, n)" by fastforce
  have "I (dk m)" using assms(2) by (rule holds_now)
  then have "holds B I n"
    using assms(2,3) by (intro disk_call_holds [OF n [unfolded sys_defs]]) auto
  moreover have "m' = snd (mc_tick m) \<or> m' = n"
    using assms(1) n by (auto simp: remove_old_link_def split_beta Let_def split: if_splits)
  ultimately show ?thesis using assms(2) by auto
qed

lemma exchange_keeps:
  assumes "sys_exchange tmp link m = (e, m')" and "holds B I m" and "link \<noteq> tmp"
    and "dk_link (dk m) tmp = Some target" "dk_file (dk m) tmp = None"
    and tmp: "\<And>d f l. I d \<Longrightarrow> I (set_entry tmp f l d)"
    and exch: "\<And>d. I d \<Longrightarrow> I (set_entry link None (Some target) d)"
  shows "holds B I m' \<and> (e = 0 \<longrightarrow> dk_link (dk m') link = Some target)"
proof
  have "I (dk m)" using assms(2) by (rule holds_now)
  then show "holds B I m'"
    using assms(2,4,5) tmp exch by (intro disk_call_holds [OF assms(1) [unfolded sys_defs]]) (auto split: if_splits)
  show "e = 0 \<longrightarrow> dk_link (dk m') link = Some target"
  proof
    assume "e = 0"
    then have "dk m' = set_entry link None (Some target) (set_entry tmp (dk_file (dk m) link) (dk_link (dk m) link) (dk m))"
      using disk_call_result [OF assms(1) [unfolded sys_defs]] assms(4,5) by (simp add: ENOENT_def split: if_splits)
    then show "dk_link (dk m') link = Some target" by simp
  qed
qed

lemma link_update_keeps:
  assumes "update_symlink_atomic ts target link m = (r, m')" and "holds B I m" and other: "link \<noteq> temp_link ts"
    and tmp: "\<And>d f l. I d \<Longrightarrow> I (set_entry (temp_link ts) f l d)"
    and exch: "\<And>d. I d \<Longrightarrow> I (set_entry link None (Some target) d)"
  shows "holds B I m' \<and> (r = Ok 0 \<longrightarrow> dk_link (dk m') link = Some target)"
proof -
  obtain r1 m1 where m1: "remove_old_link (temp_link ts) m = (r1, m1)" by fastforce
  have I1: "holds B I m1" using remove_old_link_keeps [OF m1 assms(2) tmp] .
  obtain e2 m2 where m2: "sys_symlink target (temp_link ts) m1 = (e2, m2)" by fastforce
  have "I (dk m1)" using I1 by (rule holds_now)
  then have I2: "holds B I m2"
    using I1 tmp by (intro disk_call_holds [OF m2 [unfolded sys_defs]]) (auto split: if_splits)
  have d2: "dk_link (dk m2) (temp_link ts) = Some target \<and> dk_file (dk m2) (temp_link ts) = None" if "e2 = 0"
  proof -
    have "dk m2 = set_entry (temp_link ts) None (Some target) (dk m1)"
      using that disk_call_result [OF m2 [unfolded sys_defs]] by (simp add: EEXIST_def split: if_splits)
    then show ?thesis by simp
  qed
  obtain e3 m3 where m3: "sys_exchange (temp_link ts) link m2 = (e3, m3)" by fastforce
  have I3: "holds B I m3 \<and> (e3 = 0 \<longrightarrow> dk_link (dk m3) link = Some target)" if "e2 = 0"
    using exchange_keeps [OF m3 I2 other _ _ tmp exch] d2 [OF that] by simp
  have "(\<exists>e. r = Ok e \<and> e \<noteq> 0 \<and> m' = m2) \<or> (\<forall>x. r \<noteq> Ok x) \<and> m' = m1 \<or> e2 = 0 \<and> r = Ok e3 \<and> m' = m3"
    using assms(1) m1 m2 m3
    by (cases r1) (auto simp: update_symlink_atomic_def Let_def bindS_def split: if_splits)
  then show ?thesis using I1 I2 I3 by auto
qed

subsection \<open>An update never breaks the boot link\<close>

definition boots :: "disk \<Rightarrow> TBytes \<Rightarrow> bool" where
  "boots d prog \<longleftrightarrow> leads_to d boot_link = Some (prog, True)"

text \<open>The link leads to the program; then to the program or its copy; and the program may be the new one.\<close>

definition on_actual :: "TBytes \<Rightarrow> disk \<Rightarrow> bool" where
  "on_actual old d \<longleftrightarrow> dk_link d boot_link = Some actual_file \<and>
     dk_file d actual_file = Some (old, True) \<and> dk_link d actual_file = None"

definition on_either :: "string \<Rightarrow> TBytes \<Rightarrow> TBytes \<Rightarrow> disk \<Rightarrow> bool" where
  "on_either ts old prog d \<longleftrightarrow> (dk_link d boot_link = Some actual_file \<or> dk_link d boot_link = Some (backup_file ts)) \<and>
     dk_file d actual_file = Some (prog, True) \<and> dk_link d actual_file = None \<and>
     dk_file d (backup_file ts) = Some (old, True) \<and> dk_link d (backup_file ts) = None"

definition on_backup :: "string \<Rightarrow> TBytes \<Rightarrow> disk \<Rightarrow> bool" where
  "on_backup ts old d \<longleftrightarrow> dk_link d boot_link = Some (backup_file ts) \<and>
     dk_file d (backup_file ts) = Some (old, True) \<and> dk_link d (backup_file ts) = None"

definition bootable :: "TBytes \<Rightarrow> TBytes \<Rightarrow> disk \<Rightarrow> bool" where
  "bootable old prog d \<longleftrightarrow> boots d old \<or> boots d prog"

lemma phases_boot:
  "on_actual old d \<Longrightarrow> boots d old" "on_either ts old prog d \<Longrightarrow> bootable old prog d" "on_backup ts old d \<Longrightarrow> boots d old"
  by (auto simp: on_actual_def on_either_def on_backup_def bootable_def boots_def leads_to_def)

lemma copy_keeps:
  assumes "copy_file actual_file (backup_file ts) m = (e, m')" and "holds B (on_actual old) m"
  shows "holds B (on_actual old) m' \<and> (e = 0 \<longrightarrow> on_either ts old old (dk m'))"
proof -
  let ?n = "put_disk (set_entry (backup_file ts) (Some ([], True)) None (dk m)) (snd (mc_tick m))"
  have act: "on_actual old (dk m)" using assms(2) by (rule holds_now)
  then have from_: "leads_to (dk m) actual_file = Some (old, True)"
    by (simp add: on_actual_def leads_to_def)
  have n: "holds B (on_actual old) ?n"
    using assms(2) act by (intro holds_put) (simp_all add: on_actual_def)
  obtain e1 m1 where m1: "write_part (backup_file ts) True old ?n = (e1, m1)" by fastforce
  have 1: "holds B (on_actual old) m1"
    by (rule write_part_keeps [OF m1 n]) (simp add: on_actual_def)
  have "e1 = 0 \<longrightarrow> dk_file (dk m1) (backup_file ts) = Some (old, True)"
    using write_part_whole [of "backup_file ts" True old ?n m1] m1 by auto
  moreover have "dk_link (dk m1) (backup_file ts) = None"
    by (rule write_part_link [OF m1]) simp
  moreover have "e = e1 \<and> m' = m1 \<or> e \<noteq> 0 \<and> m' = snd (mc_tick m)"
    using assms(1) m1 from_ by (auto simp: copy_file_def split_beta Let_def ENOENT_def EEXIST_def split: if_splits)
  ultimately show ?thesis
    using 1 assms(2) holds_now [OF 1] by (auto simp: on_either_def on_actual_def)
qed

lemma write_program_keeps:
  assumes "write_program prog m = (e, m')" and "holds B (on_backup ts old) m" and "on_either ts old old (dk m)"
  shows "holds B (on_backup ts old) m' \<and> (e = 0 \<longrightarrow> on_either ts old prog (dk m'))"
proof -
  obtain e1 m1 where m1: "sys_create actual_file m = (e1, m1)" by fastforce
  have now: "on_backup ts old (dk m)" using assms(2) by (rule holds_now)
  then have 1: "holds B (on_backup ts old) m1"
    using assms(2) by (intro disk_call_holds [OF m1 [unfolded sys_defs]]) (auto simp: on_backup_def)
  have file1: "dk_file (dk m1) actual_file = Some ([], True) \<and> dk_link (dk m1) actual_file = None" if "e1 = 0"
  proof -
    have "dk m1 = set_entry actual_file (Some ([], True)) None (dk m)"
      using that disk_call_result [OF m1 [unfolded sys_defs]] assms(3) by (simp add: on_either_def)
    then show ?thesis by simp
  qed
  obtain e2 m2 where m2: "write_part actual_file True prog m1 = (e2, m2)" by fastforce
  have 2: "holds B (on_backup ts old) m2"
    by (rule write_part_keeps [OF m2 1]) (simp add: on_backup_def)
  have file2: "dk_file (dk m2) actual_file = Some (prog, True)" if "e1 = 0" "e2 = 0"
    using write_part_whole [of actual_file True prog m1 m2] m2 file1 that by simp
  have link2: "dk_link (dk m2) actual_file = None" if "e1 = 0"
    using write_part_link [OF m2] file1 [OF that] by simp
  obtain e3 m3 where m3: "sys_chmod_x actual_file (snd (mc_tick m2)) = (e3, m3)" by fastforce
  have now2: "on_backup ts old (dk m2)" using 2 by (rule holds_now)
  then have 3: "holds B (on_backup ts old) m3"
    using 2 by (intro disk_call_holds [OF m3 [unfolded sys_defs]]) (auto simp: on_backup_def split: option.splits)
  have file3: "dk_file (dk m3) actual_file = Some (prog, True) \<and> dk_link (dk m3) actual_file = None"
    if "e1 = 0" "e2 = 0" "e3 = 0"
  proof -
    have "dk m3 = set_entry actual_file (Some (prog, True)) None (dk m2)"
      using that(3) disk_call_result [OF m3 [unfolded sys_defs]] file2 [OF that(1,2)] by simp
    then show ?thesis by simp
  qed
  have "e \<noteq> 0 \<and> (m' = m1 \<or> m' = m2 \<or> m' = snd (mc_tick m2)) \<or> e1 = 0 \<and> e2 = 0 \<and> e = e3 \<and> m' = m3"
    using assms(1) m1 m2 m3 file1 by (auto simp: write_program_def split_beta Let_def split: if_splits)
  then show ?thesis
    using 1 2 3 file3 holds_now [OF 3] by (auto simp: on_either_def on_backup_def)
qed

lemma relink_keeps:
  assumes "update_symlink_atomic ts target boot_link m = (r, m')" and "holds B (on_either ts old prog) m"
    and "target = actual_file \<or> target = backup_file ts"
  shows "holds B (on_either ts old prog) m' \<and> (r = Ok 0 \<longrightarrow> dk_link (dk m') boot_link = Some target)"
  using assms(3) by (intro link_update_keeps [OF assms(1,2)]) (auto simp: on_either_def)

lemma phases_bootable:
  "on_actual old d \<Longrightarrow> bootable old prog d" "on_either ts old prog d \<Longrightarrow> bootable old prog d"
  "on_either ts old old d \<Longrightarrow> bootable old prog d" "on_backup ts old d \<Longrightarrow> bootable old prog d"
  subgoal by (drule phases_boot(1)) (simp add: bootable_def)
  subgoal by (drule phases_boot(2))
  subgoal by (drule phases_boot(2)) (simp add: bootable_def)
  subgoal by (drule phases_boot(3)) (simp add: bootable_def)
  done


subsection \<open>What goes wrong around it\<close>

text \<open>No call fails.\<close>

definition machine_ok :: "machine \<Rightarrow> bool" where
  "machine_ok m \<longleftrightarrow> mc_errno m = (\<lambda>_. 0)"

text \<open>Reverting makes whatever the copy holds the program.\<close>

lemma revert_installs_copy:
  assumes "dk_link (dk m) boot_link = Some actual_file" and "dk_file (dk m) (backup_file ts) = Some (prog, True)"
    and "dk_link (dk m) (backup_file ts) = None" and "mc_errno m (mc_calls m) = 0" and "mc_errno m (Suc (mc_calls m)) = 0"
    and "Revert ts m = (r, m')"
  shows "on_actual prog (dk m')"
proof -
  obtain m1 where m1: "sys_move (backup_file ts) actual_file (snd (mc_tick m)) = (0, m1)" "on_actual prog (dk m1)"
    using assms(1-5)
    by (auto simp: sys_move_def disk_call_def mc_tick_def free_def put_disk_def on_actual_def)
  obtain r2 m2 where m2: "update_symlink_atomic ts actual_file boot_link m1 = (r2, m2)" by fastforce
  have "holds (\<lambda>_. True) (on_actual prog) m1" using m1(2) by (simp add: holds_def)
  then have "holds (\<lambda>_. True) (on_actual prog) m2"
    using link_update_keeps [OF m2, of "\<lambda>_. True" "on_actual prog"] by (auto simp: on_actual_def)
  moreover have "m' = m2"
    using assms(2-6) m1(1) m2 by (auto simp: Revert_def leads_to_def mc_tick_def Let_def)
  ultimately show ?thesis by (auto dest: holds_now)
qed

lemma install_reverts:
  assumes "Update ts prog m = (Ok e, m1)" and "e \<noteq> 0" and "install ts prog m = (r, m')"
  shows "\<exists>r1. Revert ts m1 = (r1, m')"
  using assms by (cases "Revert ts m1"; cases "fst (Revert ts m1)") (auto simp: install_def bindS_def)

text \<open>
  A second update by the same program undoes the first. The copy it makes of itself is named after its build
  time, so the second one finds the name taken; that error makes the server revert, which puts the old copy
  in place of the program the first update installed. Not even one call has to fail.
\<close>

lemma second_update_reverts_first:
  assumes "on_actual new1 (dk m)" and "dk_file (dk m) (backup_file ts) = Some (old, True)"
    and "dk_link (dk m) (backup_file ts) = None" and "machine_ok m" and "install ts new2 m = (r, m')"
  shows "boots (dk m) new1 \<and> boots (dk m') old"
proof -
  have "leads_to (dk m) actual_file = Some (new1, True)"
    using assms(1) by (simp add: on_actual_def leads_to_def)
  then have "Update ts new2 m = (Ok EEXIST, snd (mc_tick m))"
    using assms(2,4) by (simp add: Update_def copy_file_def mc_tick_def machine_ok_def free_def EEXIST_def)
  then obtain r1 where "Revert ts (snd (mc_tick m)) = (r1, m')"
    using install_reverts [OF _ _ assms(5)] by (metis EEXIST_def zero_neq_numeral)
  then have "on_actual old (dk m')"
    using assms(1-4) by (intro revert_installs_copy) (simp_all add: on_actual_def mc_tick_def machine_ok_def)
  then show ?thesis using phases_boot(1) [OF assms(1)] phases_boot(1) [of old "dk m'"] by simp
qed

text \<open>
  An update that runs out of space destroys the program. When the first step, the copy, fails half-way, nothing
  has changed for the boot link yet; but the server then reverts, and moves the incomplete copy over the
  program that was in order.
\<close>

lemma failed_copy_destroys_program:
  assumes "on_actual old (dk m)" and "free (dk m) (backup_file ts)"
    and "mc_errno m = (\<lambda>k. if k = Suc (mc_calls m) then 28 else 0)" and "mc_part m (Suc (mc_calls m)) = n"
    and "install ts prog m = (r, m')"
  shows "boots (dk m) old \<and> boots (dk m') (take n old)"
proof -
  let ?n = "put_disk (set_entry (backup_file ts) (Some ([], True)) None (dk m)) (snd (mc_tick m))"
  let ?m1 = "write_bytes (backup_file ts) True [] (take n old) (snd (mc_tick ?n))"
  have n: "holds (\<lambda>_. True) (on_actual old) (snd (mc_tick ?n))"
    using assms(1) by (simp add: holds_def on_actual_def)
  have link: "on_actual old (dk ?m1)"
    by (rule holds_now [OF write_bytes_keeps [OF _ n]]) (simp add: on_actual_def)
  have copy: "dk_file (dk ?m1) (backup_file ts) = Some (take n old, True)"
    using dk_write_bytes [of "snd (mc_tick ?n)" "backup_file ts" "[]" True "take n old"] by simp
  have nolink: "dk_link (dk ?m1) (backup_file ts) = None"
    by (rule dk_link_write_bytes) simp
  have "copy_file actual_file (backup_file ts) m = (28, ?m1)"
    using assms(1-4)
    by (simp add: copy_file_def write_part_def mc_tick_def leads_to_def on_actual_def put_disk_def Let_def)
  then have "Update ts prog m = (Ok 28, ?m1)" by (simp add: Update_def)
  then obtain r1 where r: "Revert ts ?m1 = (r1, m')" using install_reverts assms(5) by force
  have "on_actual (take n old) (dk m')"
    by (rule revert_installs_copy [OF _ copy nolink _ _ r])
      (use link assms(3) in \<open>simp_all add: on_actual_def mc_write_bytes put_disk_def mc_tick_def\<close>)
  then show ?thesis using phases_boot(1) [OF assms(1)] phases_boot(1) [of "take n old" "dk m'"] by simp
qed

subsection \<open>Whether an upload can start an update\<close>

datatype upload_item = Upload_Name TBytes | Upload_Data TBytes

definition upload_one :: "(string \<Rightarrow> fs \<Rightarrow> fs) \<Rightarrow> string \<Rightarrow> upload_item \<Rightarrow> upload \<times> fs \<Rightarrow> unit res \<times> (upload \<times> fs)" where
  "upload_one upd cwd i st = (case i of
     Upload_Name buf \<Rightarrow> bindS (TSYS_UploadFileName_new cwd buf, st) TSYS_UploadFileName_Go
   | Upload_Data buf \<Rightarrow> TSYS_UploadFileData_Go upd buf st)"

fun upload_all :: "(string \<Rightarrow> fs \<Rightarrow> fs) \<Rightarrow> string \<Rightarrow> upload_item list \<Rightarrow> upload \<times> fs \<Rightarrow> unit res \<times> (upload \<times> fs)" where
  "upload_all upd cwd [] st = (Ok (), st)"
| "upload_all upd cwd (i # its) st = bindS (upload_one upd cwd i st) (\<lambda>_. upload_all upd cwd its)"

lemma open_filename:
  "up_filename (fst (snd (UploadFileName_open data (u, s)))) = bytes_string data"
  by (auto simp: UploadFileName_open_def upload_open_def Let_def tick_def split_beta)

lemma name_step_filename:
  "up_filename (fst (snd (UploadFileName_step data (u, s)))) \<in> {up_filename u, bytes_string data}"
  by (auto simp: UploadFileName_step_def upload_close_def Let_def tick_def split_beta open_filename)

lemma data_step_filename:
  assumes "up_filename u \<noteq> update_trigger"
  shows "UploadFileData_step upd data (u, s) = UploadFileData_step upd' data (u, s)"
    "up_filename (fst (snd (UploadFileData_step upd data (u, s)))) = up_filename u"
  using assms
  by (auto simp: UploadFileData_step_def upload_close_def upload_write_def Let_def tick_def split_beta split: option.splits)

lemma name_is_no_trigger:
  assumes "TSYS_UploadFileName_new cwd buf = Ok data"
  shows "bytes_string data \<noteq> update_trigger"
proof -
  have "data = [] \<or> take (length ''/home/acces/'') (bytes_string data) = ''/home/acces/''"
    using assms by (auto simp: TSYS_UploadFileName_new_def sanitizePath_def sanitizePath_base outcome_simps Let_def split: if_splits)
  then show ?thesis by (auto simp: update_trigger_def bytes_string_def)
qed

lemma upload_one_filename:
  assumes "up_filename (fst st) \<noteq> update_trigger"
  shows "upload_one upd cwd i st = upload_one upd' cwd i st"
    "up_filename (fst (snd (upload_one upd cwd i st))) \<noteq> update_trigger"
proof -
  obtain u s where st: "st = (u, s)" by fastforce
  have "upload_one upd cwd i st = upload_one upd' cwd i st \<and>
      up_filename (fst (snd (upload_one upd cwd i st))) \<noteq> update_trigger"
  proof (cases i)
    case (Upload_Data buf)
    then show ?thesis
      using data_step_filename(1) [of u upd buf s upd'] data_step_filename(2) [of u upd buf s] assms
      by (simp add: upload_one_def TSYS_UploadFileData_Go_def st)
  next
    case (Upload_Name buf)
    show ?thesis
    proof (cases "TSYS_UploadFileName_new cwd buf")
      case (Ok data)
      then show ?thesis
        using name_step_filename [of data u s] name_is_no_trigger [OF Ok] assms Upload_Name
        by (auto simp: upload_one_def TSYS_UploadFileName_Go_def st bindS_def)
    qed (use Upload_Name assms in \<open>auto simp: upload_one_def bindS_def st\<close>)
  qed
  then show "upload_one upd cwd i st = upload_one upd' cwd i st"
    "up_filename (fst (snd (upload_one upd cwd i st))) \<noteq> update_trigger" by auto
qed

lemma upload_all_core:
  "up_filename (fst st) \<noteq> update_trigger \<Longrightarrow> upload_all upd cwd its st = upload_all upd' cwd its st"
proof (induction its arbitrary: st)
  case Nil
  then show ?case by simp
next
  case (Cons i its)
  obtain r t where r: "upload_one upd cwd i st = (r, t)" by (cases "upload_one upd cwd i st")
  then have "upload_one upd' cwd i st = (r, t)" "up_filename (fst t) \<noteq> update_trigger"
    using upload_one_filename [OF Cons.prems, of upd cwd i] upload_one_filename(1) [OF Cons.prems, of upd cwd i upd'] by auto
  then show ?case using r Cons.IH [of t] by (cases r) (simp_all add: bindS_def)
qed

text \<open>
  None of this ever runs. The file name that starts an update is outside the directory uploads are confined
  to: whatever items clients send, a server that starts without that name never comes to replace itself.
\<close>

lemma update_is_unreachable:
  assumes "up_filename u \<noteq> update_trigger"
  shows "upload_all upd cwd its (u, s) = upload_all upd' cwd its (u, s)"
  using upload_all_core [of "(u, s)"] assms by simp

subsection \<open>Where uploads go\<close>

lemma split_append: "d \<notin> set l \<Longrightarrow> split (l @ d # s) d = (if l = [] then [] else [l]) @ split s d"
  by (simp add: split_def getlines_append)

definition escape :: "string \<Rightarrow> string" where
  "escape p = ''/home/acces/../../'' @ p"

lemma escape_split: "split (escape p) CHR ''/'' = [''home'', ''acces'', ''..'', ''..''] @ split p CHR ''/''"
proof -
  have "split (CHR ''/'' # s) CHR ''/'' = split s CHR ''/''"
    "split (''home'' @ CHR ''/'' # s) CHR ''/'' = ''home'' # split s CHR ''/''"
    "split (''acces'' @ CHR ''/'' # s) CHR ''/'' = ''acces'' # split s CHR ''/''"
    "split (''..'' @ CHR ''/'' # s) CHR ''/'' = ''..'' # split s CHR ''/''" for s
    using split_append [of "CHR ''/''" "[]" s] split_append [of "CHR ''/''" "''home''" s]
      split_append [of "CHR ''/''" "''acces''" s] split_append [of "CHR ''/''" "''..''" s] by simp_all
  then show ?thesis by (simp add: escape_def)
qed

lemma escape_new:
  assumes "CHR 0x00 \<notin> set p" and "CHR 0x5C \<notin> set p"
  shows "TSYS_UploadFileName_new cwd (string_bytes (escape p)) = Ok (string_bytes (escape p))"
proof -
  have "map (\<lambda>c. if c = CHR 0x5C then CHR ''/'' else c) p = p" using assms(2) by (auto intro: map_idI)
  then show ?thesis
    using assms(1) by (simp add: TSYS_UploadFileName_new_def sanitizePath_def fs_absolute_def escape_def Let_def)
qed

text \<open>
  C33: Uploads are not confined. A client can name any file of the board: two steps up from the upload directory
  pass the check of the path, which compares characters, and the upload empties the file and makes it the
  one that is written to.
\<close>

theorem upload_escapes_directory:
  assumes "CHR 0x00 \<notin> set p" and "CHR 0x5C \<notin> set p" and "\<not> up_open u" and "no_errors s"
  shows "\<exists>data u' s'. TSYS_UploadFileName_new cwd (string_bytes (escape p)) = Ok data \<and>
      TSYS_UploadFileName_Go data (u, s) = (Ok (), (u', s')) \<and>
      up_open u' \<and> up_filename u' = escape p \<and> resolved (up_filename u') = resolved p \<and>
      lookup_file s' (up_filename u') = Some []"
proof -
  have "resolved (escape p) = resolved p" by (simp add: resolved_def escape_split)
  moreover have "escape p \<noteq> []" by (simp add: escape_def)
  ultimately show ?thesis
    using assms escape_new [OF assms(1,2), of cwd]
    by (simp add: TSYS_UploadFileName_Go_def UploadFileName_step_def UploadFileName_open_def upload_open_def
        sys_open_trunc_def tick_def no_errors_def set_file_def lookup_file_def Let_def update_conv')
qed

subsection \<open>Witnesses\<close>

definition example_disk :: disk where
  "example_disk = \<lparr>dk_file = [actual_file \<mapsto> ([1, 2], True)], dk_link = [boot_link \<mapsto> actual_file]\<rparr>"

definition example_machine :: "disk \<Rightarrow> machine" where
  "example_machine d = \<lparr>dk = d, past = [], mc_calls = 0, mc_errno = \<lambda>_. 0, mc_part = \<lambda>_. 0\<rparr>"

lemma example_update: "fst (Update ''1'' [7] (example_machine example_disk)) = Ok 0"
  by (simp add: Update_def copy_file_def update_symlink_atomic_def remove_old_link_def write_program_def write_part_def
      sys_defs disk_call_def mc_tick_def example_machine_def example_disk_def leads_to_def free_def bindS_def put_disk_def
      set_entry_def Let_def)


lemma second_update_reverts_first_example:
  "boots (dk (snd (install ''1'' [9] (example_machine
     (set_entry (backup_file ''1'') (Some ([5], True)) None example_disk))))) [5]"
  using second_update_reverts_first [of "[1, 2]" "example_machine (set_entry (backup_file ''1'') (Some ([5], True)) None example_disk)"
      "''1''" "[5]" "[9]"]
  by (cases "install ''1'' [9] (example_machine (set_entry (backup_file ''1'') (Some ([5], True)) None example_disk))")
    (auto simp: on_actual_def example_disk_def example_machine_def machine_ok_def set_entry_def)

lemma failed_copy_destroys_program_example:
  "boots (dk (snd (install ''1'' [9] ((example_machine example_disk)\<lparr>mc_errno := \<lambda>k. if k = 1 then 28 else 0, mc_part := \<lambda>_. 1\<rparr>)))) [1]"
  using failed_copy_destroys_program [of "[1, 2]"
      "(example_machine example_disk)\<lparr>mc_errno := \<lambda>k. if k = 1 then 28 else 0, mc_part := \<lambda>_. 1\<rparr>" "''1''" 1 "[9]"]
  by (cases "install ''1'' [9] ((example_machine example_disk)\<lparr>mc_errno := \<lambda>k. if k = 1 then 28 else 0, mc_part := \<lambda>_. 1\<rparr>)")
    (auto simp: on_actual_def example_disk_def example_machine_def free_def)

lemma update_is_unreachable_example:
  "upload_all (\<lambda>_ s. s) ''/'' [Upload_Name [65]] (\<lparr>up_open = False, up_fail = False, up_filename = []\<rparr>, empty_fs) =
   upload_all (\<lambda>_ _. empty_fs) ''/'' [Upload_Name [65]] (\<lparr>up_open = False, up_fail = False, up_filename = []\<rparr>, empty_fs)"
  by (rule update_is_unreachable) (simp add: update_trigger_def)

theorem upload_escapes_directory_witness:
  "\<exists>data u' s'. TSYS_UploadFileName_new ''/'' (string_bytes (escape ''etc/passwd'')) = Ok data \<and>
     TSYS_UploadFileName_Go data (\<lparr>up_open = False, up_fail = False, up_filename = []\<rparr>, empty_fs) = (Ok (), (u', s')) \<and>
     resolved (up_filename u') = [''etc'', ''passwd'']"
proof -
  have "split ''etc/passwd'' CHR ''/'' = [''etc'', ''passwd'']"
    using split_append [of "CHR ''/''" "''etc''" "''passwd''"] by (simp add: split_def)
  then have "resolved ''etc/passwd'' = [''etc'', ''passwd'']" by (simp add: resolved_def)
  then show ?thesis
    using upload_escapes_directory [of "''etc/passwd''" "\<lparr>up_open = False, up_fail = False, up_filename = []\<rparr>" empty_fs "''/''"]
    by (auto simp: no_errors_def empty_fs_def)
qed

end
