(* ===== verification/DidDict.thy ===== *)
theory DidDict
  imports EnetTypes
begin

text \<open>
  The dictionary of the data items (\<^verbatim>\<open>DataItems/TDataItem.cpp\<close>, lines 83 to 407): for each id the
  lengths its data may have, the class that implements it, its description and the function of its
  action when it has one. The class names of the source stand for the constructors the entries
  point to, grouped by their header file, and the names of \<open>go_fn\<close> for the anonymous functions.
\<close>

datatype brd_class =
    C_TBRD_DeviceID
  | C_TBRD_Features
  | C_TBRD_FpgaId
  | C_TBRD_Model
  | C_TBRD_GetModel
  | C_TBRD_SerialNumber
  | C_TBRD_GetSerialNumber
  | C_TBRD_GetNumberOfAdcChannels
  | C_TBRD_NumberOfSubmuxes
  | C_TBRD_SubmuxScale
  | C_TBRD_SubmuxOffset
  | C_TBRD_GetNumberOfSubmuxes
  | C_TBRD_GetSubmuxScale
  | C_TBRD_GetSubmuxOffset

datatype reg_class =
    C_TREG_Read1
  | C_TREG_Write1
  | C_TREG_ReadBit
  | C_TREG_WriteBit
  | C_TREG_ClearBit
  | C_TREG_SetBit
  | C_TREG_ToggleBit

datatype dac_class =
    C_TDAC_Output
  | C_TDAC_OutputV
  | C_TDAC_Range1

datatype dio_class =
    C_TDIO_Configure
  | C_TDIO_Input
  | C_TDIO_Output
  | C_TDIO_ConfigureBit
  | C_TDIO_InputBit
  | C_TDIO_OutputBit
  | C_TDIO_ClearBit
  | C_TDIO_SetBit
  | C_TDIO_ToggleBit

datatype adc_class =
    C_TADC_BaseClock
  | C_TADC_Differential1
  | C_TADC_DifferentialAll
  | C_TADC_Range1
  | C_TADC_RangeAll
  | C_TADC_Scale1
  | C_TADC_ScaleAll
  | C_TADC_Offset1
  | C_TADC_OffsetAll
  | C_TADC_Calibration1
  | C_TADC_CalibrationAll
  | C_TADC_RawAll
  | C_TADC_CountsAll
  | C_TADC_VoltsAll
  | C_TADC_StreamStart
  | C_TADC_StreamStop

datatype cfg_class =
    C_TCFG_Hostname

datatype sys_class =
    C_TSYS_UploadFileName
  | C_TSYS_UploadFileData
  | C_TSYS_Error
  | C_TSYS_ItemError

datatype item_class =
    C_TDataItemRaw
  | C_TDataItemNYI
  | C_TDataItemDoc
  | C_TDataItemDocGet
  | BRD brd_class
  | REG reg_class
  | DAC dac_class
  | DIO dio_class
  | ADC adc_class
  | CFG cfg_class
  | SYS sys_class

datatype go_fn =
    Go_BRD_REBOOT
  | Go_REG_ClearBits
  | Go_REG_ToggleBits
  | Go_REG_SetBits
  | Go_DAC_Calibrate1
  | Go_DAC_Offset1
  | Go_DAC_OffsetAll
  | Go_DAC_Scale1
  | Go_DAC_ScaleAll

record TDIdDictEntry =
  minLen :: u16
  typLen :: u16
  maxLen :: u16
  Construct :: item_class
  desc :: string
  go :: "go_fn option"

text \<open>The arrow of the descriptions, in UTF-8.\<close>

definition arrow :: string where "arrow = [CHR 0xE2, CHR 0x86, CHR 0x92]"

abbreviation (input) entry where
  "entry did a b c cls d g \<equiv> (did, \<lparr>minLen = a, typLen = b, maxLen = c, Construct = cls, desc = d, go = g\<rparr>)"

text \<open>
  The entries, a definition for each of the regions of the source, in the order of their ids, which is the order a
  \<open>std::map\<close> is iterated in.
\<close>

definition DIdDict_BRD :: "(TDataId \<times> TDIdDictEntry) list" where
  "DIdDict_BRD = [
    entry DId_BRD_group 0 0 0 C_TDataItemDoc (''Documentation: list of BRD_ DataItems'') None,
    entry DId_BRD_Reset 0 0 0 C_TDataItemRaw (''BRD_Reset()'') None,
    entry DId_BRD_DeviceID 0 0 0 (BRD C_TBRD_DeviceID) (''BRD_DeviceID() '' @ arrow @ '' u32'') None,
    entry DId_BRD_Features 0 4 4 (BRD C_TBRD_Features) (''BRD_Features() '' @ arrow @ '' u8'') None,
    entry DId_BRD_FpgaID 0 4 4 (BRD C_TBRD_FpgaId) (''BRD_FpgaID() '' @ arrow @ '' u32'') None,
    entry DId_BRD_Model 12 40 40 (BRD C_TBRD_Model) (''BRD_Model(ASCII)'') None,
    entry DId_BRD_GetModel 0 0 0 (BRD C_TBRD_GetModel) (''BRD_GetModel() '' @ arrow @ '' ASCII'') None,
    entry DId_BRD_SerialNumber 12 12 14 (BRD C_TBRD_SerialNumber) (''BRD_SetSerialNumber(ASCII SN)'') None,
    entry DId_BRD_GetSerialNumber 0 0 0 (BRD C_TBRD_GetSerialNumber) (''BRD_GetSerialNumber() '' @ arrow @ '' ASCII'') None,
    entry DId_BRD_NumberOfSubmuxes 1 1 1 (BRD C_TBRD_NumberOfSubmuxes) (''BRD_NumberOfSubmuxes(u8 count)'') None,
    entry DId_BRD_SubmuxScale 6 6 6 (BRD C_TBRD_SubmuxScale) (''BRD_SubmuxScale(u8 submuxIndex, u8 gainGroupIndex, f32 Scale)'') None,
    entry DId_BRD_SubmuxOffset 6 6 6 (BRD C_TBRD_SubmuxOffset) (''BRD_SubmuxOffset(u8 submuxIndex, u8 gainGroupIndex, f32 Offset)'') None,
    entry DId_BRD_GetNumberOfAdcChannels 0 0 0 (BRD C_TBRD_GetNumberOfAdcChannels) (''BRD_GetNumberOfAdcChannels() '' @ arrow @ '' u8'') None,
    entry DId_BRD_GetNumberOfSubmuxes 0 0 0 (BRD C_TBRD_GetNumberOfSubmuxes) (''BRD_GetNumberOfSubmuxes() '' @ arrow @ '' [u8]'') None,
    entry DId_BRD_GetSubmuxScale 2 2 2 (BRD C_TBRD_GetSubmuxScale) (''BRD_GetSubmuxScale(u8 submuxIndex, u8 gainGroupIndex) '' @ arrow @ '' [float]'') None,
    entry DId_BRD_GetSubmuxOffset 2 2 2 (BRD C_TBRD_GetSubmuxOffset) (''BRD_GetSubmuxOffset(u8 submuxIndex, u8 gainGroupIndex) '' @ arrow @ '' [float]'') None,
    entry DId_BRD_REBOOT 8 8 8 C_TDataItemRaw (''BRD_REBOOT(double)'') (Some Go_BRD_REBOOT)]"

definition DIdDict_REG :: "(TDataId \<times> TDIdDictEntry) list" where
  "DIdDict_REG = [
    entry DId_REG_group 0 0 0 C_TDataItemDoc (''Documentation: list of REG_ DataItems'') None,
    entry DId_REG_Read1 1 1 1 (REG C_TREG_Read1) (''REG_Read1(u8 offset) '' @ arrow @ '' [u8|u32]'') None,
    entry DId_REG_ReadBuf 0 0 0 C_TDataItemNYI (''REG_ReadBuf (NYI)'') None,
    entry DId_REG_Write1 2 5 5 (REG C_TREG_Write1) (''REG_Write1(u8 ofs, [u8|u32] data)'') None,
    entry DId_REG_WriteBuf 0 0 0 C_TDataItemNYI (''REG_WriteBuf (NYI)'') None,
    entry DId_REG_ClearBits 2 5 5 C_TDataItemRaw (''REG_ClearBits(u8 ofs, u8|u32 bitsToClear)'') (Some Go_REG_ClearBits),
    entry DId_REG_SetBits 2 5 5 C_TDataItemRaw (''REG_SetBits(u8 ofs, u8|u32 bitsToSet)'') (Some Go_REG_SetBits),
    entry DId_REG_ToggleBits 2 5 5 C_TDataItemRaw (''REG_ToggleBits(u8 ofs, u8|u32 bitsToToggle)'') (Some Go_REG_ToggleBits),
    entry DId_REG_ReadBit 2 2 2 (REG C_TREG_ReadBit) (''TREG_ReadBit(u8 offset, u8 bitIndex) '' @ arrow @ '' [u8]'') None,
    entry DId_REG_WriteBit 3 3 3 (REG C_TREG_WriteBit) (''TREG_WriteBit(u8 offset, u8 bitIndex, u8 one_or_zero)'') None,
    entry DId_REG_ClearBit 2 2 2 (REG C_TREG_ClearBit) (''TREG_ClearBit(u8 offset, u8 bitIndex)'') None,
    entry DId_REG_SetBit 2 2 2 (REG C_TREG_SetBit) (''TREG_SetBit(u8 offset, u8 bitIndex)'') None,
    entry DId_REG_ToggleBit 2 2 2 (REG C_TREG_ToggleBit) (''TREG_ToggleBit(u8 offset, u8 bitIndex)'') None]"

definition DIdDict_DAC :: "(TDataId \<times> TDIdDictEntry) list" where
  "DIdDict_DAC = [
    entry DId_DAC_group 0 0 0 C_TDataItemDoc (''Documentation: list of DAC_ DataItems'') None,
    entry DId_DAC_Output1 3 5 5 (DAC C_TDAC_Output) (''DAC_Output1(u8 iDAC, u16 counts)'') None,
    entry DId_DAC_Output1V 3 5 5 (DAC C_TDAC_OutputV) (''DAC_Output1(u8 iDAC, single Volts)'') None,
    entry DId_DAC_Range1 5 5 5 (DAC C_TDAC_Range1) (''DAC_Range1(u8 iDAC, u32 RangeCode)'') None,
    entry DId_DAC_Calibrate1 9 9 9 C_TDataItemRaw (''DAC_Calibrate1(u8 iDAC, single Offset, single Scale)'') (Some Go_DAC_Calibrate1),
    entry DId_DAC_Offset1 5 5 5 C_TDataItemRaw (''DAC_Offset1(u8 iDac, single Offset)'') (Some Go_DAC_Offset1),
    entry DId_DAC_OffsetAll 8 8 16 C_TDataItemRaw (''DAC_OffsetAll(single offset0, offset1[, offset2, offset3])'') (Some Go_DAC_OffsetAll),
    entry DId_DAC_Scale1 5 5 5 C_TDataItemRaw (''DAC_Scale1(u8 iDac, single Scale)'') (Some Go_DAC_Scale1),
    entry DId_DAC_ScaleAll 8 8 16 C_TDataItemRaw (''DAC_ScaleAll(single scale0, scale1[, scale2, scale3])'') (Some Go_DAC_ScaleAll),
    entry DId_DAC_Configure1 0 0 0 C_TDataItemNYI (''DAC_Configure1 (NYI)'') None,
    entry DId_DAC_ConfigAndOutput1 0 0 0 C_TDataItemNYI (''DAC_ConfigAndOutput1 (NYI)'') None]"

definition DIdDict_DIO :: "(TDataId \<times> TDIdDictEntry) list" where
  "DIdDict_DIO = [
    entry DId_DIO_group 0 0 0 C_TDataItemDoc (''Documentation: list of DIO_ DataItems'') None,
    entry DId_DIO_ConfigureBit 2 2 2 (DIO C_TDIO_ConfigureBit) (''DIO_ConfigureBit(u8 bitNumber, u8 direction)'') None,
    entry DId_DIO_Configure 2 2 2 (DIO C_TDIO_Configure) (''TDIO_Configure(u16 value) - each bit: 1=input, 0=output'') None,
    entry DId_DIO_InputBit 1 1 1 (DIO C_TDIO_InputBit) (''DIO_InputBit(u8 bitNumber) '' @ arrow @ '' [u8]'') None,
    entry DId_DIO_Input 0 0 0 (DIO C_TDIO_Input) (''TDIO_Input() '' @ arrow @ '' returns u16 value'') None,
    entry DId_DIO_OutputBit 2 2 2 (DIO C_TDIO_OutputBit) (''DIO_OutputBit(u8 bitNumber, u8 value)'') None,
    entry DId_DIO_Output 2 2 2 (DIO C_TDIO_Output) (''TDIO_Output(u16 value) - sets digital outputs'') None,
    entry DId_DIO_ConfigureReadWriteReadSome 0 0 0 C_TDataItemNYI (''DIO_ConfigureReadWriteReadSome (NYI)'') None,
    entry DId_DIO_ClearBit 1 1 1 (DIO C_TDIO_ClearBit) (''DIO_ClearBit(u8 bitNumber)'') None,
    entry DId_DIO_SetBit 1 1 1 (DIO C_TDIO_SetBit) (''DIO_SetBit(u8 bitNumber)'') None,
    entry DId_DIO_ToggleBit 1 1 1 (DIO C_TDIO_ToggleBit) (''DIO_ToggleBit(u8 bitNumber)'') None,
    entry DId_DIO_PulseBit 0 0 0 C_TDataItemNYI (''DIO_PulseBit (NYI)'') None]"

definition DIdDict_PWM :: "(TDataId \<times> TDIdDictEntry) list" where
  "DIdDict_PWM = [
    entry DId_PWM_group 0 0 0 C_TDataItemDoc (''Documentation: list of PWM_ DataItems'') None,
    entry DId_PWM_Configure1 0 0 0 C_TDataItemNYI (''PWM_Configure1 (NYI)'') None,
    entry DId_PWM_Input1 0 0 0 C_TDataItemNYI (''PWM_Input1 (NYI)'') None,
    entry DId_PWM_Output1 0 0 0 C_TDataItemNYI (''PWM_Output1 (NYI)'') None]"

definition DIdDict_ADC :: "(TDataId \<times> TDIdDictEntry) list" where
  "DIdDict_ADC = [
    entry DId_ADC_group 0 0 0 C_TDataItemDoc (''Documentation: list of ADC_ DataItems'') None,
    entry DId_ADC_Claim 0 0 0 C_TDataItemNYI (''ADC_Claim (NYI)'') None,
    entry DId_ADC_Release 0 0 0 C_TDataItemNYI (''ADC_Release (NYI)'') None,
    entry DId_ADC_BaseClock 0 0 4 (ADC C_TADC_BaseClock) (''ADC_BaseClock() '' @ arrow @ '' u32'') None,
    entry DId_ADC_StartHz 4 4 4 C_TDataItemRaw (''ADC_StartHz(f32)'') None,
    entry DId_ADC_StartDivisor 4 4 4 C_TDataItemRaw (''ADC_StartDivisor(u32)'') None,
    entry DId_ADC_ConfigurationOfEverything 0 0 0 C_TDataItemNYI (''ADC_ConfigurationOfEverything (NYI)'') None,
    entry DId_ADC_Differential1 2 2 2 (ADC C_TADC_Differential1) (''ADC_Differential1(u8 channelGroup, u8 singleEnded)'') None,
    entry DId_ADC_DifferentialAll 8 8 8 (ADC C_TADC_DifferentialAll) (''ADC_DifferentialAll(8 bytes: one per channelGroup)'') None,
    entry DId_ADC_Range1 2 2 2 (ADC C_TADC_Range1) (''ADC_Range1(u8 channelGroup, u8 range)'') None,
    entry DId_ADC_RangeAll 8 8 8 (ADC C_TADC_RangeAll) (''ADC_RangeAll(8 bytes: range for each channelGroup)'') None,
    entry DId_ADC_Calibration1 9 9 9 (ADC C_TADC_Calibration1) (''ADC_Calibration1(u8 rangeIndex, float scale, float offset)'') None,
    entry DId_ADC_CalibrationAll 64 64 64 (ADC C_TADC_CalibrationAll) (''ADC_CalibrationAll(8 scales followed by 8 offsets)'') None,
    entry DId_ADC_Scale1 5 5 5 (ADC C_TADC_Scale1) (''ADC_Scale1(u8 rangeIndex, float scale)'') None,
    entry DId_ADC_ScaleAll 32 32 32 (ADC C_TADC_ScaleAll) (''ADC_ScaleAll(8 floats for scale calibration)'') None,
    entry DId_ADC_Offset1 5 5 5 (ADC C_TADC_Offset1) (''ADC_Offset1(u8 rangeIndex, float offset)'') None,
    entry DId_ADC_OffsetAll 32 32 32 (ADC C_TADC_OffsetAll) (''ADC_OffsetAll(8 floats for offset calibration)'') None,
    entry DId_ADC_Volts1 0 0 0 C_TDataItemNYI (''ADC_Volts1 (NYI)'') None,
    entry DId_ADC_VoltsAll 0 0 0 (ADC C_TADC_VoltsAll) (''ADC_VoltsAll() '' @ arrow @ '' float[nChannels]'') None,
    entry DId_ADC_Counts1 0 0 0 C_TDataItemNYI (''ADC_Counts1 (NYI)'') None,
    entry DId_ADC_CountsAll 0 0 0 (ADC C_TADC_CountsAll) (''ADC_CountsAll() -> nChannels * u16'') None,
    entry DId_ADC_Raw1 0 0 0 C_TDataItemNYI (''ADC_Raw1 (NYI)'') None,
    entry DId_ADC_RawAll 0 0 0 (ADC C_TADC_RawAll) (''ADC_RawAll() -> nChannels * u32'') None,
    entry DId_ADC_StreamStart 4 4 4 (ADC C_TADC_StreamStart) (''ADC_StreamStart((u32)AdcConnectionId)'') None,
    entry DId_ADC_StreamStop 0 0 0 (ADC C_TADC_StreamStop) (''ADC_StreamStop()'') None]"

definition DIdDict_others :: "(TDataId \<times> TDIdDictEntry) list" where
  "DIdDict_others = [
    entry DId_SCRIPT_Pause 0 0 0 C_TDataItemNYI (''SCRIPT_Pause (NYI)'') None,
    entry DId_WDG_group 0 0 0 C_TDataItemDoc (''Documentation: list of WDG_ DataItems'') None,
    entry DId_DEF_group 0 0 0 C_TDataItemDoc (''Documentation: list of DEF_ DataItems'') None,
    entry DId_SERVICE_group 0 0 0 C_TDataItemDoc (''Documentation: list of SERVICE_ DataItems'') None,
    entry DId_TCP_group 0 0 0 C_TDataItemDoc (''Documentation: list of TCP_ DataItems'') None,
    entry DId_TCP_ConnectionID 4 4 4 C_TDataItemRaw (''TCP_ConnectionID() '' @ arrow @ '' u32'') None,
    entry DId_PNP_group 0 0 0 C_TDataItemDoc (''Documentation: list of PNP_ DataItems'') None,
    entry DId_CFG_group 0 0 0 C_TDataItemDoc (''Documentation: list of CFG_ DataItems'') None,
    entry DId_CFG_Hostname 1 20 253 (CFG C_TCFG_Hostname) (''CFG_Hostname({valid Hostname})'') None,
    entry DId_SYS_UploadFileName 1 255 255 (SYS C_TSYS_UploadFileName) (''SYS_UploadFileName({valid filepath})'') None,
    entry DId_SYS_UploadFileData 1 65534 65534 (SYS C_TSYS_UploadFileData) (''SYS_UploadFileData({valid file data})'') None,
    entry DId_SYS_Error 0 12 12 (SYS C_TSYS_Error) (''SYS_Error() '' @ arrow @ '' u32 Stage, u32 error code, u32 info'') None,
    entry DId_SYS_ItemError 0 12 12 (SYS C_TSYS_ItemError) (''SYS_ItemError() '' @ arrow @ '' u16 itemIndex, u16 DId, u32 error code, u32 info'') None,
    entry DId_INVALID 0 0 0 C_TDataItemRaw (''Invalid DId -1'') None,
    entry DId_DOC_Get 0 0 0 C_TDataItemDocGet (''Documentation: list of All top-level DataItem groups'') None]"

definition DIdDict :: "(TDataId \<times> TDIdDictEntry) list" where
  DIdDict_sections: "DIdDict = DIdDict_BRD @ DIdDict_REG @ DIdDict_DAC @ DIdDict_DIO @ DIdDict_PWM @ DIdDict_ADC @ DIdDict_others"

lemmas DIdDict_def = DIdDict_sections [unfolded DIdDict_BRD_def DIdDict_REG_def DIdDict_DAC_def DIdDict_DIO_def
  DIdDict_PWM_def DIdDict_ADC_def DIdDict_others_def append.simps]

subsection \<open>Lookups\<close>

definition find_DId :: "TDataId \<Rightarrow> TDIdDictEntry option" where
  "find_DId did = map_of DIdDict did"

definition isValidDataItemID :: "TDataId \<Rightarrow> bool" where
  "isValidDataItemID did = (find_DId did \<noteq> None)"

text \<open>The reads of an entry that is not there dereference the end of the map.\<close>

definition getDIdDesc :: "TDataId \<Rightarrow> string res" where
  "getDIdDesc did = (case find_DId did of None \<Rightarrow> Undef | Some e \<Rightarrow> Ok (desc e))"

definition getMinLength :: "TDataId \<Rightarrow> u16 res" where
  "getMinLength did = (case find_DId did of None \<Rightarrow> Undef | Some e \<Rightarrow> Ok (minLen e))"

definition getTargetLength :: "TDataId \<Rightarrow> u16 res" where
  "getTargetLength did = (case find_DId did of None \<Rightarrow> Undef | Some e \<Rightarrow> Ok (maxLen e))"

definition getMaxLength :: "TDataId \<Rightarrow> u16 res" where
  "getMaxLength did = (case find_DId did of None \<Rightarrow> Undef | Some e \<Rightarrow> Ok (maxLen e))"

fun index_of :: "'a \<Rightarrow> 'a list \<Rightarrow> nat option" where
  "index_of x [] = None"
| "index_of x (y # ys) = (if x = y then Some 0 else map_option Suc (index_of x ys))"

definition getDIdIndex :: "TDataId \<Rightarrow> nat res" where
  "getDIdIndex did = (case index_of did (map fst DIdDict) of
     Some i \<Rightarrow> Ok i | None \<Rightarrow> Throw (LogicError ''DId not found in list''))"

text \<open>The length of the data is compared as a \<open>TDataItemLength\<close>.\<close>

definition validateDataItemPayload :: "TDataId \<Rightarrow> TBytes \<Rightarrow> TError res" where
  "validateDataItemPayload did bytes =
     bindR (getMinLength did) (\<lambda>lo. bindR (getMaxLength did) (\<lambda>hi.
       let len = (of_nat (length bytes) :: u16) in
       Ok (if lo \<le> len \<and> len \<le> hi then ERR_SUCCESS else ERR_MSG_PAYLOAD_DATAITEM_LEN_MISMATCH)))"

definition validateDataItem :: "TBytes \<Rightarrow> TError res" where
  "validateDataItem bytes =
     (if length bytes < sizeof_TDataItemHeader then Ok ERR_MSG_DATAITEM_TOO_SHORT
      else if \<not> isValidDataItemID (head_DId bytes) then Ok ERR_MSG_DATAITEM_ID_UNKNOWN
      else if head_dataLength bytes = 0 then Ok 0
      else validateDataItemPayload (head_DId bytes) (drop sizeof_TDataItemHeader bytes))"

subsection \<open>Documentation\<close>

definition GetMSB :: "TDataId \<Rightarrow> u8" where
  "GetMSB did = ucast (drop_bit 8 did)"

definition GetLSB :: "TDataId \<Rightarrow> u8" where
  "GetLSB did = ucast (did AND 0xFF)"

definition doc_lines :: "(TDataId \<Rightarrow> bool) \<Rightarrow> string" where
  "doc_lines P = concat (map (\<lambda>(i, e). desc e @ [CHR 0x0A]) (filter (\<lambda>(i, e). P i) DIdDict))"

text \<open>The texts \<open>TDataItemDoc::Go\<close> and \<open>TDataItemDocGet::Go\<close> assemble.\<close>

definition TDataItemDoc_text :: "TDataId \<Rightarrow> string" where
  "TDataItemDoc_text did = doc_lines (\<lambda>i. GetMSB i = GetMSB did \<and> GetLSB i \<noteq> 0)"

definition TDataItemDocGet_text :: string where
  "TDataItemDocGet_text = doc_lines (\<lambda>i. GetLSB i = 0)"

subsection \<open>Lemmas\<close>

lemma DIdDict_ids_sorted: "sorted_wrt (<) (map fst DIdDict)"
proof -
  have "successively (<) (map fst DIdDict)" by (simp add: DIdDict_def)
  then show ?thesis by (simp add: successively_conv_sorted_wrt)
qed

lemma DIdDict_distinct: "distinct (map fst DIdDict)"
  using DIdDict_ids_sorted strict_sorted_iff by blast

lemma find_DId_entry: "find_DId did = Some e \<longleftrightarrow> (did, e) \<in> set DIdDict"
  unfolding find_DId_def by (simp add: DIdDict_distinct)

lemma DIdDict_lengths: "list_all (\<lambda>(did, e). minLen e \<le> maxLen e \<and> maxLen e \<le> 65534) DIdDict"
  by (simp add: DIdDict_def)

end
