(* ===== verification/RegItems.thy ===== *)
theory RegItems
  imports DioItems Utilities
begin

text \<open>
  The register data items: \<^verbatim>\<open>DataItems/REG_.h\<close>, \<^verbatim>\<open>DataItems/REG_.cpp\<close> and the three functions the
  dictionary of \<^verbatim>\<open>DataItems/TDataItem.cpp\<close> attaches to \<open>REG_ClearBits\<close>, \<open>REG_SetBits\<close> and
  \<open>REG_ToggleBits\<close>.
\<close>

subsection \<open>Parameter structures\<close>

record REG_Read1Params =
  r1_offset :: int
  r1_width :: int
  r1_regVal :: u32

record REG_Write =
  w_offset :: u8
  w_width :: u8
  w_value :: u32

type_synonym REG_WriteList = "REG_Write list"

record REG_WritesParams =
  Writes :: REG_WriteList

record REG_ReadBitParams =
  rb_offset :: u8
  rb_bitIndex :: u8
  rb_bitValue :: u8

record REG_WriteBitParams =
  wb_offset :: u8
  wb_bitIndex :: u8
  wb_value :: u8

text \<open>\<open>REG_ClearBitParams\<close>, \<open>REG_SetBitParams\<close> and \<open>REG_ToggleBitParams\<close> are one structure.\<close>

record REG_BitParams =
  rg_offset :: u8
  rg_bitIndex :: u8

subsection \<open>\<open>REG_Read1\<close>\<close>

text \<open>
  The structure has default member initialisers, so it is zero before the data are copied. An
  item without data reads register zero.
\<close>

definition TREG_Read1_new :: "TBytes \<Rightarrow> REG_Read1Params" where
  "TREG_Read1_new data =
     (let p = TDataItem_params (\<lambda>_. 0) 12 data;
          q = \<lparr>r1_offset = sint (le_read (take 4 p) :: u32),
               r1_width = sint (le_read (take 4 (drop 4 p)) :: u32),
               r1_regVal = le_read (drop 8 p)\<rparr>
      in if data \<noteq> []
         then q\<lparr>r1_offset := uint (data ! 0), r1_width := widthFromOffset (uint (data ! 0))\<rparr>
         else q)"

definition TREG_Read1_setOffset :: "int \<Rightarrow> REG_Read1Params \<Rightarrow> REG_Read1Params res" where
  "TREG_Read1_setOffset ofs p =
     (let w = widthFromOffset ofs in
      if w = 0 then Throw (LogicError ''Invalid offset passed to TREG_Read1::setOffset'')
      else Ok (p\<lparr>r1_offset := ofs, r1_width := w\<rparr>))"

definition TREG_Read1_validateDataItemPayload :: "TBytes \<Rightarrow> TError" where
  "TREG_Read1_validateDataItemPayload data =
     (if length data \<noteq> 1 then ERR_DId_BAD_PARAM
      else if widthFromOffset (uint (data ! 0)) = 0 then ERR_DId_BAD_OFFSET
      else ERR_SUCCESS)"

definition TREG_Read1_Go ::
  "'h apci_lib \<Rightarrow> REG_Read1Params \<Rightarrow> 'h \<Rightarrow> REG_Read1Params res \<times> 'h" where
  "TREG_Read1_Go L p h =
     (let (v, h1) = in_reg L (r1_offset p) h in (Ok (p\<lparr>r1_regVal := v\<rparr>), h1))"

text \<open>
  \<open>getResultValue\<close> allocates one byte or four, by the width. \<open>calcPayload\<close> reads four bytes
  through the pointer in either case; for the narrow object it keeps the low byte only, which on
  this little-endian machine is the object's own.
\<close>

definition TREG_Read1_getResultValue :: "REG_Read1Params \<Rightarrow> TBytes" where
  "TREG_Read1_getResultValue p =
     (if r1_width p = 8 then [ucast (r1_regVal p)] else stuff [] (r1_regVal p))"

definition TREG_Read1_calcPayload :: "REG_Read1Params \<Rightarrow> bool \<Rightarrow> TBytes" where
  "TREG_Read1_calcPayload p bAsReply =
     [word_of_int (r1_offset p)] @
     (if bAsReply
      then let value = TREG_Read1_getResultValue p in
           if r1_width p = 8 then [hd value] else stuff [] (le_read value :: u32)
      else [])"

subsection \<open>\<open>REG_Write1\<close>\<close>

definition addWrite :: "u8 \<Rightarrow> int \<Rightarrow> u32 \<Rightarrow> REG_WritesParams \<Rightarrow> REG_WritesParams" where
  "addWrite w ofs v p =
     p\<lparr>Writes := Writes p @ [\<lparr>w_offset = word_of_int ofs, w_width = w, w_value = v\<rparr>]\<rparr>"

text \<open>
  The base constructor copies the data over the vector of writes when there are at least as many
  bytes as a vector takes (24), which leaves no vector.
\<close>

definition file_REG :: string where "file_REG = ''DataItems/REG_.cpp''"

definition TREG_Write1_new :: "TBytes \<Rightarrow> REG_WritesParams res" where
  "TREG_Write1_new buf =
     (if 24 \<le> length buf then Undef
      else bindR (GUARD (buf \<noteq> []) ERR_MSG_PAYLOAD_DATAITEM_LEN_MISMATCH 0 255 file_REG ''TREG_Write1'')
      (\<lambda>_. let ofs = buf ! 0; w = widthFromOffset (uint ofs) in
        bindR (GUARD (w \<noteq> 0) ERR_DId_BAD_OFFSET (ucast ofs) 258 file_REG ''TREG_Write1'')
        (\<lambda>_. bindR (GUARD (if w = 8 then length buf = 2 else length buf = 5) ERR_DId_BAD_PARAM
                       (of_nat (length buf)) 259 file_REG ''TREG_Write1'')
          (\<lambda>_. let v = (if w = 8 then ucast (buf ! 1) else le_read (take 4 (drop 1 buf)))
                in Ok (addWrite (word_of_int w) (uint ofs) v \<lparr>Writes = []\<rparr>)))))"

text \<open>
  \<open>TREG_Writes::Go\<close>: before each write, wait for the SPI bus the register is behind; a time-out is
  recorded as the result code, the write is made all the same, and the next write's wait
  overwrites it.
\<close>

definition TREG_Writes_action ::
  "'h apci_lib \<Rightarrow> REG_Write \<Rightarrow> TError \<times> 'h \<Rightarrow> TError \<times> 'h" where
  "TREG_Writes_action L action = (\<lambda>(resultCode, h).
     let ofs = uint (w_offset action);
         (rc, h1) =
           (if ofs = ofsDac
            then apfst word_of_int (WaitUntilRegisterBitIsLow L (word_of_int ofsDacSpiBusy) bmDacSpiBusy h)
            else if ofs \<in> {ofsDioDirections, ofsDioOutputs, ofsDioInputs}
            then apfst word_of_int (WaitUntilRegisterBitIsLow L (word_of_int ofsDioSpiBusy) bmDioSpiBusy h)
            else (resultCode, h));
         (st, h2) = out_reg L ofs (w_value action) h1
     in (rc, h2))"

definition TREG_Writes_Go :: "'h apci_lib \<Rightarrow> REG_WritesParams \<Rightarrow> 'h \<Rightarrow> TError \<times> 'h" where
  "TREG_Writes_Go L p h = fold (TREG_Writes_action L) (Writes p) (ERR_SUCCESS, h)"

fun low_bytes :: "nat \<Rightarrow> u32 \<Rightarrow> TBytes" where
  "low_bytes 0 v = []"
| "low_bytes (Suc n) v = ucast (v AND 0xFF) # low_bytes n (drop_bit 8 v)"

definition TREG_Write1_calcPayload :: "REG_WritesParams \<Rightarrow> bool \<Rightarrow> TBytes" where
  "TREG_Write1_calcPayload p bAsReply =
     (case Writes p of
        [] \<Rightarrow> []
      | w0 # _ \<Rightarrow> stuff [] (w_offset w0) @ low_bytes (unat (w_width w0) div 8) (w_value w0))"

subsection \<open>Bits of a register\<close>

definition TREG_ReadBit_new :: "storage \<Rightarrow> TBytes \<Rightarrow> REG_ReadBitParams" where
  "TREG_ReadBit_new g data =
     (let p = TDataItem_params g 3 data;
          q = \<lparr>rb_offset = p ! 0, rb_bitIndex = p ! 1, rb_bitValue = p ! 2\<rparr>
      in if 2 \<le> length data then q\<lparr>rb_offset := data ! 0, rb_bitIndex := data ! 1\<rparr> else q)"

definition TREG_ReadBit_Go ::
  "'h apci_lib \<Rightarrow> REG_ReadBitParams \<Rightarrow> 'h \<Rightarrow> REG_ReadBitParams res \<times> 'h" where
  "TREG_ReadBit_Go L p h =
     (let (regValue, h1) = in_reg L (uint (rb_offset p)) h in
      bindS (bit_of regValue (rb_bitIndex p), h1) (\<lambda>b h1. (Ok (p\<lparr>rb_bitValue := b\<rparr>), h1)))"

definition TREG_ReadBit_calcPayload :: "REG_ReadBitParams \<Rightarrow> bool \<Rightarrow> TBytes" where
  "TREG_ReadBit_calcPayload p bAsReply =
     [rb_offset p, rb_bitIndex p] @ (if bAsReply then [rb_bitValue p] else [])"

definition TREG_WriteBit_new :: "storage \<Rightarrow> TBytes \<Rightarrow> REG_WriteBitParams" where
  "TREG_WriteBit_new g data =
     (let p = TDataItem_params g 3 data;
          q = \<lparr>wb_offset = p ! 0, wb_bitIndex = p ! 1, wb_value = p ! 2\<rparr>
      in if 3 \<le> length data
         then q\<lparr>wb_offset := data ! 0, wb_bitIndex := data ! 1, wb_value := data ! 2\<rparr> else q)"

definition TREG_WriteBit_Go ::
  "'h apci_lib \<Rightarrow> REG_WriteBitParams \<Rightarrow> 'h \<Rightarrow> REG_WriteBitParams res \<times> 'h" where
  "TREG_WriteBit_Go L p h =
     (let (regValue, h1) = in_reg L (uint (wb_offset p)) h in
      bindS (shl1 (wb_bitIndex p), h1) (\<lambda>m h1.
        let regValue = regValue AND NOT m;
            regValue = (if wb_value p \<noteq> 0 then regValue OR m else regValue);
            (st, h2) = out_reg L (uint (wb_offset p)) regValue h1
        in (Ok p, h2)))"

definition TREG_WriteBit_calcPayload :: "REG_WriteBitParams \<Rightarrow> bool \<Rightarrow> TBytes" where
  "TREG_WriteBit_calcPayload p bAsReply = [wb_offset p, wb_bitIndex p, wb_value p]"

text \<open>The constructors of \<open>TREG_ClearBit\<close>, \<open>TREG_SetBit\<close> and \<open>TREG_ToggleBit\<close> have one text.\<close>

definition TREG_Bit_new :: "storage \<Rightarrow> TBytes \<Rightarrow> REG_BitParams" where
  "TREG_Bit_new g data =
     (let p = TDataItem_params g 2 data; q = \<lparr>rg_offset = p ! 0, rg_bitIndex = p ! 1\<rparr>
      in if 2 \<le> length data then q\<lparr>rg_offset := data ! 0, rg_bitIndex := data ! 1\<rparr> else q)"

definition TREG_Bit_calcPayload :: "REG_BitParams \<Rightarrow> bool \<Rightarrow> TBytes" where
  "TREG_Bit_calcPayload p bAsReply = [rg_offset p, rg_bitIndex p]"

text \<open>Each class by its name.\<close>

abbreviation (input) TREG_ClearBit_new :: "storage \<Rightarrow> TBytes \<Rightarrow> REG_BitParams" where "TREG_ClearBit_new \<equiv> TREG_Bit_new"
abbreviation (input) TREG_SetBit_new :: "storage \<Rightarrow> TBytes \<Rightarrow> REG_BitParams" where "TREG_SetBit_new \<equiv> TREG_Bit_new"
abbreviation (input) TREG_ToggleBit_new :: "storage \<Rightarrow> TBytes \<Rightarrow> REG_BitParams" where "TREG_ToggleBit_new \<equiv> TREG_Bit_new"

abbreviation (input) TREG_ClearBit_calcPayload :: "REG_BitParams \<Rightarrow> bool \<Rightarrow> TBytes" where "TREG_ClearBit_calcPayload \<equiv> TREG_Bit_calcPayload"
abbreviation (input) TREG_SetBit_calcPayload :: "REG_BitParams \<Rightarrow> bool \<Rightarrow> TBytes" where "TREG_SetBit_calcPayload \<equiv> TREG_Bit_calcPayload"
abbreviation (input) TREG_ToggleBit_calcPayload :: "REG_BitParams \<Rightarrow> bool \<Rightarrow> TBytes" where "TREG_ToggleBit_calcPayload \<equiv> TREG_Bit_calcPayload"

definition TREG_ClearBit_Go ::
  "'h apci_lib \<Rightarrow> REG_BitParams \<Rightarrow> 'h \<Rightarrow> REG_BitParams res \<times> 'h" where
  "TREG_ClearBit_Go L p h =
     (let (regValue, h1) = in_reg L (uint (rg_offset p)) h in
      bindS (shl1 (rg_bitIndex p), h1) (\<lambda>m h1.
        let regValue = regValue AND NOT m;
            (st, h2) = out_reg L (uint (rg_offset p)) regValue h1
        in (Ok p, h2)))"

definition TREG_SetBit_Go ::
  "'h apci_lib \<Rightarrow> REG_BitParams \<Rightarrow> 'h \<Rightarrow> REG_BitParams res \<times> 'h" where
  "TREG_SetBit_Go L p h =
     (let (regValue, h1) = in_reg L (uint (rg_offset p)) h in
      bindS (shl1 (rg_bitIndex p), h1) (\<lambda>m h1.
        let regValue = regValue OR m;
            (st, h2) = out_reg L (uint (rg_offset p)) regValue h1
        in (Ok p, h2)))"

definition TREG_ToggleBit_Go ::
  "'h apci_lib \<Rightarrow> REG_BitParams \<Rightarrow> 'h \<Rightarrow> REG_BitParams res \<times> 'h" where
  "TREG_ToggleBit_Go L p h =
     (let (regValue, h1) = in_reg L (uint (rg_offset p)) h in
      bindS (shl1 (rg_bitIndex p), h1) (\<lambda>m h1.
        let regValue = regValue XOR m;
            (st, h2) = out_reg L (uint (rg_offset p)) regValue h1
        in (Ok p, h2)))"

subsection \<open>The functions of the dictionary\<close>

text \<open>
  They read the arguments through a pointer to the data of the item; with no data the pointer is
  null.
\<close>

definition REG_ClearBits_go :: "'h apci_lib \<Rightarrow> TBytes \<Rightarrow> 'h \<Rightarrow> unit res \<times> 'h" where
  "REG_ClearBits_go L buf h =
     (if buf = [] then (Undef, h)
      else let ofs = uint (hd buf) in
        bindS (regextract (tl buf) ofs, h) (\<lambda>bitsToClear h.
          let (regValue, h1) = in_reg L ofs h;
              regValue = regValue AND NOT bitsToClear;
              (st, h2) = out_reg L ofs regValue h1
          in (Ok (), h2)))"

definition REG_ToggleBits_go :: "'h apci_lib \<Rightarrow> TBytes \<Rightarrow> 'h \<Rightarrow> unit res \<times> 'h" where
  "REG_ToggleBits_go L buf h =
     (if buf = [] then (Undef, h)
      else let ofs = uint (hd buf) in
        bindS (regextract (tl buf) ofs, h) (\<lambda>bitsToToggle h.
          let (regValue, h1) = in_reg L ofs h;
              regValue = regValue XOR bitsToToggle;
              (st, h2) = out_reg L ofs regValue h1
          in (Ok (), h2)))"

definition REG_SetBits_go :: "'h apci_lib \<Rightarrow> TBytes \<Rightarrow> 'h \<Rightarrow> unit res \<times> 'h" where
  "REG_SetBits_go L buf h =
     (if buf = [] then (Undef, h)
      else let ofs = uint (hd buf) in
        bindS (regextract (tl buf) ofs, h) (\<lambda>bitsToSet h.
          let (regValue, h1) = in_reg L ofs h;
              regValue = regValue OR bitsToSet;
              (st, h2) = out_reg L ofs regValue h1
          in (Ok (), h2)))"

subsection \<open>Requests and replies\<close>

lemmas reg_new_defs =
  TREG_Read1_new_def TREG_ReadBit_new_def TREG_WriteBit_new_def TREG_Bit_new_def

lemmas reg_payload_defs =
  TREG_Read1_calcPayload_def TREG_ReadBit_calcPayload_def TREG_WriteBit_calcPayload_def
  TREG_Bit_calcPayload_def

lemmas reg_Go_defs =
  TREG_Read1_Go_def TREG_ReadBit_Go_def TREG_WriteBit_Go_def TREG_ClearBit_Go_def
  TREG_SetBit_Go_def TREG_ToggleBit_Go_def REG_ClearBits_go_def REG_ToggleBits_go_def
  REG_SetBits_go_def

declare reg_new_defs [item_defs] reg_payload_defs [item_defs] reg_Go_defs [item_defs]

lemma TREG_Read1_new_fields [simp]:
  "data \<noteq> [] \<Longrightarrow> r1_offset (TREG_Read1_new data) = uint (data ! 0)"
  "data \<noteq> [] \<Longrightarrow> r1_width (TREG_Read1_new data) = widthFromOffset (uint (data ! 0))"
  by (simp_all add: TREG_Read1_new_def Let_def)

lemma low_byte_u32 [simp]: "stuff_loop (Suc 0) (ucast (b :: u8) :: u32) = [b]"
  using ucast_low_byte [of "ucast b :: u32"] by simp

lemma reg_request_bytes [byte_simps]:
  "length data = 1 \<Longrightarrow> TREG_Read1_calcPayload (TREG_Read1_new data) False = data"
  "length data = 2 \<Longrightarrow> TREG_ReadBit_calcPayload (TREG_ReadBit_new g data) False = data"
  "length data = 3 \<Longrightarrow> TREG_WriteBit_calcPayload (TREG_WriteBit_new g data) False = data"
  "length data = 2 \<Longrightarrow> TREG_Bit_calcPayload (TREG_Bit_new g data) False = data"
     apply (cases data; simp add: TREG_Read1_calcPayload_def)
  using list_of_length_2 [of data] list_of_length_3 [of data]
  by (simp_all add: reg_new_defs reg_payload_defs)

lemma low_bytes_stuff_loop: "low_bytes n v = stuff_loop n v"
  by (induction n arbitrary: v) auto

lemma TREG_Write1_new_eq_Ok:
  "TREG_Write1_new buf = Ok p \<longleftrightarrow>
     (\<exists>ofs b. buf = [ofs, b] \<and> widthFromOffset (uint ofs) = 8 \<and>
        p = \<lparr>Writes = [\<lparr>w_offset = ofs, w_width = 8, w_value = ucast b\<rparr>]\<rparr>) \<or>
     (\<exists>ofs bs. buf = ofs # bs \<and> length bs = 4 \<and> widthFromOffset (uint ofs) = 32 \<and>
        p = \<lparr>Writes = [\<lparr>w_offset = ofs, w_width = 32, w_value = le_read bs\<rparr>]\<rparr>)"
proof (cases buf)
  case Nil
  then show ?thesis by (auto simp: TREG_Write1_new_def GUARD_def outcome_simps err_text_def err_msg_def)
next
  case (Cons ofs bs)
  show ?thesis
    using widthFromOffset_cases [of "uint ofs"] Cons list_of_length_1 [of bs]
    by (auto simp: TREG_Write1_new_def outcome_simps addWrite_def Let_def length_Suc_conv
        dest: less_imp_le)
qed

lemma TREG_Write1_echo [byte_simps]:
  "TREG_Write1_new buf = Ok p \<Longrightarrow> TREG_Write1_calcPayload p r = buf"
  by (auto simp: TREG_Write1_new_eq_Ok TREG_Write1_calcPayload_def low_bytes_stuff_loop
      stuff8 stuff_loop_le_read ucast_low_byte simp del: stuff_loop.simps)

subsection \<open>Effect on the registers\<close>

lemma wait_storage [reg_simps]:
  assumes "storage_registers L cell S" and "uint r \<in> S" and "widthFromOffset (uint r) \<noteq> 0"
  shows "snd (wait_loop L r m a h) = h"
proof -
  have rd: "in_reg L (uint r) h = (cell h (uint r), h)" for h
    using storage_registers.rd_io [OF assms(1)] assms(2,3) by simp
  show ?thesis
  proof (induction "101 - a" arbitrary: a)
    case 0
    then show ?case by (subst wait_loop.simps) (simp add: rd)
  next
    case (Suc n)
    then have "n = 101 - (a + 1)" by simp
    from Suc.hyps(1) [OF this] show ?case by (subst wait_loop.simps) (simp add: rd)
  qed
qed

lemma reg_bit_Go_rmw [reg_simps]:
  "unat (rg_bitIndex p) < 32 \<Longrightarrow> TREG_SetBit_Go L p h =
     (Ok p, rmw L (uint (rg_offset p)) (\<lambda>v. v OR push_bit (unat (rg_bitIndex p)) 1) h)"
  "unat (rg_bitIndex p) < 32 \<Longrightarrow> TREG_ClearBit_Go L p h =
     (Ok p, rmw L (uint (rg_offset p)) (\<lambda>v. v AND NOT (push_bit (unat (rg_bitIndex p)) 1)) h)"
  "unat (rg_bitIndex p) < 32 \<Longrightarrow> TREG_ToggleBit_Go L p h =
     (Ok p, rmw L (uint (rg_offset p)) (\<lambda>v. v XOR push_bit (unat (rg_bitIndex p)) 1) h)"
  "unat (wb_bitIndex q) < 32 \<Longrightarrow> TREG_WriteBit_Go L q h =
     (Ok q, rmw L (uint (wb_offset q)) (\<lambda>v. if wb_value q \<noteq> 0
        then v AND NOT (push_bit (unat (wb_bitIndex q)) 1) OR push_bit (unat (wb_bitIndex q)) 1
        else v AND NOT (push_bit (unat (wb_bitIndex q)) 1)) h)"
  by (simp_all add: reg_Go_defs rmw_def shl1_Ok Let_def split_beta)

lemma reg_mask_go_rmw [reg_simps]:
  "regextract bs (uint ofs) = Ok m \<Longrightarrow>
     REG_SetBits_go L (ofs # bs) h = (Ok (), rmw L (uint ofs) (\<lambda>v. v OR m) h)"
  "regextract bs (uint ofs) = Ok m \<Longrightarrow>
     REG_ClearBits_go L (ofs # bs) h = (Ok (), rmw L (uint ofs) (\<lambda>v. v AND NOT m) h)"
  "regextract bs (uint ofs) = Ok m \<Longrightarrow>
     REG_ToggleBits_go L (ofs # bs) h = (Ok (), rmw L (uint ofs) (\<lambda>v. v XOR m) h)"
  by (simp_all add: reg_Go_defs rmw_def Let_def split_beta)

lemma WaitUntil_storage [reg_simps]:
  assumes "storage_registers L cell S" and "uint r \<in> S" and "widthFromOffset (uint r) \<noteq> 0"
  shows "snd (WaitUntilRegisterBitIsLow L r m h) = h"
  unfolding WaitUntilRegisterBitIsLow_def by (rule wait_storage [OF assms])



text \<open>
  The three mask items. On a stored register, \<open>REG_SetBits\<close>, \<open>REG_ClearBits\<close> and
  \<open>REG_ToggleBits\<close> with a mask of the register's width (one byte or four) leave the register with
  exactly the bits of the mask set, cleared or toggled.
\<close>

lemma reg_mask_items_apply_mask:
  assumes "storage_registers L cell S" and "uint ofs \<in> S"
    and "widthFromOffset (uint ofs) = 8 \<and> bs = [b] \<and> m = ucast b \<or>
         widthFromOffset (uint ofs) = 32 \<and> length bs = 4 \<and> m = le_read bs"
  shows "\<exists>h1 h2 h3. REG_SetBits_go L (ofs # bs) h = (Ok (), h1) \<and>
      REG_ClearBits_go L (ofs # bs) h = (Ok (), h2) \<and>
      REG_ToggleBits_go L (ofs # bs) h = (Ok (), h3) \<and>
      cell h1 (uint ofs) = cell h (uint ofs) OR m \<and>
      cell h2 (uint ofs) = cell h (uint ofs) AND NOT m \<and>
      cell h3 (uint ofs) = cell h (uint ofs) XOR m"
proof -
  have r: "uint ofs \<in> {r \<in> S. widthFromOffset r \<noteq> 0}" using assms(2,3) by auto
  have mask: "regextract bs (uint ofs) = Ok m" using assms(3) by (auto simp: regextract_def)
  have narrow: "take_bit (nat (widthFromOffset (uint ofs))) m = m"
    using assms(3) by (auto simp: take_bit_u8_u32 take_bit_word_eq_self)
  have cell: "take_bit (nat (widthFromOffset (uint ofs))) (cell h (uint ofs)) = cell h (uint ofs)"
    using assms(2,3) storage_registers.cell8 [OF assms(1,2), of h]
    by (auto simp: take_bit_word_eq_self)
  have and_not: "cell h (uint ofs) AND take_bit (nat (widthFromOffset (uint ofs))) (NOT m) =
      cell h (uint ofs) AND NOT m"
    by (subst (1 2) cell [symmetric], rule bit_word_eqI) (auto simp: bit_simps)
  show ?thesis
    using storage_registers.rmw_same [OF assms(1) r, where h = h] narrow cell
    by (auto simp: reg_mask_go_rmw [OF mask] take_bit_or take_bit_xor take_bit_and and_not)
qed

lemma reg_mask_items_apply_mask_example:
  "fst (REG_SetBits_go bank_lib [0x40, 1, 0, 0, 0x80] (\<lambda>_. 6)) = Ok ()"
  using reg_mask_items_apply_mask [OF bank.storage_registers_axioms, where ofs = "0x40"
      and bs = "[1, 0, 0, 0x80]" and m = "0x80000001" and h = "\<lambda>_. 6"] by (auto simp: widthFromOffset_def)

text \<open>
  The bit items on any register. With the bit index inside the register's width, \<open>REG_SetBit\<close>,
  \<open>REG_ClearBit\<close>, \<open>REG_ToggleBit\<close> and \<open>REG_WriteBit\<close> change that bit of a stored register as asked
  and no other, and a \<open>REG_ReadBit\<close> of the same bit afterwards returns its new value.
\<close>

lemma reg_bit_items_change_one_bit:
  assumes "storage_registers L cell S" and "uint (rg_offset p) \<in> S"
    and "unat (rg_bitIndex p) < nat (widthFromOffset (uint (rg_offset p)))"
    and "q = \<lparr>wb_offset = rg_offset p, wb_bitIndex = rg_bitIndex p, wb_value = v\<rparr>"
  shows "\<exists>h1 h2 h3 h4. TREG_SetBit_Go L p h = (Ok p, h1) \<and> TREG_ClearBit_Go L p h = (Ok p, h2) \<and>
      TREG_ToggleBit_Go L p h = (Ok p, h3) \<and> TREG_WriteBit_Go L q h = (Ok q, h4) \<and>
      (\<forall>i. (bit (cell h1 (uint (rg_offset p))) i \<longleftrightarrow>
             i = unat (rg_bitIndex p) \<or> bit (cell h (uint (rg_offset p))) i) \<and>
           (bit (cell h2 (uint (rg_offset p))) i \<longleftrightarrow>
             i \<noteq> unat (rg_bitIndex p) \<and> bit (cell h (uint (rg_offset p))) i) \<and>
           (bit (cell h3 (uint (rg_offset p))) i \<longleftrightarrow>
             (i = unat (rg_bitIndex p)) \<noteq> bit (cell h (uint (rg_offset p))) i) \<and>
           (bit (cell h4 (uint (rg_offset p))) i \<longleftrightarrow>
             (if i = unat (rg_bitIndex p) then v \<noteq> 0 else bit (cell h (uint (rg_offset p))) i))) \<and>
      (\<forall>rb. rb_offset rb = rg_offset p \<and> rb_bitIndex rb = rg_bitIndex p \<longrightarrow>
         TREG_ReadBit_Go L rb h4 = (Ok (rb\<lparr>rb_bitValue := of_bool (v \<noteq> 0)\<rparr>), h4))"
proof -
  let ?r = "uint (rg_offset p)" and ?n = "unat (rg_bitIndex p)"
  have r: "?r \<in> {r \<in> S. widthFromOffset r \<noteq> 0}" using assms(2,3) by auto
  have n: "?n < 32" using assms(3) nat_width_cases [of ?r] by auto
  have "drop_bit ?n c AND 1 = of_bool (bit c ?n)" for c :: u32
    by (rule bit_word_eqI) (auto simp: bit_simps)
  then have read: "bit_of c (rg_bitIndex p) = Ok (of_bool (bit c ?n))" for c
    using n by (simp add: bit_of_def)
  show ?thesis
    using storage_registers.rmw_bits [OF assms(1) r assms(3), where h = h]
      storage_registers.rmw_write_bit [OF assms(1) r assms(3), where h = h and b = "v \<noteq> 0"]
      storage_registers.rd_io [OF assms(1) r] n
    by (cases "v = 0") (auto simp: reg_bit_Go_rmw assms(4) TREG_ReadBit_Go_def read)
qed

lemma reg_bit_items_change_one_bit_example:
  "fst (TREG_SetBit_Go bank_lib \<lparr>rg_offset = 0x40, rg_bitIndex = 31\<rparr> (\<lambda>_. 0)) =
     Ok \<lparr>rg_offset = 0x40, rg_bitIndex = 31\<rparr>"
  using reg_bit_items_change_one_bit [OF bank.storage_registers_axioms,
      where p = "\<lparr>rg_offset = 0x40, rg_bitIndex = 31\<rparr>" and v = 1 and h = "\<lambda>_. 0"]
  by (auto simp: widthFromOffset_def)

text \<open>
  No item checks its bit index. For every device, an index of 32 or more makes each of the bit
  items shift a 32-bit integer by its width or more, which is undefined, although the data have the
  length the dictionary asks for.
\<close>

lemma bit_index_is_unchecked:
  assumes "32 \<le> unat n"
  shows "fst (TDIO_SetBit_Go L (TDIO_Bit_new g [n]) h) = Undef \<and>
      fst (TDIO_ClearBit_Go L (TDIO_Bit_new g [n]) h) = Undef \<and>
      fst (TDIO_ToggleBit_Go L (TDIO_Bit_new g [n]) h) = Undef \<and>
      fst (TDIO_OutputBit_Go L (TDIO_OutputBit_new g [n, v]) h) = Undef \<and>
      fst (TDIO_ConfigureBit_Go L (TDIO_ConfigureBit_new g [n, v]) h) = Undef \<and>
      fst (TDIO_InputBit_Go L (TDIO_InputBit_new g [n]) h) = Undef \<and>
      fst (TREG_SetBit_Go L (TREG_Bit_new g [ofs, n]) h) = Undef \<and>
      fst (TREG_ClearBit_Go L (TREG_Bit_new g [ofs, n]) h) = Undef \<and>
      fst (TREG_ToggleBit_Go L (TREG_Bit_new g [ofs, n]) h) = Undef \<and>
      fst (TREG_WriteBit_Go L (TREG_WriteBit_new g [ofs, n, v]) h) = Undef \<and>
      fst (TREG_ReadBit_Go L (TREG_ReadBit_new g [ofs, n]) h) = Undef"
proof -
  have "shl1 n = Undef" "\<And>w. bit_of w n = Undef" using assms by (simp_all add: shl1_def bit_of_def)
  then show ?thesis
    by (simp add: dio_Go_defs dio_new_defs reg_Go_defs reg_new_defs Let_def split_beta)
qed

lemma bit_index_is_unchecked_example:
  "fst (TDIO_SetBit_Go bank_lib (TDIO_Bit_new (\<lambda>_. 0) [32]) (\<lambda>_. 0)) = Undef"
  using bit_index_is_unchecked [where n = 32 and L = bank_lib and g = "\<lambda>_. 0" and h = "\<lambda>_. 0"] by simp

text \<open>
  The mask items trust the length of their data. On an item without data they dereference a
  null pointer, and on a 32-bit register with fewer than four mask bytes they read past the data.
\<close>

lemma reg_mask_items_overread:
  assumes "widthFromOffset (uint ofs) = 32" and "length bs < 4"
  shows "fst (REG_SetBits_go L (ofs # bs) h) = Undef \<and> fst (REG_ClearBits_go L (ofs # bs) h) = Undef \<and>
      fst (REG_ToggleBits_go L (ofs # bs) h) = Undef \<and>
      REG_SetBits_go L [] h = (Undef, h) \<and> REG_ClearBits_go L [] h = (Undef, h) \<and>
      REG_ToggleBits_go L [] h = (Undef, h)"
  using assms by (simp add: reg_Go_defs regextract_def)

lemma reg_mask_items_overread_example:
  "fst (REG_SetBits_go bank_lib [0x40, 1] (\<lambda>_. 0)) = Undef"
  using reg_mask_items_overread [where ofs = "0x40" and bs = "[1]" and L = bank_lib and h = "\<lambda>_. 0"] by (simp add: widthFromOffset_def)

end
