(* ===== verification/BrdItems.thy ===== *)
theory BrdItems
  imports CfgSysItems
begin

text \<open>
  The board data items (\<^verbatim>\<open>DataItems/BRD_.h\<close>, \<^verbatim>\<open>DataItems/BRD_.cpp\<close>): identification registers,
  the model string and what is derived from it, the serial number and the submultiplexers.
\<close>

subsection \<open>Identification registers\<close>

record 'a ReadOnlyConfigParams =
  ro_config :: 'a
  ro_offset :: u8

definition TBRD_FpgaId_new :: "storage \<Rightarrow> TBytes \<Rightarrow> u32 ReadOnlyConfigParams" where
  "TBRD_FpgaId_new g b = \<lparr>ro_config = le_read (take 4 (TDataItem_params g 5 b)), ro_offset = word_of_int ofsFpgaID\<rparr>"

definition TBRD_FpgaId_Go ::
  "'h apci_lib \<Rightarrow> u32 ReadOnlyConfigParams \<Rightarrow> 'h \<Rightarrow> u32 ReadOnlyConfigParams res \<times> 'h" where
  "TBRD_FpgaId_Go L p h =
     (let (v, h1) = in_reg L (uint (ro_offset p)) h in (Ok (p\<lparr>ro_config := v\<rparr>), h1))"

definition TBRD_FpgaId_calcPayload :: "u32 ReadOnlyConfigParams \<Rightarrow> bool \<Rightarrow> TBytes" where
  "TBRD_FpgaId_calcPayload p bAsReply = stuff [] (ro_config p)"

definition TBRD_DeviceID_new :: "storage \<Rightarrow> TBytes \<Rightarrow> u16 ReadOnlyConfigParams" where
  "TBRD_DeviceID_new g b = \<lparr>ro_config = le_read (take 2 (TDataItem_params g 3 b)), ro_offset = word_of_int ofsDeviceID\<rparr>"

definition TBRD_DeviceID_Go ::
  "'h apci_lib \<Rightarrow> u16 ReadOnlyConfigParams \<Rightarrow> 'h \<Rightarrow> u16 ReadOnlyConfigParams res \<times> 'h" where
  "TBRD_DeviceID_Go L p h =
     (let (v, h1) = in_reg L (uint (ro_offset p)) h in (Ok (p\<lparr>ro_config := ucast v\<rparr>), h1))"

definition TBRD_DeviceID_calcPayload :: "u16 ReadOnlyConfigParams \<Rightarrow> bool \<Rightarrow> TBytes" where
  "TBRD_DeviceID_calcPayload p bAsReply = stuff [] (ro_config p)"

definition TBRD_Features_new :: "storage \<Rightarrow> TBytes \<Rightarrow> u8 ReadOnlyConfigParams" where
  "TBRD_Features_new g b = \<lparr>ro_config = TDataItem_params g 2 b ! 0, ro_offset = word_of_int ofsFeatures\<rparr>"

text \<open>The features byte is also kept in the configuration.\<close>

definition TBRD_Features_Go ::
  "'h apci_lib \<Rightarrow> u8 ReadOnlyConfigParams \<Rightarrow> 'h \<times> TConfig \<Rightarrow> u8 ReadOnlyConfigParams res \<times> ('h \<times> TConfig)" where
  "TBRD_Features_Go L p = (\<lambda>(h, c).
     let (v, h1) = in_reg L (uint (ro_offset p)) h
     in (Ok (p\<lparr>ro_config := ucast v\<rparr>), (h1, c\<lparr>features := ucast v\<rparr>)))"

definition TBRD_Features_calcPayload :: "u8 ReadOnlyConfigParams \<Rightarrow> bool \<Rightarrow> TBytes" where
  "TBRD_Features_calcPayload p bAsReply = stuff [] (ucast (ro_config p) :: u32)"

text \<open>The constructors without arguments, for objects the program reads the board with.\<close>

abbreviation (input) TBRD_FpgaId_default :: "storage \<Rightarrow> u32 ReadOnlyConfigParams" where "TBRD_FpgaId_default g \<equiv> TBRD_FpgaId_new g []"
abbreviation (input) TBRD_DeviceID_default :: "storage \<Rightarrow> u16 ReadOnlyConfigParams" where "TBRD_DeviceID_default g \<equiv> TBRD_DeviceID_new g []"
abbreviation (input) TBRD_Features_default :: "storage \<Rightarrow> u8 ReadOnlyConfigParams" where "TBRD_Features_default g \<equiv> TBRD_Features_new g []"

text \<open>What the template \<open>TReadOnlyConfig\<close> does, and where its instances do the same.\<close>

definition TReadOnlyConfig_Go ::
  "'h apci_lib \<Rightarrow> 'a::len word ReadOnlyConfigParams \<Rightarrow> 'h \<Rightarrow> 'a word ReadOnlyConfigParams res \<times> 'h" where
  "TReadOnlyConfig_Go L p h =
     (let (raw, h1) = in_reg L (uint (ro_offset p)) h in (Ok (p\<lparr>ro_config := ucast raw\<rparr>), h1))"

definition TReadOnlyConfig_calcPayload :: "'a::len word ReadOnlyConfigParams \<Rightarrow> bool \<Rightarrow> TBytes" where
  "TReadOnlyConfig_calcPayload p bAsReply = stuff [] (ro_config p)"

lemma TReadOnlyConfig_instances:
  "TBRD_FpgaId_Go L p = TReadOnlyConfig_Go L p" "TBRD_FpgaId_calcPayload p = TReadOnlyConfig_calcPayload p"
  "TBRD_DeviceID_Go L q = TReadOnlyConfig_Go L q" "TBRD_DeviceID_calcPayload q = TReadOnlyConfig_calcPayload q"
  by (auto simp: fun_eq_iff TBRD_FpgaId_Go_def TBRD_DeviceID_Go_def TReadOnlyConfig_Go_def
      TBRD_FpgaId_calcPayload_def TBRD_DeviceID_calcPayload_def TReadOnlyConfig_calcPayload_def)

subsection \<open>The model string\<close>

definition trim_whitespace :: "string \<Rightarrow> string" where
  "trim_whitespace s = rev (dropWhile isspace (rev (dropWhile isspace s)))"

definition str_to_upper :: "string \<Rightarrow> string" where
  "str_to_upper s = map toupper s"

definition is_valid_dac_range :: "string \<Rightarrow> bool" where
  "is_valid_dac_range code = (code \<in> {''5B'', ''10B'', ''5U'', ''10U''})"

text \<open>
  What both parsers do first: copy at most 255 characters, trim, drop the seven characters
  \<^verbatim>\<open>\000027\<close>, trim, check the prefix without regard to case and cut the rest at its dashes, where
  \<open>strtok_r\<close> returns the non-empty pieces only. At least two pieces must follow the prefix.
\<close>

definition model_parts :: "string \<Rightarrow> (string \<times> string \<times> string list) option" where
  "model_parts model_in =
     (let buf = trim_whitespace (take 255 model_in);
          p = (if take 7 buf = CHR 0x5C # ''000027'' then drop 7 buf else buf);
          p = trim_whitespace p
      in if map tolower (take 7 p) \<noteq> ''enet-ai'' then None
         else let code_body = drop 7 p in
              if code_body = [] then None
              else case split code_body CHR ''-'' of
                     parts0 # parts1 # rest \<Rightarrow> Some (parts0, parts1, rest)
                   | _ \<Rightarrow> None)"

text \<open>\<open>strtol\<close> in base ten: whether a number was there, and its value, saturated to a \<open>long\<close>.\<close>

definition strtol10 :: "string \<Rightarrow> int option" where
  "strtol10 s =
     (let t = dropWhile isspace s;
          neg = (t \<noteq> [] \<and> hd t = CHR ''-'');
          u = (if t \<noteq> [] \<and> hd t \<in> {CHR ''+'', CHR ''-''} then tl t else t);
          ds = takeWhile isdigit u;
          v = int (digits_value 10 ds);
          n = (if neg then - v else v)
      in if ds = [] then None else Some (max (- (2 ^ 63)) (min (2 ^ 63 - 1) n)))"

text \<open>The results: the return code and the value stored through the pointer.\<close>

definition enet_ai_parse_adc_channel_count :: "string \<Rightarrow> int \<times> u8" where
  "enet_ai_parse_adc_channel_count model_in =
     (case model_parts model_in of
        None \<Rightarrow> (- 1, 0)
      | Some (parts0, parts1, rest) \<Rightarrow>
          (case strtol10 (trim_whitespace (take 63 parts1)) of
             None \<Rightarrow> (- 1, 0)
           | Some n \<Rightarrow> if n \<le> 0 \<or> 128 < n then (- 1, 0) else (0, word_of_int n)))"

text \<open>
  The scan of the option codes: the range found so far (empty for none) and whether the four
  converter option was seen; a second range is an error.
\<close>

fun dac_options :: "string \<Rightarrow> bool \<Rightarrow> string list \<Rightarrow> (string \<times> bool) option" where
  "dac_options found_range seen_4ao [] = Some (found_range, seen_4ao)"
| "dac_options found_range seen_4ao (tok # toks) =
     (let opt = str_to_upper (trim_whitespace (take 31 tok)) in
      if opt = [] then dac_options found_range seen_4ao toks
      else if opt = ''4AO'' then dac_options found_range True toks
      else if is_valid_dac_range opt then
        (if found_range = [] then dac_options opt seen_4ao toks else None)
      else dac_options found_range seen_4ao toks)"

definition enet_ai_parse_dac_count :: "string \<Rightarrow> int \<times> u8" where
  "enet_ai_parse_dac_count model_in =
     (case model_parts model_in of
        None \<Rightarrow> (- 1, - 1)
      | Some (parts0, parts1, rest) \<Rightarrow>
          (case dac_options [] False rest of
             None \<Rightarrow> (- 1, - 1)
           | Some (found_range, seen_4ao) \<Rightarrow>
               if toupper (hd parts0) = CHR ''O'' then
                 (if found_range = [] then (- 1, - 1) else (0, if seen_4ao then 4 else 2))
               else
                 (if found_range \<noteq> [] \<or> seen_4ao then (- 1, - 1) else (0, 0))))"

text \<open>
  \<open>TBRD_Model::Go\<close>: the model is stored whatever it is, and so are both counts, with the values
  the parsers leave on an error; the parsers see the characters before the first null.
\<close>

definition TBRD_Model_Go :: "TBytes \<Rightarrow> TConfig \<times> fs \<Rightarrow> unit res \<times> (TConfig \<times> fs)" where
  "TBRD_Model_Go rawBytes = (\<lambda>(c, s).
     let val = bytes_string rawBytes;
         cstr = takeWhile (\<lambda>x. x \<noteq> CHR 0x00) val;
         c = c\<lparr>Model := val\<rparr>;
         c = c\<lparr>NUM_DACs := snd (enet_ai_parse_dac_count cstr)\<rparr>;
         c = c\<lparr>adcChannels := snd (enet_ai_parse_adc_channel_count cstr)\<rparr>;
         (ok, s) = SaveBrdConfig CONFIG_CURRENT c s
     in (Ok (), (c, s)))"

definition TBRD_Model_calcPayload :: "TConfig \<Rightarrow> bool \<Rightarrow> TBytes" where
  "TBRD_Model_calcPayload c bAsReply = string_bytes (Model c)"

abbreviation (input) TBRD_GetModel_calcPayload :: "TConfig \<Rightarrow> bool \<Rightarrow> TBytes" where "TBRD_GetModel_calcPayload \<equiv> TBRD_Model_calcPayload"

text \<open>\<open>TBRD_GetModel\<close> has no action and the payload of \<open>TBRD_Model\<close>; likewise the serial numbers.\<close>

definition TBRD_SerialNumber_Go :: "TBytes \<Rightarrow> TConfig \<times> fs \<Rightarrow> unit res \<times> (TConfig \<times> fs)" where
  "TBRD_SerialNumber_Go rawBytes = (\<lambda>(c, s).
     let c = c\<lparr>SerialNumber := bytes_string rawBytes\<rparr>;
         (ok, s) = SaveBrdConfig CONFIG_CURRENT c s
     in (Ok (), (c, s)))"

definition TBRD_SerialNumber_calcPayload :: "TConfig \<Rightarrow> bool \<Rightarrow> TBytes" where
  "TBRD_SerialNumber_calcPayload c bAsReply = string_bytes (SerialNumber c)"

abbreviation (input) TBRD_GetSerialNumber_calcPayload :: "TConfig \<Rightarrow> bool \<Rightarrow> TBytes" where "TBRD_GetSerialNumber_calcPayload \<equiv> TBRD_SerialNumber_calcPayload"

subsection \<open>Counts\<close>

record BRD_GetNumberOfAdcChannelsParams =
  numAdcChan :: u8

definition TBRD_GetNumberOfAdcChannels_new :: "TBytes \<Rightarrow> BRD_GetNumberOfAdcChannelsParams res" where
  "TBRD_GetNumberOfAdcChannels_new buf =
     bindR (GUARD (length buf = 0 \<or> length buf = 1) ERR_MSG_PAYLOAD_DATAITEM_LEN_MISMATCH 0 532
              ''DataItems/BRD_.cpp'' ''TBRD_GetNumberOfAdcChannels'')
       (\<lambda>_. Ok \<lparr>numAdcChan = TDataItem_params (\<lambda>_. 16) 1 buf ! 0\<rparr>)"

definition TBRD_GetNumberOfAdcChannels_Go ::
  "TConfig \<Rightarrow> BRD_GetNumberOfAdcChannelsParams \<Rightarrow> BRD_GetNumberOfAdcChannelsParams" where
  "TBRD_GetNumberOfAdcChannels_Go c p = p\<lparr>numAdcChan := adcChannels c\<rparr>"

definition TBRD_GetNumberOfAdcChannels_calcPayload :: "BRD_GetNumberOfAdcChannelsParams \<Rightarrow> bool \<Rightarrow> TBytes" where
  "TBRD_GetNumberOfAdcChannels_calcPayload p bAsReply = stuff [] (numAdcChan p)"

record NumberOfSubmuxParams =
  ns_value :: u8

definition TBRD_GetNumberOfSubmuxes_new :: "storage \<Rightarrow> TBytes \<Rightarrow> NumberOfSubmuxParams" where
  "TBRD_GetNumberOfSubmuxes_new g buf = \<lparr>ns_value = TDataItem_params g 1 buf ! 0\<rparr>"

definition TBRD_GetNumberOfSubmuxes_Go :: "TConfig \<Rightarrow> NumberOfSubmuxParams \<Rightarrow> NumberOfSubmuxParams" where
  "TBRD_GetNumberOfSubmuxes_Go c p = p\<lparr>ns_value := numberOfSubmuxes c\<rparr>"

definition TBRD_NumberOfSubmuxes_calcPayload :: "NumberOfSubmuxParams \<Rightarrow> bool \<Rightarrow> TBytes" where
  "TBRD_NumberOfSubmuxes_calcPayload p bAsReply = [ns_value p]"

abbreviation (input) TBRD_GetNumberOfSubmuxes_calcPayload :: "NumberOfSubmuxParams \<Rightarrow> bool \<Rightarrow> TBytes" where "TBRD_GetNumberOfSubmuxes_calcPayload \<equiv> TBRD_NumberOfSubmuxes_calcPayload"

definition TBRD_NumberOfSubmuxes_new :: "TBytes \<Rightarrow> NumberOfSubmuxParams" where
  "TBRD_NumberOfSubmuxes_new buf = \<lparr>ns_value = (if buf \<noteq> [] then buf ! 0 else 0)\<rparr>"

text \<open>The count must suit the kind of submultiplexer the features report in bits 5 and 4.\<close>

definition TBRD_NumberOfSubmuxes_Go :: "NumberOfSubmuxParams \<Rightarrow> TConfig \<Rightarrow> TConfig" where
  "TBRD_NumberOfSubmuxes_Go p c =
     (let newVal = ns_value p;
          submuxType = drop_bit 4 (features c) AND 3;
          valid = (if submuxType = 0 then newVal = 1
                   else if submuxType = 1 then 1 \<le> newVal \<and> newVal \<le> 4
                   else if submuxType = 3 then newVal = 0
                   else False)
      in if valid then c\<lparr>numberOfSubmuxes := newVal\<rparr> else c)"

subsection \<open>Scales and offsets of the submultiplexers\<close>

text \<open>\<open>SubmuxScaleParams\<close> and \<open>SubmuxOffsetParams\<close> are one structure.\<close>

record SubmuxParams =
  sm_submuxIndex :: u8
  sm_gainGroupIndex :: u8
  sm_value :: f32

definition SubmuxParams_init :: "storage \<Rightarrow> TBytes \<Rightarrow> SubmuxParams" where
  "SubmuxParams_init g buf =
     (let p = TDataItem_params g 6 buf
      in \<lparr>sm_submuxIndex = p ! 0, sm_gainGroupIndex = p ! 1, sm_value = le_read (drop 2 p)\<rparr>)"

text \<open>The constructors of \<open>TBRD_SubmuxScale\<close> and \<open>TBRD_SubmuxOffset\<close>, and their payload.\<close>

definition TBRD_Submux_new :: "TBytes \<Rightarrow> SubmuxParams" where
  "TBRD_Submux_new buf =
     (if 6 \<le> length buf
      then \<lparr>sm_submuxIndex = buf ! 0, sm_gainGroupIndex = buf ! 1, sm_value = le_read (take 4 (drop 2 buf))\<rparr>
      else \<lparr>sm_submuxIndex = 0, sm_gainGroupIndex = 0, sm_value = 0\<rparr>)"

definition TBRD_Submux_calcPayload :: "SubmuxParams \<Rightarrow> bool \<Rightarrow> TBytes" where
  "TBRD_Submux_calcPayload p bAsReply = [sm_submuxIndex p, sm_gainGroupIndex p] @ stuff [] (sm_value p)"

text \<open>Each class by its name.\<close>

abbreviation (input) TBRD_SubmuxScale_new :: "TBytes \<Rightarrow> SubmuxParams" where "TBRD_SubmuxScale_new \<equiv> TBRD_Submux_new"
abbreviation (input) TBRD_SubmuxOffset_new :: "TBytes \<Rightarrow> SubmuxParams" where "TBRD_SubmuxOffset_new \<equiv> TBRD_Submux_new"

abbreviation (input) TBRD_SubmuxScale_calcPayload :: "SubmuxParams \<Rightarrow> bool \<Rightarrow> TBytes" where "TBRD_SubmuxScale_calcPayload \<equiv> TBRD_Submux_calcPayload"
abbreviation (input) TBRD_SubmuxOffset_calcPayload :: "SubmuxParams \<Rightarrow> bool \<Rightarrow> TBytes" where "TBRD_SubmuxOffset_calcPayload \<equiv> TBRD_Submux_calcPayload"

definition TBRD_SubmuxScale_Go :: "SubmuxParams \<Rightarrow> TConfig \<Rightarrow> TConfig" where
  "TBRD_SubmuxScale_Go p c =
     (let i = unat (sm_submuxIndex p); g = unat (sm_gainGroupIndex p) in
      if i < 4 \<and> g < 4
      then c\<lparr>submuxScaleFactors := (submuxScaleFactors c)[i := (submuxScaleFactors c ! i)[g := sm_value p]]\<rparr>
      else c)"

definition TBRD_SubmuxOffset_Go :: "SubmuxParams \<Rightarrow> TConfig \<Rightarrow> TConfig" where
  "TBRD_SubmuxOffset_Go p c =
     (let i = unat (sm_submuxIndex p); g = unat (sm_gainGroupIndex p) in
      if i < 4 \<and> g < 4
      then c\<lparr>submuxOffsets := (submuxOffsets c)[i := (submuxOffsets c ! i)[g := sm_value p]]\<rparr>
      else c)"

text \<open>The constructors of \<open>TBRD_GetSubmuxScale\<close> and \<open>TBRD_GetSubmuxOffset\<close>, and their payload.\<close>

definition TBRD_GetSubmux_new :: "storage \<Rightarrow> TBytes \<Rightarrow> SubmuxParams" where
  "TBRD_GetSubmux_new g buf =
     (let p = SubmuxParams_init g buf in
      if length buf = 2 then p\<lparr>sm_submuxIndex := buf ! 0, sm_gainGroupIndex := buf ! 1\<rparr>
      else if length buf = 4 then p\<lparr>sm_value := le_read buf\<rparr>
      else p)"

definition TBRD_GetSubmux_calcPayload :: "SubmuxParams \<Rightarrow> bool \<Rightarrow> TBytes" where
  "TBRD_GetSubmux_calcPayload p bAsReply =
     (if bAsReply then stuff [] (sm_value p) else [sm_submuxIndex p, sm_gainGroupIndex p])"

text \<open>Each class by its name.\<close>

abbreviation (input) TBRD_GetSubmuxScale_new :: "storage \<Rightarrow> TBytes \<Rightarrow> SubmuxParams" where "TBRD_GetSubmuxScale_new \<equiv> TBRD_GetSubmux_new"
abbreviation (input) TBRD_GetSubmuxOffset_new :: "storage \<Rightarrow> TBytes \<Rightarrow> SubmuxParams" where "TBRD_GetSubmuxOffset_new \<equiv> TBRD_GetSubmux_new"

abbreviation (input) TBRD_GetSubmuxScale_calcPayload :: "SubmuxParams \<Rightarrow> bool \<Rightarrow> TBytes" where "TBRD_GetSubmuxScale_calcPayload \<equiv> TBRD_GetSubmux_calcPayload"
abbreviation (input) TBRD_GetSubmuxOffset_calcPayload :: "SubmuxParams \<Rightarrow> bool \<Rightarrow> TBytes" where "TBRD_GetSubmuxOffset_calcPayload \<equiv> TBRD_GetSubmux_calcPayload"

definition TBRD_GetSubmuxScale_Go :: "TConfig \<Rightarrow> SubmuxParams \<Rightarrow> SubmuxParams" where
  "TBRD_GetSubmuxScale_Go c p =
     (let i = unat (sm_submuxIndex p); g = unat (sm_gainGroupIndex p)
      in p\<lparr>sm_value := (if i < 4 \<and> g < 4 then submuxScaleFactors c ! i ! g else 0)\<rparr>)"

definition TBRD_GetSubmuxOffset_Go :: "TConfig \<Rightarrow> SubmuxParams \<Rightarrow> SubmuxParams" where
  "TBRD_GetSubmuxOffset_Go c p =
     (let i = unat (sm_submuxIndex p); g = unat (sm_gainGroupIndex p)
      in p\<lparr>sm_value := (if i < 4 \<and> g < 4 then submuxOffsets c ! i ! g else 0)\<rparr>)"

text \<open>\<open>BRD_REBOOT\<close>: eight bytes that are the double nearest to pi end the server.\<close>

definition M_PI_bits :: u64 where "M_PI_bits = 0x400921FB54442D18"

definition BRD_REBOOT_go :: "TBytes \<Rightarrow> bool \<Rightarrow> unit res \<times> bool" where
  "BRD_REBOOT_go buf done =
     (if length buf < 8 then (Undef, done)
      else (Ok (), done \<or> (le_read (take 8 buf) :: u64) = M_PI_bits))"

end
