(* ===== verification/AdcScan.thy ===== *)
theory AdcScan
  imports AdcItems
begin

text \<open>
  One scan of the analog inputs (\<^verbatim>\<open>DataItems/ADC_.cpp\<close>, from line 657): the configuration of the
  scan is read from the device, the samples are drained from its FIFO, and the samples of each
  channel are reduced to one number according to the oversampling.
\<close>

subsection \<open>Raw samples\<close>

record TAdcScanCfg =
  startCh :: u8
  endCh :: u8
  oversamples :: u8
  nChannels :: u32
  perChannel :: u32
  expected :: u32

definition TAdcScanCfg_default :: TAdcScanCfg where
  "TAdcScanCfg_default = \<lparr>startCh = 0, endCh = 0, oversamples = 0, nChannels = 0, perChannel = 0, expected = 0\<rparr>"

definition AdcRawCounts :: "u32 \<Rightarrow> u16" where
  "AdcRawCounts raw = ucast (raw AND 0xFFFF)"

definition AdcRawMeta :: "u32 \<Rightarrow> u32" where
  "AdcRawMeta raw = raw AND 0xFFFF0000"

definition AdcRawChannel :: "u32 \<Rightarrow> u8" where
  "AdcRawChannel raw = ucast (drop_bit 20 raw AND 0x7F)"

abbreviation (input) bmInv :: u32 where "bmInv \<equiv> 0x80000000"

subsection \<open>Accumulation\<close>

record TPerChAccum =
  acc_meta :: u32
  acc_sum :: u64
  acc_seen :: u32
  acc_included :: u32
  acc_first :: u16
  acc_firstSet :: bool

definition TPerChAccum_default :: TPerChAccum where
  "TPerChAccum_default = \<lparr>acc_meta = bmInv, acc_sum = 0, acc_seen = 0, acc_included = 0,
     acc_first = 0, acc_firstSet = False\<rparr>"

definition FinalizeAvgCounts :: "TPerChAccum \<Rightarrow> TAdcScanCfg \<Rightarrow> u16" where
  "FinalizeAvgCounts a cfg =
     (if oversamples cfg = 0 then (if acc_firstSet a then acc_first a else 0)
      else if acc_included a = 0 then 0
      else let avg = (acc_sum a + ucast (acc_included a) div 2) div ucast (acc_included a)
           in ucast (avg AND 0xFFFF))"

text \<open>The body of the loop of \<open>AccumulateByChannel\<close> once the channel's accumulator is found.\<close>

definition accumulate_sample :: "TAdcScanCfg \<Rightarrow> u32 \<Rightarrow> TPerChAccum \<Rightarrow> TPerChAccum" where
  "accumulate_sample cfg v a =
     (if perChannel cfg \<le> acc_seen a then a
      else
        let a = (if acc_meta a = bmInv then a\<lparr>acc_meta := AdcRawMeta v\<rparr> else a);
            c = AdcRawCounts v
        in if oversamples cfg = 0 then
             a\<lparr>acc_first := c, acc_firstSet := True, acc_seen := perChannel cfg\<rparr>
           else if oversamples cfg = 1 then
             a\<lparr>acc_sum := acc_sum a + ucast c, acc_included := acc_included a + 1,
               acc_seen := acc_seen a + 1\<rparr>
           else
             let a = (if acc_seen a \<noteq> 0
                      then a\<lparr>acc_sum := acc_sum a + ucast c, acc_included := acc_included a + 1\<rparr>
                      else a)
             in a\<lparr>acc_seen := acc_seen a + 1\<rparr>)"

definition accumulate_step :: "TAdcScanCfg \<Rightarrow> u32 \<Rightarrow> TPerChAccum list \<Rightarrow> TPerChAccum list" where
  "accumulate_step cfg v acc =
     (if v AND bmInv \<noteq> 0 then acc
      else let ch = AdcRawChannel v in
        if ch < startCh cfg \<or> endCh cfg < ch then acc
        else let idx = unat ch - unat (startCh cfg) in
          if length acc \<le> idx then acc
          else acc[idx := accumulate_sample cfg v (acc ! idx)])"

definition AccumulateByChannel :: "u32 list \<Rightarrow> TAdcScanCfg \<Rightarrow> TPerChAccum list" where
  "AccumulateByChannel raw cfg =
     fold (accumulate_step cfg) raw (replicate (unat (nChannels cfg)) TPerChAccum_default)"

subsection \<open>The configuration of a scan\<close>

definition ADC_ReadScanCfg :: "'h apci_lib \<Rightarrow> 'h \<Rightarrow> TAdcScanCfg \<times> 'h" where
  "ADC_ReadScanCfg L h =
     (let (a, h) = in_reg L ofsAdcStartChannel h;
          (b, h) = in_reg L ofsAdcStopChannel h;
          (o', h) = in_reg L ofsAdcOversamples h;
          cfg = TAdcScanCfg_default\<lparr>startCh := ucast (a AND 0xFF), endCh := ucast (b AND 0xFF),
                  oversamples := ucast (o' AND 0xFF)\<rparr>
      in if startCh cfg \<le> endCh cfg then
           let n = ucast (endCh cfg) - ucast (startCh cfg) + 1; per = ucast (oversamples cfg) + 1
           in (cfg\<lparr>nChannels := n, perChannel := per, expected := n * per\<rparr>, h)
         else (cfg, h))"

subsection \<open>Volts\<close>

abbreviation (input) d_1 :: u64 where "d_1 \<equiv> 0x3FF0000000000000"
abbreviation (input) d_2 :: u64 where "d_2 \<equiv> 0x4000000000000000"
abbreviation (input) d_32768 :: u64 where "d_32768 \<equiv> 0x40E0000000000000"
abbreviation (input) f32_NaN :: f32 where "f32_NaN \<equiv> 0x7FC00000"

definition AdcRawToVolts :: "fpu \<Rightarrow> u32 \<Rightarrow> f32" where
  "AdcRawToVolts F raw =
     (if raw AND bmInv \<noteq> 0 then f32_NaN
      else
        let gainCode = (ucast (drop_bit 28 raw AND 3) :: u8);
            bipolar = raw AND push_bit 27 1 \<noteq> 0;
            counts = (ucast (raw AND 0xFFFF) :: u16);
            fsVolts = (if gainCode = 0 then d_10 else if gainCode = 1 then d_5
                       else if gainCode = 2 then d_2 else d_1);
            v = (if \<not> bipolar then f_div F (f_mul F (f_of_int F (uint counts)) fsVolts) d_65535
                 else f_div F (f_mul F (f_sub F (f_of_int F (uint counts)) d_32768) fsVolts) d_32768)
        in f_to_f32 F v)"

subsection \<open>Reductions\<close>

definition ADC_AverageCountsForChannel :: "u32 list \<Rightarrow> nat \<Rightarrow> nat \<Rightarrow> u8 \<Rightarrow> u16" where
  "ADC_AverageCountsForChannel raw base per os =
     (if os = 0 then AdcRawCounts (raw ! base)
      else if os = 1 then
        let c0 = (ucast (AdcRawCounts (raw ! base)) :: u32);
            c1 = ucast (AdcRawCounts (raw ! (base + 1)));
            avg = (c0 + c1 + 1) div 2
        in ucast (avg AND 0xFFFF)
      else
        let (s, n) = fold (\<lambda>k (s, n). (s + ucast (AdcRawCounts (raw ! (base + k))), n + 1)) [1..<per] (0 :: u64, 0 :: u32);
            avg = (s + ucast (n div 2)) div ucast n
        in ucast (avg AND 0xFFFF))"

definition ADC_ReduceRawToCountsPerChannel :: "u32 list \<Rightarrow> TAdcScanCfg \<Rightarrow> u16 list" where
  "ADC_ReduceRawToCountsPerChannel raw cfg =
     map (\<lambda>a. FinalizeAvgCounts a cfg) (AccumulateByChannel raw cfg)"

definition ADC_ReduceRawToRawPerChannel :: "u32 list \<Rightarrow> TAdcScanCfg \<Rightarrow> u32 list" where
  "ADC_ReduceRawToRawPerChannel raw cfg =
     map (\<lambda>a. if acc_meta a = bmInv then bmInv
              else acc_meta a OR ucast (FinalizeAvgCounts a cfg)) (AccumulateByChannel raw cfg)"

definition ADC_ReduceRawToVoltsPerChannel :: "fpu \<Rightarrow> u32 list \<Rightarrow> TAdcScanCfg \<Rightarrow> f32 list" where
  "ADC_ReduceRawToVoltsPerChannel F raw cfg =
     map (\<lambda>a. if acc_meta a = bmInv then f32_NaN
              else AdcRawToVolts F (acc_meta a OR ucast (FinalizeAvgCounts a cfg)))
       (AccumulateByChannel raw cfg)"

subsection \<open>The device side of a scan\<close>

text \<open>
  Time is part of the device: the steady clock in nanoseconds, the sleep in microseconds and the
  yield of the processor.
\<close>

record 'h os_time =
  steady_now :: "'h \<Rightarrow> int \<times> 'h"
  do_usleep :: "nat \<Rightarrow> 'h \<Rightarrow> 'h"
  do_yield :: "'h \<Rightarrow> 'h"

definition ADC_SetScanStartMode :: "'h apci_lib \<Rightarrow> 'h \<Rightarrow> TError \<times> 'h" where
  "ADC_SetScanStartMode L h =
     (let (st, h) = out_reg L ofsAdcTriggerOptions 0 h;
          (st, h) = out_reg L ofsAdcSoftwareStart 0 h
      in out_reg L ofsAdcTriggerOptions 4 h)"

text \<open>The two loops that may not end give \<open>None\<close> when they do not.\<close>

partial_function (option) ADC_DrainFIFO :: "'h apci_lib \<Rightarrow> 'h \<Rightarrow> 'h option" where
  "ADC_DrainFIFO L h =
     (let (n, h) = in_reg L ofsAdcFifoCount h in
      if 0 < n then let (v, h) = in_reg L ofsAdcDataFifo h in ADC_DrainFIFO L h
      else Some h)"

definition ADC_StartSoftwareADC :: "'h apci_lib \<Rightarrow> 'h os_time \<Rightarrow> 'h \<Rightarrow> 'h" where
  "ADC_StartSoftwareADC L T h = do_usleep T 10 (snd (out_reg L ofsAdcSoftwareStart 0 h))"

text \<open>The inner loop: at most \<open>toRead\<close> samples, those with the invalid bit dropped.\<close>

fun drain_available :: "'h apci_lib \<Rightarrow> nat \<Rightarrow> nat \<Rightarrow> u32 list \<Rightarrow> 'h \<Rightarrow> u32 list \<times> 'h" where
  "drain_available L n 0 raw h = (raw, h)"
| "drain_available L n (Suc toRead) raw h =
     (if length raw < n then
        let (v, h) = in_reg L ofsAdcDataFifo h
        in drain_available L n toRead (if v AND bmInv = 0 then raw @ [v] else raw) h
      else (raw, h))"

partial_function (option) drain_loop ::
  "'h apci_lib \<Rightarrow> 'h os_time \<Rightarrow> nat \<Rightarrow> int \<Rightarrow> u32 list \<Rightarrow> 'h \<Rightarrow> (TError \<times> u32 list \<times> 'h) option" where
  "drain_loop L T n t0 raw h =
     (if length raw < n then
        let (available, h) = in_reg L ofsAdcFifoCount h in
        if available = 0 then
          let (now, h) = steady_now T h in
          if (2 + int n) * 1000000 < now - t0 then Some (- 1, raw, h)
          else drain_loop L T n t0 raw (do_yield T h)
        else
          let h = do_usleep T 10 h; (raw, h) = drain_available L n (unat available) raw h
          in drain_loop L T n t0 raw h
      else Some (0, raw, h))"

definition ADC_DrainAdcFifoRaw ::
  "'h apci_lib \<Rightarrow> 'h os_time \<Rightarrow> nat \<Rightarrow> 'h \<Rightarrow> (TError \<times> u32 list \<times> 'h) option" where
  "ADC_DrainAdcFifoRaw L T n h = (let (t0, h) = steady_now T h in drain_loop L T n t0 [] h)"

definition ADC_AcquireScanRaw ::
  "'h apci_lib \<Rightarrow> 'h os_time \<Rightarrow> 'h \<Rightarrow> (TError \<times> u32 list \<times> TAdcScanCfg \<times> 'h) option" where
  "ADC_AcquireScanRaw L T h =
     (let (st, h) = out_reg L ofsAdcOversamples 0 h;
          (cfg, h) = ADC_ReadScanCfg L h
      in if expected cfg = 0 then Some (- 1, [], cfg, h)
         else let (err, h) = ADC_SetScanStartMode L h in
           if err \<noteq> 0 then Some (err, [], cfg, h)
           else case ADC_DrainFIFO L h of
                  None \<Rightarrow> None
                | Some h \<Rightarrow>
                    (case ADC_DrainAdcFifoRaw L T (unat (expected cfg)) (ADC_StartSoftwareADC L T h) of
                       None \<Rightarrow> None
                     | Some (err, raw, h) \<Rightarrow> Some (err, raw, cfg, h)))"

text \<open>
  The three items: the reply is the memory of the reduced vector, or nothing after an error. The
  base class sends \<open>rawBytes\<close>, which \<open>Go\<close> replaces.
\<close>

definition ADC_All_Go ::
  "(u32 list \<Rightarrow> TAdcScanCfg \<Rightarrow> TBytes) \<Rightarrow> 'h apci_lib \<Rightarrow> 'h os_time \<Rightarrow> 'h \<Rightarrow> TBytes res \<times> 'h" where
  "ADC_All_Go reduce L T h =
     (case ADC_AcquireScanRaw L T h of
        None \<Rightarrow> (Hang, h)
      | Some (err, raw, cfg, h) \<Rightarrow> (Ok (if err \<noteq> 0 then [] else reduce raw cfg), h))"

definition TADC_RawAll_Go :: "'h apci_lib \<Rightarrow> 'h os_time \<Rightarrow> 'h \<Rightarrow> TBytes res \<times> 'h" where
  "TADC_RawAll_Go = ADC_All_Go (\<lambda>raw cfg. concat (map (stuff []) (ADC_ReduceRawToRawPerChannel raw cfg)))"

definition TADC_CountsAll_Go :: "'h apci_lib \<Rightarrow> 'h os_time \<Rightarrow> 'h \<Rightarrow> TBytes res \<times> 'h" where
  "TADC_CountsAll_Go = ADC_All_Go (\<lambda>raw cfg. concat (map (stuff []) (ADC_ReduceRawToCountsPerChannel raw cfg)))"

definition TADC_VoltsAll_Go :: "fpu \<Rightarrow> 'h apci_lib \<Rightarrow> 'h os_time \<Rightarrow> 'h \<Rightarrow> TBytes res \<times> 'h" where
  "TADC_VoltsAll_Go F = ADC_All_Go (\<lambda>raw cfg. concat (map (stuff []) (ADC_ReduceRawToVoltsPerChannel F raw cfg)))"

subsection \<open>What the reduction computes\<close>

definition scan_cfg_ok :: "TAdcScanCfg \<Rightarrow> bool" where
  "scan_cfg_ok cfg \<longleftrightarrow> startCh cfg \<le> endCh cfg \<and>
     unat (nChannels cfg) = unat (endCh cfg) - unat (startCh cfg) + 1 \<and>
     unat (perChannel cfg) = unat (oversamples cfg) + 1"

text \<open>The valid samples of the \<open>i\<close>-th channel of the scan, in the order they were read.\<close>

definition in_channel :: "TAdcScanCfg \<Rightarrow> nat \<Rightarrow> u32 \<Rightarrow> bool" where
  "in_channel cfg i v \<longleftrightarrow> v AND bmInv = 0 \<and> unat (AdcRawChannel v) = unat (startCh cfg) + i"

definition chan_samples :: "TAdcScanCfg \<Rightarrow> nat \<Rightarrow> u32 list \<Rightarrow> u32 list" where
  "chan_samples cfg i raw = take (unat (perChannel cfg)) (filter (in_channel cfg i) raw)"

definition rounded_mean :: "nat list \<Rightarrow> nat" where
  "rounded_mean xs = (sum_list xs + length xs div 2) div length xs"

definition averaged :: "u8 \<Rightarrow> 'a list \<Rightarrow> 'a list" where
  "averaged os xs = (if os = 0 then take 1 xs else if os = 1 then xs else drop 1 xs)"

definition reduced_counts :: "u8 \<Rightarrow> u32 list \<Rightarrow> nat" where
  "reduced_counts os vs =
     (if averaged os vs = [] then 0 else rounded_mean (map (unat \<circ> AdcRawCounts) (averaged os vs)))"

lemma length_AccumulateByChannel [simp]:
  "length (AccumulateByChannel raw cfg) = unat (nChannels cfg)"
proof -
  have "length (fold (accumulate_step cfg) raw acc) = length acc" for acc
    by (induction raw arbitrary: acc) (simp_all add: accumulate_step_def Let_def)
  then show ?thesis by (simp add: AccumulateByChannel_def)
qed

lemma accumulate_step_nth:
  assumes "scan_cfg_ok cfg" and "length acc = unat (nChannels cfg)" and "i < length acc"
  shows "accumulate_step cfg v acc ! i =
    (if in_channel cfg i v then accumulate_sample cfg v (acc ! i) else acc ! i)"
proof (cases "v AND bmInv \<noteq> 0 \<or> AdcRawChannel v < startCh cfg \<or> endCh cfg < AdcRawChannel v")
  case True
  moreover have "\<not> in_channel cfg i v"
    using True assms by (auto simp: in_channel_def scan_cfg_ok_def word_less_nat_alt word_le_nat_alt)
  ultimately show ?thesis by (auto simp: accumulate_step_def Let_def)
next
  case False
  let ?idx = "unat (AdcRawChannel v) - unat (startCh cfg)"
  have "?idx < length acc" "in_channel cfg i v \<longleftrightarrow> i = ?idx"
    using False assms by (auto simp: in_channel_def scan_cfg_ok_def word_less_nat_alt word_le_nat_alt)
  moreover from this have "accumulate_step cfg v acc = acc[?idx := accumulate_sample cfg v (acc ! ?idx)]"
    using False by (simp add: accumulate_step_def Let_def)
  ultimately show ?thesis by (auto simp: nth_list_update)
qed

lemma accumulate_nth:
  assumes "scan_cfg_ok cfg" and "i < unat (nChannels cfg)"
  shows "AccumulateByChannel raw cfg ! i =
    fold (accumulate_sample cfg) (filter (in_channel cfg i) raw) TPerChAccum_default"
proof -
  have "length acc = unat (nChannels cfg) \<Longrightarrow> fold (accumulate_step cfg) raw acc ! i =
      fold (accumulate_sample cfg) (filter (in_channel cfg i) raw) (acc ! i)" for acc
  proof (induction raw arbitrary: acc)
    case (Cons v raw)
    have "length (accumulate_step cfg v acc) = unat (nChannels cfg)"
      using Cons.prems by (simp add: accumulate_step_def Let_def)
    then show ?case
      using Cons.IH [of "accumulate_step cfg v acc"] accumulate_step_nth [OF assms(1) Cons.prems] assms(2)
        Cons.prems by simp
  qed simp
  then show ?thesis using assms(2) by (simp add: AccumulateByChannel_def)
qed

text \<open>The accumulator of a channel after the samples \<open>xs\<close> of that channel.\<close>

definition acc_inv :: "TAdcScanCfg \<Rightarrow> u32 list \<Rightarrow> TPerChAccum \<Rightarrow> bool" where
  "acc_inv cfg ys a \<longleftrightarrow>
     unat (acc_seen a) = (if oversamples cfg = 0 \<and> ys \<noteq> [] then unat (perChannel cfg) else length ys) \<and>
     acc_meta a = (if ys = [] then bmInv else AdcRawMeta (hd ys)) \<and>
     (if oversamples cfg = 0
      then acc_firstSet a = (ys \<noteq> []) \<and> (ys \<noteq> [] \<longrightarrow> acc_first a = AdcRawCounts (hd ys))
      else unat (acc_included a) = length (averaged (oversamples cfg) ys) \<and>
           unat (acc_sum a) = sum_list (map (unat \<circ> AdcRawCounts) (averaged (oversamples cfg) ys)))"

lemma meta_not_inv: "v AND bmInv = 0 \<Longrightarrow> AdcRawMeta v \<noteq> bmInv"
proof
  assume v: "v AND bmInv = 0" and m: "AdcRawMeta v = bmInv"
  have "bmInv = AdcRawMeta v AND bmInv" using m by simp
  also have "\<dots> = (v AND bmInv) AND 0xFFFF0000"
    by (simp add: AdcRawMeta_def ac_simps)
  finally show False using v by simp
qed

lemma unat_Suc_u32: "unat (w :: u32) < 256 \<Longrightarrow> unat (w + 1) = unat w + 1"
  by (simp add: unat_word_ariths)

lemma counts_le: "unat (AdcRawCounts v) \<le> 65535"
  by (rule unat_u16_le)

lemma sum_counts_le: "sum_list (map (unat \<circ> AdcRawCounts) xs) \<le> 65535 * length xs"
proof (induction xs)
  case (Cons x xs)
  then show ?case using counts_le [of x] by simp
qed simp

lemma averaged_snoc: "os \<noteq> 0 \<Longrightarrow> averaged os (ys @ [v]) =
    averaged os ys @ (if os = 1 \<or> ys \<noteq> [] then [v] else [])"
  by (cases ys) (simp_all add: averaged_def)

lemma length_averaged_le: "length (averaged os ys) \<le> length ys"
  by (simp add: averaged_def)

lemma unat_widen [simp]:
  "unat (ucast (a :: u16) :: u64) = unat a" "unat (ucast (b :: u32) :: u64) = unat b"
proof -
  have "unat a < 2 ^ 16" "unat b < 2 ^ 32"
    using unsigned_less [of a, where ?'a = nat] unsigned_less [of b, where ?'a = nat] by simp_all
  then show "unat (ucast a :: u64) = unat a" "unat (ucast b :: u64) = unat b"
    by (simp_all add: unsigned_ucast_eq take_bit_nat_eq_self)
qed

lemma cut16: "n < 65536 \<Longrightarrow> take_bit 16 n AND 65535 = (n :: nat)"
proof -
  have "(65535 :: nat) = mask 16" by (simp add: mask_eq_exp_minus_1)
  then have "take_bit 16 n AND 65535 = take_bit 16 (take_bit 16 n)" by (simp only: take_bit_eq_mask)
  then show "n < 65536 \<Longrightarrow> take_bit 16 n AND 65535 = n" by (simp add: take_bit_nat_eq_self)
qed

lemma acc_inv_step:
  assumes "acc_inv cfg ys a" and "v AND bmInv = 0" and "length ys < unat (perChannel cfg)"
    and "scan_cfg_ok cfg" and "\<forall>y \<in> set ys. y AND bmInv = 0"
  shows "acc_inv cfg (ys @ [v]) (accumulate_sample cfg v a)"
proof -
  let ?os = "oversamples cfg"
  have per: "unat (perChannel cfg) = unat ?os + 1" using assms(4) by (simp add: scan_cfg_ok_def)
  have os: "unat ?os < 256" using unsigned_less [of ?os, where ?'a = nat] by simp
  have zero: "?os = 0 \<longleftrightarrow> unat ?os = 0" by (simp add: unat_eq_0)
  have len: "length ys < 256" using assms(3) per os by simp
  have ys0: "?os = 0 \<Longrightarrow> ys = []" using assms(3) per by auto
  have seen: "unat (acc_seen a) = length ys"
    using assms(1) ys0 by (auto simp: acc_inv_def)
  have go: "\<not> perChannel cfg \<le> acc_seen a"
    using seen assms(3) by (simp add: word_le_nat_alt)
  have meta: "(if acc_meta a = bmInv then AdcRawMeta v else acc_meta a) = AdcRawMeta (hd (ys @ [v]))"
  proof (cases ys)
    case (Cons y ys')
    then show ?thesis using assms(1,5) meta_not_inv [of y] by (simp add: acc_inv_def)
  qed (use assms(1) in \<open>simp add: acc_inv_def\<close>)
  show ?thesis
  proof (cases "?os = 0")
    case True
    then show ?thesis
      using go meta ys0 assms(1)
      by (auto simp: accumulate_sample_def acc_inv_def Let_def)
  next
    case False
    let ?zs = "averaged ?os ys"
    have inv: "unat (acc_included a) = length ?zs"
      "unat (acc_sum a) = sum_list (map (unat \<circ> AdcRawCounts) ?zs)"
      using assms(1) False by (simp_all add: acc_inv_def)
    have zlen: "length ?zs < 256" using len length_averaged_le [of ?os ys] by simp
    have seen1: "unat (acc_seen a + 1) = length ys + 1"
      using unat_Suc_u32 [of "acc_seen a"] seen len by simp
    have incl1: "unat (acc_included a + 1) = length ?zs + 1"
      using unat_Suc_u32 [of "acc_included a"] inv(1) zlen by simp
    have "unat (acc_sum a) < 65535 * 256"
      using inv(2) sum_counts_le [of ?zs] zlen by simp
    then have sum1: "unat (acc_sum a + ucast (AdcRawCounts v)) =
        unat (acc_sum a) + unat (AdcRawCounts v)"
      using counts_le [of v] by (simp add: unat_word_ariths)
    have s0: "acc_seen a \<noteq> 0 \<longleftrightarrow> ys \<noteq> []"
      using seen by (metis length_0_conv unat_eq_0)
    show ?thesis
      using False go meta seen1 incl1 sum1 inv s0
      by (auto simp: accumulate_sample_def acc_inv_def Let_def averaged_snoc)
  qed
qed

lemma acc_inv_full:
  assumes "acc_inv cfg ys a" and "length ys = unat (perChannel cfg)" and "scan_cfg_ok cfg"
  shows "accumulate_sample cfg v a = a"
proof -
  have "ys \<noteq> []" using assms(2,3) by (auto simp: scan_cfg_ok_def)
  then have "unat (acc_seen a) = unat (perChannel cfg)"
    using assms(1,2) by (auto simp: acc_inv_def split: if_splits)
  then show ?thesis by (simp add: accumulate_sample_def word_le_nat_alt)
qed

lemma acc_inv_fold:
  assumes "scan_cfg_ok cfg" and "\<forall>x \<in> set xs. x AND bmInv = 0"
  shows "acc_inv cfg (take (unat (perChannel cfg)) xs)
    (fold (accumulate_sample cfg) xs TPerChAccum_default)"
  using assms(2)
proof (induction xs rule: rev_induct)
  case Nil
  then show ?case by (simp add: acc_inv_def TPerChAccum_default_def averaged_def)
next
  case (snoc v xs)
  let ?a = "fold (accumulate_sample cfg) xs TPerChAccum_default"
  let ?ys = "take (unat (perChannel cfg)) xs"
  have inv: "acc_inv cfg ?ys ?a" using snoc by simp
  have valid: "\<forall>y \<in> set ?ys. y AND bmInv = 0"
    using snoc.prems by (auto dest: in_set_takeD)
  show ?case
  proof (cases "length xs < unat (perChannel cfg)")
    case True
    then show ?thesis
      using acc_inv_step [OF inv _ _ assms(1) valid, of v] snoc.prems by simp
  next
    case False
    then show ?thesis using acc_inv_full [OF inv _ assms(1), of v] inv by simp
  qed
qed

lemma finalize_reduced:
  assumes "acc_inv cfg ys a" and "length ys \<le> unat (perChannel cfg)" and "scan_cfg_ok cfg"
  shows "unat (FinalizeAvgCounts a cfg) = reduced_counts (oversamples cfg) ys"
proof (cases "oversamples cfg = 0")
  case True
  then have "ys = [] \<or> (\<exists>y. ys = [y])"
    using assms(2,3) by (cases ys; cases "tl ys") (auto simp: scan_cfg_ok_def)
  then show ?thesis
    using True assms(1)
    by (auto simp: FinalizeAvgCounts_def reduced_counts_def averaged_def acc_inv_def rounded_mean_def)
next
  case False
  let ?zs = "averaged (oversamples cfg) ys"
  let ?xs = "map (unat \<circ> AdcRawCounts) ?zs"
  have inv: "unat (acc_included a) = length ?zs" "unat (acc_sum a) = sum_list ?xs"
    using assms(1) False by (simp_all add: acc_inv_def)
  have "unat (oversamples cfg) < 256"
    using unsigned_less [of "oversamples cfg", where ?'a = nat] by simp
  then have len: "length ?zs \<le> 256"
    using length_averaged_le [of "oversamples cfg" ys] assms(2,3) by (simp add: scan_cfg_ok_def)
  show ?thesis
  proof (cases "?zs = []")
    case True
    then show ?thesis using False inv(1) by (simp add: FinalizeAvgCounts_def reduced_counts_def unat_eq_0)
  next
    case nonempty: False
    let ?avg = "(acc_sum a + ucast (acc_included a) div 2) div ucast (acc_included a)"
    have incl: "unat (ucast (acc_included a) :: u64) = length ?zs"
      using inv(1) by simp
    have sum: "sum_list ?xs \<le> 65535 * length ?zs" by (rule sum_counts_le)
    have "unat (acc_sum a + ucast (acc_included a) div 2) = sum_list ?xs + length ?zs div 2"
      using inv(2) incl sum len by (simp add: unat_word_ariths unat_div)
    then have avg: "unat ?avg = rounded_mean ?xs"
      using incl by (simp add: unat_div rounded_mean_def)
    have "sum_list ?xs + length ?zs div 2 < 65536 * length ?zs"
      using sum nonempty by (simp add: length_greater_0_conv [symmetric] del: length_greater_0_conv)
    then have "rounded_mean ?xs < 65536"
      by (simp add: rounded_mean_def div_less_iff_less_mult nonempty)
    then have "unat (ucast (?avg AND 0xFFFF) :: u16) = rounded_mean ?xs"
      using avg by (simp add: unsigned_ucast_eq unsigned_and_eq cut16)
    then show ?thesis
      using False inv(1) nonempty by (auto simp: FinalizeAvgCounts_def reduced_counts_def Let_def)
  qed
qed

lemma channel_accumulator:
  assumes "scan_cfg_ok cfg" and "i < unat (nChannels cfg)"
  shows "acc_inv cfg (chan_samples cfg i raw) (AccumulateByChannel raw cfg ! i)"
proof -
  have "\<forall>x \<in> set (filter (in_channel cfg i) raw). x AND bmInv = 0"
    by (simp add: in_channel_def)
  from acc_inv_fold [OF assms(1) this] show ?thesis
    unfolding accumulate_nth [OF assms] chan_samples_def .
qed

lemma channel_counts:
  assumes "scan_cfg_ok cfg" and "i < unat (nChannels cfg)"
  shows "unat (FinalizeAvgCounts (AccumulateByChannel raw cfg ! i) cfg) =
    reduced_counts (oversamples cfg) (chan_samples cfg i raw)"
  by (rule finalize_reduced [OF channel_accumulator [OF assms] _ assms(1)])
    (simp add: chan_samples_def)

lemma ReadScanCfg_ok:
  assumes "ADC_ReadScanCfg L h = (cfg, h')" and "expected cfg \<noteq> 0"
  shows "scan_cfg_ok cfg" and "unat (expected cfg) = unat (nChannels cfg) * unat (perChannel cfg)"
proof -
  obtain s e os where cfg: "startCh cfg = s" "endCh cfg = e" "oversamples cfg = os" "s \<le> e"
    "nChannels cfg = ucast e - ucast s + 1" "perChannel cfg = ucast os + 1"
    "expected cfg = (ucast e - ucast s + 1) * (ucast os + 1)"
    using assms by (auto simp: ADC_ReadScanCfg_def TAdcScanCfg_default_def Let_def split_beta split: if_splits)
  have u: "unat (ucast w :: u32) = unat w" "unat w < 256" for w :: u8
    using unsigned_less [of w, where ?'a = nat] by (simp_all add: unsigned_ucast_eq take_bit_nat_eq_self)
  have "unat (ucast e - ucast s :: u32) = unat e - unat s"
    using cfg(4) u by (simp add: unat_sub word_le_nat_alt)
  then have n: "unat (nChannels cfg) = unat e - unat s + 1"
    using u [of e] cfg(5) by (simp add: unat_word_ariths)
  have per: "unat (perChannel cfg) = unat os + 1"
    using u [of os] cfg(6) by (simp add: unat_word_ariths)
  show "scan_cfg_ok cfg" using n per cfg by (simp add: scan_cfg_ok_def)
  have "unat (nChannels cfg) * unat (perChannel cfg) \<le> 256 * 256"
    using n per u [of e] u [of os] by (intro mult_le_mono) simp_all
  moreover have "expected cfg = nChannels cfg * perChannel cfg" using cfg by simp
  ultimately show "unat (expected cfg) = unat (nChannels cfg) * unat (perChannel cfg)"
    by (simp add: unat_word_ariths)
qed

subsection \<open>What the device side returns\<close>

text \<open>
  What a FIFO is: its count is its length, a read takes its oldest sample, and it is shorter than
  the count's range. The contents of the FIFO are a function of the device.
\<close>

definition fifo_device :: "'h apci_lib \<Rightarrow> ('h \<Rightarrow> u32 list) \<Rightarrow> bool" where
  "fifo_device L fifo \<longleftrightarrow>
     (\<forall>h. length (fifo h) < 2 ^ 32 \<and>
          fst (in_reg L ofsAdcFifoCount h) = of_nat (length (fifo h)) \<and>
          fifo (snd (in_reg L ofsAdcFifoCount h)) = fifo h \<and>
          (fifo h \<noteq> [] \<longrightarrow> fst (in_reg L ofsAdcDataFifo h) = hd (fifo h) \<and>
                         fifo (snd (in_reg L ofsAdcDataFifo h)) = tl (fifo h)))"

abbreviation (input) valid_samples :: "u32 list \<Rightarrow> u32 list" where
  "valid_samples xs \<equiv> filter (\<lambda>v. v AND bmInv = 0) xs"

lemma fifo_deviceD:
  assumes "fifo_device L fifo"
  shows "unat (fst (in_reg L ofsAdcFifoCount h)) = length (fifo h)"
    and "fifo (snd (in_reg L ofsAdcFifoCount h)) = fifo h"
    and "fifo h = x # xs \<Longrightarrow> fst (in_reg L ofsAdcDataFifo h) = x"
    and "fifo h = x # xs \<Longrightarrow> fifo (snd (in_reg L ofsAdcDataFifo h)) = xs"
proof -
  have "length (fifo h) < 2 ^ 32" using assms unfolding fifo_device_def by blast
  then show "unat (fst (in_reg L ofsAdcFifoCount h)) = length (fifo h)"
    using assms unfolding fifo_device_def by (simp add: unsigned_of_nat take_bit_nat_eq_self)
qed (use assms in \<open>simp_all add: fifo_device_def\<close>)

lemma DrainFIFO_empties:
  assumes "fifo_device L fifo"
  shows "\<exists>h'. ADC_DrainFIFO L h = Some h' \<and> fifo h' = []"
proof (induction "fifo h" arbitrary: h)
  case Nil
  then have "unat (fst (in_reg L ofsAdcFifoCount h)) = 0"
    "fifo (snd (in_reg L ofsAdcFifoCount h)) = []"
    using fifo_deviceD [OF assms] by simp_all
  then have "fst (in_reg L ofsAdcFifoCount h) = 0" by (simp only: unat_eq_0)
  then show ?case
    using \<open>fifo (snd _) = []\<close> by (subst ADC_DrainFIFO.simps) (simp add: split_beta Let_def)
next
  case (Cons x xs)
  let ?h1 = "snd (in_reg L ofsAdcFifoCount h)"
  have "unat (fst (in_reg L ofsAdcFifoCount h)) > 0" "fifo ?h1 = x # xs"
    using fifo_deviceD(1,2) [OF assms, of h] Cons.hyps(2) [symmetric] by simp_all
  moreover from this have "xs = fifo (snd (in_reg L ofsAdcDataFifo ?h1))"
    using fifo_deviceD(4) [OF assms] by simp
  moreover from this obtain h' where
    "ADC_DrainFIFO L (snd (in_reg L ofsAdcDataFifo ?h1)) = Some h'" "fifo h' = []"
    using Cons.hyps(1) by blast
  ultimately show ?case
    by (subst ADC_DrainFIFO.simps) (simp add: split_beta Let_def word_less_nat_alt)
qed

lemma DrainFIFO_hangs:
  assumes "\<forall>h \<in> N. fst (in_reg L ofsAdcFifoCount h) \<noteq> 0 \<and>
      snd (in_reg L ofsAdcDataFifo (snd (in_reg L ofsAdcFifoCount h))) \<in> N" and "h \<in> N"
  shows "ADC_DrainFIFO L h = None"
proof -
  have "L' = L \<longrightarrow> h \<notin> N" if "ADC_DrainFIFO L' h = Some y" for L' h y
  proof (rule ADC_DrainFIFO.raw_induct [where P = "\<lambda>L' h y. L' = L \<longrightarrow> h \<notin> N", OF _ that])
    fix f L' h y
    assume IH: "\<And>L' h y. f L' h = Some y \<Longrightarrow> L' = L \<longrightarrow> h \<notin> N"
      and step: "(let (n, h) = in_reg L' ofsAdcFifoCount h in
        if 0 < n then let (v, h) = in_reg L' ofsAdcDataFifo h in f L' h else Some h) = Some y"
    show "L' = L \<longrightarrow> h \<notin> N"
    proof (intro impI notI)
      assume "L' = L" "h \<in> N"
      moreover from this assms(1) have "0 < fst (in_reg L ofsAdcFifoCount h)"
        by (auto simp: word_gt_0)
      ultimately have "f L (snd (in_reg L ofsAdcDataFifo (snd (in_reg L ofsAdcFifoCount h)))) = Some y"
        using step by (simp add: split_beta Let_def)
      with IH assms(1) \<open>h \<in> N\<close> show False by blast
    qed
  qed
  then show ?thesis using assms(2) by (cases "ADC_DrainFIFO L h") auto
qed

lemma drain_available_fifo:
  assumes "fifo_device L fifo" and "toRead \<le> length (fifo h)" and "length raw \<le> n"
  shows "\<exists>k \<le> toRead. fst (drain_available L n toRead raw h) = raw @ valid_samples (take k (fifo h)) \<and>
      fifo (snd (drain_available L n toRead raw h)) = drop k (fifo h) \<and>
      length (fst (drain_available L n toRead raw h)) \<le> n \<and>
      (k = toRead \<or> length (fst (drain_available L n toRead raw h)) = n)"
  using assms(2,3)
proof (induction toRead arbitrary: raw h)
  case 0
  then show ?case by simp
next
  case (Suc toRead)
  show ?case
  proof (cases "length raw < n")
    case False
    then show ?thesis using Suc.prems by (intro exI [of _ 0]) simp
  next
    case True
    from Suc.prems(1) obtain x xs where x: "fifo h = x # xs" by (cases "fifo h") auto
    let ?raw = "if x AND bmInv = 0 then raw @ [x] else raw"
    let ?h = "snd (in_reg L ofsAdcDataFifo h)"
    have h: "fst (in_reg L ofsAdcDataFifo h) = x" "fifo ?h = xs"
      using fifo_deviceD(3,4) [OF assms(1) x] by simp_all
    have "toRead \<le> length (fifo ?h)" "length ?raw \<le> n" using Suc.prems x h True by auto
    from Suc.IH [OF this] obtain k where k: "k \<le> toRead"
      "fst (drain_available L n toRead ?raw ?h) = ?raw @ valid_samples (take k xs)"
      "fifo (snd (drain_available L n toRead ?raw ?h)) = drop k xs"
      "length (fst (drain_available L n toRead ?raw ?h)) \<le> n"
      "k = toRead \<or> length (fst (drain_available L n toRead ?raw ?h)) = n"
      unfolding h by blast
    have step: "drain_available L n (Suc toRead) raw h = drain_available L n toRead ?raw ?h"
      using True h by (simp add: split_beta Let_def)
    show ?thesis unfolding step using k x by (intro exI [of _ "Suc k"]) auto
  qed
qed

text \<open>
  A FIFO that holds enough valid samples ends the loop in one pass, with the first of them.
\<close>

lemma drain_loop_returns:
  assumes "fifo_device L fifo" and "\<forall>h us. fifo (do_usleep T us h) = fifo h"
    and "n \<le> length (valid_samples (fifo h))" and "0 < n"
  shows "\<exists>h'. drain_loop L T n t0 [] h = Some (0, take n (valid_samples (fifo h)), h')"
proof -
  let ?h1 = "snd (in_reg L ofsAdcFifoCount h)"
  let ?h2 = "do_usleep T 10 ?h1"
  let ?r = "drain_available L n (length (fifo h)) [] ?h2"
  have f: "fifo ?h2 = fifo h" using assms(2) fifo_deviceD(2) [OF assms(1)] by simp
  have "length (fifo h) > 0" using assms(3,4) by (cases "fifo h") auto
  then have nz: "fst (in_reg L ofsAdcFifoCount h) \<noteq> 0"
    using fifo_deviceD(1) [OF assms(1), of h] by auto
  have "\<exists>k \<le> length (fifo h). fst ?r = valid_samples (take k (fifo h)) \<and>
      fifo (snd ?r) = drop k (fifo h) \<and> length (fst ?r) \<le> n \<and>
      (k = length (fifo h) \<or> length (fst ?r) = n)"
    unfolding f [symmetric] using drain_available_fifo [OF assms(1), of "length (fifo ?h2)" ?h2 "[]" n]
    by simp
  then obtain k where k: "k \<le> length (fifo h)" "fst ?r = valid_samples (take k (fifo h))"
    "length (fst ?r) \<le> n" "k = length (fifo h) \<or> length (fst ?r) = n"
    by blast
  have len: "length (fst ?r) = n" using k assms(3) by auto
  have "valid_samples (fifo h) = valid_samples (take k (fifo h)) @ valid_samples (drop k (fifo h))"
    by (simp only: filter_append [symmetric] append_take_drop_id)
  then have "fst ?r = take n (valid_samples (fifo h))" using k(2) len by simp
  moreover have "drain_loop L T n t0 [] h = drain_loop L T n t0 (fst ?r) (snd ?r)"
    using assms(4) nz fifo_deviceD(1) [OF assms(1), of h]
    by (subst drain_loop.simps) (simp add: split_beta Let_def)
  moreover have "drain_loop L T n t0 (fst ?r) (snd ?r) = Some (0, fst ?r, snd ?r)"
    using len by (subst drain_loop.simps) simp
  ultimately show ?thesis by simp
qed

subsection \<open>Properties\<close>

text \<open>
  C24: Reduction of a scan. For a scan configuration read from the device, each of the three replies
  has one number per channel, in channel order. The count of a channel is computed from its first
  \<open>oversamples + 1\<close> valid samples only: the first one without oversampling, the rounded mean of both
  with one extra sample, the rounded mean of all but the first with more, zero when there is none to
  average. The raw word joins that count to the upper half of the channel's first sample, and marks
  a channel without samples as invalid.
\<close>

theorem adc_reduction_per_channel:
  assumes "ADC_ReadScanCfg L h = (cfg, h')" and "expected cfg \<noteq> 0" and "i < unat (nChannels cfg)"
  shows "length (ADC_ReduceRawToCountsPerChannel raw cfg) = unat (nChannels cfg) \<and>
      unat (ADC_ReduceRawToCountsPerChannel raw cfg ! i) =
        reduced_counts (oversamples cfg) (chan_samples cfg i raw) \<and>
      length (ADC_ReduceRawToRawPerChannel raw cfg) = unat (nChannels cfg) \<and>
      ADC_ReduceRawToRawPerChannel raw cfg ! i =
        (case chan_samples cfg i raw of [] \<Rightarrow> bmInv
         | v # vs \<Rightarrow> AdcRawMeta v OR ucast (ADC_ReduceRawToCountsPerChannel raw cfg ! i)) \<and>
      length (ADC_ReduceRawToVoltsPerChannel F raw cfg) = unat (nChannels cfg) \<and>
      ADC_ReduceRawToVoltsPerChannel F raw cfg ! i =
        (case chan_samples cfg i raw of [] \<Rightarrow> f32_NaN
         | v # vs \<Rightarrow> AdcRawToVolts F (ADC_ReduceRawToRawPerChannel raw cfg ! i))"
proof -
  have ok: "scan_cfg_ok cfg" by (rule ReadScanCfg_ok [OF assms(1,2)])
  let ?a = "AccumulateByChannel raw cfg ! i" and ?xs = "chan_samples cfg i raw"
  have meta: "acc_meta ?a = (if ?xs = [] then bmInv else AdcRawMeta (hd ?xs))"
    using channel_accumulator [OF ok assms(3), of raw] by (simp add: acc_inv_def)
  have "v AND bmInv = 0" if "v \<in> set ?xs" for v
    using that by (auto simp: chan_samples_def in_channel_def dest: in_set_takeD)
  then have "?xs \<noteq> [] \<Longrightarrow> AdcRawMeta (hd ?xs) \<noteq> bmInv"
    using meta_not_inv [of "hd ?xs"] by simp
  with meta show ?thesis
    using assms(3) channel_counts [OF ok assms(3), of raw]
    by (cases ?xs) (simp_all add: ADC_ReduceRawToCountsPerChannel_def
        ADC_ReduceRawToRawPerChannel_def ADC_ReduceRawToVoltsPerChannel_def)
qed

theorem adc_reduction_per_channel_witness:
  "unat (ADC_ReduceRawToCountsPerChannel [0x00001000, 0x80001111, 0x00002000]
     (fst (ADC_ReadScanCfg bank_lib (\<lambda>_. 0))) ! 0) = 0x1000"
proof -
  have cfg: "ADC_ReadScanCfg bank_lib (\<lambda>_. 0) =
      (TAdcScanCfg_default\<lparr>nChannels := 1, perChannel := 1, expected := 1\<rparr>, \<lambda>_. 0)"
    by (simp add: ADC_ReadScanCfg_def in_reg_def in8_def widthFromOffset_def bank_lib_def
        TAdcScanCfg_default_def)
  show ?thesis
    using adc_reduction_per_channel [OF cfg, of 0 "[0x00001000, 0x80001111, 0x00002000]"]
    by (simp add: cfg TAdcScanCfg_default_def chan_samples_def in_channel_def reduced_counts_def
        averaged_def rounded_mean_def AdcRawChannel_def AdcRawCounts_def)
qed

text \<open>
  C25: The count of a channel is a count the channel had: it lies between the least and the greatest of
  the samples it averages.
\<close>

theorem adc_counts_within_samples:
  assumes "scan_cfg_ok cfg" and "i < unat (nChannels cfg)"
    and "averaged (oversamples cfg) (chan_samples cfg i raw) \<noteq> []"
  shows "ADC_ReduceRawToCountsPerChannel raw cfg ! i \<in>
    {Min (AdcRawCounts ` set (averaged (oversamples cfg) (chan_samples cfg i raw))) ..
     Max (AdcRawCounts ` set (averaged (oversamples cfg) (chan_samples cfg i raw)))}"
proof -
  define zs where "zs = averaged (oversamples cfg) (chan_samples cfg i raw)"
  let ?C = "AdcRawCounts ` set zs" and ?f = "unat \<circ> AdcRawCounts"
  have ne: "zs \<noteq> []" and fin: "finite ?C" using assms(3) by (simp_all add: zs_def)
  have count: "unat (ADC_ReduceRawToCountsPerChannel raw cfg ! i) = rounded_mean (map ?f zs)"
    using channel_counts [OF assms(1,2), of raw] assms(2,3)
    by (simp add: ADC_ReduceRawToCountsPerChannel_def reduced_counts_def zs_def)
  have b: "unat (Min ?C) \<le> x \<and> x \<le> unat (Max ?C)" if "x \<in> set (map ?f zs)" for x
    using that fin by (auto simp: word_le_nat_alt [symmetric])
  have "sum_list (map ?f zs) \<le> unat (Max ?C) * length zs"
    using b sum_list_mono [of zs ?f "\<lambda>_. unat (Max ?C)"] by (simp add: sum_list_triv mult.commute comp_def)
  then have "rounded_mean (map ?f zs) \<le> (unat (Max ?C) * length zs + length zs div 2) div length zs"
    unfolding rounded_mean_def length_map by (intro div_le_mono) simp
  then have up: "rounded_mean (map ?f zs) \<le> unat (Max ?C)" using ne by simp
  have "unat (Min ?C) * length zs \<le> sum_list (map ?f zs)"
    using b sum_list_mono [of zs "\<lambda>_. unat (Min ?C)" ?f] by (simp add: sum_list_triv mult.commute comp_def)
  then have "unat (Min ?C) * length zs div length zs \<le> rounded_mean (map ?f zs)"
    unfolding rounded_mean_def length_map by (intro div_le_mono) simp
  then have "unat (Min ?C) \<le> rounded_mean (map ?f zs)" using ne by simp
  with up show ?thesis
    unfolding count [symmetric] zs_def [symmetric] by (simp add: word_le_nat_alt)
qed

theorem adc_counts_within_samples_witness:
  "ADC_ReduceRawToCountsPerChannel [0x10, 0x21]
     \<lparr>startCh = 0, endCh = 0, oversamples = 1, nChannels = 1, perChannel = 2, expected = 2\<rparr> ! 0 \<in> {0x10 .. 0x21}"
  using adc_counts_within_samples [of "\<lparr>startCh = 0, endCh = 0, oversamples = 1, nChannels = 1,
      perChannel = 2, expected = 2\<rparr>" 0 "[0x10, 0x21]"]
  by (simp add: scan_cfg_ok_def averaged_def chan_samples_def in_channel_def AdcRawChannel_def AdcRawCounts_def)


text \<open>A device with one sample in its FIFO at most, which a start puts there.\<close>

definition scan_lib :: "(bank \<times> u32 option) apci_lib" where
  "scan_lib = \<lparr>
     apci_read8 = \<lambda>dev bar r h. (0, ucast (fst h r), h),
     apci_read16 = \<lambda>dev bar r h. (0, ucast (fst h r), h),
     apci_read32 = \<lambda>dev bar r h.
       if r = ofsAdcFifoCount then (0, if snd h = None then 0 else 1, h)
       else if r = ofsAdcDataFifo then (case snd h of None \<Rightarrow> (0, bmInv, h) | Some v \<Rightarrow> (0, v, (fst h, None)))
       else (0, fst h r, h),
     apci_write8 = \<lambda>dev bar r v h.
       (0, ((fst h)(r := ucast v), if r = ofsAdcSoftwareStart then Some 0x1234 else snd h)),
     apci_write16 = \<lambda>dev bar r v h. (0, h),
     apci_write32 = \<lambda>dev bar r v h. (0, ((fst h)(r := v), snd h))\<rparr>"

definition still_time :: "'h os_time" where
  "still_time = \<lparr>steady_now = \<lambda>h. (0, h), do_usleep = \<lambda>us h. h, do_yield = \<lambda>h. h\<rparr>"

lemma scan_lib_fifo: "fifo_device scan_lib (\<lambda>h. case snd h of None \<Rightarrow> [] | Some v \<Rightarrow> [v])"
  by (auto simp: fifo_device_def in_reg_def in32_def widthFromOffset_def scan_lib_def split: option.splits)


text \<open>
  C30: A scan may never return. If the count of the FIFO reads nonzero again and again while the code
  drains it before the conversion (a device that streams, or whose 32-bit reads fail and so give all
  ones), the three items hang, however often the count is read: this loop has no time-out.
\<close>

theorem adc_scan_hangs:
  assumes "\<forall>h \<in> N. fst (in_reg L ofsAdcFifoCount h) \<noteq> 0 \<and>
      snd (in_reg L ofsAdcDataFifo (snd (in_reg L ofsAdcFifoCount h))) \<in> N"
    and "ADC_ReadScanCfg L (snd (out_reg L ofsAdcOversamples 0 h)) = (cfg, h1)" and "expected cfg \<noteq> 0"
    and "ADC_SetScanStartMode L h1 = (0, h2)" and "h2 \<in> N"
  shows "TADC_RawAll_Go L T h = (Hang, h) \<and> TADC_CountsAll_Go L T h = (Hang, h) \<and>
      TADC_VoltsAll_Go F L T h = (Hang, h)"
proof -
  have "ADC_DrainFIFO L h2 = None" by (rule DrainFIFO_hangs [OF assms(1,5)])
  then have "ADC_AcquireScanRaw L T h = None"
    using assms(2,3,4) by (simp add: ADC_AcquireScanRaw_def split_beta Let_def)
  then show ?thesis
    by (simp_all add: TADC_RawAll_Go_def TADC_CountsAll_Go_def TADC_VoltsAll_Go_def ADC_All_Go_def)
qed

text \<open>A driver whose 32-bit reads fail.\<close>

definition failing_lib :: "bank apci_lib" where
  "failing_lib = bank_lib\<lparr>apci_read32 := \<lambda>dev bar r h. (5, 0, h)\<rparr>"

theorem adc_scan_hangs_witness:
  "TADC_CountsAll_Go failing_lib still_time (\<lambda>_. 0) = (Hang, \<lambda>_. 0)"
proof -
  let ?h1 = "(\<lambda>_. 0)(0x15 := 0) :: bank"
  have cfg: "ADC_ReadScanCfg failing_lib (snd (out_reg failing_lib ofsAdcOversamples 0 (\<lambda>_. 0))) =
      (TAdcScanCfg_default\<lparr>nChannels := 1, perChannel := 1, expected := 1\<rparr>, ?h1)"
    by (simp add: ADC_ReadScanCfg_def in_reg_def in8_def out_reg_def out8_def widthFromOffset_def
        failing_lib_def bank_lib_def TAdcScanCfg_default_def)
  have start: "ADC_SetScanStartMode failing_lib ?h1 = (0, snd (ADC_SetScanStartMode failing_lib ?h1))"
    by (simp add: ADC_SetScanStartMode_def out_reg_def out8_def widthFromOffset_def failing_lib_def bank_lib_def)
  have "fst (in_reg failing_lib ofsAdcFifoCount h) \<noteq> 0" for h
    by (simp add: in_reg_def in32_def widthFromOffset_def failing_lib_def)
  then show ?thesis
    using adc_scan_hangs [OF _ cfg _ start, of UNIV still_time] by (simp add: TAdcScanCfg_default_def)
qed

text \<open>
  The oversampling the client configured is discarded. With the three scan registers storing what
  is written to them, the acquisition works with an oversampling of zero whatever the register held,
  so one sample per channel is expected.
\<close>

lemma adc_scan_forces_no_oversampling:
  assumes "storage_registers L cell S" and "{ofsAdcStartChannel, ofsAdcStopChannel, ofsAdcOversamples} \<subseteq> S"
    and "ADC_ReadScanCfg L (snd (out_reg L ofsAdcOversamples 0 h)) = (cfg, h1)"
  shows "oversamples cfg = 0 \<and> expected cfg = nChannels cfg \<and>
      startCh cfg = ucast (cell h ofsAdcStartChannel) \<and> endCh cfg = ucast (cell h ofsAdcStopChannel)"
proof -
  let ?IO = "{r \<in> S. widthFromOffset r \<noteq> 0}" and ?h = "snd (out_reg L ofsAdcOversamples 0 h)"
  have regs: "ofsAdcStartChannel \<in> ?IO" "ofsAdcStopChannel \<in> ?IO" "ofsAdcOversamples \<in> ?IO"
    using assms(2) by (simp_all add: widthFromOffset_def)
  have "cell ?h ofsAdcOversamples = 0" "cell ?h ofsAdcStartChannel = cell h ofsAdcStartChannel"
    "cell ?h ofsAdcStopChannel = cell h ofsAdcStopChannel"
    using storage_registers.wr_io [OF assms(1) regs(3)] regs by simp_all
  moreover have low: "(ucast (v AND 0xFF) :: u8) = ucast v" for v :: u32 by simp
  ultimately show ?thesis
    using assms(3) regs storage_registers.rd_io [OF assms(1)]
    by (auto simp: ADC_ReadScanCfg_def TAdcScanCfg_default_def Let_def split: if_splits)
qed

lemma adc_scan_forces_no_oversampling_example:
  "oversamples (fst (ADC_ReadScanCfg bank_lib (snd (out_reg bank_lib ofsAdcOversamples 0 (\<lambda>_. 3))))) = 0"
  using adc_scan_forces_no_oversampling [OF bank.storage_registers_axioms, of "\<lambda>_. 3"] by (metis prod.collapse subset_UNIV)

end
