(* ===== verification/DataItem.thy ===== *)
theory DataItem
  imports DidDict RegItems DacItems BrdItems AdcScan
begin

text \<open>
  Data items as objects (\<^verbatim>\<open>DataItems/TDataItem.h\<close>, \<^verbatim>\<open>DataItems/TDataItem.cpp\<close>): the state of the
  server their actions work on, the object every class extends, the factory \<open>fromBytes\<close>, and the
  three virtual functions dispatched to the classes.
\<close>

subsection \<open>The server's state and its environment\<close>

text \<open>
  The environment holds what the program calls and does not contain: the driver, the stream and
  time calls, floating point, the services of the system, the working directory, the replacement of
  the server binary, the contents of freshly allocated memory (by allocation), and the bytes that
  follow the table of message ids in memory.
\<close>

record 'h env =
  lib :: "'h apci_lib"
  slib :: "'h stream_lib"
  tlib :: "'h os_time"
  fp :: fpu
  os :: os_lib
  cwd :: string
  self_update :: "string \<Rightarrow> fs \<Rightarrow> fs"
  garbage :: "nat \<Rightarrow> storage"
  after_ids :: TBytes

record 'h server =
  dev :: 'h
  cfg :: TConfig
  disk :: fs
  upl :: upload
  finished :: bool
  adc :: adc_stream
  allocs :: nat

text \<open>An operation on a part of the state, as one on the state.\<close>

definition on_dev :: "('h \<Rightarrow> 'a res \<times> 'h) \<Rightarrow> 'h server \<Rightarrow> 'a res \<times> 'h server" where
  "on_dev f s = (let (r, h) = f (dev s) in (r, s\<lparr>dev := h\<rparr>))"

definition on_dev_cfg ::
  "('h \<times> TConfig \<Rightarrow> 'a res \<times> ('h \<times> TConfig)) \<Rightarrow> 'h server \<Rightarrow> 'a res \<times> 'h server" where
  "on_dev_cfg f s = (let (r, (h, c)) = f (dev s, cfg s) in (r, s\<lparr>dev := h, cfg := c\<rparr>))"

definition on_cfg_disk ::
  "(TConfig \<times> fs \<Rightarrow> 'a res \<times> (TConfig \<times> fs)) \<Rightarrow> 'h server \<Rightarrow> 'a res \<times> 'h server" where
  "on_cfg_disk f s = (let (r, (c, d)) = f (cfg s, disk s) in (r, s\<lparr>cfg := c, disk := d\<rparr>))"

definition on_dev_adc ::
  "('h \<times> adc_stream \<Rightarrow> 'a res \<times> ('h \<times> adc_stream)) \<Rightarrow> 'h server \<Rightarrow> 'a res \<times> 'h server" where
  "on_dev_adc f s = (let (r, (h, a)) = f (dev s, adc s) in (r, s\<lparr>dev := h, adc := a\<rparr>))"

definition on_upload ::
  "(upload \<times> fs \<Rightarrow> 'a res \<times> (upload \<times> fs)) \<Rightarrow> 'h server \<Rightarrow> 'a res \<times> 'h server" where
  "on_upload f s = (let (r, (u, d)) = f (upl s, disk s) in (r, s\<lparr>upl := u, disk := d\<rparr>))"

definition on_cfg :: "(TConfig \<Rightarrow> TConfig) \<Rightarrow> 'h server \<Rightarrow> 'h server" where
  "on_cfg f s = s\<lparr>cfg := f (cfg s)\<rparr>"

definition mapS :: "('a \<Rightarrow> 'b) \<Rightarrow> 'a res \<times> 's \<Rightarrow> 'b res \<times> 's" where
  "mapS f m = (map_res f (fst m), snd m)"

subsection \<open>Objects\<close>

text \<open>The part of an object that belongs to its class; \<open>rawBytes\<close> is kept where a class uses it.\<close>

datatype brd_item =
    I_FpgaId "u32 ReadOnlyConfigParams"
  | I_DeviceID "u16 ReadOnlyConfigParams"
  | I_Features "u8 ReadOnlyConfigParams"
  | I_Model TBytes
  | I_GetModel TBytes
  | I_SerialNumber TBytes
  | I_GetSerialNumber TBytes
  | I_GetNumberOfAdcChannels BRD_GetNumberOfAdcChannelsParams
  | I_NumberOfSubmuxes NumberOfSubmuxParams
  | I_GetNumberOfSubmuxes NumberOfSubmuxParams
  | I_SubmuxScale SubmuxParams
  | I_SubmuxOffset SubmuxParams
  | I_GetSubmuxScale SubmuxParams
  | I_GetSubmuxOffset SubmuxParams

datatype reg_item =
    I_Read1 REG_Read1Params
  | I_Write1 REG_WritesParams
  | I_ReadBit REG_ReadBitParams
  | I_WriteBit REG_WriteBitParams
  | I_RegClearBit REG_BitParams
  | I_RegSetBit REG_BitParams
  | I_RegToggleBit REG_BitParams

datatype dac_item =
    I_Output1 TDAC_Output
  | I_Output1V TDAC_Output
  | I_DacRange1 TDAC_Range1

datatype dio_item =
    I_Configure TDIO_WordParams
  | I_Input TDIO_WordParams
  | I_Output TDIO_WordParams
  | I_ConfigureBit DIO_ConfigureBitParams
  | I_InputBit DIO_InputBitParams
  | I_OutputBit DIO_OutputBitParams
  | I_ClearBit DIO_BitParams
  | I_SetBit DIO_BitParams
  | I_ToggleBit DIO_BitParams

datatype adc_item =
    I_BaseClock ADC_BaseClockParams
  | I_StreamStart ADC_StreamStartParams TBytes
  | I_StreamStop
  | I_Differential1 ADC_Differential1Params
  | I_DifferentialAll ADC_AllParams
  | I_AdcRange1 ADC_Range1Params
  | I_AdcRangeAll ADC_AllParams
  | I_Scale1 ADC_Span1Params
  | I_ScaleAll ADC_SpanAllParams
  | I_Offset1 ADC_Span1Params
  | I_OffsetAll ADC_SpanAllParams
  | I_Calibration1 ADC_Calibration1Params
  | I_CalibrationAll ADC_CalibrationAllParams
  | I_RawAll TBytes
  | I_CountsAll TBytes
  | I_VoltsAll TBytes

datatype sys_item =
    I_UploadFileName
  | I_UploadFileData
  | I_SysError SYS_ErrorParams
  | I_SysItemError SYS_ItemErrorParams

datatype item_body =
    I_Raw TBytes
  | I_NYI TBytes
  | I_Doc
  | I_DocGet
  | I_BRD brd_item
  | I_REG reg_item
  | I_DAC dac_item
  | I_DIO dio_item
  | I_ADC adc_item
  | I_Hostname HostnameParams
  | I_SYS sys_item

text \<open>The common fields; \<open>bWrite\<close> and \<open>conn\<close> of the base class are never read.\<close>

record TDataItem =
  it_DId :: TDataId
  it_Data :: TBytes
  it_resultCode :: TError
  it_body :: item_body

subsection \<open>Constructors\<close>

fun brd_construct :: "brd_class \<Rightarrow> storage \<Rightarrow> TBytes \<Rightarrow> brd_item res" where
  "brd_construct C_TBRD_FpgaId g b = Ok (I_FpgaId (TBRD_FpgaId_new g b))"
| "brd_construct C_TBRD_DeviceID g b = Ok (I_DeviceID (TBRD_DeviceID_new g b))"
| "brd_construct C_TBRD_Features g b = Ok (I_Features (TBRD_Features_new g b))"
| "brd_construct C_TBRD_Model g b = Ok (I_Model b)"
| "brd_construct C_TBRD_GetModel g b = Ok (I_GetModel b)"
| "brd_construct C_TBRD_SerialNumber g b = Ok (I_SerialNumber b)"
| "brd_construct C_TBRD_GetSerialNumber g b = Ok (I_GetSerialNumber b)"
| "brd_construct C_TBRD_GetNumberOfAdcChannels g b =
     map_res I_GetNumberOfAdcChannels (TBRD_GetNumberOfAdcChannels_new b)"
| "brd_construct C_TBRD_NumberOfSubmuxes g b = Ok (I_NumberOfSubmuxes (TBRD_NumberOfSubmuxes_new b))"
| "brd_construct C_TBRD_GetNumberOfSubmuxes g b = Ok (I_GetNumberOfSubmuxes (TBRD_GetNumberOfSubmuxes_new g b))"
| "brd_construct C_TBRD_SubmuxScale g b = Ok (I_SubmuxScale (TBRD_SubmuxScale_new b))"
| "brd_construct C_TBRD_SubmuxOffset g b = Ok (I_SubmuxOffset (TBRD_SubmuxOffset_new b))"
| "brd_construct C_TBRD_GetSubmuxScale g b = Ok (I_GetSubmuxScale (TBRD_GetSubmuxScale_new g b))"
| "brd_construct C_TBRD_GetSubmuxOffset g b = Ok (I_GetSubmuxOffset (TBRD_GetSubmuxOffset_new g b))"

fun reg_construct :: "reg_class \<Rightarrow> storage \<Rightarrow> TBytes \<Rightarrow> reg_item res" where
  "reg_construct C_TREG_Read1 g b = Ok (I_Read1 (TREG_Read1_new b))"
| "reg_construct C_TREG_Write1 g b = map_res I_Write1 (TREG_Write1_new b)"
| "reg_construct C_TREG_ReadBit g b = Ok (I_ReadBit (TREG_ReadBit_new g b))"
| "reg_construct C_TREG_WriteBit g b = Ok (I_WriteBit (TREG_WriteBit_new g b))"
| "reg_construct C_TREG_ClearBit g b = Ok (I_RegClearBit (TREG_ClearBit_new g b))"
| "reg_construct C_TREG_SetBit g b = Ok (I_RegSetBit (TREG_SetBit_new g b))"
| "reg_construct C_TREG_ToggleBit g b = Ok (I_RegToggleBit (TREG_ToggleBit_new g b))"

fun dac_construct :: "dac_class \<Rightarrow> fpu \<Rightarrow> TConfig \<Rightarrow> TBytes \<Rightarrow> dac_item res" where
  "dac_construct C_TDAC_Output F c b = map_res I_Output1 (TDAC_Output_new F c b)"
| "dac_construct C_TDAC_OutputV F c b = map_res I_Output1V (TDAC_OutputV_new F c b)"
| "dac_construct C_TDAC_Range1 F c b = map_res I_DacRange1 (TDAC_Range1_new b)"

fun dio_construct :: "dio_class \<Rightarrow> storage \<Rightarrow> TBytes \<Rightarrow> dio_item" where
  "dio_construct C_TDIO_Configure g b = I_Configure (TDIO_Configure_new g b)"
| "dio_construct C_TDIO_Input g b = I_Input (TDIO_Input_new g b)"
| "dio_construct C_TDIO_Output g b = I_Output (TDIO_Output_new g b)"
| "dio_construct C_TDIO_ConfigureBit g b = I_ConfigureBit (TDIO_ConfigureBit_new g b)"
| "dio_construct C_TDIO_InputBit g b = I_InputBit (TDIO_InputBit_new g b)"
| "dio_construct C_TDIO_OutputBit g b = I_OutputBit (TDIO_OutputBit_new g b)"
| "dio_construct C_TDIO_ClearBit g b = I_ClearBit (TDIO_ClearBit_new g b)"
| "dio_construct C_TDIO_SetBit g b = I_SetBit (TDIO_SetBit_new g b)"
| "dio_construct C_TDIO_ToggleBit g b = I_ToggleBit (TDIO_ToggleBit_new g b)"

text \<open>The stream item claims the stream when it is built; the scan items keep the data as reply.\<close>

fun adc_construct :: "adc_class \<Rightarrow> storage \<Rightarrow> TBytes \<Rightarrow> adc_stream \<Rightarrow> adc_item res \<times> adc_stream" where
  "adc_construct C_TADC_BaseClock g b a = (map_res I_BaseClock (TADC_BaseClock_new b), a)"
| "adc_construct C_TADC_StreamStart g b a = mapS (\<lambda>p. I_StreamStart p b) (TADC_StreamStart_new b a)"
| "adc_construct C_TADC_StreamStop g b a = (Ok I_StreamStop, a)"
| "adc_construct C_TADC_Differential1 g b a = (Ok (I_Differential1 (TADC_Differential1_new g b)), a)"
| "adc_construct C_TADC_DifferentialAll g b a = (Ok (I_DifferentialAll (TADC_DifferentialAll_new g b)), a)"
| "adc_construct C_TADC_Range1 g b a = (Ok (I_AdcRange1 (TADC_Range1_new g b)), a)"
| "adc_construct C_TADC_RangeAll g b a = (Ok (I_AdcRangeAll (TADC_RangeAll_new g b)), a)"
| "adc_construct C_TADC_Scale1 g b a = (Ok (I_Scale1 (TADC_Scale1_new g b)), a)"
| "adc_construct C_TADC_ScaleAll g b a = (Ok (I_ScaleAll (TADC_ScaleAll_new g b)), a)"
| "adc_construct C_TADC_Offset1 g b a = (Ok (I_Offset1 (TADC_Offset1_new g b)), a)"
| "adc_construct C_TADC_OffsetAll g b a = (Ok (I_OffsetAll (TADC_OffsetAll_new g b)), a)"
| "adc_construct C_TADC_Calibration1 g b a = (Ok (I_Calibration1 (TADC_Calibration1_new g b)), a)"
| "adc_construct C_TADC_CalibrationAll g b a = (Ok (I_CalibrationAll (TADC_CalibrationAll_new g b)), a)"
| "adc_construct C_TADC_RawAll g b a = (Ok (I_RawAll b), a)"
| "adc_construct C_TADC_CountsAll g b a = (Ok (I_CountsAll b), a)"
| "adc_construct C_TADC_VoltsAll g b a = (Ok (I_VoltsAll b), a)"

text \<open>A class's constructor gives the data of the base object and the body.\<close>

fun sys_construct :: "sys_class \<Rightarrow> string \<Rightarrow> TBytes \<Rightarrow> (TBytes \<times> sys_item) res" where
  "sys_construct C_TSYS_UploadFileName d b = map_res (\<lambda>data. (data, I_UploadFileName)) (TSYS_UploadFileName_new d b)"
| "sys_construct C_TSYS_UploadFileData d b = Ok (b, I_UploadFileData)"
| "sys_construct C_TSYS_Error d b = Ok ([], I_SysError (TSYS_Error_new b))"
| "sys_construct C_TSYS_ItemError d b = Ok ([], I_SysItemError (TSYS_ItemError_new b))"

fun body_construct ::
  "'h env \<Rightarrow> item_class \<Rightarrow> TBytes \<Rightarrow> 'h server \<Rightarrow> (TBytes \<times> item_body) res \<times> 'h server" where
  "body_construct E C_TDataItemRaw b s = (Ok (b, I_Raw b), s)"
| "body_construct E C_TDataItemNYI b s = (Ok ([], I_NYI b), s)"
| "body_construct E C_TDataItemDoc b s = (Ok ([], I_Doc), s)"
| "body_construct E C_TDataItemDocGet b s = (Ok ([], I_DocGet), s)"
| "body_construct E (BRD k) b s = (map_res (\<lambda>i. ([], I_BRD i)) (brd_construct k (garbage E (allocs s)) b), s)"
| "body_construct E (REG k) b s = (map_res (\<lambda>i. ([], I_REG i)) (reg_construct k (garbage E (allocs s)) b), s)"
| "body_construct E (DAC k) b s = (map_res (\<lambda>i. ([], I_DAC i)) (dac_construct k (fp E) (cfg s) b), s)"
| "body_construct E (DIO k) b s = (Ok ([], I_DIO (dio_construct k (garbage E (allocs s)) b)), s)"
| "body_construct E (ADC k) b s =
     (let (r, a) = adc_construct k (garbage E (allocs s)) b (adc s)
      in (map_res (\<lambda>i. ([], I_ADC i)) r, s\<lparr>adc := a\<rparr>))"
| "body_construct E (CFG k) b s = (Ok ([], I_Hostname (TCFG_Hostname_new b)), s)"
| "body_construct E (SYS k) b s = (map_res (\<lambda>(d, i). (d, I_SYS i)) (sys_construct k (cwd E) b), s)"

definition construct ::
  "'h env \<Rightarrow> item_class \<Rightarrow> TDataId \<Rightarrow> TBytes \<Rightarrow> 'h server \<Rightarrow> TDataItem res \<times> 'h server" where
  "construct E k did b s =
     (let (r, s') = body_construct E k b s
      in (map_res (\<lambda>(d, i). \<lparr>it_DId = did, it_Data = d, it_resultCode = ERR_SUCCESS, it_body = i\<rparr>) r,
          s'\<lparr>allocs := allocs s + 1\<rparr>))"

text \<open>
  The factory. Bytes missing at the end of the item are read past the buffer; data of length zero are
  not checked against the dictionary.
\<close>

definition NYI_invalid :: TDataItem where
  "NYI_invalid = \<lparr>it_DId = DId_INVALID, it_Data = [], it_resultCode = ERR_SUCCESS, it_body = I_NYI []\<rparr>"

definition fromBytes ::
  "'h env \<Rightarrow> TBytes \<Rightarrow> 'h server \<Rightarrow> (TDataItem \<times> TError) res \<times> 'h server" where
  "fromBytes E bytes s =
     bindS (GUARD (sizeof_TDataItemHeader \<le> length bytes) ERR_MSG_DATAITEM_TOO_SHORT
              (of_nat (length bytes)) 542 file_TDataItem ''fromBytes'', s)
     (\<lambda>_ s. let did = head_DId bytes in
       bindS (GUARD (isValidDataItemID did) ERR_DId_INVALID (ucast did) 545 file_TDataItem ''fromBytes'', s)
       (\<lambda>_ s. let n = unat (head_dataLength bytes) in
         if length bytes < sizeof_TDataItemHeader + n then (Undef, s)
         else let data = take n (drop sizeof_TDataItemHeader bytes) in
           bindS (if n = 0 then Ok ERR_SUCCESS else validateDataItemPayload did data, s)
           (\<lambda>result s. if result \<noteq> ERR_SUCCESS
              then (Ok (NYI_invalid, result), s\<lparr>allocs := allocs s + 1\<rparr>)
              else case find_DId did of
                     None \<Rightarrow> (Undef, s)
                   | Some e \<Rightarrow> mapS (\<lambda>i. (i, ERR_SUCCESS)) (construct E (Construct e) did data s))))"

subsection \<open>Actions\<close>

text \<open>
  The functions of the dictionary, on the data of the item.
\<close>

definition on_finished :: "(bool \<Rightarrow> 'a res \<times> bool) \<Rightarrow> 'h server \<Rightarrow> 'a res \<times> 'h server" where
  "on_finished f s = (let (r, d) = f (finished s) in (r, s\<lparr>finished := d\<rparr>))"

fun go_run :: "'h env \<Rightarrow> go_fn \<Rightarrow> TBytes \<Rightarrow> 'h server \<Rightarrow> unit res \<times> 'h server" where
  "go_run E Go_BRD_REBOOT buf s = on_finished (BRD_REBOOT_go buf) s"
| "go_run E Go_REG_ClearBits buf s = on_dev (REG_ClearBits_go (lib E) buf) s"
| "go_run E Go_REG_ToggleBits buf s = on_dev (REG_ToggleBits_go (lib E) buf) s"
| "go_run E Go_REG_SetBits buf s = on_dev (REG_SetBits_go (lib E) buf) s"
| "go_run E Go_DAC_Calibrate1 buf s = on_cfg_disk (DAC_Calibrate1_go buf) s"
| "go_run E Go_DAC_Offset1 buf s = on_cfg_disk (DAC_Offset1_go buf) s"
| "go_run E Go_DAC_OffsetAll buf s = on_cfg_disk (DAC_OffsetAll_go buf) s"
| "go_run E Go_DAC_Scale1 buf s = on_cfg_disk (DAC_Scale1_go buf) s"
| "go_run E Go_DAC_ScaleAll buf s = on_cfg_disk (DAC_ScaleAll_go buf) s"

text \<open>\<open>TDataItemBase::Go\<close>, which only the raw items reach.\<close>

definition TDataItemBase_Go :: "'h env \<Rightarrow> TDataItem \<Rightarrow> 'h server \<Rightarrow> TDataItem res \<times> 'h server" where
  "TDataItemBase_Go E item s =
     (case Option.bind (find_DId (it_DId item)) go of
        Some g \<Rightarrow> mapS (\<lambda>_. item) (go_run E g (it_Data item) s)
      | None \<Rightarrow> (Ok (item\<lparr>it_resultCode := ERR_NYI\<rparr>), s))"

fun brd_Go :: "'h env \<Rightarrow> brd_item \<Rightarrow> 'h server \<Rightarrow> brd_item res \<times> 'h server" where
  "brd_Go E (I_FpgaId p) s = mapS I_FpgaId (on_dev (TBRD_FpgaId_Go (lib E) p) s)"
| "brd_Go E (I_DeviceID p) s = mapS I_DeviceID (on_dev (TBRD_DeviceID_Go (lib E) p) s)"
| "brd_Go E (I_Features p) s = mapS I_Features (on_dev_cfg (TBRD_Features_Go (lib E) p) s)"
| "brd_Go E (I_Model b) s = mapS (\<lambda>_. I_Model b) (on_cfg_disk (TBRD_Model_Go b) s)"
| "brd_Go E (I_GetModel b) s = (Ok (I_GetModel b), s)"
| "brd_Go E (I_SerialNumber b) s = mapS (\<lambda>_. I_SerialNumber b) (on_cfg_disk (TBRD_SerialNumber_Go b) s)"
| "brd_Go E (I_GetSerialNumber b) s = (Ok (I_GetSerialNumber b), s)"
| "brd_Go E (I_GetNumberOfAdcChannels p) s =
     (Ok (I_GetNumberOfAdcChannels (TBRD_GetNumberOfAdcChannels_Go (cfg s) p)), s)"
| "brd_Go E (I_NumberOfSubmuxes p) s = (Ok (I_NumberOfSubmuxes p), on_cfg (TBRD_NumberOfSubmuxes_Go p) s)"
| "brd_Go E (I_GetNumberOfSubmuxes p) s = (Ok (I_GetNumberOfSubmuxes (TBRD_GetNumberOfSubmuxes_Go (cfg s) p)), s)"
| "brd_Go E (I_SubmuxScale p) s = (Ok (I_SubmuxScale p), on_cfg (TBRD_SubmuxScale_Go p) s)"
| "brd_Go E (I_SubmuxOffset p) s = (Ok (I_SubmuxOffset p), on_cfg (TBRD_SubmuxOffset_Go p) s)"
| "brd_Go E (I_GetSubmuxScale p) s = (Ok (I_GetSubmuxScale (TBRD_GetSubmuxScale_Go (cfg s) p)), s)"
| "brd_Go E (I_GetSubmuxOffset p) s = (Ok (I_GetSubmuxOffset (TBRD_GetSubmuxOffset_Go (cfg s) p)), s)"

text \<open>The result code is set by the writes only.\<close>

fun reg_Go :: "'h env \<Rightarrow> reg_item \<Rightarrow> TError \<Rightarrow> 'h server \<Rightarrow> (reg_item \<times> TError) res \<times> 'h server" where
  "reg_Go E (I_Read1 p) rc s = mapS (\<lambda>p. (I_Read1 p, rc)) (on_dev (TREG_Read1_Go (lib E) p) s)"
| "reg_Go E (I_Write1 p) rc s =
     (let (rc, h) = TREG_Writes_Go (lib E) p (dev s) in (Ok (I_Write1 p, rc), s\<lparr>dev := h\<rparr>))"
| "reg_Go E (I_ReadBit p) rc s = mapS (\<lambda>p. (I_ReadBit p, rc)) (on_dev (TREG_ReadBit_Go (lib E) p) s)"
| "reg_Go E (I_WriteBit p) rc s = mapS (\<lambda>p. (I_WriteBit p, rc)) (on_dev (TREG_WriteBit_Go (lib E) p) s)"
| "reg_Go E (I_RegClearBit p) rc s = mapS (\<lambda>p. (I_RegClearBit p, rc)) (on_dev (TREG_ClearBit_Go (lib E) p) s)"
| "reg_Go E (I_RegSetBit p) rc s = mapS (\<lambda>p. (I_RegSetBit p, rc)) (on_dev (TREG_SetBit_Go (lib E) p) s)"
| "reg_Go E (I_RegToggleBit p) rc s = mapS (\<lambda>p. (I_RegToggleBit p, rc)) (on_dev (TREG_ToggleBit_Go (lib E) p) s)"

fun dac_Go :: "'h env \<Rightarrow> dac_item \<Rightarrow> 'h server \<Rightarrow> dac_item res \<times> 'h server" where
  "dac_Go E (I_Output1 p) s = mapS I_Output1 (on_dev (TDAC_Output_Go (lib E) p) s)"
| "dac_Go E (I_Output1V p) s = mapS I_Output1V (on_dev (TDAC_OutputV_Go (lib E) p) s)"
| "dac_Go E (I_DacRange1 p) s = mapS I_DacRange1 (on_cfg_disk (TDAC_Range1_Go p) s)"

fun dio_Go :: "'h apci_lib \<Rightarrow> dio_item \<Rightarrow> 'h \<Rightarrow> dio_item res \<times> 'h" where
  "dio_Go L (I_Configure p) h = mapS I_Configure (TDIO_Configure_Go L p h)"
| "dio_Go L (I_Input p) h = mapS I_Input (TDIO_Input_Go L p h)"
| "dio_Go L (I_Output p) h = mapS I_Output (TDIO_Output_Go L p h)"
| "dio_Go L (I_ConfigureBit p) h = mapS I_ConfigureBit (TDIO_ConfigureBit_Go L p h)"
| "dio_Go L (I_InputBit p) h = mapS I_InputBit (TDIO_InputBit_Go L p h)"
| "dio_Go L (I_OutputBit p) h = mapS I_OutputBit (TDIO_OutputBit_Go L p h)"
| "dio_Go L (I_ClearBit p) h = mapS I_ClearBit (TDIO_ClearBit_Go L p h)"
| "dio_Go L (I_SetBit p) h = mapS I_SetBit (TDIO_SetBit_Go L p h)"
| "dio_Go L (I_ToggleBit p) h = mapS I_ToggleBit (TDIO_ToggleBit_Go L p h)"

fun adc_Go :: "'h env \<Rightarrow> adc_item \<Rightarrow> 'h server \<Rightarrow> adc_item res \<times> 'h server" where
  "adc_Go E (I_BaseClock p) s = mapS I_BaseClock (on_dev (TADC_BaseClock_Go (lib E) p) s)"
| "adc_Go E (I_StreamStart p b) s = mapS (\<lambda>_. I_StreamStart p b) (on_dev_adc (TADC_StreamStart_Go (slib E)) s)"
| "adc_Go E I_StreamStop s = mapS (\<lambda>_. I_StreamStop) (on_dev_adc (TADC_StreamStop_Go (slib E)) s)"
| "adc_Go E (I_Differential1 p) s = mapS I_Differential1 (on_dev (TADC_Differential1_Go (lib E) p) s)"
| "adc_Go E (I_DifferentialAll p) s = mapS I_DifferentialAll (on_dev (TADC_DifferentialAll_Go (lib E) p) s)"
| "adc_Go E (I_AdcRange1 p) s = mapS I_AdcRange1 (on_dev (TADC_Range1_Go (lib E) p) s)"
| "adc_Go E (I_AdcRangeAll p) s = mapS I_AdcRangeAll (on_dev (TADC_RangeAll_Go (lib E) p) s)"
| "adc_Go E (I_Scale1 p) s = mapS (\<lambda>_. I_Scale1 p) (on_dev_cfg (TADC_Scale1_Go (lib E) p) s)"
| "adc_Go E (I_ScaleAll p) s = mapS (\<lambda>_. I_ScaleAll p) (on_dev_cfg (TADC_ScaleAll_Go (lib E) p) s)"
| "adc_Go E (I_Offset1 p) s = mapS (\<lambda>_. I_Offset1 p) (on_dev_cfg (TADC_Offset1_Go (lib E) p) s)"
| "adc_Go E (I_OffsetAll p) s = mapS (\<lambda>_. I_OffsetAll p) (on_dev_cfg (TADC_OffsetAll_Go (lib E) p) s)"
| "adc_Go E (I_Calibration1 p) s = mapS (\<lambda>_. I_Calibration1 p) (on_dev_cfg (TADC_Calibration1_Go (lib E) p) s)"
| "adc_Go E (I_CalibrationAll p) s = mapS (\<lambda>_. I_CalibrationAll p) (on_dev_cfg (TADC_CalibrationAll_Go (lib E) p) s)"
| "adc_Go E (I_RawAll b) s = mapS I_RawAll (on_dev (TADC_RawAll_Go (lib E) (tlib E)) s)"
| "adc_Go E (I_CountsAll b) s = mapS I_CountsAll (on_dev (TADC_CountsAll_Go (lib E) (tlib E)) s)"
| "adc_Go E (I_VoltsAll b) s = mapS I_VoltsAll (on_dev (TADC_VoltsAll_Go (fp E) (lib E) (tlib E)) s)"

fun sys_Go :: "'h env \<Rightarrow> sys_item \<Rightarrow> TBytes \<Rightarrow> TError \<Rightarrow> 'h server \<Rightarrow> (sys_item \<times> TError) res \<times> 'h server" where
  "sys_Go E I_UploadFileName d rc s = mapS (\<lambda>_. (I_UploadFileName, rc)) (on_upload (TSYS_UploadFileName_Go d) s)"
| "sys_Go E I_UploadFileData d rc s =
     mapS (\<lambda>_. (I_UploadFileData, rc)) (on_upload (TSYS_UploadFileData_Go (self_update E) d) s)"
| "sys_Go E (I_SysError p) d rc s = (Ok (I_SysError p, ERR_SUCCESS), s)"
| "sys_Go E (I_SysItemError p) d rc s = (Ok (I_SysItemError p, ERR_SUCCESS), s)"

text \<open>The virtual \<open>Go\<close>.\<close>

definition item_Go :: "'h env \<Rightarrow> TDataItem \<Rightarrow> 'h server \<Rightarrow> TDataItem res \<times> 'h server" where
  "item_Go E item s =
     (case it_body item of
        I_Raw b \<Rightarrow> TDataItemBase_Go E item s
      | I_NYI b \<Rightarrow> (Ok item, s)
      | I_Doc \<Rightarrow> (Ok (item\<lparr>it_Data := string_bytes (TDataItemDoc_text (it_DId item))\<rparr>), s)
      | I_DocGet \<Rightarrow> (Ok (item\<lparr>it_Data := string_bytes TDataItemDocGet_text\<rparr>), s)
      | I_BRD i \<Rightarrow> mapS (\<lambda>i. item\<lparr>it_body := I_BRD i\<rparr>) (brd_Go E i s)
      | I_REG i \<Rightarrow> mapS (\<lambda>(i, rc). item\<lparr>it_body := I_REG i, it_resultCode := rc\<rparr>)
          (reg_Go E i (it_resultCode item) s)
      | I_DAC i \<Rightarrow> mapS (\<lambda>i. item\<lparr>it_body := I_DAC i\<rparr>) (dac_Go E i s)
      | I_DIO i \<Rightarrow> mapS (\<lambda>i. item\<lparr>it_body := I_DIO i\<rparr>) (on_dev (dio_Go (lib E) i) s)
      | I_ADC i \<Rightarrow> mapS (\<lambda>i. item\<lparr>it_body := I_ADC i\<rparr>) (adc_Go E i s)
      | I_Hostname p \<Rightarrow> mapS (\<lambda>p. item\<lparr>it_body := I_Hostname p\<rparr>) (on_cfg_disk (TCFG_Hostname_Go (os E) p) s)
      | I_SYS i \<Rightarrow> mapS (\<lambda>(i, rc). item\<lparr>it_body := I_SYS i, it_resultCode := rc\<rparr>)
          (sys_Go E i (it_Data item) (it_resultCode item) s))"

subsection \<open>Serialisation\<close>

fun brd_calcPayload :: "TConfig \<Rightarrow> brd_item \<Rightarrow> bool \<Rightarrow> TBytes" where
  "brd_calcPayload c (I_FpgaId p) r = TBRD_FpgaId_calcPayload p r"
| "brd_calcPayload c (I_DeviceID p) r = TBRD_DeviceID_calcPayload p r"
| "brd_calcPayload c (I_Features p) r = TBRD_Features_calcPayload p r"
| "brd_calcPayload c (I_Model b) r = TBRD_Model_calcPayload c r"
| "brd_calcPayload c (I_GetModel b) r = TBRD_GetModel_calcPayload c r"
| "brd_calcPayload c (I_SerialNumber b) r = TBRD_SerialNumber_calcPayload c r"
| "brd_calcPayload c (I_GetSerialNumber b) r = TBRD_GetSerialNumber_calcPayload c r"
| "brd_calcPayload c (I_GetNumberOfAdcChannels p) r = TBRD_GetNumberOfAdcChannels_calcPayload p r"
| "brd_calcPayload c (I_NumberOfSubmuxes p) r = TBRD_NumberOfSubmuxes_calcPayload p r"
| "brd_calcPayload c (I_GetNumberOfSubmuxes p) r = TBRD_GetNumberOfSubmuxes_calcPayload p r"
| "brd_calcPayload c (I_SubmuxScale p) r = TBRD_SubmuxScale_calcPayload p r"
| "brd_calcPayload c (I_SubmuxOffset p) r = TBRD_SubmuxOffset_calcPayload p r"
| "brd_calcPayload c (I_GetSubmuxScale p) r = TBRD_GetSubmuxScale_calcPayload p r"
| "brd_calcPayload c (I_GetSubmuxOffset p) r = TBRD_GetSubmuxOffset_calcPayload p r"

fun reg_calcPayload :: "reg_item \<Rightarrow> bool \<Rightarrow> TBytes" where
  "reg_calcPayload (I_Read1 p) r = TREG_Read1_calcPayload p r"
| "reg_calcPayload (I_Write1 p) r = TREG_Write1_calcPayload p r"
| "reg_calcPayload (I_ReadBit p) r = TREG_ReadBit_calcPayload p r"
| "reg_calcPayload (I_WriteBit p) r = TREG_WriteBit_calcPayload p r"
| "reg_calcPayload (I_RegClearBit p) r = TREG_ClearBit_calcPayload p r"
| "reg_calcPayload (I_RegSetBit p) r = TREG_SetBit_calcPayload p r"
| "reg_calcPayload (I_RegToggleBit p) r = TREG_ToggleBit_calcPayload p r"

fun dac_calcPayload :: "fpu \<Rightarrow> dac_item \<Rightarrow> bool \<Rightarrow> TBytes" where
  "dac_calcPayload F (I_Output1 p) r = TDAC_Output_calcPayload p r"
| "dac_calcPayload F (I_Output1V p) r = TDAC_OutputV_calcPayload F p r"
| "dac_calcPayload F (I_DacRange1 p) r = TDAC_Range1_calcPayload p r"

fun dio_calcPayload :: "dio_item \<Rightarrow> bool \<Rightarrow> TBytes" where
  "dio_calcPayload (I_Configure p) r = TDIO_Configure_calcPayload p r"
| "dio_calcPayload (I_Input p) r = TDIO_Input_calcPayload p r"
| "dio_calcPayload (I_Output p) r = TDIO_Output_calcPayload p r"
| "dio_calcPayload (I_ConfigureBit p) r = TDIO_ConfigureBit_calcPayload p r"
| "dio_calcPayload (I_InputBit p) r = TDIO_InputBit_calcPayload p r"
| "dio_calcPayload (I_OutputBit p) r = TDIO_OutputBit_calcPayload p r"
| "dio_calcPayload (I_ClearBit p) r = TDIO_ClearBit_calcPayload p r"
| "dio_calcPayload (I_SetBit p) r = TDIO_SetBit_calcPayload p r"
| "dio_calcPayload (I_ToggleBit p) r = TDIO_ToggleBit_calcPayload p r"

fun adc_calcPayload :: "adc_item \<Rightarrow> bool \<Rightarrow> TBytes" where
  "adc_calcPayload (I_BaseClock p) r = TADC_BaseClock_calcPayload p r"
| "adc_calcPayload (I_StreamStart p b) r = b"
| "adc_calcPayload I_StreamStop r = TADC_StreamStop_calcPayload r"
| "adc_calcPayload (I_Differential1 p) r = TADC_Differential1_calcPayload p r"
| "adc_calcPayload (I_DifferentialAll p) r = TADC_DifferentialAll_calcPayload p r"
| "adc_calcPayload (I_AdcRange1 p) r = TADC_Range1_calcPayload p r"
| "adc_calcPayload (I_AdcRangeAll p) r = TADC_RangeAll_calcPayload p r"
| "adc_calcPayload (I_Scale1 p) r = TADC_Scale1_calcPayload p r"
| "adc_calcPayload (I_ScaleAll p) r = TADC_ScaleAll_calcPayload p r"
| "adc_calcPayload (I_Offset1 p) r = TADC_Offset1_calcPayload p r"
| "adc_calcPayload (I_OffsetAll p) r = TADC_OffsetAll_calcPayload p r"
| "adc_calcPayload (I_Calibration1 p) r = TADC_Calibration1_calcPayload p r"
| "adc_calcPayload (I_CalibrationAll p) r = TADC_CalibrationAll_calcPayload p r"
| "adc_calcPayload (I_RawAll b) r = b"
| "adc_calcPayload (I_CountsAll b) r = b"
| "adc_calcPayload (I_VoltsAll b) r = b"

fun sys_calcPayload :: "sys_item \<Rightarrow> TBytes \<Rightarrow> bool \<Rightarrow> TBytes" where
  "sys_calcPayload I_UploadFileName d r = d"
| "sys_calcPayload I_UploadFileData d r = d"
| "sys_calcPayload (I_SysError p) d r = TSYS_Error_calcPayload p r"
| "sys_calcPayload (I_SysItemError p) d r = TSYS_ItemError_calcPayload p r"

text \<open>The virtual \<open>calcPayload\<close>; the model and serial number items read the configuration.\<close>

definition calcPayload :: "fpu \<Rightarrow> TConfig \<Rightarrow> TDataItem \<Rightarrow> bool \<Rightarrow> TBytes" where
  "calcPayload F c item r =
     (case it_body item of
        I_Raw b \<Rightarrow> b
      | I_NYI b \<Rightarrow> b
      | I_Doc \<Rightarrow> it_Data item
      | I_DocGet \<Rightarrow> it_Data item
      | I_BRD i \<Rightarrow> brd_calcPayload c i r
      | I_REG i \<Rightarrow> reg_calcPayload i r
      | I_DAC i \<Rightarrow> dac_calcPayload F i r
      | I_DIO i \<Rightarrow> dio_calcPayload i r
      | I_ADC i \<Rightarrow> adc_calcPayload i r
      | I_Hostname p \<Rightarrow> TCFG_Hostname_calcPayload p r
      | I_SYS i \<Rightarrow> sys_calcPayload i (it_Data item) r)"

text \<open>\<open>AsBytes\<close>: the length is cut to sixteen bits, the data are not; the object keeps the data.\<close>

definition AsBytes :: "fpu \<Rightarrow> TConfig \<Rightarrow> TDataItem \<Rightarrow> bool \<Rightarrow> TBytes \<times> TDataItem" where
  "AsBytes F c item r =
     (let data = calcPayload F c item r
      in (stuff (stuff [] (it_DId item)) (of_nat (length data) :: u16) @ data, item\<lparr>it_Data := data\<rparr>))"

definition addData :: "u8 \<Rightarrow> TDataItem \<Rightarrow> TDataItem" where
  "addData b item = item\<lparr>it_Data := it_Data item @ [b]\<rparr>"

text \<open>\<open>setDId\<close> checks its argument, and then assigns the member to itself.\<close>

definition setDId :: "TDataId \<Rightarrow> TDataItem \<Rightarrow> TDataItem res" where
  "setDId did item =
     bindR (GUARD (isValidDataItemID did) ERR_MSG_DATAITEM_ID_UNKNOWN (ucast did) 582 file_TDataItem ''setDId'')
       (\<lambda>_. Ok (item\<lparr>it_DId := it_DId item\<rparr>))"

definition isValidDataLength :: "TDataItem \<Rightarrow> bool res" where
  "isValidDataLength item =
     bindR (getMinLength (it_DId item)) (\<lambda>lo. bindR (getMaxLength (it_DId item)) (\<lambda>hi.
       let len = (of_nat (length (it_Data item)) :: u16) in Ok (lo \<le> len \<and> len \<le> hi)))"

subsection \<open>A server to run on\<close>

text \<open>
  An environment and a state for the examples: the registers store, the calls of the system succeed,
  and a floating-point operation gives its first operand.
\<close>

definition plain_fpu :: fpu where
  "plain_fpu = \<lparr>f_add = \<lambda>a b. a, f_sub = \<lambda>a b. a, f_mul = \<lambda>a b. a, f_div = \<lambda>a b. a,
     f_lt = (<), f_le = (\<le>), f_of_f32 = ucast, f_to_f32 = ucast, f_of_int = word_of_int, f_lround = uint\<rparr>"

definition bank_env :: "bank env" where
  "bank_env = \<lparr>lib = bank_lib,
     slib = \<lparr>apci_dma_transfer_size = \<lambda>d n k h. (0, h), apci_start_dma = \<lambda>h. (0, h),
             apci_cancel_irq = \<lambda>d h. (0, h), pthread_create_worker = \<lambda>h. (0, h)\<rparr>,
     tlib = still_time, fp = plain_fpu,
     os = \<lparr>os_pick = \<lambda>_. ''XXXXXX'', os_strerror = \<lambda>_. ''error''\<rparr>,
     cwd = ''/'', self_update = \<lambda>_ s. s, garbage = \<lambda>_ _. 0, after_ids = replicate 17 0\<rparr>"

definition bank_server :: "bank server" where
  "bank_server = \<lparr>dev = \<lambda>_. 0, cfg = blank_config, disk = empty_fs,
     upl = \<lparr>up_open = False, up_fail = False, up_filename = []\<rparr>, finished = False, adc = adc_idle,
     allocs = 0\<rparr>"

end
