(* ===== verification/ItemCodec.thy ===== *)
theory ItemCodec
  imports DataItem
begin

text \<open>
  What the factory of the data items accepts and how it fails, and the agreement of the classes'
  constructors with their serialisation.
\<close>

subsection \<open>Results of the factory\<close>

lemma mapS_eq_Ok [outcome_simps]: "mapS f m = (Ok y, t) \<longleftrightarrow> (\<exists>x. m = (Ok x, t) \<and> y = f x)"
  by (cases m; cases "fst m") (auto simp: mapS_def)

lemma map_res_eq_Ok [outcome_simps]: "map_res f r = Ok y \<longleftrightarrow> (\<exists>x. r = Ok x \<and> y = f x)"
  by (cases r) auto

lemma fst_mapS [simp, outcome_simps]: "fst (mapS f m) = map_res f (fst m)" "snd (mapS f m) = snd m"
  by (simp_all add: mapS_def)

lemma validate_known:
  assumes "find_DId did = Some e" and "length data \<le> 65535"
  shows "validateDataItemPayload did data =
    Ok (if unat (minLen e) \<le> length data \<and> length data \<le> unat (maxLen e) then ERR_SUCCESS
        else ERR_MSG_PAYLOAD_DATAITEM_LEN_MISMATCH)"
proof -
  have "unat (of_nat (length data) :: u16) = length data"
    using assms(2) by (simp add: unsigned_of_nat take_bit_nat_eq_self)
  then show ?thesis
    using assms(1)
    by (simp add: validateDataItemPayload_def getMinLength_def getMaxLength_def word_le_nat_alt)
qed

text \<open>What the factory does with a complete item, by the dictionary.\<close>

lemma fromBytes_complete:
  assumes "4 \<le> length bytes" and "4 + unat (head_dataLength bytes) \<le> length bytes"
    and "find_DId (head_DId bytes) = Some e"
  shows "fromBytes E bytes s =
    (let n = unat (head_dataLength bytes) in
     if n = 0 \<or> unat (minLen e) \<le> n \<and> n \<le> unat (maxLen e)
     then mapS (\<lambda>i. (i, ERR_SUCCESS)) (construct E (Construct e) (head_DId bytes) (take n (drop 4 bytes)) s)
     else (Ok (NYI_invalid, ERR_MSG_PAYLOAD_DATAITEM_LEN_MISMATCH), s\<lparr>allocs := allocs s + 1\<rparr>))"
proof -
  let ?n = "unat (head_dataLength bytes)"
  have len: "length (take ?n (drop 4 bytes)) = ?n" using assms(2) by simp
  have "?n \<le> 65535" by (rule head_dataLength_le)
  then have "validateDataItemPayload (head_DId bytes) (take ?n (drop 4 bytes)) =
      Ok (if unat (minLen e) \<le> ?n \<and> ?n \<le> unat (maxLen e) then ERR_SUCCESS
          else ERR_MSG_PAYLOAD_DATAITEM_LEN_MISMATCH)"
    using validate_known [OF assms(3), of "take ?n (drop 4 bytes)"] unfolding len by blast
  then show ?thesis
    using assms by (simp add: fromBytes_def isValidDataItemID_def Let_def)
qed

lemma fromBytes_short:
  assumes "length bytes < 4"
  shows "\<exists>what. fromBytes E bytes s = (Throw (LogicError what), s)"
  using assms by (simp add: fromBytes_def GUARD_def err_text_def err_msg_def)

lemma fromBytes_unknown:
  assumes "4 \<le> length bytes" and "find_DId (head_DId bytes) = None"
  shows "\<exists>what. fromBytes E bytes s = (Throw (LogicError what), s)"
  using assms
  by (simp add: fromBytes_def isValidDataItemID_def GUARD_def err_text_def err_msg_def Let_def)

lemma fromBytes_truncated:
  assumes "4 \<le> length bytes" and "find_DId (head_DId bytes) = Some e"
    and "length bytes < 4 + unat (head_dataLength bytes)"
  shows "fromBytes E bytes s = (Undef, s)"
  using assms by (simp add: fromBytes_def isValidDataItemID_def Let_def)

subsection \<open>Classes that send back what they were built from\<close>

text \<open>
  The data lengths for which the request form of an object of the class is the data it was built
  from, whatever the configuration. Left out are the classes whose payload is a value of the board,
  of the configuration or of the calibration.
\<close>

fun brd_echo :: "brd_class \<Rightarrow> nat \<Rightarrow> bool" where
  "brd_echo C_TBRD_NumberOfSubmuxes n = (n = 1)"
| "brd_echo C_TBRD_GetNumberOfAdcChannels n = (n = 1)"
| "brd_echo C_TBRD_GetNumberOfSubmuxes n = (n = 1)"
| "brd_echo C_TBRD_SubmuxScale n = (n = 6)"
| "brd_echo C_TBRD_SubmuxOffset n = (n = 6)"
| "brd_echo C_TBRD_GetSubmuxScale n = (n = 2)"
| "brd_echo C_TBRD_GetSubmuxOffset n = (n = 2)"
| "brd_echo _ n = False"

fun reg_echo :: "reg_class \<Rightarrow> nat \<Rightarrow> bool" where
  "reg_echo C_TREG_Read1 n = (n = 1)"
| "reg_echo C_TREG_Write1 n = True"
| "reg_echo C_TREG_WriteBit n = (n = 3)"
| "reg_echo _ n = (n = 2)"

fun dio_echo :: "dio_class \<Rightarrow> nat \<Rightarrow> bool" where
  "dio_echo C_TDIO_Input n = (n = 0)"
| "dio_echo C_TDIO_InputBit n = (n = 1)"
| "dio_echo C_TDIO_ClearBit n = (n = 1)"
| "dio_echo C_TDIO_SetBit n = (n = 1)"
| "dio_echo C_TDIO_ToggleBit n = (n = 1)"
| "dio_echo _ n = (n = 2)"

fun adc_echo :: "adc_class \<Rightarrow> nat \<Rightarrow> bool" where
  "adc_echo C_TADC_BaseClock n = (n = 4)"
| "adc_echo C_TADC_StreamStop n = (n = 0)"
| "adc_echo C_TADC_Differential1 n = (n = 2)"
| "adc_echo C_TADC_DifferentialAll n = (n = 8)"
| "adc_echo C_TADC_Range1 n = (n = 2)"
| "adc_echo C_TADC_RangeAll n = (n = 8)"
| "adc_echo C_TADC_Scale1 n = (n = 5)"
| "adc_echo C_TADC_ScaleAll n = (n = 32)"
| "adc_echo C_TADC_Offset1 n = (n = 5)"
| "adc_echo C_TADC_OffsetAll n = (n = 32)"
| "adc_echo C_TADC_Calibration1 n = (n = 9)"
| "adc_echo C_TADC_CalibrationAll n = (n = 64)"
| "adc_echo _ n = True"

fun class_echo :: "item_class \<Rightarrow> nat \<Rightarrow> bool" where
  "class_echo C_TDataItemRaw n = True"
| "class_echo C_TDataItemNYI n = True"
| "class_echo C_TDataItemDoc n = (n = 0)"
| "class_echo C_TDataItemDocGet n = (n = 0)"
| "class_echo (BRD k) n = brd_echo k n"
| "class_echo (REG k) n = reg_echo k n"
| "class_echo (DAC k) n = False"
| "class_echo (DIO k) n = dio_echo k n"
| "class_echo (ADC k) n = adc_echo k n"
| "class_echo (CFG k) n = False"
| "class_echo (SYS k) n = (k = C_TSYS_UploadFileData \<or> (k = C_TSYS_Error \<or> k = C_TSYS_ItemError) \<and> n = 12)"

lemma list_of_length_6: "length xs = 6 \<Longrightarrow> xs ! 0 # xs ! Suc 0 # take 4 (drop 2 xs) = xs"
  by (cases xs; cases "tl xs") auto

lemma brd_echo: "brd_echo k (length b) \<Longrightarrow> brd_construct k g b = Ok i \<Longrightarrow> brd_calcPayload c i False = b"
  using list_of_length_1 [of b] list_of_length_2 [of b] list_of_length_6 [of b]
  by (cases k) (auto simp: TBRD_Submux_new_def TBRD_Submux_calcPayload_def TBRD_GetSubmux_new_def
      SubmuxParams_init_def TBRD_GetSubmux_calcPayload_def TBRD_NumberOfSubmuxes_new_def
      TBRD_NumberOfSubmuxes_calcPayload_def TBRD_GetNumberOfSubmuxes_new_def
      TBRD_GetNumberOfAdcChannels_new_def TBRD_GetNumberOfAdcChannels_calcPayload_def
      outcome_simps stuff8 stuff_le_read TDataItem_params_nth Let_def)

lemma reg_echo: "reg_echo k (length b) \<Longrightarrow> reg_construct k g b = Ok i \<Longrightarrow> reg_calcPayload i False = b"
  by (cases k) (auto simp: byte_simps outcome_simps)

lemma dio_echo: "dio_echo k (length b) \<Longrightarrow> dio_calcPayload (dio_construct k g b) False = b"
  by (cases k) (simp_all add: byte_simps)

lemma BaseClock_echo: "length b = 4 \<Longrightarrow> TADC_BaseClock_new b = Ok p \<Longrightarrow> TADC_BaseClock_calcPayload p r = b"
  by (auto simp: TADC_BaseClock_new_def TADC_BaseClock_calcPayload_def stuff_le_read)

lemma adc_echo:
  "adc_echo k (length b) \<Longrightarrow> adc_construct k g b a = (Ok i, a') \<Longrightarrow> adc_calcPayload i False = b"
  by (cases k) (auto simp: byte_simps outcome_simps BaseClock_echo TADC_StreamStop_calcPayload_def)

lemma body_echo:
  assumes "class_echo k (length b)" and "body_construct E k b s = (Ok (d, i), s')"
  shows "calcPayload F c \<lparr>it_DId = did, it_Data = d, it_resultCode = rc, it_body = i\<rparr> False = b"
proof (cases k)
  case (SYS k')
  then show ?thesis
    using assms by (cases k') (auto simp: calcPayload_def outcome_simps sys_error_echo)
next
  case (ADC k')
  with assms(2) obtain x a where "adc_construct k' (garbage E (allocs s)) b (adc s) = (Ok x, a)"
    "i = I_ADC x"
    by (auto simp: outcome_simps split: prod.splits)
  then show ?thesis using assms(1) ADC adc_echo by (auto simp: calcPayload_def)
qed (use assms in \<open>auto simp: calcPayload_def outcome_simps brd_echo reg_echo dio_echo\<close>)

lemma find_examples:
  "find_DId DId_DIO_SetBit = Some \<lparr>minLen = 1, typLen = 1, maxLen = 1, Construct = DIO C_TDIO_SetBit,
     desc = ''DIO_SetBit(u8 bitNumber)'', go = None\<rparr>"
  "find_DId DId_REG_ClearBits = Some \<lparr>minLen = 2, typLen = 5, maxLen = 5, Construct = C_TDataItemRaw,
     desc = ''REG_ClearBits(u8 ofs, u8|u32 bitsToClear)'', go = Some Go_REG_ClearBits\<rparr>"
  by (simp_all only: find_DId_entry) (simp_all add: DIdDict_def)

definition not_echoing :: "item_class list" where
  "not_echoing = [BRD C_TBRD_DeviceID, BRD C_TBRD_Features, BRD C_TBRD_FpgaId, BRD C_TBRD_Model,
     BRD C_TBRD_GetModel, BRD C_TBRD_SerialNumber, BRD C_TBRD_GetSerialNumber,
     BRD C_TBRD_GetNumberOfAdcChannels, BRD C_TBRD_GetNumberOfSubmuxes, DAC C_TDAC_Output,
     DAC C_TDAC_OutputV, DAC C_TDAC_Range1, ADC C_TADC_BaseClock, CFG C_TCFG_Hostname,
     SYS C_TSYS_UploadFileName, SYS C_TSYS_Error, SYS C_TSYS_ItemError]"

lemma dict_echo: "list_all (\<lambda>(d, e). Construct e \<in> set not_echoing \<or>
    (minLen e = maxLen e \<and> class_echo (Construct e) (unat (minLen e))) \<or>
    Construct e \<in> {C_TDataItemRaw, C_TDataItemNYI, REG C_TREG_Write1, SYS C_TSYS_UploadFileData}) DIdDict"
  by (simp add: DIdDict_def not_echoing_def)

lemma dict_echo_length:
  assumes "find_DId did = Some e" and "Construct e \<notin> set not_echoing"
    and "unat (minLen e) \<le> n" and "n \<le> unat (maxLen e)"
  shows "class_echo (Construct e) n"
proof -
  have "(did, e) \<in> set DIdDict" using assms(1) by (simp add: find_DId_entry)
  then show ?thesis using dict_echo assms(2-) by (fastforce simp: list_all_iff)
qed

lemma dict_Write1: "list_all (\<lambda>(d, e). Construct e = REG C_TREG_Write1 \<longrightarrow> maxLen e = 5) DIdDict"
  by (simp add: DIdDict_def)

lemma fromBytes_AsBytes_core:
  assumes "fromBytes E bytes s = (Ok (item, ERR_SUCCESS), s')"
    and "find_DId (head_DId bytes) = Some e" and "Construct e \<notin> set not_echoing"
    and "minLen e \<le> head_dataLength bytes" and "head_dataLength bytes \<le> maxLen e"
  shows "fst (AsBytes F c item False) = take (4 + unat (head_dataLength bytes)) bytes"
proof -
  let ?n = "unat (head_dataLength bytes)" and ?did = "head_DId bytes"
  let ?data = "take ?n (drop 4 bytes)"
  have len: "4 \<le> length bytes" using assms(1) fromBytes_short [of bytes E s] by fastforce
  then have full: "4 + ?n \<le> length bytes"
    using assms(1) fromBytes_truncated [OF _ assms(2), of E s] by fastforce
  have dlen: "length ?data = ?n" using full by simp
  have echo: "class_echo (Construct e) (length ?data)"
    unfolding dlen using dict_echo_length [OF assms(2,3)] assms(4,5) by (simp add: word_le_nat_alt)
  have "mapS (\<lambda>i. (i, ERR_SUCCESS)) (construct E (Construct e) ?did ?data s) =
      (Ok (item, ERR_SUCCESS), s')"
    using assms(1) fromBytes_complete [OF len full assms(2), of E s] assms(4,5)
    by (simp add: Let_def word_le_nat_alt)
  then have "construct E (Construct e) ?did ?data s = (Ok item, s')" by (auto simp: outcome_simps)
  then obtain d i s1 where body: "body_construct E (Construct e) ?data s = (Ok (d, i), s1)"
    and item: "item = \<lparr>it_DId = ?did, it_Data = d, it_resultCode = ERR_SUCCESS, it_body = i\<rparr>"
    by (auto simp: construct_def outcome_simps split: prod.splits)
  have "calcPayload F c item False = ?data" "it_DId item = ?did"
    unfolding item using body_echo [OF echo body] by simp_all
  then have "fst (AsBytes F c item False) =
      stuff [] ?did @ stuff [] (head_dataLength bytes) @ ?data"
    using dlen by (simp add: AsBytes_def Let_def stuff_append [of "stuff [] _"])
  moreover have "take (4 + ?n) bytes = take 4 bytes @ ?data" by (rule take_add)
  moreover have "stuff [] ?did @ stuff [] (head_dataLength bytes) = take 4 bytes"
    using arg_cong [OF header_split [OF len], of "take 4"] by simp
  ultimately show ?thesis by (metis append.assoc)
qed

subsection \<open>Properties\<close>





subsection \<open>Safety of the constructors\<close>

lemma error_code_simps [simp]: "ERR_DId_BAD_PARAM \<in> set error_codes" "ERR_DId_BAD_OFFSET \<in> set error_codes"
  "ERR_MSG_PAYLOAD_DATAITEM_LEN_MISMATCH \<in> set error_codes" "ERR_DId_INVALID \<in> set error_codes"
  "ERR_MSG_DATAITEM_TOO_SHORT \<in> set error_codes"
  by (simp_all add: error_codes_def)

text \<open>The ranges of the converters are ones the code knows.\<close>

definition dac_ranges_ok :: "TConfig \<Rightarrow> bool" where
  "dac_ranges_ok c \<longleftrightarrow> TConfig_ok c \<and> (\<forall>r \<in> set (dacRanges c). 0 \<le> DacRangeIndexFromCode r)"

lemma volts_safe: "dac_ranges_ok c \<Longrightarrow> ch < 4 \<Longrightarrow> safe (DACVoltsToCounts F c ch v)"
  by (simp add: DACVoltsToCounts_def dac_ranges_ok_def TConfig_ok_def Let_def split_beta not_less)

lemma parse_safe:
  assumes "dac_ranges_ok c"
  shows "safe (DAC_parseBytes l1 l2 F c b p)"
proof (cases "b \<noteq> [] \<and> b ! 0 < 4")
  case True
  then have "unat (b ! 0) < 4" "1 \<le> length b" by (simp_all add: word_less_nat_alt Suc_leI)
  with True assms show ?thesis
    by (simp add: DAC_parseBytes_def Let_def safe_bindR volts_safe)
next
  case False
  then show ?thesis by (cases b) (simp_all add: DAC_parseBytes_def Let_def safe_bindR outcome_simps)
qed

lemma dac_construct_safe: "dac_ranges_ok c \<Longrightarrow> safe (dac_construct k F c b)"
  by (cases k) (auto simp: TDAC_Output_new_def TDAC_OutputV_new_def TDAC_Range1_new_def parse_safe
      safe_bindR Let_def)

lemma reg_construct_safe: "k = C_TREG_Write1 \<longrightarrow> length b < 24 \<Longrightarrow> safe (reg_construct k g b)"
  by (cases k) (auto simp: TREG_Write1_new_def safe_bindR Let_def)

lemma adc_construct_safe: "safe (fst (adc_construct k g b a))"
  by (cases k) (auto simp: TADC_BaseClock_new_def TADC_StreamStart_new_def safe_bindR Let_def)

lemma construct_safe:
  assumes "dac_ranges_ok (cfg s)" and "k = REG C_TREG_Write1 \<longrightarrow> length b < 24"
  shows "safe (fst (construct E k did b s))"
proof -
  have brd: "safe (brd_construct k g b)" for k g
    by (cases k) (auto simp: TBRD_GetNumberOfAdcChannels_new_def safe_bindR)
  have sys: "safe (sys_construct k d b)" for k d
    by (cases k) (auto simp: TSYS_UploadFileName_new_def sanitizePath_def fs_absolute_def safe_bindR Let_def)
  have "safe (fst (body_construct E k b s))"
    using assms brd sys dac_construct_safe [of "cfg s"] reg_construct_safe adc_construct_safe
    by (cases k) (auto simp: split_beta Let_def)
  then show ?thesis by (simp add: construct_def split_beta Let_def)
qed


lemma dac_ranges_ok_blank: "dac_ranges_ok blank_config"
  by (simp add: dac_ranges_ok_def) (simp add: blank_config_def InitConfig_def DacRangeIndexFromCode_def)


text \<open>
  C29: Data of length zero are not validated. For each of the dictionary's anonymous actions that reads
  arguments, a bare header (id, length zero) is accepted by the factory although the dictionary asks for
  at least two bytes, and the action then reads through a null pointer.
\<close>

theorem zero_length_items_read_null:
  assumes "did \<in> {DId_BRD_REBOOT, DId_REG_ClearBits, DId_REG_ToggleBits, DId_REG_SetBits,
      DId_DAC_Calibrate1, DId_DAC_Offset1, DId_DAC_Scale1}"
  shows "\<exists>item s'. fromBytes E (stuff (stuff [] did) (0 :: u16)) s = (Ok (item, ERR_SUCCESS), s') \<and>
      (\<exists>e. find_DId did = Some e \<and> 2 \<le> minLen e) \<and> fst (item_Go E item s') = Undef"
proof -
  let ?b = "stuff (stuff [] did) (0 :: u16)"
  have "\<exists>e g. find_DId did = Some e \<and> 2 \<le> minLen e \<and> Construct e = C_TDataItemRaw \<and> go e = Some g \<and>
      fst (go_run E g [] (s\<lparr>allocs := allocs s + 1\<rparr>)) = Undef"
    using assms by (elim insertE emptyE; hypsubst; simp only: find_DId_entry;
        simp add: DIdDict_def on_finished_def on_dev_def on_cfg_disk_def BRD_REBOOT_go_def REG_ClearBits_go_def
          REG_ToggleBits_go_def REG_SetBits_go_def DAC_Calibrate1_go_def DAC_Offset1_go_def DAC_Scale1_go_def
          split_beta word_le_nat_alt)
  then obtain e g where e: "find_DId did = Some e" "2 \<le> minLen e" "Construct e = C_TDataItemRaw" "go e = Some g"
    "fst (go_run E g [] (s\<lparr>allocs := allocs s + 1\<rparr>)) = Undef"
    by blast
  have head: "head_DId ?b = did" "head_dataLength ?b = 0" "length ?b = 4"
    using head_DId_stuff [of did "stuff [] (0 :: u16)"] head_dataLength_stuff [of did 0 "[]"]
    by (simp_all add: stuff_append [of "stuff [] did"])
  let ?item = "\<lparr>it_DId = did, it_Data = [], it_resultCode = ERR_SUCCESS, it_body = I_Raw []\<rparr>"
  have "fromBytes E ?b s = (Ok (?item, ERR_SUCCESS), s\<lparr>allocs := allocs s + 1\<rparr>)"
    using fromBytes_complete [of ?b e E s] head e by (simp add: construct_def mapS_def)
  moreover have "fst (item_Go E ?item (s\<lparr>allocs := allocs s + 1\<rparr>)) = Undef"
    using e by (simp add: item_Go_def TDataItemBase_Go_def)
  ultimately show ?thesis using e(1,2) by blast
qed

theorem zero_length_items_read_null_witness:
  "\<exists>item s'. fromBytes bank_env (stuff (stuff [] DId_REG_SetBits) (0 :: u16)) bank_server = (Ok (item, ERR_SUCCESS), s') \<and>
     fst (item_Go bank_env item s') = Undef"
  using zero_length_items_read_null [of DId_REG_SetBits bank_env bank_server] by blast

end
