(* ===== verification/Message.thy ===== *)
theory Message
  imports ItemCodec
begin

text \<open>
  Messages (\<^verbatim>\<open>TMessage.h\<close>, \<^verbatim>\<open>TMessage.cpp\<close>): the ids, the checksum, the two validators no part of the
  server calls, the parser and the serialiser.
\<close>

subsection \<open>Ids and checksum\<close>

definition ValidMessageIDs :: "u8 list" where
  "ValidMessageIDs = [0x51, 0x43, 0x4D, 0x52, 0x58, 0x45, 0x48]"

abbreviation (input) MId_Q :: u8 where "MId_Q \<equiv> 0x51"
abbreviation (input) MId_C :: u8 where "MId_C \<equiv> 0x43"
abbreviation (input) MId_M :: u8 where "MId_M \<equiv> 0x4D"
abbreviation (input) MId_R :: u8 where "MId_R \<equiv> 0x52"
abbreviation (input) MId_X :: u8 where "MId_X \<equiv> 0x58"
abbreviation (input) MId_E :: u8 where "MId_E \<equiv> 0x45"
abbreviation (input) MId_H :: u8 where "MId_H \<equiv> 0x48"

text \<open>
  The loop runs to the size of the vector object (24 bytes here), past the seven ids it holds: the
  rest are the bytes that happen to follow them.
\<close>

definition isValidMessageID :: "TBytes \<Rightarrow> u8 \<Rightarrow> bool" where
  "isValidMessageID after mid = list_ex (\<lambda>b. b = mid) (take 24 (ValidMessageIDs @ after))"

definition calculateChecksum :: "TBytes \<Rightarrow> u8" where
  "calculateChecksum msg = foldl (\<lambda>checksum aByte. checksum + aByte) 0 msg"

lemma calculateChecksum_sum: "calculateChecksum bs = byte_sum bs"
  using foldl_plus_byte_sum [of 0 bs] by (simp add: calculateChecksum_def)

lemma ValidMessageIDs_valid:
  "mid \<in> set ValidMessageIDs \<Longrightarrow> isValidMessageID after mid"
  by (auto simp: isValidMessageID_def list_ex_iff ValidMessageIDs_def)

subsection \<open>Validators\<close>

text \<open>\<open>slicing\<close> takes both ends; a last element beyond the vector is read out of bounds.\<close>

definition slicing :: "'a list \<Rightarrow> nat \<Rightarrow> nat \<Rightarrow> 'a list res" where
  "slicing v Start End = (if End + 1 \<le> length v then Ok (take (End + 1 - Start) (drop Start v)) else Undef)"

function validatePayload :: "TBytes \<Rightarrow> TError res" where
  "validatePayload Payload =
     (if length Payload = 1 then Ok ERR_SUCCESS
      else if length Payload < 4 then Ok ERR_MSG_DATAITEM_TOO_SHORT
      else let DataItemSize = sizeof_TDataItemHeader + unat (head_dataLength Payload) in
        if length Payload < DataItemSize then Ok ERR_MSG_PAYLOAD_DATAITEM_LEN_MISMATCH
        else case bindR (slicing Payload 0 DataItemSize) validateDataItem of
               Ok result \<Rightarrow>
                 if result = 0 \<and> DataItemSize < length Payload then validatePayload (drop DataItemSize Payload)
                 else Ok result
             | Throw e \<Rightarrow> Throw e | Undef \<Rightarrow> Undef | Hang \<Rightarrow> Hang)"
  by pat_completeness auto
termination by (relation "measure length") auto

declare validatePayload.simps [simp del]

definition validateMessage :: "TBytes \<Rightarrow> TBytes \<Rightarrow> TError res" where
  "validateMessage after buf =
     (if length buf < unat minimumMessageLength then Ok ERR_MSG_TOO_SHORT
      else if \<not> isValidMessageID after (head_type buf) then Ok ERR_MSG_ID_UNKNOWN
      else let statedMessageLength = minimumMessageLength + head_payload_size buf in
        if length buf < unat statedMessageLength then Ok ERR_MSG_LEN_MISMATCH
        else if calculateChecksum buf \<noteq> 0 then Ok ERR_MSG_CHECKSUM
        else validatePayload (drop sizeof_TMessageHeader buf))"

subsection \<open>Messages\<close>

text \<open>The items are shared pointers, so an item may be null in the type.\<close>

record TMessage =
  Id :: u8
  DataItems :: "TDataItem option list"

definition TMessage_default :: TMessage where
  "TMessage_default = \<lparr>Id = 0, DataItems = []\<rparr>"

definition setMId :: "TBytes \<Rightarrow> u8 \<Rightarrow> TMessage \<Rightarrow> TMessage res" where
  "setMId after mid m =
     (if \<not> isValidMessageID after mid then Throw (LogicError ''ERR_MSG_ID_UNKNOWN'') else Ok (m\<lparr>Id := mid\<rparr>))"

definition TMessage_new :: "TBytes \<Rightarrow> u8 \<Rightarrow> TDataItem option list \<Rightarrow> TMessage res" where
  "TMessage_new after mid Payload = bindR (setMId after mid TMessage_default) (\<lambda>m. Ok (m\<lparr>DataItems := Payload\<rparr>))"

definition addDataItem :: "TDataItem option \<Rightarrow> TMessage \<Rightarrow> TMessage" where
  "addDataItem item m = m\<lparr>DataItems := DataItems m @ [item]\<rparr>"

subsection \<open>Parsing\<close>

function parse_loop ::
  "'h env \<Rightarrow> TBytes \<Rightarrow> u32 \<Rightarrow> TDataItem option list \<Rightarrow> 'h server \<Rightarrow> (TDataItem option list \<times> TError) res \<times> 'h server"
where
  "parse_loop E bytes payload_length dataItems s =
     (if payload_length < 4 then (Ok (dataItems, ERR_SUCCESS), s)
      else if length bytes < sizeof_TDataItemHeader then (Undef, s)
      else let DataItemLength = 4 + ucast (head_dataLength bytes) in
        if payload_length < DataItemLength
        then (Ok (dataItems, ERR_MSG_PAYLOAD_DATAITEM_LEN_MISMATCH), s)
        else case fromBytes E bytes s of
               (Ok (item, result), s) \<Rightarrow>
                 if result \<noteq> ERR_SUCCESS then (Ok (dataItems, result), s)
                 else parse_loop E (drop (unat DataItemLength) bytes) (payload_length - DataItemLength)
                        (dataItems @ [Some item]) s
             | (Throw e, s) \<Rightarrow> (Throw e, s)
             | (Undef, s) \<Rightarrow> (Undef, s)
             | (Hang, s) \<Rightarrow> (Hang, s))"
  by pat_completeness auto

lemma item_length_u32: "unat (4 + ucast (l :: u16) :: u32) = 4 + unat l"
proof -
  have "unat l < 2 ^ 16" using unsigned_less [of l, where ?'a = nat] by simp
  then show ?thesis by (simp add: unat_word_ariths unsigned_ucast_eq take_bit_nat_eq_self)
qed

lemma item_length_shrinks:
  "\<not> n < 4 + ucast (l :: u16) \<Longrightarrow> unat (n - (4 + ucast l) :: u32) < unat n"
proof -
  assume "\<not> n < 4 + ucast l"
  then have le: "4 + ucast l \<le> n" by simp
  then have "4 + unat l \<le> unat n" using item_length_u32 [of l] by (simp add: word_le_nat_alt)
  then show ?thesis using unat_sub [OF le] item_length_u32 [of l] by simp
qed

termination parse_loop
  by (relation "measure (\<lambda>(E, bytes, n, items, s). unat n)") (simp_all add: item_length_shrinks)

declare parse_loop.simps [simp del]

definition parsePayload ::
  "'h env \<Rightarrow> TBytes \<Rightarrow> u32 \<Rightarrow> 'h server \<Rightarrow> (TDataItem option list \<times> TError) res \<times> 'h server" where
  "parsePayload E Payload payload_length s =
     (if payload_length = 0 then (Ok ([], ERR_SUCCESS), s)
      else parse_loop E Payload payload_length [] s)"

text \<open>\<open>FromBytes\<close>; the result is the message and the code stored through the reference.\<close>

definition INVALID_MESSAGEID :: u8 where "INVALID_MESSAGEID = 255"

definition FromBytes :: "'h env \<Rightarrow> TBytes \<Rightarrow> 'h server \<Rightarrow> (TMessage \<times> TError) res \<times> 'h server" where
  "FromBytes E buf s =
     (if length buf < unat minimumMessageLength then
        (bindR (TMessage_new (after_ids E) INVALID_MESSAGEID []) (\<lambda>m. Ok (m, ERR_MSG_TOO_SHORT)), s)
      else if \<not> isValidMessageID (after_ids E) (head_type buf) then
        (Ok (TMessage_default, ERR_MSG_ID_UNKNOWN), s)
      else let statedMessageLength = minimumMessageLength + head_payload_size buf in
        if length buf < unat statedMessageLength then (Ok (TMessage_default, ERR_MSG_LEN_MISMATCH), s)
        else bindS (if 0 < head_payload_size buf
                    then parsePayload E (drop sizeof_TMessageHeader buf) (head_payload_size buf) s
                    else (Ok ([], ERR_SUCCESS), s))
          (\<lambda>(dataItems, result) s.
             if calculateChecksum buf \<noteq> 0 then (Ok (TMessage_default, ERR_MSG_CHECKSUM), s)
             else (bindR (TMessage_new (after_ids E) (head_type buf) dataItems) (\<lambda>m. Ok (m, result)), s)))"

text \<open>
  The constructor from bytes turns an error code into an exception with its text; \<open>Go\<close> runs the items one after
  the other, without a look at their result codes.
\<close>

definition TMessage_of_bytes :: "'h env \<Rightarrow> TBytes \<Rightarrow> 'h server \<Rightarrow> TMessage res \<times> 'h server" where
  "TMessage_of_bytes E Msg s =
     bindS (FromBytes E Msg s) (\<lambda>(m, result) s.
       if result \<noteq> ERR_SUCCESS then (bindR (err_text result) (\<lambda>what. Throw (LogicError what)), s)
       else (Ok m, s))"

lemma TMessage_of_bytes_Ok:
  "TMessage_of_bytes E Msg s = (Ok m, s') \<longleftrightarrow> FromBytes E Msg s = (Ok (m, ERR_SUCCESS), s')"
  by (auto simp: TMessage_of_bytes_def outcome_simps split: if_splits prod.splits)

fun Go_items :: "'h env \<Rightarrow> TDataItem option list \<Rightarrow> 'h server \<Rightarrow> TDataItem option list res \<times> 'h server" where
  "Go_items E [] s = (Ok [], s)"
| "Go_items E (None # items) s = (Undef, s)"
| "Go_items E (Some item # items) s =
     bindS (item_Go E item s) (\<lambda>item s. mapS ((#) (Some item)) (Go_items E items s))"

definition TMessage_Go :: "'h env \<Rightarrow> TMessage \<Rightarrow> 'h server \<Rightarrow> TMessage res \<times> 'h server" where
  "TMessage_Go E m s = mapS (\<lambda>items. m\<lparr>DataItems := items\<rparr>) (Go_items E (DataItems m) s)"

subsection \<open>Serialisation\<close>

definition appendLengthBytes :: "TBytes \<Rightarrow> u32 \<Rightarrow> TBytes" where
  "appendLengthBytes bytes len = bytes @ stuff_loop 4 len"

text \<open>The bytes of the items and their length, added in 32 bits.\<close>

fun item_bytes :: "fpu \<Rightarrow> TConfig \<Rightarrow> bool \<Rightarrow> TDataItem option list \<Rightarrow> TBytes \<Rightarrow> u32 \<Rightarrow> (TBytes \<times> u32) res" where
  "item_bytes F c r [] payloadBytes payloadLength = Ok (payloadBytes, payloadLength)"
| "item_bytes F c r (None # items) payloadBytes payloadLength = Undef"
| "item_bytes F c r (Some item # items) payloadBytes payloadLength =
     (let bs = fst (AsBytes F c item r)
      in item_bytes F c r items (payloadBytes @ bs) (payloadLength + of_nat (length bs)))"

definition appendPayloadLengthAndItems ::
  "fpu \<Rightarrow> TConfig \<Rightarrow> TBytes \<Rightarrow> TMessage \<Rightarrow> bool \<Rightarrow> TBytes res" where
  "appendPayloadLengthAndItems F c bytes m bAsReply =
     bindR (item_bytes F c bAsReply (DataItems m) [] 0) (\<lambda>(payloadBytes, payloadLength).
       Ok (appendLengthBytes bytes payloadLength @ payloadBytes))"

definition message_AsBytes :: "fpu \<Rightarrow> TConfig \<Rightarrow> TMessage \<Rightarrow> bool \<Rightarrow> TBytes res" where
  "message_AsBytes F c m bAsReply =
     bindR (appendPayloadLengthAndItems F c [Id m] m bAsReply) (\<lambda>bytes.
       Ok (bytes @ [- calculateChecksum bytes]))"

definition getChecksum :: "fpu \<Rightarrow> TConfig \<Rightarrow> TMessage \<Rightarrow> bool \<Rightarrow> u8 res" where
  "getChecksum F c m bAsReply = bindR (message_AsBytes F c m bAsReply) (\<lambda>bs. Ok (calculateChecksum bs))"

subsection \<open>The wire format\<close>

lemma item_bytes_result:
  "item_bytes F c r items pb pl = Ok (bs, n) \<Longrightarrow>
     None \<notin> set items \<and> bs = pb @ concat (map (\<lambda>it. fst (AsBytes F c (the it) r)) items) \<and>
     n = pl + of_nat (length (concat (map (\<lambda>it. fst (AsBytes F c (the it) r)) items)))"
proof (induction F c r items pb pl rule: item_bytes.induct)
  case (3 F c r item items pb pl)
  then show ?case by (auto simp: Let_def)
qed simp_all

lemma item_bytes_some:
  "item_bytes F c r (map Some items) pb pl =
     Ok (pb @ concat (map (\<lambda>it. fst (AsBytes F c it r)) items),
         pl + of_nat (length (concat (map (\<lambda>it. fst (AsBytes F c it r)) items))))"
  by (induction items arbitrary: pb pl) (simp_all add: Let_def)

lemma stuff_u32: "stuff_loop 4 (n :: u32) = stuff [] n"
  by (simp add: stuff_def)

lemma message_wire_core:
  assumes "message_AsBytes F c m r = Ok bs"
  shows "\<exists>payload. payload = concat (map (\<lambda>it. fst (AsBytes F c (the it) r)) (DataItems m)) \<and>
      head_type bs = Id m \<and> take (length payload) (drop 5 bs) = payload \<and>
      length bs = 6 + length payload \<and> calculateChecksum bs = 0 \<and>
      (length payload < 2 ^ 32 \<longrightarrow> unat (head_payload_size bs) = length payload)"
proof -
  let ?p = "concat (map (\<lambda>it. fst (AsBytes F c (the it) r)) (DataItems m))"
  have "item_bytes F c r (DataItems m) [] 0 = Ok (?p, of_nat (length ?p))"
    using assms item_bytes_result [of F c r "DataItems m" "[]" 0]
    by (fastforce simp: message_AsBytes_def appendPayloadLengthAndItems_def outcome_simps)
  then have bs: "bs = [Id m] @ stuff [] (of_nat (length ?p) :: u32) @ ?p @
      [- calculateChecksum ([Id m] @ stuff [] (of_nat (length ?p) :: u32) @ ?p)]"
    using assms
    by (simp add: message_AsBytes_def appendPayloadLengthAndItems_def appendLengthBytes_def stuff_u32
        del: stuff_loop.simps)
  have "calculateChecksum bs = 0" unfolding bs by (simp add: calculateChecksum_sum)
  moreover have "head_type bs = Id m" unfolding bs by (simp add: head_type_def)
  moreover have "take (length ?p) (drop 5 bs) = ?p" "length bs = 6 + length ?p"
    unfolding bs by simp_all
  moreover have "head_payload_size bs = of_nat (length ?p)" unfolding bs by simp
  then have "length ?p < 2 ^ 32 \<longrightarrow> unat (head_payload_size bs) = length ?p"
    by (simp add: unsigned_of_nat take_bit_nat_eq_self)
  ultimately show ?thesis by blast
qed

text \<open>
  C9: What the server sends is a message of the protocol. The bytes of a message start with its id and
  the length of its payload; the payload is the items' bytes one after the other; the sum of all bytes,
  the checksum byte included, is zero; and with a payload below four gigabytes the buffer is as long as
  its header says, so the server's own parser does not refuse it for its length or its checksum.
\<close>

theorem message_wire_format:
  assumes "message_AsBytes F c m r = Ok bs"
  shows "\<exists>payload. payload = concat (map (\<lambda>it. fst (AsBytes F c (the it) r)) (DataItems m)) \<and>
      head_type bs = Id m \<and> take (length payload) (drop 5 bs) = payload \<and>
      length bs = 6 + length payload \<and> calculateChecksum bs = 0 \<and>
      (length payload < 2 ^ 32 \<longrightarrow> unat (head_payload_size bs) = length payload)"
  using message_wire_core [OF assms] .

lemma empty_reply:
  "message_AsBytes F c \<lparr>Id = MId_R, DataItems = []\<rparr> r = Ok [0x52, 0, 0, 0, 0, 0xAE]"
proof -
  have "stuff_loop 4 (0 :: u32) = [0, 0, 0, 0]" by (simp add: eval_nat_numeral)
  then show ?thesis
    by (simp add: message_AsBytes_def appendPayloadLengthAndItems_def appendLengthBytes_def
        calculateChecksum_sum del: stuff_loop.simps)
qed

theorem message_wire_format_witness: "calculateChecksum [0x52, 0, 0, 0, 0, 0xAE] = 0"
  using message_wire_format [OF empty_reply] by blast

subsection \<open>The items of a payload\<close>

text \<open>A payload cut at the lengths its items declare; what is left over is no item.\<close>

function item_chunks :: "TBytes \<Rightarrow> TBytes list" where
  "item_chunks bs =
     (if length bs < 4 then []
      else let n = 4 + unat (head_dataLength bs)
           in if length bs < n then [] else take n bs # item_chunks (drop n bs))"
  by pat_completeness auto
termination by (relation "measure length") auto

declare item_chunks.simps [simp del]

text \<open>An item whose class sends back the request it was built from, with a length it allows.\<close>

definition echo_chunk :: "TBytes \<Rightarrow> bool" where
  "echo_chunk ch \<longleftrightarrow> (case find_DId (head_DId ch) of
     None \<Rightarrow> False
   | Some e \<Rightarrow> Construct e \<notin> set not_echoing \<and> minLen e \<le> head_dataLength ch \<and>
       head_dataLength ch \<le> maxLen e)"

lemma fromBytes_DId:
  assumes "fromBytes E bytes s = (Ok (item, ERR_SUCCESS), s')"
  shows "it_DId item = head_DId bytes" and "4 \<le> length bytes"
    and "4 + unat (head_dataLength bytes) \<le> length bytes"
proof -
  show len: "4 \<le> length bytes" using assms fromBytes_short [of bytes E s] by fastforce
  obtain e where e: "find_DId (head_DId bytes) = Some e"
    using assms fromBytes_unknown [OF len, of E s] by (cases "find_DId (head_DId bytes)") auto
  show full: "4 + unat (head_dataLength bytes) \<le> length bytes"
    using assms fromBytes_truncated [OF len e, of E s] by fastforce
  obtain data where "construct E (Construct e) (head_DId bytes) data s = (Ok item, s')"
    using assms fromBytes_complete [OF len full e, of E s]
    by (auto simp: Let_def outcome_simps split: if_splits)
  then show "it_DId item = head_DId bytes"
    by (auto simp: construct_def outcome_simps split_beta Let_def)
qed

lemma head_append:
  assumes "4 \<le> length as"
  shows "head_DId (as @ bs) = head_DId as" "head_dataLength (as @ bs) = head_dataLength as"
  using assms by (simp_all add: head_DId_def head_dataLength_def)

lemma head_take:
  assumes "4 \<le> n"
  shows "head_DId (take n as) = head_DId as" "head_dataLength (take n as) = head_dataLength as"
proof -
  have "take 4 (take n as) = take 4 as" using assms by (simp add: min_def)
  then show "head_DId (take n as) = head_DId as" "head_dataLength (take n as) = head_dataLength as"
    by (rule header_prefix)+
qed

text \<open>What a successful parse returns: one object per item of the payload, in order.\<close>

lemma parse_loop_chunks:
  assumes "parse_loop E (payload @ rest) n acc s = (Ok (items, ERR_SUCCESS), s')"
    and "length payload = unat n"
  shows "\<exists>new. items = acc @ map Some new \<and> map it_DId new = map head_DId (item_chunks payload) \<and>
    (list_all echo_chunk (item_chunks payload) \<longrightarrow>
       map (\<lambda>it. fst (AsBytes F c it False)) new = item_chunks payload)"
  using assms
proof (induction E "payload @ rest" n acc s arbitrary: payload rule: parse_loop.induct)
  case (1 E n acc s)
  show ?case
  proof (cases "n < 4")
    case True
    then have "length payload < 4" using 1(3) by (simp add: word_less_nat_alt)
    then show ?thesis using 1(2) True by (simp add: parse_loop.simps item_chunks.simps [of payload])
  next
    case False
    then have len: "4 \<le> length payload" using 1(3) by (simp add: word_le_nat_alt not_less)
    let ?L = "4 + ucast (head_dataLength (payload @ rest)) :: u32"
    let ?k = "4 + unat (head_dataLength payload)"
    have L: "unat ?L = ?k" using item_length_u32 head_append(2) [OF len, of rest] by simp
    have guard: "\<not> n < ?L" using 1(2) False len by (auto simp: parse_loop.simps split: if_splits)
    then have k: "?k \<le> length payload" using 1(3) L by (simp add: word_less_nat_alt)
    obtain item s1 where item: "fromBytes E (payload @ rest) s = (Ok (item, ERR_SUCCESS), s1)"
      and rec: "parse_loop E (drop (unat ?L) (payload @ rest)) (n - ?L) (acc @ [Some item]) s1 =
        (Ok (items, ERR_SUCCESS), s')"
      using 1(2) False guard len
      by (subst (asm) parse_loop.simps) (auto simp: Let_def split: prod.splits res.splits if_splits)
    have drop: "drop (unat ?L) (payload @ rest) = drop ?k payload @ rest" using L k by simp
    have sub: "length (drop ?k payload) = unat (n - ?L)"
      using 1(3) L guard by (simp add: unat_sub)
    have full: "\<not> length (payload @ rest) < sizeof_TDataItemHeader" using len by simp
    obtain new where new: "items = (acc @ [Some item]) @ map Some new"
      "map it_DId new = map head_DId (item_chunks (drop ?k payload))"
      "list_all echo_chunk (item_chunks (drop ?k payload)) \<longrightarrow>
         map (\<lambda>it. fst (AsBytes F c it False)) new = item_chunks (drop ?k payload)"
      using 1(1) [OF False full refl guard item [symmetric] refl refl _ drop rec [unfolded drop] sub]
      by auto
    have chunks: "item_chunks payload = take ?k payload # item_chunks (drop ?k payload)"
      using len k by (subst item_chunks.simps) (simp add: Let_def)
    have did: "it_DId item = head_DId (take ?k payload)"
      using fromBytes_DId(1) [OF item] head_append(1) [OF len] head_take(1) [of ?k payload] by simp
    have "fst (AsBytes F c item False) = take ?k payload" if echo: "echo_chunk (take ?k payload)"
    proof -
      obtain e where "find_DId (head_DId (payload @ rest)) = Some e" "Construct e \<notin> set not_echoing"
        "minLen e \<le> head_dataLength (payload @ rest)" "head_dataLength (payload @ rest) \<le> maxLen e"
        using echo head_append [OF len] head_take [of ?k payload]
        by (auto simp: echo_chunk_def split: option.splits)
      from fromBytes_AsBytes_core [OF item this, of F c] show ?thesis
        using k head_append [OF len] by simp
    qed
    then show ?thesis
      using new did unfolding chunks by (intro exI [of _ "item # new"]) simp
  qed
qed

lemma framed_split:
  assumes "length buf = 6 + unat (head_payload_size buf)"
  shows "buf = [head_type buf] @ stuff [] (head_payload_size buf) @
      take (unat (head_payload_size buf)) (drop 5 buf) @ [last buf]"
    and "drop 5 buf = take (unat (head_payload_size buf)) (drop 5 buf) @ [last buf]"
proof -
  let ?n = "unat (head_payload_size buf)"
  have "length (drop (5 + ?n) buf) = 1" "last (drop (5 + ?n) buf) = last buf"
    using assms by (simp_all add: last_drop)
  then have "drop (5 + ?n) buf = [last buf]"
    by (cases "drop (5 + ?n) buf") auto
  then have "drop ?n (drop 5 buf) = [last buf]" by (simp add: add.commute)
  then show d: "drop 5 buf = take ?n (drop 5 buf) @ [last buf]"
    using append_take_drop_id [of ?n "drop 5 buf"] by presburger
  obtain t rest where buf: "buf = t # rest" using assms by (cases buf) simp_all
  have "6 \<le> length buf" using assms by linarith
  then have four: "length (take 4 (drop 1 buf)) = 4" by (simp add: min_def)
  have "stuff [] (head_payload_size buf) = take 4 (drop 1 buf)"
    unfolding head_payload_size_def by (rule stuff_le_read(2) [OF four])
  then have "stuff [] (head_payload_size buf) @ drop 5 buf = drop 1 buf"
    using append_take_drop_id [of 4 rest] buf by simp
  moreover have "buf = [head_type buf] @ drop 1 buf" by (simp add: buf head_type_def)
  ultimately show "buf = [head_type buf] @ stuff [] (head_payload_size buf) @
      take ?n (drop 5 buf) @ [last buf]"
    unfolding d [symmetric] by simp
qed

lemma FromBytes_success:
  assumes "FromBytes E buf s = (Ok (m, ERR_SUCCESS), s')"
    and "length buf = 6 + unat (head_payload_size buf)"
  shows "calculateChecksum buf = 0" and "Id m = head_type buf"
    and "parse_loop E (drop 5 buf) (head_payload_size buf) [] s = (Ok (DataItems m, ERR_SUCCESS), s')"
proof -
  let ?size = "head_payload_size buf"
  have *: "calculateChecksum buf = 0 \<and> Id m = head_type buf \<and>
      (if 0 < ?size then parsePayload E (drop 5 buf) ?size s else (Ok ([], ERR_SUCCESS), s)) =
        (Ok (DataItems m, ERR_SUCCESS), s')"
    using assms(1)
    by (auto simp: FromBytes_def Let_def outcome_simps TMessage_new_def setMId_def TMessage_default_def
        split: if_splits prod.splits)
  have "parse_loop E bs 0 [] s = (Ok ([], ERR_SUCCESS), s)" for bs
    by (simp add: parse_loop.simps)
  with * show "calculateChecksum buf = 0" "Id m = head_type buf"
    "parse_loop E (drop 5 buf) ?size [] s = (Ok (DataItems m, ERR_SUCCESS), s')"
    by (auto simp: parsePayload_def word_gt_0 split: if_splits)
qed

text \<open>
  C10: A parsed message has the items of its payload. When a complete frame is parsed without an error,
  its checksum is right, the message has the frame's id, and one object for each item of the payload, in
  the order of the payload and with its id.
\<close>

theorem message_parse_items:
  assumes "FromBytes E buf s = (Ok (m, ERR_SUCCESS), s')"
    and "length buf = 6 + unat (head_payload_size buf)"
  shows "calculateChecksum buf = 0 \<and> Id m = head_type buf \<and>
      (\<exists>items. DataItems m = map Some items \<and> map it_DId items =
         map head_DId (item_chunks (take (unat (head_payload_size buf)) (drop 5 buf))))"
proof -
  let ?payload = "take (unat (head_payload_size buf)) (drop 5 buf)"
  have "length ?payload = unat (head_payload_size buf)" using assms(2) by simp
  then obtain items where "DataItems m = [] @ map Some items"
    "map it_DId items = map head_DId (item_chunks ?payload)"
    using parse_loop_chunks [of E ?payload "[last buf]" "head_payload_size buf" "[]" s "DataItems m" s']
      FromBytes_success(3) [OF assms] framed_split(2) [OF assms(2)] by metis
  then show ?thesis using FromBytes_success(1,2) [OF assms] by auto
qed

text \<open>
  C8: Messages are read and written consistently. A complete frame that parses without an error, whose
  payload is items without a remainder, each of a class that sends back its request and of a length the
  dictionary allows, is written as a request to the same bytes, header and checksum included.
\<close>

theorem message_roundtrip:
  assumes "FromBytes E buf s = (Ok (m, ERR_SUCCESS), s')"
    and "length buf = 6 + unat (head_payload_size buf)"
    and "concat (item_chunks (take (unat (head_payload_size buf)) (drop 5 buf))) =
      take (unat (head_payload_size buf)) (drop 5 buf)"
    and "list_all echo_chunk (item_chunks (take (unat (head_payload_size buf)) (drop 5 buf)))"
  shows "message_AsBytes F c m False = Ok buf"
proof -
  let ?n = "head_payload_size buf"
  let ?payload = "take (unat ?n) (drop 5 buf)"
  have len: "length ?payload = unat ?n" using assms(2) by simp
  obtain items where items: "DataItems m = map Some items"
    "map (\<lambda>it. fst (AsBytes F c it False)) items = item_chunks ?payload"
    using parse_loop_chunks [of E ?payload "[last buf]" ?n "[]" s "DataItems m" s' F c]
      FromBytes_success(3) [OF assms(1,2)] framed_split(2) [OF assms(2)] len assms(4)
    by (metis append_Nil)
  have "concat (map (\<lambda>it. fst (AsBytes F c it False)) items) = ?payload"
    unfolding items(2) by (rule assms(3))
  then have "item_bytes F c False (DataItems m) [] 0 = Ok (?payload, ?n)"
    using item_bytes_some [of F c False items "[]" 0] items(1) len by simp
  then have bytes: "message_AsBytes F c m False =
      Ok (([head_type buf] @ stuff [] ?n @ ?payload) @
          [- byte_sum ([head_type buf] @ stuff [] ?n @ ?payload)])"
    using FromBytes_success(2) [OF assms(1,2)]
    by (simp add: message_AsBytes_def appendPayloadLengthAndItems_def appendLengthBytes_def stuff_u32
        calculateChecksum_sum del: stuff_loop.simps)
  have "byte_sum buf = byte_sum ([head_type buf] @ stuff [] ?n @ ?payload) + last buf"
    using arg_cong [OF framed_split(1) [OF assms(2)], of byte_sum] by simp
  then have "- byte_sum ([head_type buf] @ stuff [] ?n @ ?payload) = last buf"
    using FromBytes_success(1) [OF assms(1,2)] by (simp add: calculateChecksum_sum add_eq_0_iff)
  with bytes show ?thesis using framed_split(1) [OF assms(2)] by simp
qed

text \<open>A frame with one item, \<open>DIO_SetBit\<close> of line 3, for the examples.\<close>

definition set_line_3 :: TBytes where
  "set_line_3 = [0x51, 5, 0, 0, 0, 0x0E, 0x03, 1, 0, 3, 0x95]"

lemma set_line_3_parsed:
  "FromBytes E set_line_3 s = (Ok (\<lparr>Id = MId_Q, DataItems = [Some \<lparr>it_DId = DId_DIO_SetBit, it_Data = [],
     it_resultCode = ERR_SUCCESS, it_body = I_DIO (I_SetBit \<lparr>bit_bitNumber = 3\<rparr>)\<rparr>]\<rparr>, ERR_SUCCESS),
     s\<lparr>allocs := allocs s + 1\<rparr>)"
proof -
  let ?item = "[0x0E, 0x03, 1, 0, 3, 0x95] :: TBytes"
  have head: "head_DId ?item = DId_DIO_SetBit" "head_dataLength ?item = 1"
    by (simp_all add: head_DId_def head_dataLength_def)
  have item: "fromBytes E ?item s = (Ok (\<lparr>it_DId = DId_DIO_SetBit, it_Data = [],
      it_resultCode = ERR_SUCCESS, it_body = I_DIO (I_SetBit \<lparr>bit_bitNumber = 3\<rparr>)\<rparr>, ERR_SUCCESS),
      s\<lparr>allocs := allocs s + 1\<rparr>)"
    using fromBytes_complete [of ?item _ E s] head find_examples(1)
    by (simp add: construct_def mapS_def TDIO_Bit_new_def TDataItem_params_def Let_def)
  have "parse_loop E ?item 5 [] s = (Ok ([Some \<lparr>it_DId = DId_DIO_SetBit, it_Data = [],
      it_resultCode = ERR_SUCCESS, it_body = I_DIO (I_SetBit \<lparr>bit_bitNumber = 3\<rparr>)\<rparr>], ERR_SUCCESS),
      s\<lparr>allocs := allocs s + 1\<rparr>)"
    by (subst parse_loop.simps) (simp add: head item, simp add: parse_loop.simps)
  moreover have "calculateChecksum set_line_3 = 0" "head_payload_size set_line_3 = 5"
    by (simp_all add: calculateChecksum_sum set_line_3_def head_payload_size_def)
  ultimately show ?thesis
    by (simp add: FromBytes_def parsePayload_def TMessage_new_def setMId_def TMessage_default_def
        ValidMessageIDs_valid ValidMessageIDs_def set_line_3_def head_type_def head_payload_size_def)
qed


lemma set_line_3_frame:
  "length set_line_3 = 6 + unat (head_payload_size set_line_3)"
  "take (unat (head_payload_size set_line_3)) (drop 5 set_line_3) = [0x0E, 0x03, 1, 0, 3]"
  "item_chunks [0x0E, 0x03, 1, 0, 3] = [[0x0E, 0x03, 1, 0, 3]]"
  "echo_chunk [0x0E, 0x03, 1, 0, 3]"
proof -
  have size: "head_payload_size set_line_3 = 5" by (simp add: set_line_3_def head_payload_size_def)
  then show "length set_line_3 = 6 + unat (head_payload_size set_line_3)" by (simp add: set_line_3_def)
  from size show "take (unat (head_payload_size set_line_3)) (drop 5 set_line_3) = [0x0E, 0x03, 1, 0, 3]"
    by (simp add: set_line_3_def)
  have head: "head_DId [0x0E, 0x03, 1, 0, 3] = DId_DIO_SetBit" "head_dataLength [0x0E, 0x03, 1, 0, 3] = 1"
    by (simp_all add: head_DId_def head_dataLength_def)
  show "item_chunks [0x0E, 0x03, 1, 0, 3] = [[0x0E, 0x03, 1, 0, 3]]"
    by (simp add: item_chunks.simps head)
  show "echo_chunk [0x0E, 0x03, 1, 0, 3]"
    using find_examples(1) by (simp add: echo_chunk_def head not_echoing_def)
qed

theorem message_parse_items_witness:
  "map it_DId [\<lparr>it_DId = DId_DIO_SetBit, it_Data = [], it_resultCode = ERR_SUCCESS,
     it_body = I_DIO (I_SetBit \<lparr>bit_bitNumber = 3\<rparr>)\<rparr>] = map head_DId [[0x0E, 0x03, 1, 0, 3]]"
  using message_parse_items [OF set_line_3_parsed [of bank_env bank_server] set_line_3_frame(1)]
  by (auto simp: set_line_3_frame)

theorem message_roundtrip_witness:
  "message_AsBytes plain_fpu blank_config \<lparr>Id = MId_Q, DataItems = [Some \<lparr>it_DId = DId_DIO_SetBit, it_Data = [],
     it_resultCode = ERR_SUCCESS, it_body = I_DIO (I_SetBit \<lparr>bit_bitNumber = 3\<rparr>)\<rparr>]\<rparr> False = Ok set_line_3"
  using message_roundtrip [OF set_line_3_parsed [of bank_env bank_server] set_line_3_frame(1)]
  by (simp add: set_line_3_frame)

end
