(* ===== verification/ActionQueue.thy ===== *)
theory ActionQueue
  imports Prelude
begin

text \<open>
  \<^verbatim>\<open>safe_queue.h\<close>: the queue between the receiving threads and the action thread. Its element type is
  a pointer, so an element is an option (\<open>None\<close> for the null pointer). Every operation runs under
  the queue's lock and is one step; a wait on the condition variable splits \<open>dequeue\<close> in two.
\<close>

subsection \<open>Operations\<close>

record 'a SafeQueue =
  sq_q :: "'a option list"
  sq_stop :: bool

definition SafeQueue_new :: "'a SafeQueue" where
  "SafeQueue_new = \<lparr>sq_q = [], sq_stop = False\<rparr>"

definition enqueue :: "'a option \<Rightarrow> 'a SafeQueue \<Rightarrow> 'a SafeQueue" where
  "enqueue t s = s\<lparr>sq_q := sq_q s @ [t]\<rparr>"

definition tryDequeue :: "'a SafeQueue \<Rightarrow> 'a option \<times> 'a SafeQueue" where
  "tryDequeue s = (case sq_q s of [] \<Rightarrow> (None, s) | v # vs \<Rightarrow> (v, s\<lparr>sq_q := vs\<rparr>))"

definition Stop :: "'a SafeQueue \<Rightarrow> 'a SafeQueue" where
  "Stop s = s\<lparr>sq_stop := True\<rparr>"

text \<open>
  \<open>dequeue\<close> up to its return or its wait, and from the wake-up on. The flag \<open>done\<close> is the global of
  the process.
\<close>

datatype 'a progress = Waits | Returns 'a

definition dequeue :: "bool \<Rightarrow> 'a SafeQueue \<Rightarrow> 'a option progress \<times> 'a SafeQueue" where
  "dequeue done s =
     (if sq_q s = [] \<and> \<not> done then (Waits, s)
      else if done then (Returns None, s)
      else (Returns (hd (sq_q s)), s\<lparr>sq_q := tl (sq_q s)\<rparr>))"

definition dequeue_woken :: "bool \<Rightarrow> 'a SafeQueue \<Rightarrow> 'a option progress \<times> 'a SafeQueue" where
  "dequeue_woken done s = (if sq_stop s then (Returns None, s) else dequeue done s)"

subsection \<open>The contract of a queue\<close>

locale fifo_queue =
  fixes enq :: "'a \<Rightarrow> 's \<Rightarrow> 's" and deq :: "'s \<Rightarrow> 'a \<times> 's" and contents :: "'s \<Rightarrow> 'a list"
  assumes contents_enq: "contents (enq x s) = contents s @ [x]"
    and contents_deq: "contents s = x # xs \<Longrightarrow> deq s = (x, snd (deq s)) \<and> contents (snd (deq s)) = xs"
begin

text \<open>A run: \<open>Some x\<close> adds \<open>x\<close>, \<open>None\<close> takes the oldest element when there is one.\<close>

fun run :: "'a option list \<Rightarrow> 's \<Rightarrow> 'a list \<times> 's" where
  "run [] s = ([], s)"
| "run (Some x # es) s = run es (enq x s)"
| "run (None # es) s =
     (if contents s = [] then run es s
      else let (x, s1) = deq s; (out, s2) = run es s1 in (x # out, s2))"

lemma run_fifo:
  "fst (run es s) @ contents (snd (run es s)) = contents s @ List.map_filter id es"
proof (induction es s rule: run.induct)
  case (1 s)
  then show ?case by (simp add: map_filter_def)
next
  case (2 x es s)
  then show ?case by (simp add: contents_enq map_filter_def)
next
  case (3 es s)
  show ?case
  proof (cases "contents s")
    case Nil
    then show ?thesis using 3(1) by (simp add: map_filter_def)
  next
    case (Cons x xs)
    then obtain s1 where s1: "deq s = (x, s1)" "contents s1 = xs"
      using contents_deq [OF Cons] by (metis prod.exhaust_sel snd_conv)
    then show ?thesis
      using 3(2) [of "(x, s1)" x s1] Cons by (simp add: split_beta Let_def map_filter_def)
  qed
qed

end

interpretation sq: fifo_queue "enqueue" tryDequeue "sq_q"
  by unfold_locales (auto simp: enqueue_def tryDequeue_def)

interpretation sq_wait: fifo_queue "enqueue"
  "\<lambda>s. case dequeue False s of (Returns v, s') \<Rightarrow> (v, s') | (Waits, s') \<Rightarrow> (None, s')" "sq_q"
  by unfold_locales (auto simp: enqueue_def dequeue_def)

subsection \<open>The threads around the queue\<close>

text \<open>
  The consumer is outside \<open>dequeue\<close> or waits in it; \<open>notified\<close> is a wake-up on its way to it. Two
  histories are kept: what was enqueued and what \<open>dequeue\<close> took from the queue.
\<close>

record 'a queue_system =
  qs_queue :: "'a SafeQueue"
  qs_done :: bool
  qs_waiting :: bool
  qs_notified :: bool
  qs_enqueued :: "'a option list"
  qs_taken :: "'a option list"
  qs_returned :: "'a option list"

definition queue_system_init :: "'a queue_system" where
  "queue_system_init = \<lparr>qs_queue = SafeQueue_new, qs_done = False, qs_waiting = False,
     qs_notified = False, qs_enqueued = [], qs_taken = [], qs_returned = []\<rparr>"

text \<open>The consumer's state after \<open>dequeue\<close> or its continuation made progress.\<close>

definition consumer_progress ::
  "'a option progress \<times> 'a SafeQueue \<Rightarrow> 'a queue_system \<Rightarrow> 'a queue_system" where
  "consumer_progress r s =
     (case r of
        (Waits, q) \<Rightarrow> s\<lparr>qs_queue := q, qs_waiting := True, qs_notified := False\<rparr>
      | (Returns v, q) \<Rightarrow>
          s\<lparr>qs_queue := q, qs_waiting := False, qs_notified := False,
            qs_returned := qs_returned s @ [v],
            qs_taken := qs_taken s @ (if length (sq_q q) < length (sq_q (qs_queue s)) then [v] else [])\<rparr>)"

inductive queue_step :: "'a queue_system \<Rightarrow> 'a queue_system \<Rightarrow> bool" where
  enqueues: "queue_step s (s\<lparr>qs_queue := enqueue t (qs_queue s), qs_notified := qs_waiting s \<or> qs_notified s,
    qs_enqueued := qs_enqueued s @ [t]\<rparr>)"
| stops: "queue_step s (s\<lparr>qs_queue := Stop (qs_queue s), qs_notified := qs_waiting s \<or> qs_notified s\<rparr>)"
| finishes: "queue_step s (s\<lparr>qs_done := True\<rparr>)"
| calls: "\<not> qs_waiting s \<Longrightarrow> queue_step s (consumer_progress (dequeue (qs_done s) (qs_queue s)) s)"
| wakes: "qs_waiting s \<Longrightarrow> queue_step s (consumer_progress (dequeue_woken (qs_done s) (qs_queue s)) s)"

inductive queue_reachable :: "'a queue_system \<Rightarrow> bool" where
  init: "queue_reachable queue_system_init"
| step: "queue_reachable s \<Longrightarrow> queue_step s t \<Longrightarrow> queue_reachable t"

inductive_cases queue_stepE: "queue_step s t"

definition queue_inv :: "'a queue_system \<Rightarrow> bool" where
  "queue_inv s \<longleftrightarrow>
     qs_taken s @ sq_q (qs_queue s) = qs_enqueued s \<and>
     filter (\<lambda>v. v \<noteq> None) (qs_returned s) = filter (\<lambda>v. v \<noteq> None) (qs_taken s) \<and>
     (qs_waiting s \<and> sq_q (qs_queue s) \<noteq> [] \<longrightarrow> qs_notified s)"

lemma queue_inv_dequeue: "queue_inv s \<Longrightarrow> queue_inv (consumer_progress (dequeue (qs_done s) (qs_queue s)) s)"
proof (cases "qs_done s")
  case True
  then show "queue_inv s \<Longrightarrow> ?thesis"
    by (auto simp: queue_inv_def consumer_progress_def dequeue_def)
next
  case False
  then show "queue_inv s \<Longrightarrow> ?thesis"
    by (cases "sq_q (qs_queue s)") (auto simp: queue_inv_def consumer_progress_def dequeue_def)
qed

lemma queue_inv_progress:
  assumes "queue_inv s" and "r = dequeue (qs_done s) (qs_queue s) \<or> r = dequeue_woken (qs_done s) (qs_queue s)"
  shows "queue_inv (consumer_progress r s)"
proof (cases "r = (Returns None, qs_queue s)")
  case True
  then show ?thesis using assms(1) by (auto simp: queue_inv_def consumer_progress_def)
next
  case False
  then have "r = dequeue (qs_done s) (qs_queue s)"
    using assms(2) by (auto simp: dequeue_woken_def split: if_splits)
  then show ?thesis using queue_inv_dequeue [OF assms(1)] by simp
qed

lemma queue_inv_step: "queue_step s t \<Longrightarrow> queue_inv s \<Longrightarrow> queue_inv t"
proof (induction rule: queue_step.induct)
  case (enqueues s t)
  then show ?case by (auto simp: queue_inv_def enqueue_def)
next
  case (stops s)
  then show ?case by (auto simp: queue_inv_def Stop_def)
next
  case (finishes s)
  then show ?case by (simp add: queue_inv_def)
next
  case (calls s)
  then show ?case by (simp add: queue_inv_progress)
next
  case (wakes s)
  then show ?case by (simp add: queue_inv_progress)
qed

lemma queue_inv_reachable: "queue_reachable s \<Longrightarrow> queue_inv s"
proof (induction rule: queue_reachable.induct)
  case init
  then show ?case by (simp add: queue_inv_def queue_system_init_def SafeQueue_new_def)
next
  case (step s t)
  then show ?case using queue_inv_step by blast
qed

subsection \<open>Properties\<close>

text \<open>
  C13: The action queue is first in, first out under every interleaving of the receiving threads with
  the action thread: what \<open>dequeue\<close> took, followed by what is still queued, is what was enqueued, in
  order; and the non-null messages it returned are the non-null ones it took.
\<close>

theorem action_queue_fifo:
  assumes "queue_reachable s"
  shows "qs_taken s @ sq_q (qs_queue s) = qs_enqueued s \<and>
      filter (\<lambda>v. v \<noteq> None) (qs_returned s) = filter (\<lambda>v. v \<noteq> None) (qs_taken s)"
  using queue_inv_reachable [OF assms] by (simp add: queue_inv_def)

lemma queue_example:
  "queue_reachable (queue_system_init\<lparr>qs_queue := enqueue (Some 7) SafeQueue_new, qs_enqueued := [Some (7 :: nat)]\<rparr>)"
proof -
  let ?s = "queue_system_init :: nat queue_system"
  have "queue_step ?s (?s\<lparr>qs_queue := enqueue (Some 7) (qs_queue ?s),
      qs_notified := qs_waiting ?s \<or> qs_notified ?s, qs_enqueued := qs_enqueued ?s @ [Some 7]\<rparr>)"
    by (rule queue_step.enqueues)
  then show ?thesis
    using queue_reachable.step [OF queue_reachable.init] by (simp add: queue_system_init_def)
qed

theorem action_queue_fifo_witness:
  "qs_taken (queue_system_init\<lparr>qs_queue := enqueue (Some 7) SafeQueue_new, qs_enqueued := [Some (7 :: nat)]\<rparr>) @
     [Some 7] = [Some 7]"
  using action_queue_fifo [OF queue_example] by (simp add: enqueue_def SafeQueue_new_def)

text \<open>
  C14: No wake-up is lost. Whenever the action thread waits while a message is queued, a notification is
  on its way to it; and when it wakes with the server running and the queue not stopped, it returns the
  oldest message.
\<close>

theorem action_queue_no_lost_wakeup:
  assumes "queue_reachable s" and "qs_waiting s" and "sq_q (qs_queue s) = v # vs"
  shows "qs_notified s \<and>
      (\<not> qs_done s \<and> \<not> sq_stop (qs_queue s) \<longrightarrow>
         (\<exists>q. dequeue_woken (qs_done s) (qs_queue s) = (Returns v, q) \<and> sq_q q = vs))"
  using queue_inv_reachable [OF assms(1)] assms(2,3)
  by (auto simp: queue_inv_def dequeue_woken_def dequeue_def)

lemma waiting_example:
  "queue_reachable \<lparr>qs_queue = enqueue (Some (7 :: nat)) SafeQueue_new, qs_done = False, qs_waiting = True,
     qs_notified = True, qs_enqueued = [Some 7], qs_taken = [], qs_returned = []\<rparr>"
proof -
  let ?s = "queue_system_init :: nat queue_system"
  have "queue_step ?s (consumer_progress (dequeue (qs_done ?s) (qs_queue ?s)) ?s)"
    by (rule queue_step.calls) (simp add: queue_system_init_def)
  then have "queue_reachable (?s\<lparr>qs_waiting := True\<rparr>)"
    using queue_reachable.step [OF queue_reachable.init]
    by (simp add: consumer_progress_def dequeue_def queue_system_init_def SafeQueue_new_def)
  from queue_reachable.step [OF this queue_step.enqueues [of _ "Some 7"]] show ?thesis
    by (simp add: queue_system_init_def)
qed

theorem action_queue_no_lost_wakeup_witness:
  "\<exists>q. dequeue_woken False (enqueue (Some (7 :: nat)) SafeQueue_new) = (Returns (Some 7), q)"
  using action_queue_no_lost_wakeup [OF waiting_example] by (auto simp: enqueue_def SafeQueue_new_def)

end
