(* ===== verification/Server.thy ===== *)
theory Server
  imports Message ActionQueue
begin

text \<open>
  The server (\<^verbatim>\<open>aioenetd.cpp\<close>): the receiver of a connection, which cuts the byte stream into frames,
  parses them and queues the messages; the action thread, which runs a message item by item, turns what
  fails into error items and sends the message back; and the greetings a connection starts with.
\<close>

subsection \<open>Error items\<close>

datatype SysErrStage = Stage_Parse | Stage_Execute

fun stage_number :: "SysErrStage \<Rightarrow> u32" where
  "stage_number Stage_Parse = 1"
| "stage_number Stage_Execute = 2"

definition ErrIndex :: "TError \<Rightarrow> u32" where
  "ErrIndex rc = - rc"

text \<open>\<open>std::string::find\<close>, and the conversion of a \<open>char *\<close>, which ends at the first null.\<close>

fun find_sub :: "string \<Rightarrow> string \<Rightarrow> nat option" where
  "find_sub pat [] = (if pat = [] then Some 0 else None)"
| "find_sub pat (c # s) =
     (if take (length pat) (c # s) = pat then Some 0 else map_option Suc (find_sub pat s))"

definition c_str :: "string \<Rightarrow> string" where
  "c_str = takeWhile (\<lambda>c. c \<noteq> CHR 0x00)"

text \<open>
  What the text of an exception says about its error: the digits after the first \<^verbatim>\<open>): -\<close> are the index,
  the hexadecimal number after the last \<^verbatim>\<open>=\<close> the information word. The two words are passed by
  reference: what is not found keeps its value.
\<close>

definition trim_hex :: "string \<Rightarrow> string" where
  "trim_hex s =
     (let hex = rev (dropWhile isspace (rev (dropWhile isspace s)))
      in if take 2 hex = ''0x'' \<or> take 2 hex = ''0X'' then drop 2 hex else hex)"

definition guard_info :: "string \<Rightarrow> u32 \<Rightarrow> u32" where
  "guard_info s info =
     (if CHR ''='' \<in> set s
      then case stoul 16 (trim_hex (rev (takeWhile (\<lambda>c. c \<noteq> CHR ''='') (rev s)))) of
             Ok v \<Rightarrow> ucast v | _ \<Rightarrow> info
      else info)"

definition TryParseGuardWhat :: "string \<Rightarrow> u32 \<Rightarrow> u32 \<Rightarrow> bool \<times> u32 \<times> u32" where
  "TryParseGuardWhat what errIndex info =
     (let s = c_str what in
      case find_sub ''): -'' s of
        None \<Rightarrow> (False, errIndex, info)
      | Some p \<Rightarrow>
          let ds = takeWhile isdigit (drop (p + 4) s) in
          if ds = [] then (False, errIndex, info)
          else (case stoul 10 ds of Ok v \<Rightarrow> (True, ucast v, guard_info s info)
                                  | _ \<Rightarrow> (False, errIndex, info)))"

text \<open>An item built through the factory; a logic error or an error code gives the null pointer.\<close>

definition BuildDataItem ::
  "'h env \<Rightarrow> TDataId \<Rightarrow> TBytes \<Rightarrow> 'h server \<Rightarrow> TDataItem option res \<times> 'h server" where
  "BuildDataItem E did payload s =
     (case fromBytes E (stuff (stuff [] did) (of_nat (length payload) :: u16) @ payload) s of
        (Ok (item, r), s) \<Rightarrow> (Ok (if r = ERR_SUCCESS then Some item else None), s)
      | (Throw (LogicError what), s) \<Rightarrow> (Ok None, s)
      | (Throw (RuntimeError what), s) \<Rightarrow> (Throw (RuntimeError what), s)
      | (Undef, s) \<Rightarrow> (Undef, s)
      | (Hang, s) \<Rightarrow> (Hang, s))"

definition BuildSysError ::
  "'h env \<Rightarrow> SysErrStage \<Rightarrow> u32 \<Rightarrow> u32 \<Rightarrow> string \<Rightarrow> 'h server \<Rightarrow> TDataItem option res \<times> 'h server" where
  "BuildSysError E stage errIndex info txt s =
     BuildDataItem E DId_SYS_Error
       (stuff (stuff (stuff [] (stage_number stage)) errIndex) info @ string_bytes txt) s"

definition BuildSysItemError ::
  "'h env \<Rightarrow> u16 \<Rightarrow> TDataId \<Rightarrow> u32 \<Rightarrow> u32 \<Rightarrow> string \<Rightarrow> 'h server \<Rightarrow> TDataItem option res \<times> 'h server" where
  "BuildSysItemError E itemIndex originalDid errIndex info txt s =
     BuildDataItem E DId_SYS_ItemError
       (stuff (stuff (stuff (stuff [] itemIndex) originalDid) errIndex) info @ string_bytes txt) s"

subsection \<open>Receiving\<close>

text \<open>
  \<open>GotMessage\<close>: the error code of the parser is dropped, its logic errors become an error message. The
  other exceptions leave the function.
\<close>

definition add_item :: "TDataItem option \<Rightarrow> TMessage \<Rightarrow> TMessage" where
  "add_item di x = (case di of None \<Rightarrow> x | Some item \<Rightarrow> addDataItem (Some item) x)"

definition GotMessage :: "'h env \<Rightarrow> TBytes \<Rightarrow> 'h server \<Rightarrow> TMessage res \<times> 'h server" where
  "GotMessage E buf s =
     (case FromBytes E buf s of
        (Ok (m, result), s) \<Rightarrow> (Ok m, s)
      | (Throw (LogicError what), s) \<Rightarrow>
          (let (ok, errIndex, info) = TryParseGuardWhat what (ErrIndex ERR_MSG_PARSE) 0 in
           bindS (TMessage_new (after_ids E) MId_X [], s) (\<lambda>x s.
             bindS (BuildSysError E Stage_Parse errIndex info (c_str what) s) (\<lambda>di s.
               (Ok (add_item di x), s))))
      | (Throw (RuntimeError what), s) \<Rightarrow> (Throw (RuntimeError what), s)
      | (Undef, s) \<Rightarrow> (Undef, s)
      | (Hang, s) \<Rightarrow> (Hang, s))"

text \<open>
  An action holds the message by reference. \<open>None\<close> is a reference whose message has been destroyed.
\<close>

record TActionQueueItem =
  Socket :: int
  theMessage :: "TMessage option"

text \<open>A receiver: its buffer, the shared queue, the sockets it has closed, and the server.\<close>

record 'h receiver =
  rx_buffer :: TBytes
  rx_queue :: "TActionQueueItem SafeQueue"
  rx_closed :: "int list"
  rx_server :: "'h server"

definition rx_enqueue :: "int \<Rightarrow> TMessage option \<Rightarrow> 'h receiver \<Rightarrow> 'h receiver" where
  "rx_enqueue aSocket m r = r\<lparr>rx_queue := enqueue (Some \<lparr>Socket = aSocket, theMessage = m\<rparr>) (rx_queue r)\<rparr>"

definition Disconnect :: "int \<Rightarrow> 'h receiver \<Rightarrow> 'h receiver" where
  "Disconnect aClient r = r\<lparr>rx_closed := rx_closed r @ [aClient]\<rparr>"

text \<open>
  The branch for a payload above the maximum queues a message that lives on the stack of the function;
  nothing keeps it alive when the function returns.
\<close>

definition refuse_oversize :: "'h env \<Rightarrow> int \<Rightarrow> u32 \<Rightarrow> 'h receiver \<Rightarrow> unit res \<times> 'h receiver" where
  "refuse_oversize E aSocket payloadLen r =
     (case bindS (TMessage_new (after_ids E) MId_X [], rx_server r) (\<lambda>x s.
             bindS (BuildSysError E Stage_Parse (ErrIndex ERR_MSG_LEN_MISMATCH) payloadLen
                      ''Payload length exceeds maxPayloadLength'' s) (\<lambda>di s. (Ok (add_item di x), s))) of
        (res, s) \<Rightarrow> bindS (res, r\<lparr>rx_server := s\<rparr>) (\<lambda>x r.
           (Ok (), Disconnect aSocket ((rx_enqueue aSocket None r)\<lparr>rx_buffer := []\<rparr>))))"

text \<open>
  \<open>ProcessMessages\<close>: every complete frame at the front of the buffer. A frame is taken out of the buffer
  after it is queued, so an exception leaves it there.
\<close>

function ProcessMessages :: "'h env \<Rightarrow> int \<Rightarrow> 'h receiver \<Rightarrow> unit res \<times> 'h receiver" where
  "ProcessMessages E aSocket r =
     (if length (rx_buffer r) < 5 then (Ok (), r)
      else let payloadLen = head_payload_size (rx_buffer r) in
        if maxPayloadLength < payloadLen then refuse_oversize E aSocket payloadLen r
        else let frameLen = 1 + 4 + unat payloadLen + 1 in
          if length (rx_buffer r) < frameLen then (Ok (), r)
          else case GotMessage E (take frameLen (rx_buffer r)) (rx_server r) of
                 (Ok m, s) \<Rightarrow>
                   ProcessMessages E aSocket
                     ((rx_enqueue aSocket (Some m) r)\<lparr>rx_server := s, rx_buffer := drop frameLen (rx_buffer r)\<rparr>)
               | (Throw e, s) \<Rightarrow> (Throw e, r\<lparr>rx_server := s\<rparr>)
               | (Undef, s) \<Rightarrow> (Undef, r\<lparr>rx_server := s\<rparr>)
               | (Hang, s) \<Rightarrow> (Hang, r\<lparr>rx_server := s\<rparr>))"
  by pat_completeness auto
termination
  by (relation "measure (\<lambda>(E, aSocket, r). length (rx_buffer r))") (auto simp: rx_enqueue_def)

declare ProcessMessages.simps [simp del]

text \<open>
  The loop of a receiver over what the calls of \<open>recv\<close> give: an error, or bytes, none of them at the end
  of the stream. Logic errors of \<open>ProcessMessages\<close> are logged; another exception ends the process.
\<close>

datatype recv_result = Recv_error | Received TBytes

definition ReceiveFromSocket :: "recv_result \<Rightarrow> TBytes \<Rightarrow> int \<times> TBytes" where
  "ReceiveFromSocket res buffer =
     (case res of Recv_error \<Rightarrow> (- 1, buffer) | Received bs \<Rightarrow> (int (length bs), buffer @ bs))"

definition CheckDisconnect :: "int \<Rightarrow> bool" where
  "CheckDisconnect bytesRead = (bytesRead = 0)"

fun receive_loop :: "'h env \<Rightarrow> int \<Rightarrow> recv_result list \<Rightarrow> 'h receiver \<Rightarrow> unit res \<times> 'h receiver" where
  "receive_loop E sock [] r = (Ok (), r)"
| "receive_loop E sock (res # rest) r =
     (if finished (rx_server r) then (Ok (), Disconnect sock r)
      else let (bytesRead, buffer) = ReceiveFromSocket res (rx_buffer r); r = r\<lparr>rx_buffer := buffer\<rparr> in
        if bytesRead < 0 then (Ok (), Disconnect sock r)
        else if CheckDisconnect bytesRead then (Ok (), Disconnect sock (Disconnect sock r))
        else case ProcessMessages E sock r of
               (Ok u, r) \<Rightarrow> receive_loop E sock rest r
             | (Throw (LogicError what), r) \<Rightarrow> receive_loop E sock rest r
             | (Throw (RuntimeError what), r) \<Rightarrow> (Throw (RuntimeError what), r)
             | (Undef, r) \<Rightarrow> (Undef, r)
             | (Hang, r) \<Rightarrow> (Hang, r))"

subsection \<open>Running a message\<close>

text \<open>
  One turn of the loop of \<open>RunMessage\<close>: the item that is in the message afterwards, and whether the turn
  set the error flag. When the error item could not be built the item stays.
\<close>

definition replace_item ::
  "TDataItem option \<Rightarrow> TDataItem option res \<times> 'h server \<Rightarrow> (TDataItem option \<times> bool) res \<times> 'h server" where
  "replace_item item built =
     mapS (\<lambda>errItem. (case errItem of None \<Rightarrow> item | Some e \<Rightarrow> Some e, True)) built"

definition run_item ::
  "'h env \<Rightarrow> nat \<Rightarrow> TDataItem option \<Rightarrow> 'h server \<Rightarrow> (TDataItem option \<times> bool) res \<times> 'h server" where
  "run_item E i item s =
     (let originalDid = (case item of None \<Rightarrow> DId_INVALID | Some it \<Rightarrow> it_DId it);
          ran = (case item of None \<Rightarrow> (Ok None, s) | Some it \<Rightarrow> mapS Some (item_Go E it s)) in
      case ran of
        (Ok item, s) \<Rightarrow>
          (let rc = (case item of None \<Rightarrow> ERR_MSG_PARSE | Some it \<Rightarrow> it_resultCode it) in
           if rc \<noteq> ERR_SUCCESS
           then replace_item item (BuildSysItemError E (of_nat i) originalDid (ErrIndex rc) 0 [] s)
           else (Ok (item, False), s))
      | (Throw (LogicError what), s) \<Rightarrow>
          (let (ok, errIndex, info) = TryParseGuardWhat what (ErrIndex ERR_MSG_PARSE) 0 in
           replace_item item (BuildSysItemError E (of_nat i) originalDid errIndex info (c_str what) s))
      | (Throw (RuntimeError what), s) \<Rightarrow>
          replace_item item
            (BuildSysItemError E (of_nat i) originalDid (ErrIndex ERR_MSG_PARSE) 0 (c_str what) s)
      | (Undef, s) \<Rightarrow> (Undef, s)
      | (Hang, s) \<Rightarrow> (Hang, s))"

fun run_items ::
  "'h env \<Rightarrow> nat \<Rightarrow> TDataItem option list \<Rightarrow> 'h server \<Rightarrow> (TDataItem option list \<times> bool) res \<times> 'h server"
where
  "run_items E i [] s = (Ok ([], False), s)"
| "run_items E i (item # items) s =
     bindS (run_item E i item s) (\<lambda>(item, err) s.
       mapS (\<lambda>(items, anyError). (item # items, err \<or> anyError)) (run_items E (i + 1) items s))"

definition RunMessage :: "'h env \<Rightarrow> TMessage \<Rightarrow> 'h server \<Rightarrow> (bool \<times> TMessage) res \<times> 'h server" where
  "RunMessage E m s =
     bindS (run_items E 0 (DataItems m) s) (\<lambda>(items, anyError) s.
       (bindR (setMId (after_ids E) (if anyError then MId_E else MId_R) (m\<lparr>DataItems := items\<rparr>))
          (\<lambda>m. Ok (\<not> anyError, m)), s))"

text \<open>What is sent, and to whom; whether the call succeeds is only logged.\<close>

definition SendResponse :: "'h env \<Rightarrow> int \<Rightarrow> TMessage \<Rightarrow> 'h server \<Rightarrow> (int \<times> TBytes) res" where
  "SendResponse E Client m s = map_res (\<lambda>rbuf. (Client, rbuf)) (message_AsBytes (fp E) (cfg s) m True)"

text \<open>One turn of the action thread, on an action it has taken from the queue.\<close>

definition ActionThread_turn ::
  "'h env \<Rightarrow> TActionQueueItem \<Rightarrow> 'h server \<Rightarrow> (int \<times> TBytes) res \<times> 'h server" where
  "ActionThread_turn E anAction s =
     (case theMessage anAction of
        None \<Rightarrow> (Undef, s)
      | Some m \<Rightarrow>
          bindS (if Id m = MId_Q \<or> Id m = MId_C \<or> Id m = MId_M
                 then mapS snd (RunMessage E m s) else (Ok m, s))
            (\<lambda>m s. (SendResponse E (Socket anAction) m s, s)))"

subsection \<open>Greetings\<close>

definition SendAdcHello :: "int \<Rightarrow> TBytes" where
  "SendAdcHello sock = stuff [] ((word_of_int sock :: u32) OR 0x80000000)"

fun dac_hello :: "'h env \<Rightarrow> nat list \<Rightarrow> TDataItem option list \<Rightarrow> 'h server \<Rightarrow>
    TDataItem option list res \<times> 'h server" where
  "dac_hello E [] payload s = (Ok payload, s)"
| "dac_hello E (channel # channels) payload s =
     (if length (dacRanges (cfg s)) \<le> channel then (Undef, s)
      else bindS (fromBytes E (stuff [] DId_DAC_Range1 @ [5, 0, of_nat channel] @
                    stuff [] (dacRanges (cfg s) ! channel)) s)
             (\<lambda>(d2, result) s. dac_hello E channels (payload @ [Some d2]) s))"

text \<open>The items the board answers; a logic error of one leaves the rest out.\<close>

definition hello_items :: "'h env \<Rightarrow> nat \<Rightarrow> TDataItem res list" where
  "hello_items E n =
     (let object = \<lambda>did body. \<lparr>it_DId = did, it_Data = [], it_resultCode = ERR_SUCCESS, it_body = body\<rparr>
      in [Ok (object DId_BRD_Features (I_BRD (I_Features (TBRD_Features_default (garbage E n))))),
          Ok (object DId_BRD_DeviceID (I_BRD (I_DeviceID (TBRD_DeviceID_default (garbage E (n + 1)))))),
          Ok (object DId_ADC_BaseClock (I_ADC (I_BaseClock ADC_BaseClockParams_default))),
          Ok (object DId_BRD_FpgaID (I_BRD (I_FpgaId (TBRD_FpgaId_default (garbage E (n + 3)))))),
          map_res (\<lambda>p. object DId_BRD_GetNumberOfAdcChannels (I_BRD (I_GetNumberOfAdcChannels p)))
            (TBRD_GetNumberOfAdcChannels_new [])])"

fun go_all :: "'h env \<Rightarrow> TDataItem res list \<Rightarrow> TDataItem option list \<Rightarrow> 'h server \<Rightarrow>
    TDataItem option list res \<times> 'h server" where
  "go_all E [] payload s = (Ok payload, s)"
| "go_all E (item # items) payload s =
     (case bindS (item, s) (item_Go E) of
        (Ok it, s) \<Rightarrow> go_all E items (payload @ [Some it]) s
      | (Throw (LogicError what), s) \<Rightarrow> (Ok payload, s)
      | (Throw (RuntimeError what), s) \<Rightarrow> (Throw (RuntimeError what), s)
      | (Undef, s) \<Rightarrow> (Undef, s)
      | (Hang, s) \<Rightarrow> (Hang, s))"

definition SendControlHello :: "'h env \<Rightarrow> int \<Rightarrow> 'h server \<Rightarrow> TBytes res \<times> 'h server" where
  "SendControlHello E sock s =
     bindS (fromBytes E (stuff (stuff [] DId_TCP_ConnectionID) (4 :: u16) @ stuff [] (word_of_int sock :: u32)) s)
     (\<lambda>(d2, result) s. bindS (dac_hello E [0..<unat (NUM_DACs (cfg s))] [Some d2] s)
     (\<lambda>payload s. bindS (go_all E (hello_items E (allocs s)) payload (s\<lparr>allocs := allocs s + 5\<rparr>))
     (\<lambda>payload s. (bindR (TMessage_new (after_ids E) MId_H payload)
        (\<lambda>m. message_AsBytes (fp E) (cfg s) m True), s))))"

text \<open>The thread of a control connection.\<close>

definition threadReceiver ::
  "'h env \<Rightarrow> int \<Rightarrow> recv_result list \<Rightarrow> 'h receiver \<Rightarrow> (TBytes \<times> unit) res \<times> 'h receiver" where
  "threadReceiver E sock received r =
     (case SendControlHello E sock (rx_server r) of
        (hello, s) \<Rightarrow> bindS (hello, r\<lparr>rx_server := s, rx_buffer := []\<rparr>)
          (\<lambda>sent r. mapS (\<lambda>u. (sent, u)) (receive_loop E sock received r)))"


subsection \<open>The text of an exception\<close>

lemma find_sub_past:
  "find_sub pat P = None \<Longrightarrow> c \<notin> set pat \<Longrightarrow> pat \<noteq> [] \<Longrightarrow>
     find_sub pat (P @ c # R) = map_option ((+) (length P + 1)) (find_sub pat R)"
proof (induction P)
  case Nil
  have "take (length pat) (c # R) \<noteq> pat"
  proof
    assume "take (length pat) (c # R) = pat"
    with \<open>pat \<noteq> []\<close> have "hd pat = c" by (cases pat) auto
    with \<open>pat \<noteq> []\<close> \<open>c \<notin> set pat\<close> show False by (metis hd_in_set)
  qed
  then show ?case by simp
next
  case (Cons d P)
  from Cons.prems(1) have P: "find_sub pat P = None" and d: "take (length pat) (d # P) \<noteq> pat"
    by (auto split: if_splits)
  have "take (length pat) ((d # P) @ c # R) \<noteq> pat"
  proof
    assume *: "take (length pat) ((d # P) @ c # R) = pat"
    show False
    proof (cases "length pat \<le> length (d # P)")
      case True
      then have "take (length pat) ((d # P) @ c # R) = take (length pat) (d # P)"
        by (simp only: take_append) simp
      with * d show False by simp
    next
      case False
      then have "c \<in> set (take (length pat) ((d # P) @ c # R))"
        by (auto simp: take_append take_Cons' Suc_le_eq split: if_splits)
      with * \<open>c \<notin> set pat\<close> show False by simp
    qed
  qed
  with Cons.IH [OF P Cons.prems(2,3)] show ?case by (simp add: option.map_comp o_def)
qed

lemma find_sub_digits:
  "list_all isdigit ds \<Longrightarrow> find_sub ''): -'' (ds @ ''): -'' @ R) = Some (length ds)"
proof (induction ds)
  case (Cons d ds)
  then have "d \<noteq> CHR '')''" by (auto simp: isdigit_def)
  with Cons show ?case by simp
qed simp

lemma to_string_digits: "list_all isdigit (to_string n)"
proof -
  have "isdigit (digit_char d)" if "d < 10" for d
    using that by (simp add: isdigit_def digit_char_def)
  then show ?thesis using to_chars_digits [of 10 n] by (auto simp: to_string_def list_all_iff)
qed

lemma isdigit_not_nul: "isdigit c \<Longrightarrow> c \<noteq> CHR 0x00" by (auto simp: isdigit_def)

lemma hex_char: "digit_val c < 16 \<Longrightarrow> c \<noteq> CHR 0x00 \<and> c \<noteq> CHR ''=''"
  by (auto simp: digit_val_def isdigit_def islower_def isupper_def split: if_splits)

lemma to_hex_chars: "c \<in> set (to_hex i) \<Longrightarrow> c \<noteq> CHR 0x00 \<and> c \<noteq> CHR ''='' \<and> \<not> isspace c"
  using to_hex_digits [of i] hex_char digit_less_of_val by (fastforce simp: list_all_iff)

lemma GUARD_what_no_nul:
  assumes "CHR 0x00 \<notin> set file" "CHR 0x00 \<notin> set fname" "CHR 0x00 \<notin> set txt"
  shows "c_str (GUARD_what code info lineno file fname txt) = GUARD_what code info lineno file fname txt"
proof -
  have "CHR 0x00 \<notin> set (to_string n)" for n
    using to_string_digits [of n] isdigit_not_nul by (auto simp: list_all_iff)
  moreover have "CHR 0x00 \<notin> set (to_hex info)" using to_hex_chars by blast
  ultimately show ?thesis
    using assms unfolding c_str_def takeWhile_eq_all_conv GUARD_what_def by auto
qed

lemma trim_hex_to_hex: "trim_hex (CHR '' '' # to_hex (i :: u32)) = to_hex i"
proof -
  have ns: "\<forall>c \<in> set (to_hex i). \<not> isspace c" using to_hex_chars by blast
  have "dropWhile isspace (CHR '' '' # to_hex i) = to_hex i"
    using ns by (cases "to_hex i") (auto simp: isspace_def)
  moreover have "dropWhile isspace (rev (to_hex i)) = rev (to_hex i)"
    using ns by (cases "rev (to_hex i)") (auto dest: arg_cong [of _ _ set])
  moreover have "take 2 (to_hex i) \<noteq> ''0x'' \<and> take 2 (to_hex i) \<noteq> ''0X''"
  proof -
    have "CHR ''x'' \<notin> set (to_hex i)" "CHR ''X'' \<notin> set (to_hex i)"
      using to_hex_digits [of i] digit_less_of_val by (auto simp: list_all_iff)
    then show ?thesis by (metis in_set_takeD list.set_intros)
  qed
  ultimately show ?thesis by (simp add: trim_hex_def)
qed

lemma takeWhile_rev_last:
  "c \<notin> set bs \<Longrightarrow> rev (takeWhile (\<lambda>d. d \<noteq> c) (rev (as @ c # bs))) = bs"
proof -
  assume "c \<notin> set bs"
  then have "takeWhile (\<lambda>d. d \<noteq> c) (rev bs) = rev bs" by (auto simp: takeWhile_eq_all_conv)
  moreover have "takeWhile (\<lambda>d. d \<noteq> c) (rev bs @ c # rev as) = takeWhile (\<lambda>d. d \<noteq> c) (rev bs)"
    by (rule takeWhile_tail) simp
  ultimately have "takeWhile (\<lambda>d. d \<noteq> c) (rev (as @ c # bs)) = rev bs" by (metis rev.simps(2) rev_append append.assoc append_Cons append_Nil)
  then show ?thesis by (metis rev_rev_ident)
qed

lemma guard_info_last:
  assumes "CHR ''='' \<notin> set bs"
  shows "guard_info (as @ CHR ''='' # bs) info =
    (case stoul 16 (trim_hex bs) of Ok v \<Rightarrow> ucast v | _ \<Rightarrow> info)"
  unfolding guard_info_def takeWhile_rev_last [OF assms] by simp

text \<open>
  C11: The server reads its own exceptions. From the text the guard macro builds, with any error code and
  information word, the server's parser recovers the code's index and the word, as long as the names
  the compiler supplies hold no \<^verbatim>\<open>): -\<close> of their own.
\<close>

theorem guard_text_roundtrip:
  assumes "find_sub ''): -'' (CHR 0x0A # ''GUARD! '' @ file @ '': '' @ fname) = None"
    and "CHR 0x00 \<notin> set file" and "CHR 0x00 \<notin> set fname" and "CHR 0x00 \<notin> set txt"
  shows "TryParseGuardWhat (GUARD_what code info lineno file fname txt) errIndex0 info0 =
    (True, ErrIndex code, info)"
proof -
  let ?P = "CHR 0x0A # ''GUARD! '' @ file @ '': '' @ fname"
  let ?n = "to_string lineno" and ?d = "to_string (unat (- code))"
  let ?R = "?d @ '' '' @ txt @ '' = '' @ to_hex info"
  let ?s = "GUARD_what code info lineno file fname txt"
  have s: "?s = ?P @ CHR ''('' # ?n @ ''): -'' @ ?R" by (simp add: GUARD_what_def)
  have found: "find_sub ''): -'' ?s = Some (length ?P + 1 + length ?n)"
  proof -
  have "find_sub ''): -'' ?s = map_option ((+) (length ?P + 1)) (find_sub ''): -'' (?n @ ''): -'' @ ?R))"
    unfolding s by (rule find_sub_past [OF assms(1)]) simp_all
    then show ?thesis by (simp only: find_sub_digits [OF to_string_digits] option.map)
  qed
  have cut: "drop (length ?P + 1 + length ?n + 4) ?s = ?R"
  proof -
    have "?s = (?P @ CHR ''('' # ?n @ ''): -'') @ ?R" unfolding s by simp
    then have "drop (length (?P @ CHR ''('' # ?n @ ''): -'')) ?s = ?R" by (metis append_eq_conv_conj)
  moreover have "length (?P @ CHR ''('' # ?n @ ''): -'') = length ?P + 1 + length ?n + 4" by simp
    ultimately show ?thesis by metis
  qed
  have "takeWhile isdigit ?R = ?d"
    using to_string_digits by (simp add: takeWhile_append2 list_all_iff isdigit_def)
  moreover have "stoul 10 ?d = Ok (ucast (- code))"
    using stoul_to_string [of "unat (- code)"] unsigned_less [of "- code", where ?'a = nat]
    by (simp add: of_nat_unat)
  moreover have "guard_info ?s info0 = info"
  proof -
      have "?s = (?P @ CHR ''('' # ?n @ ''): -'' @ ?d @ '' '' @ txt @ '' '') @ CHR ''='' # CHR '' '' # to_hex info"
      unfolding s by simp
    moreover have "CHR ''='' \<notin> set (CHR '' '' # to_hex info)" using to_hex_chars by fastforce
    ultimately have "guard_info ?s info0 =
        (case stoul 16 (trim_hex (CHR '' '' # to_hex info)) of Ok v \<Rightarrow> ucast v | _ \<Rightarrow> info0)"
      using guard_info_last by metis
    then show ?thesis by (simp add: trim_hex_to_hex stoul_to_hex unsigned_ucast_eq take_bit_word_eq_self)
  qed
  ultimately show ?thesis
    using GUARD_what_no_nul [OF assms(2-4)] found cut
    by (simp add: TryParseGuardWhat_def Let_def ErrIndex_def to_string_def unsigned_ucast_eq take_bit_word_eq_self)
qed

theorem guard_text_roundtrip_witness:
  "TryParseGuardWhat (GUARD_what ERR_DId_BAD_PARAM 7 221 ''DataItems/DAC_.cpp'' ''parseBytes''
     ''DataItem Payload error'') 3 0 = (True, ErrIndex ERR_DId_BAD_PARAM, 7)"
  by (rule guard_text_roundtrip) (simp_all)


subsection \<open>Error items\<close>

lemma find_sys:
  "find_DId DId_SYS_Error = Some \<lparr>minLen = 0, typLen = 12, maxLen = 12, Construct = SYS C_TSYS_Error,
     desc = ''SYS_Error() '' @ arrow @ '' u32 Stage, u32 error code, u32 info'', go = None\<rparr>"
  "find_DId DId_SYS_ItemError = Some \<lparr>minLen = 0, typLen = 12, maxLen = 12, Construct = SYS C_TSYS_ItemError,
     desc = ''SYS_ItemError() '' @ arrow @ '' u16 itemIndex, u16 DId, u32 error code, u32 info'', go = None\<rparr>"
  by (simp_all only: find_DId_entry) (simp_all add: DIdDict_def)

text \<open>An item built from its id and its payload, by the dictionary.\<close>

lemma BuildDataItem_known:
  assumes "find_DId did = Some e" and "length payload \<le> 65535" and "unat (minLen e) = 0"
  shows "BuildDataItem E did payload s =
    (if length payload \<le> unat (maxLen e)
     then case construct E (Construct e) did payload s of
            (Throw (LogicError w), s) \<Rightarrow> (Ok None, s)
          | (Throw (RuntimeError w), s) \<Rightarrow> (Throw (RuntimeError w), s)
          | (r, s) \<Rightarrow> (map_res Some r, s)
     else (Ok None, s\<lparr>allocs := allocs s + 1\<rparr>))"
proof -
  let ?b = "stuff (stuff [] did) (of_nat (length payload) :: u16) @ payload"
  have b: "?b = stuff [] did @ stuff [] (of_nat (length payload) :: u16) @ payload"
    by (simp add: stuff_stuff)
  have n: "unat (of_nat (length payload) :: u16) = length payload"
    using assms(2) by (simp add: unsigned_of_nat take_bit_nat_eq_self)
  have head: "head_DId ?b = did" "head_dataLength ?b = of_nat (length payload)"
    unfolding b by simp_all
  have data: "take (length payload) (drop 4 ?b) = payload" by simp
  have "fromBytes E ?b s =
    (if length payload \<le> unat (maxLen e)
     then mapS (\<lambda>i. (i, ERR_SUCCESS)) (construct E (Construct e) did payload s)
     else (Ok (NYI_invalid, ERR_MSG_PAYLOAD_DATAITEM_LEN_MISMATCH), s\<lparr>allocs := allocs s + 1\<rparr>))"
    using fromBytes_complete [of ?b e E s] assms(1,3) n
    by (auto simp: head Let_def data simp del: take_append drop_append)
  then show ?thesis
    by (auto simp: BuildDataItem_def mapS_def split: prod.splits res.splits exn.splits)
qed

lemma error_payload:
  "stuff (stuff (stuff [] (a :: u32)) (b :: u32)) (c :: u32) = stuff [] a @ stuff [] b @ stuff [] c"
  "stuff (stuff (stuff (stuff [] (d :: u16)) (e :: u16)) b) c = stuff [] d @ stuff [] e @ stuff [] b @ stuff [] c"
  by (simp_all add: stuff_def)

lemma BuildSysError_result:
  assumes "length txt \<le> 65000"
  shows "BuildSysError E stage errIndex info txt s =
    (Ok (if txt = [] then Some \<lparr>it_DId = DId_SYS_Error, it_Data = [], it_resultCode = ERR_SUCCESS,
        it_body = I_SYS (I_SysError \<lparr>er_Stage = stage_number stage, er_ErrorCode = errIndex, er_Info = info\<rparr>)\<rparr>
      else None), s\<lparr>allocs := allocs s + 1\<rparr>)"
  using assms
  by (simp add: BuildSysError_def BuildDataItem_known [OF find_sys(1)] construct_def mapS_def Let_def
      TSYS_Error_new_def ReadU32LE_def error_payload)

lemma BuildSysItemError_result:
  assumes "length txt \<le> 65000"
  shows "BuildSysItemError E i did errIndex info txt s =
    (Ok (if txt = [] then Some \<lparr>it_DId = DId_SYS_ItemError, it_Data = [], it_resultCode = ERR_SUCCESS,
        it_body = I_SYS (I_SysItemError \<lparr>ie_ItemIndex = i, ie_DId = did, ie_ErrorCode = errIndex, ie_Info = info\<rparr>)\<rparr>
      else None), s\<lparr>allocs := allocs s + 1\<rparr>)"
  using assms
  by (simp add: BuildSysItemError_def BuildDataItem_known [OF find_sys(2)] construct_def mapS_def Let_def
      TSYS_ItemError_new_def ReadU32LE_def ReadU16LE_def error_payload)

subsection \<open>Running a message\<close>

lemma item_Go_DId: "item_Go E it s = (Ok it', s') \<Longrightarrow> it_DId it' = it_DId it"
  by (cases "it_body it")
    (auto simp: item_Go_def TDataItemBase_Go_def outcome_simps split: option.splits prod.splits)

end
