(* ===== verification/Framing.thy ===== *)
theory Framing
  imports Server
begin

text \<open>
  How the receiver cuts the byte stream: what it queues does not depend on how the bytes arrive, each
  complete frame becomes one message, and what remains is an incomplete frame.
\<close>

subsection \<open>Frames\<close>

text \<open>The frames at the front of a buffer, up to an incomplete or an oversized one, and the rest.\<close>

function cut_frames :: "TBytes \<Rightarrow> TBytes list \<times> TBytes" where
  "cut_frames buf =
     (if length buf < 5 \<or> maxPayloadLength < head_payload_size buf
         \<or> length buf < 6 + unat (head_payload_size buf) then ([], buf)
      else let n = 6 + unat (head_payload_size buf); (frames, rest) = cut_frames (drop n buf)
           in (take n buf # frames, rest))"
  by pat_completeness auto
termination by (relation "measure length") auto

declare cut_frames.simps [simp del]

definition oversized :: "TBytes \<Rightarrow> bool" where
  "oversized buf \<longleftrightarrow> 5 \<le> length buf \<and> maxPayloadLength < head_payload_size buf"

text \<open>The messages of a list of frames, parsed one after the other.\<close>

fun parse_frames :: "'h env \<Rightarrow> TBytes list \<Rightarrow> 'h server \<Rightarrow> TMessage list res \<times> 'h server" where
  "parse_frames E [] s = (Ok [], s)"
| "parse_frames E (f # fs) s =
     bindS (GotMessage E f s) (\<lambda>m s. mapS ((#) m) (parse_frames E fs s))"

lemma head_payload_size_append:
  "5 \<le> length buf \<Longrightarrow> head_payload_size (buf @ bs) = head_payload_size buf"
  by (simp add: head_payload_size_def)

lemma cut_frames_concat: "cut_frames buf = (fs, rest) \<Longrightarrow> buf = concat fs @ rest"
proof (induction buf arbitrary: fs rule: cut_frames.induct)
  case (1 buf)
  let ?n = "6 + unat (head_payload_size buf)"
  obtain fs' rest' where rec: "cut_frames (drop ?n buf) = (fs', rest')" by fastforce
  from 1 rec show ?case
    using append_take_drop_id [of ?n buf]
    by (auto simp: cut_frames.simps [of buf] Let_def split: if_splits simp del: append_take_drop_id)
qed

text \<open>One turn of the loop on a complete frame.\<close>

lemma ProcessMessages_frame:
  assumes "5 \<le> length (rx_buffer r)" and "\<not> maxPayloadLength < head_payload_size (rx_buffer r)"
    and "n = 6 + unat (head_payload_size (rx_buffer r))" and "n \<le> length (rx_buffer r)"
  shows "ProcessMessages E sock r =
    (case GotMessage E (take n (rx_buffer r)) (rx_server r) of
       (Ok m, s) \<Rightarrow> ProcessMessages E sock
          ((rx_enqueue sock (Some m) r)\<lparr>rx_server := s, rx_buffer := drop n (rx_buffer r)\<rparr>)
     | (Throw e, s) \<Rightarrow> (Throw e, r\<lparr>rx_server := s\<rparr>)
     | (Undef, s) \<Rightarrow> (Undef, r\<lparr>rx_server := s\<rparr>)
     | (Hang, s) \<Rightarrow> (Hang, r\<lparr>rx_server := s\<rparr>))"
  using assms(1,2,4) unfolding assms(3) by (subst ProcessMessages.simps) (simp add: Let_def)

lemma ProcessMessages_incomplete:
  "length (rx_buffer r) < 5 \<or> \<not> maxPayloadLength < head_payload_size (rx_buffer r) \<and>
     length (rx_buffer r) < 6 + unat (head_payload_size (rx_buffer r)) \<Longrightarrow>
   ProcessMessages E sock r = (Ok (), r)"
  by (subst ProcessMessages.simps) (auto simp: Let_def)

definition queued :: "int \<Rightarrow> TMessage list \<Rightarrow> TActionQueueItem option list" where
  "queued sock ms = map (\<lambda>m. Some \<lparr>Socket = sock, theMessage = Some m\<rparr>) ms"

definition receive_result ::
  "int \<Rightarrow> TMessage list \<Rightarrow> TBytes \<Rightarrow> 'h server \<Rightarrow> 'h receiver \<Rightarrow> 'h receiver" where
  "receive_result sock ms rest s r = r\<lparr>rx_buffer := rest, rx_server := s,
     rx_queue := (rx_queue r)\<lparr>sq_q := sq_q (rx_queue r) @ queued sock ms\<rparr>\<rparr>"

lemma receive_result_step:
  "receive_result sock ms rest s' ((rx_enqueue sock (Some m) r)\<lparr>rx_server := s, rx_buffer := b\<rparr>) =
     receive_result sock (m # ms) rest s' r"
  by (simp add: receive_result_def rx_enqueue_def enqueue_def queued_def)

lemma receive_result_self: "receive_result sock [] (rx_buffer r) (rx_server r) r = r"
  by (simp add: receive_result_def queued_def)

lemma ProcessMessages_frames_core:
  assumes "cut_frames (rx_buffer r) = (fs, rest)" and "\<not> oversized rest"
    and "parse_frames E fs (rx_server r) = (Ok ms, s)"
  shows "ProcessMessages E sock r = (Ok (), receive_result sock ms rest s r)"
  using assms
proof (induction E sock r arbitrary: fs ms rule: ProcessMessages.induct)
  case (1 E sock r)
  let ?b = "rx_buffer r"
  let ?n = "6 + unat (head_payload_size ?b)"
  show ?case
  proof (cases "length ?b < 5 \<or> maxPayloadLength < head_payload_size ?b \<or> length ?b < ?n")
    case True
    then have "fs = []" "rest = ?b" using "1.prems"(1) by (simp_all add: cut_frames.simps [of ?b])
    with True "1.prems"(2,3) show ?thesis
      using ProcessMessages_incomplete [of r E sock] receive_result_self [of sock r]
      by (auto simp: oversized_def)
  next
    case False
    then obtain fs' where fs: "fs = take ?n ?b # fs'" and rec: "cut_frames (drop ?n ?b) = (fs', rest)"
      using "1.prems"(1) by (subst (asm) cut_frames.simps) (auto simp: Let_def split: prod.splits)
    obtain m s1 ms' where m: "GotMessage E (take ?n ?b) (rx_server r) = (Ok m, s1)"
      and ms: "ms = m # ms'" and ps: "parse_frames E fs' s1 = (Ok ms', s)"
      using "1.prems"(3) fs by (auto simp: outcome_simps)
    let ?r = "(rx_enqueue sock (Some m) r)\<lparr>rx_server := s1, rx_buffer := drop ?n ?b\<rparr>"
    have "ProcessMessages E sock ?r = (Ok (), receive_result sock ms' rest s ?r)"
      using "1.IH" [of _ ?n, OF _ refl] False m rec ps "1.prems"(2) by (simp add: rx_enqueue_def)
    moreover have "ProcessMessages E sock r = ProcessMessages E sock ?r"
      using ProcessMessages_frame [of r ?n E sock] False m by simp
    ultimately show ?thesis using ms receive_result_step by metis
  qed
qed


subsection \<open>Frames of a buffer that arrives in pieces\<close>

lemma cut_frames_append:
  assumes "cut_frames as = (fs, r)" and "cut_frames (r @ bs) = (gs, rest)"
  shows "cut_frames (as @ bs) = (fs @ gs, rest)"
  using assms
proof (induction as arbitrary: fs rule: cut_frames.induct)
  case (1 as)
  let ?n = "6 + unat (head_payload_size as)"
  show ?case
  proof (cases "length as < 5 \<or> maxPayloadLength < head_payload_size as \<or> length as < ?n")
    case True
    then have "fs = []" "r = as" using "1.prems"(1) by (simp_all add: cut_frames.simps [of as])
    then show ?thesis using "1.prems"(2) by simp
  next
    case False
    then obtain fs' where fs: "fs = take ?n as # fs'" and rec: "cut_frames (drop ?n as) = (fs', r)"
      using "1.prems"(1) by (subst (asm) cut_frames.simps) (auto simp: Let_def split: prod.splits)
    have "cut_frames (drop ?n as @ bs) = (fs' @ gs, rest)"
      using "1.IH" [OF False refl rec "1.prems"(2)] .
    moreover have "head_payload_size (as @ bs) = head_payload_size as" "?n \<le> length as"
      using False head_payload_size_append [of as bs] by simp_all
    ultimately show ?thesis
      using False fs by (simp add: cut_frames.simps [of "as @ bs"] Let_def)
  qed
qed

lemma cut_frames_rest: "cut_frames bs = (fs, r) \<Longrightarrow> cut_frames r = ([], r)"
proof (induction bs arbitrary: fs rule: cut_frames.induct)
  case (1 bs)
  obtain fs' r' where rec: "cut_frames (drop (6 + unat (head_payload_size bs)) bs) = (fs', r')"
    by fastforce
  show ?case
  proof (cases "length bs < 5 \<or> maxPayloadLength < head_payload_size bs \<or>
      length bs < 6 + unat (head_payload_size bs)")
    case True
    then have "cut_frames bs = ([], bs)" by (simp add: cut_frames.simps [of bs])
    with "1.prems" show ?thesis by simp
  next
    case False
    with "1.prems" rec have "r' = r" by (auto simp: cut_frames.simps [of bs] Let_def)
    with "1.IH" [OF False refl] rec show ?thesis by blast
  qed
qed

lemma oversized_append: "oversized r \<Longrightarrow> oversized (r @ bs) \<and> cut_frames (r @ bs) = ([], r @ bs)"
  using head_payload_size_append [of r bs]
  by (simp add: oversized_def cut_frames.simps [of "r @ bs"])

lemma append_Cons_fun: "(@) (x # xs) = (\<lambda>ys. x # xs @ ys)"
  by (rule ext) simp

lemma parse_frames_append:
  "parse_frames E (fs @ gs) s =
     bindS (parse_frames E fs s) (\<lambda>ms s. mapS ((@) ms) (parse_frames E gs s))"
proof (induction fs arbitrary: s)
  case Nil
  then show ?case by (cases "parse_frames E gs s"; cases "fst (parse_frames E gs s)") (auto simp: mapS_def)
next
  case (Cons f fs)
  then show ?case
    by (cases "GotMessage E f s"; cases "fst (GotMessage E f s)")
      (auto simp: mapS_def bindS_def res.map_comp o_def append_Cons_fun split: res.splits prod.splits)
qed

text \<open>Parsing never sets the flag that ends the server.\<close>

lemma finished_fromBytes: "finished (snd (fromBytes E bs s)) = finished s"
proof -
  have "finished (snd (body_construct E k b s)) = finished s" for k b
    by (cases k) (auto simp: split_beta Let_def)
  then have "finished (snd (construct E k did b s)) = finished s" for k did b
    by (simp add: construct_def split_beta Let_def)
  then show ?thesis
    by (auto simp: fromBytes_def bindS_def Let_def split: res.splits option.splits)
qed

lemma finished_BuildDataItem: "finished (snd (BuildDataItem E did p s)) = finished s"
proof -
  let ?b = "stuff (stuff [] did) (of_nat (length p) :: u16) @ p"
  obtain q s2 where e: "fromBytes E ?b s = (q, s2)" by fastforce
  then have "finished s2 = finished s" using finished_fromBytes [of E ?b s] by simp
  with e show ?thesis
    by (cases q) (auto simp: BuildDataItem_def split: exn.splits)
qed

lemma finished_parse_loop: "finished (snd (parse_loop E bs n acc s)) = finished s"
proof (induction E bs n acc s rule: parse_loop.induct)
  case (1 E bs n acc s)
  show ?case
    using 1 finished_fromBytes [of E bs s]
    by (subst parse_loop.simps) (auto simp: Let_def split: prod.splits res.splits)
qed

lemma finished_GotMessage: "finished (snd (GotMessage E f s)) = finished s"
proof -
  have FB: "finished (snd (FromBytes E f s)) = finished s"
    by (auto simp: FromBytes_def parsePayload_def bindS_def Let_def finished_parse_loop split: res.splits)
  have "finished (snd (BuildSysError E st i n t s)) = finished s" for st i n t s
    by (simp add: BuildSysError_def finished_BuildDataItem)
  then have X: "finished (snd (bindS (r, s) (\<lambda>x s. bindS (BuildSysError E st i n t s) (\<lambda>di s. (Ok (g di x), s))))) =
      finished s" for r s st i n t and g :: "TDataItem option \<Rightarrow> TMessage \<Rightarrow> TMessage"
    by (auto simp: bindS_def split: res.splits)
  show ?thesis
    using FB X by (auto simp: GotMessage_def split: prod.splits res.splits exn.splits)
qed

lemma finished_parse_frames: "parse_frames E fs s = (Ok ms, s') \<Longrightarrow> finished s' = finished s"
proof (induction fs arbitrary: ms s)
  case (Cons f fs)
  then show ?case using finished_GotMessage [of E f s] by (fastforce simp: outcome_simps)
qed simp


subsection \<open>The receive loop\<close>

lemma receive_result_append:
  "receive_result sock ns rest s' (receive_result sock ms r1 s (r\<lparr>rx_buffer := b\<rparr>)) =
     receive_result sock (ms @ ns) rest s' r"
  by (simp add: receive_result_def queued_def)

lemma receive_loop_core:
  assumes "[] \<notin> set chunks" and "cut_frames (rx_buffer r) = ([], rx_buffer r)"
    and "cut_frames (rx_buffer r @ concat chunks) = (fs, rest)" and "\<not> oversized rest"
    and "parse_frames E fs (rx_server r) = (Ok ms, s)" and "\<not> finished (rx_server r)"
  shows "receive_loop E sock (map Received chunks) r = (Ok (), receive_result sock ms rest s r)"
  using assms
proof (induction chunks arbitrary: r fs ms)
  case Nil
  then show ?case using receive_result_self [of sock r] by auto
next
  case (Cons c cs)
  let ?b = "rx_buffer r @ c"
  obtain fs1 r1 where cut1: "cut_frames ?b = (fs1, r1)" by fastforce
  obtain fs2 rest2 where cut2: "cut_frames (r1 @ concat cs) = (fs2, rest2)" by fastforce
  have ok: "\<not> oversized r1"
  proof
    assume o: "oversized r1"
    then have "cut_frames (?b @ concat cs) = (fs1, r1 @ concat cs)"
      using cut_frames_append [OF cut1] oversized_append by (metis append_Nil2)
    then have "oversized rest" using Cons.prems(3) o oversized_append by auto
    with Cons.prems(4) show False ..
  qed
  have fs: "fs = fs1 @ fs2" and rest: "rest2 = rest"
    using cut_frames_append [OF cut1 cut2] Cons.prems(3) by simp_all
  obtain ms1 s1 ms2 where p1: "parse_frames E fs1 (rx_server r) = (Ok ms1, s1)"
    and p2: "parse_frames E fs2 s1 = (Ok ms2, s)" and ms: "ms = ms1 @ ms2"
    using Cons.prems(5) by (auto simp: fs parse_frames_append outcome_simps)
  let ?r = "r\<lparr>rx_buffer := ?b\<rparr>"
  have step: "ProcessMessages E sock ?r = (Ok (), receive_result sock ms1 r1 s1 ?r)"
    using ProcessMessages_frames_core [of ?r fs1 r1 E ms1 s1 sock] cut1 ok p1 by simp
  let ?r1 = "receive_result sock ms1 r1 s1 ?r"
  have "receive_loop E sock (map Received cs) ?r1 = (Ok (), receive_result sock ms2 rest s ?r1)"
    using Cons.IH [of ?r1 fs2 ms2] Cons.prems(1,4,6) cut2 rest p2 cut_frames_rest [OF cut1]
      finished_parse_frames [OF p1]
    by (simp add: receive_result_def)
  moreover have "?r1 = receive_result sock ms1 r1 s1 (r\<lparr>rx_buffer := ?b\<rparr>)" by simp
  ultimately show ?case
    using step Cons.prems(1,6) receive_result_append [of sock ms2 rest s ms1 r1 s1 ?b r] ms
    by (auto simp: ReceiveFromSocket_def CheckDisconnect_def Let_def)
qed

lemma cut_frames_short: "length bs < 5 \<Longrightarrow> cut_frames bs = ([], bs)"
  by (simp add: cut_frames.simps [of bs])

text \<open>
  C4: The server's messages do not depend on how the bytes arrive. If the byte stream of a connection,
  cut at the lengths its frames declare, leaves no oversized frame, and each frame parses, then however
  the stream is split into received pieces, the receiver queues exactly the messages of the frames, in
  order, keeps the incomplete frame at the end for later, and closes nothing; and the frames and the
  rest are all the bytes received.
\<close>

theorem receiver_segmentation:
  assumes "[] \<notin> set chunks" and "length (rx_buffer r) < 5"
    and "cut_frames (rx_buffer r @ concat chunks) = (fs, rest)" and "\<not> oversized rest"
    and "parse_frames E fs (rx_server r) = (Ok ms, s)" and "\<not> finished (rx_server r)"
  shows "receive_loop E sock (map Received chunks) r = (Ok (), receive_result sock ms rest s r) \<and>
    rx_buffer r @ concat chunks = concat fs @ rest \<and> length ms = length fs"
proof -
  have "parse_frames E fs s0 = (Ok ms, s) \<Longrightarrow> length ms = length fs" for s0 ms
    by (induction fs arbitrary: s0 ms) (auto simp: outcome_simps)
  then show ?thesis
    using receive_loop_core [OF assms(1) cut_frames_short [OF assms(2)] assms(3-6)]
      cut_frames_concat [OF assms(3)] assms(5) by blast
qed

definition bank_receiver :: "bank receiver" where
  "bank_receiver = \<lparr>rx_buffer = [], rx_queue = SafeQueue_new, rx_closed = [], rx_server = bank_server\<rparr>"

lemma set_line_3_cut: "cut_frames set_line_3 = ([set_line_3], [])"
  "parse_frames E [set_line_3] s = (Ok [\<lparr>Id = MId_Q, DataItems = [Some \<lparr>it_DId = DId_DIO_SetBit, it_Data = [],
     it_resultCode = ERR_SUCCESS, it_body = I_DIO (I_SetBit \<lparr>bit_bitNumber = 3\<rparr>)\<rparr>]\<rparr>],
     s\<lparr>allocs := allocs s + 1\<rparr>)"
proof -
  have "head_payload_size set_line_3 = 5" "length set_line_3 = 11"
    by (simp_all add: set_line_3_def head_payload_size_def)
  then show "cut_frames set_line_3 = ([set_line_3], [])"
    by (simp add: cut_frames.simps [of set_line_3] cut_frames_short)
  show "parse_frames E [set_line_3] s = (Ok [\<lparr>Id = MId_Q, DataItems = [Some \<lparr>it_DId = DId_DIO_SetBit,
     it_Data = [], it_resultCode = ERR_SUCCESS, it_body = I_DIO (I_SetBit \<lparr>bit_bitNumber = 3\<rparr>)\<rparr>]\<rparr>],
     s\<lparr>allocs := allocs s + 1\<rparr>)"
    by (simp add: GotMessage_def set_line_3_parsed mapS_def)
qed

theorem receiver_segmentation_witness:
  "\<exists>ms s. receive_loop bank_env 7 (map Received [take 3 set_line_3, drop 3 set_line_3]) bank_receiver =
     (Ok (), receive_result 7 ms [] s bank_receiver) \<and> length ms = 1"
proof -
  let ?cs = "[take 3 set_line_3, drop 3 set_line_3]"
  have 1: "[] \<notin> set ?cs" by (simp add: set_line_3_def)
  have 2: "length (rx_buffer bank_receiver) < 5" "\<not> finished (rx_server bank_receiver)"
    by (simp_all add: bank_receiver_def bank_server_def)
  have 3: "cut_frames (rx_buffer bank_receiver @ concat ?cs) = ([set_line_3], [])"
    by (simp add: bank_receiver_def set_line_3_cut(1))
  have 4: "\<not> oversized []" by (simp add: oversized_def)
  show ?thesis
    using receiver_segmentation [OF 1 2(1) 3 4 set_line_3_cut(2) 2(2)]
    by (metis One_nat_def length_Cons list.size(3))
qed

end
