(* ===== verification/ServerRun.thy ===== *)
theory ServerRun
  imports Framing
begin

text \<open>
  What the action thread makes of a message: which items are run, how errors are reported, what the
  client is sent, and the whole way of a request from the socket to the board and back.
\<close>

subsection \<open>One item\<close>

text \<open>The texts of the exceptions an item can throw are no longer than an item can be.\<close>

definition short_texts :: "'h env \<Rightarrow> TDataItem \<Rightarrow> bool" where
  "short_texts E it \<longleftrightarrow> (\<forall>s w h. item_Go E it s = (Throw (LogicError w), h) \<or>
     item_Go E it s = (Throw (RuntimeError w), h) \<longrightarrow> length w \<le> 65000)"

definition item_error :: "nat \<Rightarrow> TDataId \<Rightarrow> u32 \<Rightarrow> u32 \<Rightarrow> TDataItem" where
  "item_error i did code info = \<lparr>it_DId = DId_SYS_ItemError, it_Data = [], it_resultCode = ERR_SUCCESS,
     it_body = I_SYS (I_SysItemError \<lparr>ie_ItemIndex = of_nat i, ie_DId = did, ie_ErrorCode = code, ie_Info = info\<rparr>)\<rparr>"

lemma BuildSysItemError_item:
  "length t \<le> 65000 \<Longrightarrow> BuildSysItemError E (of_nat i) did code info t s =
     (Ok (if t = [] then Some (item_error i did code info) else None), s\<lparr>allocs := allocs s + 1\<rparr>)"
  using BuildSysItemError_result [of t E "of_nat i" did code info s] by (simp add: item_error_def)

lemma length_c_str: "length (c_str w) \<le> length w"
  by (simp add: c_str_def length_takeWhile_le)

text \<open>The four ways a turn of \<open>RunMessage\<close> ends normally.\<close>

lemma run_item_null:
  "run_item E i None s = (Ok (Some (item_error i DId_INVALID (ErrIndex ERR_MSG_PARSE) 0), True),
     s\<lparr>allocs := allocs s + 1\<rparr>)"
  by (simp add: run_item_def replace_item_def BuildSysItemError_item mapS_def)

lemma run_item_success:
  "item_Go E it s = (Ok it', s') \<Longrightarrow> it_resultCode it' = ERR_SUCCESS \<Longrightarrow>
     run_item E i (Some it) s = (Ok (Some it', False), s')"
  by (simp add: run_item_def mapS_def)

text \<open>When nothing fails the turns are those of \<open>TMessage::Go\<close>.\<close>

lemma run_items_Go:
  assumes "Go_items E items s = (Ok items', s')" and "\<forall>it. Some it \<in> set items' \<longrightarrow> it_resultCode it = ERR_SUCCESS"
  shows "run_items E i items s = (Ok (items', False), s')"
  using assms
proof (induction E items s arbitrary: i items' rule: Go_items.induct)
  case (3 E item items s)
  obtain it t rest where go: "item_Go E item s = (Ok it, t)" "Go_items E items t = (Ok rest, s')" "items' = Some it # rest"
    using "3.prems"(1) by (clarsimp simp: outcome_simps)
  have "Some it \<in> set items'" "set rest \<subseteq> set items'" unfolding go(3) by auto
  then have ok: "it_resultCode it = ERR_SUCCESS" "\<forall>it. Some it \<in> set rest \<longrightarrow> it_resultCode it = ERR_SUCCESS"
    using "3.prems"(2) by blast+
  show ?case
    unfolding run_items.simps run_item_success [OF go(1) ok(1)] go(3)
    by (simp add: "3.IH" [OF go(2) ok(2), unfolded One_nat_def] mapS_def)
qed simp_all

lemma run_item_code:
  "item_Go E it s = (Ok it', s') \<Longrightarrow> it_resultCode it' \<noteq> ERR_SUCCESS \<Longrightarrow>
     run_item E i (Some it) s =
       (Ok (Some (item_error i (it_DId it) (ErrIndex (it_resultCode it')) 0), True), s'\<lparr>allocs := allocs s' + 1\<rparr>)"
  by (simp add: run_item_def replace_item_def BuildSysItemError_item mapS_def)

lemma run_item_throw:
  assumes "item_Go E it s = (Throw (LogicError w), s') \<or> item_Go E it s = (Throw (RuntimeError w), s')"
    and "length w \<le> 65000"
  shows "\<exists>code info. run_item E i (Some it) s =
    (Ok (Some (if c_str w = [] then item_error i (it_DId it) code info else it), True),
     s'\<lparr>allocs := allocs s' + 1\<rparr>)"
proof -
  have len: "length (c_str w) \<le> 65000" using assms(2) length_c_str [of w] by linarith
  obtain ok e inf where p: "TryParseGuardWhat w (ErrIndex ERR_MSG_PARSE) 0 = (ok, e, inf)"
    by (cases "TryParseGuardWhat w (ErrIndex ERR_MSG_PARSE) 0") auto
  from assms(1) show ?thesis
  proof
    assume g: "item_Go E it s = (Throw (LogicError w), s')"
    show ?thesis
      by (intro exI [of _ e] exI [of _ inf])
        (simp add: run_item_def g p replace_item_def BuildSysItemError_item [OF len] mapS_def)
  next
    assume g: "item_Go E it s = (Throw (RuntimeError w), s')"
    show ?thesis
      by (intro exI [of _ "ErrIndex ERR_MSG_PARSE"] exI [of _ 0])
        (simp add: run_item_def g replace_item_def BuildSysItemError_item [OF len] mapS_def)
  qed
qed

text \<open>What a turn leaves for an item of the request, by whether it set the error flag.\<close>

definition turn_result :: "nat \<Rightarrow> TDataItem option \<Rightarrow> TDataItem option \<Rightarrow> bool \<Rightarrow> bool" where
  "turn_result i item item' err \<longleftrightarrow>
     (if err then (\<exists>code info. item' = Some (item_error i (case item of None \<Rightarrow> DId_INVALID | Some a \<Rightarrow> it_DId a)
                      code info)) \<or> item \<noteq> None \<and> item' = item
      else \<exists>a b. item = Some a \<and> item' = Some b \<and> it_DId b = it_DId a \<and> it_resultCode b = ERR_SUCCESS)"

lemma turn_result_not_null: "turn_result i item item' err \<Longrightarrow> item' \<noteq> None"
  by (auto simp: turn_result_def split: if_splits)

lemma run_item_turn:
  assumes "run_item E i item s = (Ok (item', err), s')"
    and "\<forall>it. item = Some it \<longrightarrow> short_texts E it"
  shows "turn_result i item item' err"
proof (cases item)
  case None
  with assms(1) show ?thesis by (auto simp: run_item_null turn_result_def)
next
  case (Some it)
  obtain q s1 where go: "item_Go E it s = (q, s1)" by fastforce
  show ?thesis
  proof (cases q)
    case (Ok it')
    then show ?thesis
      using assms(1) Some go item_Go_DId [of E it s it' s1]
      by (cases "it_resultCode it' = ERR_SUCCESS")
        (auto simp: run_item_success run_item_code turn_result_def)
  next
    case (Throw e)
    then obtain w where w: "item_Go E it s = (Throw (LogicError w), s1) \<or>
        item_Go E it s = (Throw (RuntimeError w), s1)"
      using go by (cases e) auto
    moreover have "length w \<le> 65000" using assms(2) Some w by (auto simp: short_texts_def)
    ultimately show ?thesis
      using run_item_throw [of E it s w s1 i] assms(1) Some by (auto simp: turn_result_def split: if_splits)
  qed (use assms(1) Some go in \<open>simp_all add: run_item_def mapS_def\<close>)
qed

subsection \<open>All items\<close>

lemma run_items_turns:
  assumes "run_items E k items s = (Ok (items', err), s')"
    and "\<forall>it. Some it \<in> set items \<longrightarrow> short_texts E it"
  shows "\<exists>errs. length items' = length items \<and> length errs = length items \<and> (err \<longleftrightarrow> True \<in> set errs) \<and>
    (\<forall>i < length items. turn_result (k + i) (items ! i) (items' ! i) (errs ! i))"
  using assms
proof (induction items arbitrary: k s items' err)
  case (Cons item items)
  obtain it1 e1 s1 where one: "run_item E k item s = (Ok (it1, e1), s1)"
    using Cons.prems(1) by (auto simp: outcome_simps)
  then obtain items1 err1 where r: "items' = it1 # items1" "err = (e1 \<or> err1)"
    "run_items E (k + 1) items s1 = (Ok (items1, err1), s')"
    using Cons.prems(1) by (clarsimp simp: outcome_simps)
  obtain errs where errs: "length items1 = length items" "length errs = length items"
    "err1 \<longleftrightarrow> True \<in> set errs"
    "\<forall>i < length items. turn_result (k + 1 + i) (items ! i) (items1 ! i) (errs ! i)"
    using Cons.IH [OF r(3)] Cons.prems(2) by auto
  have "turn_result k item it1 e1" using run_item_turn [OF one] Cons.prems(2) by simp
  then have "\<forall>i < length (item # items). turn_result (k + i) ((item # items) ! i) (items' ! i) ((e1 # errs) ! i)"
    using errs(4) r(1) by (auto simp: nth_Cons split: nat.splits)
  with errs r show ?case by (intro exI [of _ "e1 # errs"]) auto
qed auto

text \<open>
  C7: A reply answers its request item by item. When a message has been run it has as many items as
  before and no null one; its id is \<^verbatim>\<open>R\<close> exactly when no turn set the error flag and \<^verbatim>\<open>E\<close> otherwise;
  the item at each position is the one that was run there, with a result code of success, or the error
  item with that position and the id of the failed item, or, after an exception, the request's own item.
\<close>

theorem run_message_item_by_item:
  assumes "RunMessage E m s = (Ok (ok, m'), s')"
    and "\<forall>it. Some it \<in> set (DataItems m) \<longrightarrow> short_texts E it"
  shows "\<exists>errs. length (DataItems m') = length (DataItems m) \<and> length errs = length (DataItems m) \<and>
    None \<notin> set (DataItems m') \<and> (ok \<longleftrightarrow> True \<notin> set errs) \<and> Id m' = (if ok then MId_R else MId_E) \<and>
    (\<forall>i < length (DataItems m). turn_result i (DataItems m ! i) (DataItems m' ! i) (errs ! i))"
proof -
  obtain items err where run: "run_items E 0 (DataItems m) s = (Ok (items, err), s')"
    and set: "bindR (setMId (after_ids E) (if err then MId_E else MId_R) (m\<lparr>DataItems := items\<rparr>))
      (\<lambda>m. Ok (\<not> err, m)) = Ok (ok, m')"
    using assms(1) by (auto simp: RunMessage_def bindS_eq_Ok)
  have "isValidMessageID (after_ids E) (if err then MId_E else MId_R)"
    by (rule ValidMessageIDs_valid) (simp add: ValidMessageIDs_def)
  with set have m': "m' = m\<lparr>DataItems := items, Id := (if err then MId_E else MId_R)\<rparr>"
    and ok: "ok = (\<not> err)"
    by (auto simp: setMId_def)
  obtain errs where errs: "length items = length (DataItems m)" "length errs = length (DataItems m)"
    "err \<longleftrightarrow> True \<in> set errs"
    "\<forall>i < length (DataItems m). turn_result i (DataItems m ! i) (items ! i) (errs ! i)"
    using run_items_turns [OF run assms(2)] by auto
  have "items ! i \<noteq> None" if "i < length (DataItems m)" for i
    using errs(4) that turn_result_not_null by blast
  then have "None \<notin> set items" using errs(1) by (metis in_set_conv_nth)
  with errs m' ok show ?thesis by (intro exI [of _ errs]) auto
qed


subsection \<open>A request for a digital line, from the socket to the board and back\<close>

definition set_line_item :: "u8 \<Rightarrow> TDataItem" where
  "set_line_item n = \<lparr>it_DId = DId_DIO_SetBit, it_Data = [], it_resultCode = ERR_SUCCESS,
     it_body = I_DIO (I_SetBit \<lparr>bit_bitNumber = n\<rparr>)\<rparr>"

text \<open>The frame of a request, and the frame of its reply.\<close>

definition set_line_frame :: "u8 \<Rightarrow> u8 \<Rightarrow> TBytes" where
  "set_line_frame mid n = [mid, 5, 0, 0, 0, 0x0E, 0x03, 1, 0, n, - (mid + n + 0x17)]"

lemma set_line_item_Go:
  "unat n < 32 \<Longrightarrow> item_Go E (set_line_item n) s =
     (Ok (set_line_item n), s\<lparr>dev := rmw (lib E) ofsDioOutputs (\<lambda>v. v OR push_bit (unat n) 1) (dev s)\<rparr>)"
  by (simp add: item_Go_def set_line_item_def on_dev_def mapS_def dio_bit_Go_rmw)

lemma set_line_item_short: "unat n < 32 \<Longrightarrow> short_texts E (set_line_item n)"
  by (simp add: short_texts_def set_line_item_Go)

lemma set_line_item_parsed:
  "parse_loop E [0x0E, 0x03, 1, 0, n, c] 5 [] s =
     (Ok ([Some (set_line_item n)], ERR_SUCCESS), s\<lparr>allocs := allocs s + 1\<rparr>)"
proof -
  let ?item = "[0x0E, 0x03, 1, 0, n, c] :: TBytes"
  have head: "head_DId ?item = DId_DIO_SetBit" "head_dataLength ?item = 1"
    by (simp_all add: head_DId_def head_dataLength_def)
  have "fromBytes E ?item s = (Ok (set_line_item n, ERR_SUCCESS), s\<lparr>allocs := allocs s + 1\<rparr>)"
    using fromBytes_complete [of ?item _ E s] head find_examples(1)
    by (simp add: construct_def mapS_def TDIO_Bit_new_def TDataItem_params_def set_line_item_def Let_def)
  then show ?thesis
    by (subst parse_loop.simps) (simp add: head, simp add: parse_loop.simps)
qed

lemma set_line_parsed:
  assumes "isValidMessageID (after_ids E) mid"
  shows "FromBytes E (set_line_frame mid n) s =
    (Ok (\<lparr>Id = mid, DataItems = [Some (set_line_item n)]\<rparr>, ERR_SUCCESS), s\<lparr>allocs := allocs s + 1\<rparr>)"
proof -
  have "calculateChecksum (set_line_frame mid n) = 0" "head_payload_size (set_line_frame mid n) = 5"
    by (simp_all add: calculateChecksum_sum set_line_frame_def head_payload_size_def)
  moreover have "drop 5 (set_line_frame mid n) = [0x0E, 0x03, 1, 0, n, - (mid + n + 0x17)]"
    "length (set_line_frame mid n) = 11" "head_type (set_line_frame mid n) = mid"
    by (simp_all add: set_line_frame_def head_type_def)
  ultimately show ?thesis
    using assms set_line_item_parsed [of E n "- (mid + n + 0x17)" s]
    by (simp add: FromBytes_def parsePayload_def TMessage_new_def setMId_def TMessage_default_def
        del: minus_add_distrib)
qed

lemma set_line_reply:
  "message_AsBytes F c \<lparr>Id = mid, DataItems = [Some (set_line_item n)]\<rparr> r = Ok (set_line_frame mid n)"
proof -
  have "stuff [] DId_DIO_SetBit = [0x0E, 0x03]" "stuff [] (1 :: u16) = [1, 0]"
    using stuff_le_read(1) [of "[0x0E, 0x03]"] stuff_le_read(1) [of "[1, 0]"] by simp_all
  moreover have "calcPayload F c (set_line_item n) r = [n]" "it_DId (set_line_item n) = DId_DIO_SetBit"
    by (simp_all add: calcPayload_def set_line_item_def TDIO_Bit_calcPayload_def)
  ultimately have item: "fst (AsBytes F c (set_line_item n) r) = [0x0E, 0x03, 1, 0, n]"
    unfolding AsBytes_def Let_def stuff_stuff by simp
  have "stuff_loop 4 (5 :: u32) = [5, 0, 0, 0]"
    using stuff_le_read(2) [of "[5, 0, 0, 0]"] by (simp add: stuff_u32 del: stuff_loop.simps)
  then have "appendPayloadLengthAndItems F c [mid] \<lparr>Id = mid, DataItems = [Some (set_line_item n)]\<rparr> r =
      Ok [mid, 5, 0, 0, 0, 0x0E, 0x03, 1, 0, n]"
    by (simp add: appendPayloadLengthAndItems_def appendLengthBytes_def item del: stuff_loop.simps)
  then show ?thesis
    by (simp add: message_AsBytes_def calculateChecksum_sum set_line_frame_def)
qed

lemma set_line_run:
  assumes "unat n < 32" and "mid \<in> {MId_Q, MId_C, MId_M}"
  shows "ActionThread_turn E \<lparr>Socket = sock, theMessage = Some \<lparr>Id = mid, DataItems = [Some (set_line_item n)]\<rparr>\<rparr> s =
    (Ok (sock, set_line_frame MId_R n),
     s\<lparr>dev := rmw (lib E) ofsDioOutputs (\<lambda>v. v OR push_bit (unat n) 1) (dev s)\<rparr>)"
proof -
  have go: "run_item E 0 (Some (set_line_item n)) s = (Ok (Some (set_line_item n), False),
      s\<lparr>dev := rmw (lib E) ofsDioOutputs (\<lambda>v. v OR push_bit (unat n) 1) (dev s)\<rparr>)"
    by (rule run_item_success [OF set_line_item_Go [OF assms(1)]]) (simp add: set_line_item_def)
  have R: "isValidMessageID (after_ids E) MId_R"
    by (rule ValidMessageIDs_valid) (simp add: ValidMessageIDs_def)
  have "RunMessage E \<lparr>Id = mid, DataItems = [Some (set_line_item n)]\<rparr> s =
    (Ok (True, \<lparr>Id = MId_R, DataItems = [Some (set_line_item n)]\<rparr>),
     s\<lparr>dev := rmw (lib E) ofsDioOutputs (\<lambda>v. v OR push_bit (unat n) 1) (dev s)\<rparr>)"
    using go R by (simp add: RunMessage_def mapS_def setMId_def)
  then show ?thesis
    using assms(2) by (auto simp: ActionThread_turn_def mapS_def SendResponse_def set_line_reply)
qed




theorem run_message_item_by_item_witness:
  "\<exists>m' s'. RunMessage bank_env \<lparr>Id = MId_Q, DataItems = [Some (set_line_item 3), None]\<rparr> bank_server =
     (Ok (False, m'), s') \<and> length (DataItems m') = 2 \<and> Id m' = MId_E"
proof -
  let ?m = "\<lparr>Id = MId_Q, DataItems = [Some (set_line_item 3), None]\<rparr>"
  have short: "\<forall>it. Some it \<in> set (DataItems ?m) \<longrightarrow> short_texts bank_env it"
    using set_line_item_short [of 3 bank_env] by simp
  have valid: "isValidMessageID (after_ids bank_env) MId_E"
    by (rule ValidMessageIDs_valid) (simp add: ValidMessageIDs_def)
  have "it_resultCode (set_line_item 3) = ERR_SUCCESS" by (simp add: set_line_item_def)
  then obtain m' s' where "RunMessage bank_env ?m bank_server = (Ok (False, m'), s')"
    using valid set_line_item_Go [of 3 bank_env bank_server]
    by (auto simp: RunMessage_def run_item_success run_item_null mapS_def setMId_def)
  with run_message_item_by_item [OF this short] show ?thesis by auto
qed

end
