(* ===== verification/ErrorReplies.thy ===== *)
theory ErrorReplies
  imports ServerRun
begin

text \<open>
  What a client is told when something goes wrong: exceptions of the parser and of the items, a wrong
  checksum, an oversized payload, and an exception nobody catches.
\<close>

subsection \<open>Exceptions\<close>

lemma GotMessage_throw:
  assumes "FromBytes E buf s = (Throw (LogicError w), s')" and "c_str w \<noteq> []" and "length w \<le> 65000"
  shows "GotMessage E buf s = (Ok \<lparr>Id = MId_X, DataItems = []\<rparr>, s'\<lparr>allocs := allocs s' + 1\<rparr>)"
proof -
  have len: "length (c_str w) \<le> 65000" using assms(3) length_c_str [of w] by linarith
  have "isValidMessageID (after_ids E) MId_X"
    by (rule ValidMessageIDs_valid) (simp add: ValidMessageIDs_def)
  then have X: "TMessage_new (after_ids E) MId_X [] = Ok \<lparr>Id = MId_X, DataItems = []\<rparr>"
    by (simp add: TMessage_new_def setMId_def TMessage_default_def)
  obtain ok e i where "TryParseGuardWhat w (ErrIndex ERR_MSG_PARSE) 0 = (ok, e, i)"
    by (cases "TryParseGuardWhat w (ErrIndex ERR_MSG_PARSE) 0") auto
  then show ?thesis
    using assms(2) by (simp add: GotMessage_def assms(1) X BuildSysError_result [OF len] add_item_def)
qed

lemma empty_message_bytes:
  "message_AsBytes F c \<lparr>Id = mid, DataItems = []\<rparr> r = Ok [mid, 0, 0, 0, 0, - mid]"
proof -
  have "stuff_loop 4 (0 :: u32) = [0, 0, 0, 0]"
    using stuff_le_read(2) [of "[0, 0, 0, 0]"] by (simp add: stuff_u32 del: stuff_loop.simps)
  then show ?thesis
    by (simp add: message_AsBytes_def appendPayloadLengthAndItems_def appendLengthBytes_def
        calculateChecksum_sum del: stuff_loop.simps)
qed

lemma not_run:
  "Id m \<notin> {MId_Q, MId_C, MId_M} \<Longrightarrow> message_AsBytes (fp E) (cfg s) m True = Ok bs \<Longrightarrow>
     ActionThread_turn E \<lparr>Socket = sock, theMessage = Some m\<rparr> s = (Ok (sock, bs), s)"
  by (simp add: ActionThread_turn_def SendResponse_def)

lemma length_to_string: "n < 10 ^ Suc k \<Longrightarrow> length (to_string n) \<le> Suc k"
  unfolding to_string_def by (rule length_to_chars_le)

lemma length_GUARD_what:
  assumes "length file + length fname + length t \<le> 60000" and "lineno < 100000" and "unat (- code) < 100000"
  shows "length (GUARD_what code info lineno file fname t) \<le> 65000"
  using assms length_to_string [of lineno 4] length_to_string [of "unat (- code)" 4] length_to_hex(3) [of info]
  by (simp add: GUARD_what_def)

lemma GUARD_what_text: "c_str (GUARD_what code info lineno file fname t) \<noteq> []"
  by (simp add: GUARD_what_def c_str_def)

text \<open>The parser on a complete frame with a known message id.\<close>

lemma FromBytes_frame:
  assumes "length buf = 6 + unat (head_payload_size buf)"
    and "isValidMessageID (after_ids E) (head_type buf)"
  shows "FromBytes E buf s =
    bindS (if 0 < head_payload_size buf then parsePayload E (drop 5 buf) (head_payload_size buf) s
           else (Ok ([], ERR_SUCCESS), s))
      (\<lambda>(dataItems, result) s.
         if calculateChecksum buf \<noteq> 0 then (Ok (TMessage_default, ERR_MSG_CHECKSUM), s)
         else (bindR (TMessage_new (after_ids E) (head_type buf) dataItems) (\<lambda>m. Ok (m, result)), s))"
proof -
  have "unat (6 + head_payload_size buf) \<le> 6 + unat (head_payload_size buf)"
    by (simp add: unat_word_ariths)
  then show ?thesis using assms by (simp add: FromBytes_def Let_def)
qed

text \<open>
  The details of a syntax error never reach the client. A complete frame with a known message id whose
  first item has an unknown id makes the parser throw; the server queues an \<^verbatim>\<open>X\<close> message without any
  item, because the text it puts in the error item makes the item too long for its own dictionary, and
  the client is sent six bytes that do not say what was wrong.
\<close>

lemma syntax_error_reply_is_empty:
  assumes "length buf = 6 + unat (head_payload_size buf)" and "4 \<le> head_payload_size buf"
    and "isValidMessageID (after_ids E) (head_type buf)" and "find_DId (head_DId (drop 5 buf)) = None"
    and "4 + ucast (head_dataLength (drop 5 buf)) \<le> head_payload_size buf"
  shows "GotMessage E buf s = (Ok \<lparr>Id = MId_X, DataItems = []\<rparr>, s\<lparr>allocs := allocs s + 1\<rparr>) \<and>
    ActionThread_turn E \<lparr>Socket = sock, theMessage = Some \<lparr>Id = MId_X, DataItems = []\<rparr>\<rparr> t =
      (Ok (sock, [0x58, 0, 0, 0, 0, 0xA8]), t)"
proof -
  let ?n = "head_payload_size buf" and ?b = "drop 5 buf"
  let ?w = "GUARD_what ERR_DId_INVALID (ucast (head_DId ?b)) 545 file_TDataItem ''fromBytes'' ''DId Invalid''"
  have len: "4 \<le> length ?b" using assms(1,2) by (simp add: word_le_nat_alt)
  have throw: "fromBytes E ?b s = (Throw (LogicError ?w), s)"
    using len assms(4)
    by (simp add: fromBytes_def isValidDataItemID_def GUARD_def err_text_def err_msg_def Let_def)
  have "parse_loop E ?b ?n [] s = (Throw (LogicError ?w), s)"
    using assms(2,5) len by (subst parse_loop.simps) (simp add: throw Let_def not_less)
  moreover have "0 < ?n" "?n \<noteq> 0" using assms(2) by (auto simp: word_less_nat_alt word_le_nat_alt)
  ultimately have "FromBytes E buf s = (Throw (LogicError ?w), s)"
    using FromBytes_frame [OF assms(1,3), of s] by (simp add: parsePayload_def)
  moreover have "length ?w \<le> 65000"
    by (rule length_GUARD_what) (simp_all add: file_TDataItem_def)
  ultimately have "GotMessage E buf s = (Ok \<lparr>Id = MId_X, DataItems = []\<rparr>, s\<lparr>allocs := allocs s + 1\<rparr>)"
    by (rule GotMessage_throw [OF _ GUARD_what_text])
  moreover have "ActionThread_turn E \<lparr>Socket = sock, theMessage = Some \<lparr>Id = MId_X, DataItems = []\<rparr>\<rparr> t =
      (Ok (sock, [0x58, 0, 0, 0, 0, 0xA8]), t)"
    using empty_message_bytes [of "fp E" "cfg t" MId_X True] by (intro not_run) simp_all
  ultimately show ?thesis by simp
qed

text \<open>A request for an id that is in no dictionary, for the example.\<close>

definition unknown_id_frame :: TBytes where
  "unknown_id_frame = [0x51, 4, 0, 0, 0, 0xFF, 0x7F, 0, 0, 0x2D]"

lemma syntax_error_reply_is_empty_example:
  "fst (GotMessage bank_env unknown_id_frame bank_server) = Ok \<lparr>Id = MId_X, DataItems = []\<rparr>"
proof -
  have "head_payload_size unknown_id_frame = 4" "length unknown_id_frame = 10"
    "head_type unknown_id_frame = 0x51" "drop 5 unknown_id_frame = [0xFF, 0x7F, 0, 0, 0x2D]"
    by (simp_all add: unknown_id_frame_def head_payload_size_def head_type_def)
  moreover have "head_DId [0xFF, 0x7F, 0, 0, 0x2D] = 0x7FFF" "head_dataLength [0xFF, 0x7F, 0, 0, 0x2D] = 0"
    by (simp_all add: head_DId_def head_dataLength_def)
  moreover have "find_DId 0x7FFF = None" by (simp add: find_DId_def DIdDict_def)
  moreover have "isValidMessageID (after_ids bank_env) MId_Q"
    by (rule ValidMessageIDs_valid) (simp add: ValidMessageIDs_def)
  ultimately show ?thesis
    using syntax_error_reply_is_empty [of unknown_id_frame bank_env bank_server] by simp
qed

subsection \<open>A wrong checksum\<close>

text \<open>
  A wrong checksum is answered with six null bytes. When the payload of a complete frame parses but the
  bytes of the frame do not sum to zero, the server queues a message with the id zero and no items,
  which the action thread sends without running anything; what the constructors of the items did to the
  state while parsing stays done.
\<close>

lemma bad_checksum_reply:
  assumes "length buf = 6 + unat (head_payload_size buf)" and "isValidMessageID (after_ids E) (head_type buf)"
    and "calculateChecksum buf \<noteq> 0"
    and "parsePayload E (drop 5 buf) (head_payload_size buf) s = (Ok (items, result), s')"
  shows "GotMessage E buf s = (Ok TMessage_default, s') \<and>
    ActionThread_turn E \<lparr>Socket = sock, theMessage = Some TMessage_default\<rparr> t = (Ok (sock, [0, 0, 0, 0, 0, 0]), t)"
proof -
  have "(if 0 < head_payload_size buf then parsePayload E (drop 5 buf) (head_payload_size buf) s
      else (Ok ([], ERR_SUCCESS), s)) = (Ok (items, result), s')"
    using assms(4) by (auto simp: parsePayload_def word_gt_0)
  then have "FromBytes E buf s = (Ok (TMessage_default, ERR_MSG_CHECKSUM), s')"
    using FromBytes_frame [OF assms(1,2), of s] assms(3) by simp
  then have "GotMessage E buf s = (Ok TMessage_default, s')" by (simp add: GotMessage_def)
  moreover have "ActionThread_turn E \<lparr>Socket = sock, theMessage = Some TMessage_default\<rparr> t =
      (Ok (sock, [0, 0, 0, 0, 0, 0]), t)"
    using empty_message_bytes [of "fp E" "cfg t" 0 True]
    by (intro not_run) (simp_all add: TMessage_default_def)
  ultimately show ?thesis by blast
qed

text \<open>A request to stream to a connection, with any last byte.\<close>

definition stream_frame :: "u32 \<Rightarrow> u8 \<Rightarrow> TBytes" where
  "stream_frame conn ck = [0x51, 8, 0, 0, 0, 0x01, 0x11, 4, 0] @ stuff [] conn @ [ck]"

lemma find_stream:
  "find_DId DId_ADC_StreamStart = Some \<lparr>minLen = 4, typLen = 4, maxLen = 4,
     Construct = ADC C_TADC_StreamStart, desc = ''ADC_StreamStart((u32)AdcConnectionId)'', go = None\<rparr>"
  by (simp only: find_DId_entry) (simp add: DIdDict_def)

lemma stream_frame_parts:
  "length (stream_frame conn ck) = 14" "head_payload_size (stream_frame conn ck) = 8"
  "head_type (stream_frame conn ck) = MId_Q"
  "drop 5 (stream_frame conn ck) = [0x01, 0x11, 4, 0] @ stuff [] conn @ [ck]"
  "head_DId ([0x01, 0x11, 4, 0] @ bs) = DId_ADC_StreamStart" "head_dataLength ([0x01, 0x11, 4, 0] @ bs) = 4"
  by (simp_all add: stream_frame_def head_payload_size_def head_type_def head_DId_def head_dataLength_def)

abbreviation (input) stream_item_bytes :: "u32 \<Rightarrow> u8 \<Rightarrow> TBytes" where
  "stream_item_bytes conn ck \<equiv> [0x01, 0x11, 4, 0] @ stuff [] conn @ [ck]"

lemma stream_fromBytes:
  "fromBytes E (stream_item_bytes conn ck) s =
     mapS (\<lambda>i. (i, ERR_SUCCESS)) (construct E (ADC C_TADC_StreamStart) DId_ADC_StreamStart (stuff [] conn) s)"
proof -
  have len: "4 \<le> length (stream_item_bytes conn ck)"
    "4 + unat (head_dataLength (stream_item_bytes conn ck)) \<le> length (stream_item_bytes conn ck)"
    by (simp_all only: stream_frame_parts) simp_all
  have "find_DId (head_DId (stream_item_bytes conn ck)) = Some \<lparr>minLen = 4, typLen = 4, maxLen = 4,
     Construct = ADC C_TADC_StreamStart, desc = ''ADC_StreamStart((u32)AdcConnectionId)'', go = None\<rparr>"
    by (simp only: stream_frame_parts find_stream)
  moreover have "take 4 (drop 4 (stream_item_bytes conn ck)) = stuff [] conn" by simp
  ultimately show ?thesis
    using fromBytes_complete [OF len, of _ E s] by (simp only: stream_frame_parts Let_def) simp
qed

lemma stream_parsePayload:
  "parsePayload E (stream_item_bytes conn ck) 8 s =
     mapS (\<lambda>i. ([Some i], ERR_SUCCESS))
       (construct E (ADC C_TADC_StreamStart) DId_ADC_StreamStart (stuff [] conn) s)"
proof -
  obtain q s1 where c: "construct E (ADC C_TADC_StreamStart) DId_ADC_StreamStart (stuff [] conn) s = (q, s1)"
    by fastforce
  have "parse_loop E bs 0 acc s = (Ok (acc, ERR_SUCCESS), s)" for bs acc s
    by (simp add: parse_loop.simps)
  then show ?thesis
    unfolding parsePayload_def
    by (subst parse_loop.simps, cases q)
      (simp_all add: stream_fromBytes stream_frame_parts Let_def mapS_def c del: append_Cons)
qed

lemma stream_construct:
  "construct E (ADC C_TADC_StreamStart) DId_ADC_StreamStart (stuff [] (conn :: u32)) s =
     (if AdcStreamingConnection (adc s) = - 1
      then (Ok \<lparr>it_DId = DId_ADC_StreamStart, it_Data = [], it_resultCode = ERR_SUCCESS,
                 it_body = I_ADC (I_StreamStart \<lparr>argConnectionID = conn\<rparr> (stuff [] conn))\<rparr>,
            s\<lparr>adc := (adc s)\<lparr>AdcStreamingConnection := sint conn\<rparr>, allocs := allocs s + 1\<rparr>)
      else (Throw (LogicError (ADC_Busy (AdcStreamingConnection (adc s)))), s\<lparr>allocs := allocs s + 1\<rparr>))"
  by (simp add: construct_def mapS_def TADC_StreamStart_new_def Let_def)


text \<open>
  C35: Anyone can take the stream with a message that is refused. While nobody streams, a request to stream
  with any checksum that is wrong is answered with six null bytes, but the connection it names holds the
  stream from then on: every later request to stream, with a right checksum or not, is answered with an
  empty \<^verbatim>\<open>X\<close>, and no action of the server has run.
\<close>

theorem refused_message_claims_stream:
  assumes "AdcStreamingConnection (adc s) = - 1" and "sint conn \<noteq> - 1"
    and "calculateChecksum (stream_frame conn ck) \<noteq> 0"
  shows "\<exists>s'. GotMessage E (stream_frame conn ck) s = (Ok TMessage_default, s') \<and>
    dev s' = dev s \<and> AdcStreamingConnection (adc s') = sint conn \<and>
    (\<forall>conn' ck'. \<exists>s''. GotMessage E (stream_frame conn' ck') s' = (Ok \<lparr>Id = MId_X, DataItems = []\<rparr>, s'') \<and>
       adc s'' = adc s')"
proof -
  have valid: "isValidMessageID (after_ids E) (head_type (stream_frame c k))" for c k
    unfolding stream_frame_parts by (rule ValidMessageIDs_valid) (simp add: ValidMessageIDs_def)
  have full: "length (stream_frame c k) = 6 + unat (head_payload_size (stream_frame c k))" for c k
    by (simp add: stream_frame_parts)
  note frame = FromBytes_frame [OF full valid, unfolded stream_frame_parts stream_parsePayload stream_construct]
  let ?s = "s\<lparr>adc := (adc s)\<lparr>AdcStreamingConnection := sint conn\<rparr>, allocs := allocs s + 1\<rparr>"
  have first: "GotMessage E (stream_frame conn ck) s = (Ok TMessage_default, ?s)"
    using assms(1,3) by (simp add: GotMessage_def frame mapS_def)
  have "nat \<bar>sint conn\<bar> < 10 ^ Suc 9"
    using sint_ge [of conn] sint_less [of conn] by simp
  then have "length (ADC_Busy (sint conn)) \<le> 65000"
    using length_to_string [of "nat \<bar>sint conn\<bar>" 9] 
    by (cases "sint conn < 0") (simp_all add: ADC_Busy_def int_to_string_def)
  moreover have "c_str (ADC_Busy x) \<noteq> []" for x by (simp add: ADC_Busy_def c_str_def)
  moreover have "FromBytes E (stream_frame c k) ?s =
      (Throw (LogicError (ADC_Busy (sint conn))), ?s\<lparr>allocs := allocs ?s + 1\<rparr>)" for c k
    using assms(2) by (simp add: frame mapS_def)
  ultimately have "GotMessage E (stream_frame c k) ?s =
      (Ok \<lparr>Id = MId_X, DataItems = []\<rparr>, ?s\<lparr>allocs := allocs ?s + 1, allocs := allocs ?s + 2\<rparr>)" for c k
    using GotMessage_throw [of E "stream_frame c k" ?s] by simp
  with first show ?thesis by (intro exI [of _ ?s]) simp
qed

theorem refused_message_claims_stream_witness:
  "\<exists>s'. GotMessage bank_env (stream_frame 9 0) bank_server = (Ok TMessage_default, s') \<and>
     AdcStreamingConnection (adc s') = 9"
proof -
  have "calculateChecksum (stream_frame 9 0) \<noteq> 0"
    using stuff_le_read(2) [of "[9, 0, 0, 0]"]
    by (simp add: stream_frame_def calculateChecksum_sum)
  then show ?thesis
    using refused_message_claims_stream [of bank_server 9 0 bank_env]
    by (auto simp: bank_server_def adc_idle_def)
qed

lemma bad_checksum_reply_example:
  "fst (GotMessage bank_env (stream_frame 9 0) bank_server) = Ok TMessage_default"
proof -
  have "calculateChecksum (stream_frame 9 0) \<noteq> 0"
    using stuff_le_read(2) [of "[9, 0, 0, 0]"]
    by (simp add: stream_frame_def calculateChecksum_sum)
  moreover have "isValidMessageID (after_ids bank_env) MId_Q"
    by (rule ValidMessageIDs_valid) (simp add: ValidMessageIDs_def)
  moreover obtain it s' where "parsePayload bank_env (stream_item_bytes 9 0) 8 bank_server = (Ok ([Some it], ERR_SUCCESS), s')"
    unfolding stream_parsePayload stream_construct by (simp add: mapS_def bank_server_def adc_idle_def)
  ultimately show ?thesis
    using bad_checksum_reply [of "stream_frame 9 0" bank_env bank_server "[Some it]" ERR_SUCCESS s']
    by (simp add: stream_frame_parts)
qed


subsection \<open>An exception of an item\<close>

text \<open>
  C37: An exception in an item is not reported. When the action of the only item of a message throws an
  exception with a text, the reply is an \<^verbatim>\<open>E\<close> message that holds the request's own item: no error item,
  no code and no position tells the client what failed.
\<close>

theorem thrown_error_is_not_reported:
  assumes "item_Go E it s = (Throw (LogicError w), s') \<or> item_Go E it s = (Throw (RuntimeError w), s')"
    and "c_str w \<noteq> []" and "length w \<le> 65000"
  shows "RunMessage E \<lparr>Id = mid, DataItems = [Some it]\<rparr> s =
    (Ok (False, \<lparr>Id = MId_E, DataItems = [Some it]\<rparr>), s'\<lparr>allocs := allocs s' + 1\<rparr>)"
proof -
  have "isValidMessageID (after_ids E) MId_E"
    by (rule ValidMessageIDs_valid) (simp add: ValidMessageIDs_def)
  moreover have "run_item E 0 (Some it) s = (Ok (Some it, True), s'\<lparr>allocs := allocs s' + 1\<rparr>)"
    using run_item_throw [OF assms(1,3), of 0] assms(2) by auto
  ultimately show ?thesis by (simp add: RunMessage_def mapS_def setMId_def)
qed

text \<open>A calibration of converter 9, of which there are four.\<close>

definition scale_item :: TDataItem where
  "scale_item = \<lparr>it_DId = DId_DAC_Scale1, it_Data = [9, 0, 0, 0, 0], it_resultCode = ERR_SUCCESS,
     it_body = I_Raw [9, 0, 0, 0, 0]\<rparr>"

lemma scale_item_throws:
  "item_Go E scale_item s = (Throw (LogicError (GUARD_what ERR_DId_BAD_PARAM 9 243 file_TDataItem
     ''operator()'' ''DataItem Payload error'')), s)"
proof -
  have "find_DId DId_DAC_Scale1 = Some \<lparr>minLen = 5, typLen = 5, maxLen = 5, Construct = C_TDataItemRaw,
      desc = ''DAC_Scale1(u8 iDac, single Scale)'', go = Some Go_DAC_Scale1\<rparr>"
    by (simp only: find_DId_entry) (simp add: DIdDict_def)
  then show ?thesis
    by (simp add: item_Go_def scale_item_def TDataItemBase_Go_def mapS_def on_cfg_disk_def
        DAC_Scale1_go_def GUARD_def err_text_def err_msg_def)
qed

theorem thrown_error_is_not_reported_witness:
  "fst (RunMessage bank_env \<lparr>Id = MId_Q, DataItems = [Some scale_item]\<rparr> bank_server) =
     Ok (False, \<lparr>Id = MId_E, DataItems = [Some scale_item]\<rparr>)"
proof -
  have "length (GUARD_what ERR_DId_BAD_PARAM 9 243 file_TDataItem ''operator()'' ''DataItem Payload error'') \<le> 65000"
    by (rule length_GUARD_what) (simp_all add: file_TDataItem_def)
  then show ?thesis
    by (simp add: thrown_error_is_not_reported [OF disjI1 [OF scale_item_throws] GUARD_what_text])
qed

subsection \<open>An oversized payload\<close>

lemma refuse_oversize_result:
  "refuse_oversize E sock n r = (Ok (), Disconnect sock ((rx_enqueue sock None
     (r\<lparr>rx_server := (rx_server r)\<lparr>allocs := allocs (rx_server r) + 1\<rparr>\<rparr>))\<lparr>rx_buffer := []\<rparr>))"
proof -
  have "isValidMessageID (after_ids E) MId_X"
    by (rule ValidMessageIDs_valid) (simp add: ValidMessageIDs_def)
  then show ?thesis
    by (simp add: refuse_oversize_def TMessage_new_def setMId_def BuildSysError_result)
qed

text \<open>
  A payload above the maximum leaves the server broken. The receiver queues an action that refers to a
  message on its own stack, which is gone when the action thread reads it; it closes the socket, goes
  on to receive on the closed descriptor, and when that fails closes the same number again, which by
  then may be another client's connection.
\<close>

lemma oversized_payload_dangles:
  assumes "oversized bs" and "rx_buffer r = []" and "\<not> finished (rx_server r)"
  shows "\<exists>r' a. receive_loop E sock [Received bs, Recv_error] r = (Ok (), r') \<and>
    rx_closed r' = rx_closed r @ [sock, sock] \<and> sq_q (rx_queue r') = sq_q (rx_queue r) @ [Some a] \<and>
    ActionThread_turn E a t = (Undef, t)"
proof -
  have len: "\<not> length bs < 5" "bs \<noteq> []" and big: "maxPayloadLength < head_payload_size bs"
    using assms(1) by (auto simp: oversized_def)
  let ?r = "r\<lparr>rx_buffer := bs\<rparr>"
  have "ProcessMessages E sock ?r = refuse_oversize E sock (head_payload_size bs) ?r"
    using len big by (subst ProcessMessages.simps) simp
  then show ?thesis
    using assms(2,3) len
    by (simp add: refuse_oversize_result ReceiveFromSocket_def CheckDisconnect_def Disconnect_def
        rx_enqueue_def enqueue_def ActionThread_turn_def)
qed

lemma oversized_payload_dangles_example:
  "\<exists>r'. receive_loop bank_env 7 [Received [0x51, 0xFF, 0xFF, 0xFF, 0xFF], Recv_error] bank_receiver = (Ok (), r') \<and>
     rx_closed r' = [7, 7]"
proof -
  have "oversized [0x51, 0xFF, 0xFF, 0xFF, 0xFF]" by (simp add: oversized_def head_payload_size_def)
  from oversized_payload_dangles [OF this, of bank_receiver bank_env 7] show ?thesis
    by (auto simp: bank_receiver_def bank_server_def)
qed

subsection \<open>An exception nobody catches\<close>

text \<open>A request to upload to a file without a name.\<close>

definition nameless_upload :: TBytes where
  "nameless_upload = [0x51, 4, 0, 0, 0, 0x01, 0xEF, 0, 0, 0]"

lemma nameless_upload_throws:
  "\<exists>w. FromBytes E nameless_upload s = (Throw (RuntimeError w), s\<lparr>allocs := allocs s + 1\<rparr>)"
proof -
  let ?b = "[0x01, 0xEF, 0, 0, 0] :: TBytes"
  have head: "head_DId ?b = DId_SYS_UploadFileName" "head_dataLength ?b = 0"
    by (simp_all add: head_DId_def head_dataLength_def)
  have "find_DId DId_SYS_UploadFileName = Some \<lparr>minLen = 1, typLen = 255, maxLen = 255,
      Construct = SYS C_TSYS_UploadFileName, desc = ''SYS_UploadFileName({valid filepath})'', go = None\<rparr>"
    by (simp only: find_DId_entry) (simp add: DIdDict_def)
  then obtain w where "fromBytes E ?b s = (Throw (RuntimeError w), s\<lparr>allocs := allocs s + 1\<rparr>)"
    using fromBytes_complete [of ?b _ E s]
    by (auto simp: head construct_def mapS_def Let_def TSYS_UploadFileName_new_def sanitizePath_def
        fs_absolute_def bytes_string_def)
  then have loop: "parse_loop E ?b 4 [] s = (Throw (RuntimeError w), s\<lparr>allocs := allocs s + 1\<rparr>)"
    by (subst parse_loop.simps) (simp add: head)
  have parts: "length nameless_upload = 6 + unat (head_payload_size nameless_upload)"
    "head_payload_size nameless_upload = 4" "head_type nameless_upload = MId_Q" "drop 5 nameless_upload = ?b"
    by (simp_all add: nameless_upload_def head_payload_size_def head_type_def)
  have "isValidMessageID (after_ids E) (head_type nameless_upload)"
    unfolding parts by (rule ValidMessageIDs_valid) (simp add: ValidMessageIDs_def)
  from FromBytes_frame [OF parts(1) this, of s] show ?thesis
    by (simp add: parts parsePayload_def loop)
qed

text \<open>
  C36: Ten bytes end the server. When a client asks to upload to a file without a name, the path check
  throws an exception that is no logic error; neither the parser's caller nor the receiving thread
  catches it, so it leaves the thread, which ends the process, and nothing is queued or answered.
\<close>

theorem nameless_upload_ends_server:
  assumes "rx_buffer r = []" and "\<not> finished (rx_server r)"
  shows "\<exists>w r'. receive_loop E sock (Received nameless_upload # rest) r = (Throw (RuntimeError w), r') \<and>
    rx_queue r' = rx_queue r \<and> rx_closed r' = rx_closed r"
proof -
  let ?r = "r\<lparr>rx_buffer := nameless_upload\<rparr>"
  obtain w where w: "FromBytes E nameless_upload (rx_server r) =
      (Throw (RuntimeError w), (rx_server r)\<lparr>allocs := allocs (rx_server r) + 1\<rparr>)"
    using nameless_upload_throws by blast
  have parts: "head_payload_size nameless_upload = 4" "length nameless_upload = 10"
    by (simp_all add: nameless_upload_def head_payload_size_def)
  have "take 10 nameless_upload = nameless_upload" by (simp add: parts(2))
  then have "ProcessMessages E sock ?r =
      (Throw (RuntimeError w), ?r\<lparr>rx_server := (rx_server r)\<lparr>allocs := allocs (rx_server r) + 1\<rparr>\<rparr>)"
    by (subst ProcessMessages_frame [of _ 10]) (simp_all add: parts GotMessage_def w)
  then show ?thesis
    using assms parts(2) by (auto simp: ReceiveFromSocket_def CheckDisconnect_def Let_def)
qed

theorem nameless_upload_ends_server_witness:
  "\<exists>w r'. receive_loop bank_env 7 [Received nameless_upload] bank_receiver = (Throw (RuntimeError w), r')"
  using nameless_upload_ends_server [of bank_receiver bank_env 7 "[]"]
  by (auto simp: bank_receiver_def bank_server_def)

end
