(* ===== verification/Greeting.thy ===== *)
theory Greeting
  imports Framing
begin

text \<open>
  The greeting of a control connection (\<open>SendControlHello\<close>): which items it holds, and what a wrong number
  of converters does to it.
\<close>

lemma snd_bindS:
  assumes "P (snd m)" and "\<And>x t. P t \<Longrightarrow> P (snd (f x t))"
  shows "P (snd (bindS m f))"
  using assms by (cases m; cases "fst m") (auto simp: bindS_def)

lemma snd_If: "P (snd m) \<Longrightarrow> P (snd n) \<Longrightarrow> P (snd (if c then m else n))"
  by simp

lemma snd_mapS: "snd (mapS f m) = snd m"
  by (cases m) (simp add: mapS_def)

lemma cfg_construct: "cfg (snd (construct E k did b s)) = cfg s"
proof -
  have "cfg (snd (body_construct E k b s)) = cfg s" for k
    by (cases k) (auto simp: split_beta Let_def)
  then show ?thesis by (simp add: construct_def split_beta Let_def)
qed

lemma cfg_fromBytes: "cfg (snd (fromBytes E bs s)) = cfg s"
  unfolding fromBytes_def Let_def
  by (intro snd_bindS [where P = "\<lambda>t. cfg t = cfg s"] snd_If [where P = "\<lambda>t. cfg t = cfg s"])
    (simp_all add: snd_mapS cfg_construct split: option.split)

lemma guarded_ok:
  assumes "G"
  shows "\<exists>z. bindR (if A then bindR (GUARD G c i l fl fn) (\<lambda>_. Ok x) else Ok y)
      (\<lambda>p. if B then (if C then Ok (f p) else Ok p) else Ok p) = Ok z"
  using assms by simp

lemma Range1_new_ok:
  assumes "b ! 0 < 4"
  shows "\<exists>p. TDAC_Range1_new b = Ok p"
  unfolding TDAC_Range1_new_def Let_def by (rule guarded_ok [OF assms])

lemma range_accepted:
  assumes "channel < 4"
  shows "\<exists>p. TDAC_Range1_new ([of_nat channel] @ stuff [] (rg :: u32)) = Ok p"
proof -
  have "(of_nat channel :: u8) < 4" using assms by (simp add: word_less_nat_alt unsigned_of_nat take_bit_nat_eq_self)
  then show ?thesis by (intro Range1_new_ok) simp
qed

lemma find_greeting:
  "find_DId DId_DAC_Range1 = Some \<lparr>minLen = 5, typLen = 5, maxLen = 5, Construct = DAC C_TDAC_Range1,
     desc = ''DAC_Range1(u8 iDAC, u32 RangeCode)'', go = None\<rparr>"
  "find_DId DId_TCP_ConnectionID = Some \<lparr>minLen = 4, typLen = 4, maxLen = 4, Construct = C_TDataItemRaw,
     desc = ''TCP_ConnectionID() '' @ arrow @ '' u32'', go = None\<rparr>"
  by (simp_all only: find_DId_entry) (simp_all add: DIdDict_def)

lemma range_item:
  assumes "channel < 4"
  shows "\<exists>it s'. fromBytes E (stuff [] DId_DAC_Range1 @ [5, 0, of_nat channel] @ stuff [] (rg :: u32)) s =
    (Ok (it, ERR_SUCCESS), s') \<and> it_DId it = DId_DAC_Range1 \<and> cfg s' = cfg s"
proof -
  let ?b = "stuff [] DId_DAC_Range1 @ [5, 0, of_nat channel] @ stuff [] (rg :: u32)"
  have "stuff [] (5 :: u16) = [5, 0]" using stuff_le_read(1) [of "[5, 0]"] by simp
  then have b: "?b = stuff [] DId_DAC_Range1 @ stuff [] (5 :: u16) @ [of_nat channel] @ stuff [] rg" by simp
  have head: "head_DId ?b = DId_DAC_Range1" "head_dataLength ?b = 5"
    unfolding b by simp_all
  have data: "take 5 (drop 4 ?b) = [of_nat channel] @ stuff [] rg" by simp
  obtain p where "TDAC_Range1_new ([of_nat channel] @ stuff [] rg) = Ok p"
    using range_accepted [OF assms] by blast
  then obtain it s' where it: "fromBytes E ?b s = (Ok (it, ERR_SUCCESS), s')"
    using fromBytes_complete [of ?b _ E s, unfolded head, OF _ _ find_greeting(1)] data
    by (auto simp: construct_def mapS_def Let_def)
  moreover have "it_DId it = DId_DAC_Range1" using fromBytes_DId(1) [OF it] head by simp
  moreover have "cfg s' = cfg s" using cfg_fromBytes [of E ?b s] it by simp
  ultimately show ?thesis by blast
qed

lemma dac_hello_ok:
  assumes "\<forall>k \<in> set chs. k < 4" and "length (dacRanges (cfg s)) = 4"
  shows "\<exists>items s'. dac_hello E chs P s = (Ok (P @ map Some items), s') \<and>
    map it_DId items = replicate (length chs) DId_DAC_Range1 \<and> cfg s' = cfg s"
  using assms
proof (induction chs arbitrary: P s)
  case (Cons ch chs)
  obtain it s1 where it: "fromBytes E (stuff [] DId_DAC_Range1 @ [5, 0, of_nat ch] @ stuff [] (dacRanges (cfg s) ! ch)) s =
      (Ok (it, ERR_SUCCESS), s1)" "it_DId it = DId_DAC_Range1" "cfg s1 = cfg s"
    using range_item [of ch E "dacRanges (cfg s) ! ch" s] Cons.prems(1) by auto
  obtain items s' where "dac_hello E chs (P @ [Some it]) s1 = (Ok ((P @ [Some it]) @ map Some items), s')"
    "map it_DId items = replicate (length chs) DId_DAC_Range1" "cfg s' = cfg s1"
    using Cons.IH [of s1 "P @ [Some it]"] Cons.prems it(3) by auto
  with it Cons.prems show ?case by (intro exI [of _ "it # items"] exI [of _ s']) simp
qed simp

lemma dac_hello_append:
  "dac_hello E (as @ bs) P s = bindS (dac_hello E as P s) (\<lambda>P s. dac_hello E bs P s)"
  by (induction E as P s rule: dac_hello.induct) (auto simp: bindS_def split: res.splits prod.splits)

lemma connection_item:
  "\<exists>it s'. fromBytes E (stuff (stuff [] DId_TCP_ConnectionID) (4 :: u16) @ stuff [] (conn :: u32)) s =
     (Ok (it, ERR_SUCCESS), s') \<and> it_DId it = DId_TCP_ConnectionID \<and> cfg s' = cfg s"
proof -
  let ?b = "stuff (stuff [] DId_TCP_ConnectionID) (4 :: u16) @ stuff [] (conn :: u32)"
  have b: "?b = stuff [] DId_TCP_ConnectionID @ stuff [] (4 :: u16) @ stuff [] conn" by (simp add: stuff_stuff)
  have head: "head_DId ?b = DId_TCP_ConnectionID" "head_dataLength ?b = 4" unfolding b by simp_all
  obtain it s' where it: "fromBytes E ?b s = (Ok (it, ERR_SUCCESS), s')"
    using fromBytes_complete [of ?b _ E s, unfolded head, OF _ _ find_greeting(2)]
    by (auto simp: construct_def mapS_def Let_def)
  moreover have "it_DId it = DId_TCP_ConnectionID" using fromBytes_DId(1) [OF it] head by simp
  moreover have "cfg s' = cfg s" using cfg_fromBytes [of E ?b s] it by simp
  ultimately show ?thesis by blast
qed

lemma go_all_ok:
  assumes "\<forall>it \<in> set its. \<forall>s. \<exists>it' s'. item_Go E it s = (Ok it', s')"
  shows "\<exists>items s'. go_all E (map Ok its) P s = (Ok (P @ map Some items), s') \<and>
    map it_DId items = map it_DId its"
  using assms
proof (induction its arbitrary: P s)
  case (Cons it its)
  obtain it' s1 where go: "item_Go E it s = (Ok it', s1)" using Cons.prems by fastforce
  obtain items s' where "go_all E (map Ok its) (P @ [Some it']) s1 = (Ok ((P @ [Some it']) @ map Some items), s')"
    "map it_DId items = map it_DId its"
    using Cons.IH [of "P @ [Some it']" s1] Cons.prems by auto
  with go item_Go_DId [OF go] show ?case by (intro exI [of _ "it' # items"] exI [of _ s']) simp
qed simp

lemma hello_items_go:
  obtains its where "hello_items E n = map Ok its"
    and "map it_DId its = [DId_BRD_Features, DId_BRD_DeviceID, DId_ADC_BaseClock, DId_BRD_FpgaID,
       DId_BRD_GetNumberOfAdcChannels]"
    and "\<forall>it \<in> set its. \<forall>s. \<exists>it' s'. item_Go E it s = (Ok it', s')"
proof -
  define its where "its = map (\<lambda>r. case r of Ok it \<Rightarrow> it | _ \<Rightarrow> NYI_invalid) (hello_items E n)"
  show thesis
  proof (rule that [of its])
    show "hello_items E n = map Ok its" "map it_DId its = [DId_BRD_Features, DId_BRD_DeviceID,
        DId_ADC_BaseClock, DId_BRD_FpgaID, DId_BRD_GetNumberOfAdcChannels]"
      by (simp_all add: its_def hello_items_def Let_def TBRD_GetNumberOfAdcChannels_new_def)
    show "\<forall>it \<in> set its. \<forall>s. \<exists>it' s'. item_Go E it s = (Ok it', s')"
      by (simp add: its_def hello_items_def Let_def TBRD_GetNumberOfAdcChannels_new_def item_Go_def mapS_def
          on_dev_def on_dev_cfg_def TBRD_Features_Go_def TBRD_DeviceID_Go_def TBRD_FpgaId_Go_def
          TADC_BaseClock_Go_def split_beta)
  qed
qed

lemma greeting_core:
  assumes "length (dacRanges (cfg s)) = 4" and "unat (NUM_DACs (cfg s)) \<le> 4"
  shows "\<exists>items bs s'. SendControlHello E sock s = (Ok bs, s') \<and>
    message_AsBytes (fp E) (cfg s') \<lparr>Id = MId_H, DataItems = map Some items\<rparr> True = Ok bs \<and>
    map it_DId items = [DId_TCP_ConnectionID] @ replicate (unat (NUM_DACs (cfg s))) DId_DAC_Range1 @
      [DId_BRD_Features, DId_BRD_DeviceID, DId_ADC_BaseClock, DId_BRD_FpgaID, DId_BRD_GetNumberOfAdcChannels] \<and>
    head_type bs = MId_H \<and> calculateChecksum bs = 0"
proof -
  obtain c s1 where c: "fromBytes E (stuff (stuff [] DId_TCP_ConnectionID) (4 :: u16) @
      stuff [] (word_of_int sock :: u32)) s = (Ok (c, ERR_SUCCESS), s1)"
    "it_DId c = DId_TCP_ConnectionID" "cfg s1 = cfg s"
    using connection_item [of E "word_of_int sock" s] by blast
  obtain ds s2 where d: "dac_hello E [0..<unat (NUM_DACs (cfg s1))] [Some c] s1 = (Ok ([Some c] @ map Some ds), s2)"
    "map it_DId ds = replicate (unat (NUM_DACs (cfg s))) DId_DAC_Range1"
    using dac_hello_ok [of "[0..<unat (NUM_DACs (cfg s1))]" s1 E "[Some c]"] assms c(3) by auto
  obtain its where its: "hello_items E (allocs s2) = map Ok its"
    "map it_DId its = [DId_BRD_Features, DId_BRD_DeviceID, DId_ADC_BaseClock, DId_BRD_FpgaID,
       DId_BRD_GetNumberOfAdcChannels]"
    "\<forall>it \<in> set its. \<forall>s. \<exists>it' s'. item_Go E it s = (Ok it', s')"
    by (rule hello_items_go)
  obtain bs s3 where b: "go_all E (map Ok its) ([Some c] @ map Some ds) (s2\<lparr>allocs := allocs s2 + 5\<rparr>) =
      (Ok (([Some c] @ map Some ds) @ map Some bs), s3)" "map it_DId bs = map it_DId its"
    using go_all_ok [OF its(3)] by blast
  let ?items = "c # ds @ bs"
  have "isValidMessageID (after_ids E) MId_H"
    by (rule ValidMessageIDs_valid) (simp add: ValidMessageIDs_def)
  then have new: "TMessage_new (after_ids E) MId_H p = Ok \<lparr>Id = MId_H, DataItems = p\<rparr>" for p
    by (simp add: TMessage_new_def setMId_def TMessage_default_def)
  obtain out where out: "message_AsBytes (fp E) (cfg s3) \<lparr>Id = MId_H, DataItems = map Some ?items\<rparr> True = Ok out"
    using item_bytes_some [of "fp E" "cfg s3" True ?items "[]" 0]
    by (simp add: message_AsBytes_def appendPayloadLengthAndItems_def split_beta)
  have "SendControlHello E sock s = (Ok out, s3)"
    using out b(1) by (simp add: SendControlHello_def c(1) d(1) its(1) new)
  moreover have "head_type out = MId_H" "calculateChecksum out = 0"
    using message_wire_core [OF out] by auto
  ultimately show ?thesis
    using out c(2) d(2) its(2) b(2) by (intro exI [of _ ?items] exI [of _ out] exI [of _ s3]) simp
qed


text \<open>
  A wrong number of converters makes every greeting undefined. When the configuration says there are more
  converters than the four it has ranges for (the model item stores 255 for a model text it cannot
  read), the greeting of each new connection reads past the array of ranges.
\<close>

lemma greeting_reads_past_ranges:
  assumes "length (dacRanges (cfg s)) = 4" and "4 < unat (NUM_DACs (cfg s))"
  shows "\<exists>s'. SendControlHello E sock s = (Undef, s')"
proof -
  obtain c s1 where c: "fromBytes E (stuff (stuff [] DId_TCP_ConnectionID) (4 :: u16) @
      stuff [] (word_of_int sock :: u32)) s = (Ok (c, ERR_SUCCESS), s1)" "cfg s1 = cfg s"
    using connection_item [of E "word_of_int sock" s] by blast
  let ?n = "unat (NUM_DACs (cfg s))"
  have split: "[0..<?n] = [0..<4] @ 4 # [5..<?n]"
    using assms(2) upt_conv_Cons [of 4 ?n] upt_add_eq_append [of 0 4 "?n - 4"] by simp
  obtain ds s2 where d: "dac_hello E [0..<4] [Some c] s1 = (Ok ([Some c] @ map Some ds), s2)" "cfg s2 = cfg s1"
    using dac_hello_ok [of "[0..<4]" s1 E "[Some c]"] assms(1) c(2) by auto
  have "dac_hello E [0..<?n] [Some c] s1 = (Undef, s2)"
    unfolding split dac_hello_append using d assms(1) c(2) by simp
  then show ?thesis using c by (simp add: SendControlHello_def)
qed


lemma greeting_reads_past_ranges_example:
  "\<exists>s'. SendControlHello bank_env 7 (bank_server\<lparr>cfg := (InitConfig blank_config)\<lparr>NUM_DACs := 255\<rparr>\<rparr>) = (Undef, s')"
  using greeting_reads_past_ranges [of "bank_server\<lparr>cfg := (InitConfig blank_config)\<lparr>NUM_DACs := 255\<rparr>\<rparr>" bank_env 7]
  by (auto simp: InitConfig_def bank_server_def)

end
