(* ===== verification/ConfigShape.thy ===== *)
theory ConfigShape
  imports ConfigStore Greeting ServerRun
begin

text \<open>
  The configuration is a structure of fixed arrays. In the model they are lists, so their sizes are an
  invariant: nothing the server does with a message, and no load, changes the size of any of them.
\<close>

definition cfg_safe :: "'a res \<times> (TConfig \<times> 's) \<Rightarrow> bool" where
  "cfg_safe m \<longleftrightarrow> TConfig_ok (fst (snd m))"

lemma TConfig_ok_features [simp]: "TConfig_ok (c\<lparr>features := f\<rparr>) = TConfig_ok c"
  by (simp add: TConfig_ok_def)

lemma TConfig_ok_nth_update [simp]:
  assumes "TConfig_ok c"
  shows "TConfig_ok (c\<lparr>dacScaleCoefficients := (dacScaleCoefficients c)[i := v]\<rparr>)"
    "TConfig_ok (c\<lparr>dacOffsetCoefficients := (dacOffsetCoefficients c)[i := v]\<rparr>)"
    "TConfig_ok (c\<lparr>adcScaleCoefficients := (adcScaleCoefficients c)[i := v]\<rparr>)"
    "TConfig_ok (c\<lparr>adcOffsetCoefficients := (adcOffsetCoefficients c)[i := v]\<rparr>)"
    "TConfig_ok (c\<lparr>dacRanges := (dacRanges c)[j := w]\<rparr>)"
    "TConfig_ok (c\<lparr>adcRangeCodes := (adcRangeCodes c)[j := w]\<rparr>)"
    "TConfig_ok (c\<lparr>submuxBarcodes := (submuxBarcodes c)[j := t]\<rparr>)"
    "TConfig_ok (c\<lparr>submuxTypes := (submuxTypes c)[j := t]\<rparr>)"
  using assms by (simp_all add: TConfig_ok_def)

lemma row_update:
  assumes "length m = 4" and "\<forall>r \<in> set m. length r = 4"
  shows "\<forall>r \<in> set (m[i := (m ! i)[g := v]]). length r = 4"
proof (cases "i < length m")
  case True
  then have "length (m ! i) = 4" using assms(2) by simp
  then show ?thesis using assms(2) set_update_subset_insert [of m i "(m ! i)[g := v]"] by auto
next
  case False
  then show ?thesis using assms(2) by (simp add: list_update_beyond)
qed

lemma TConfig_ok_submux [simp]:
  assumes "TConfig_ok c"
  shows "TConfig_ok (c\<lparr>submuxScaleFactors := (submuxScaleFactors c)[i := (submuxScaleFactors c ! i)[g := v]]\<rparr>)"
    "TConfig_ok (c\<lparr>submuxOffsets := (submuxOffsets c)[i := (submuxOffsets c ! i)[g := v]]\<rparr>)"
  using assms row_update [of "submuxScaleFactors c" i g v] row_update [of "submuxOffsets c" i g v]
  by (auto simp: TConfig_ok_def)

lemma TConfig_ok_set_dac [simp]:
  "TConfig_ok c \<Longrightarrow> TConfig_ok (set_dac_scale n v c)" "TConfig_ok c \<Longrightarrow> TConfig_ok (set_dac_offset n v c)"
  by (simp_all add: set_dac_scale_def set_dac_offset_def)

subsection \<open>Actions\<close>

lemma shape_bindS:
  assumes "cfg_safe m" and "\<And>x c s. TConfig_ok c \<Longrightarrow> cfg_safe (f x (c, s))"
  shows "cfg_safe (bindS m f)"
  using assms by (cases m; cases "fst m") (auto simp: bindS_def cfg_safe_def)

lemma shape_DAC_OffsetAll_loop: "TConfig_ok c \<Longrightarrow> cfg_safe (DAC_OffsetAll_loop d n buf (c, s))"
  by (induction n arbitrary: d c s) (auto simp: cfg_safe_def Let_def)

lemma shape_DAC_ScaleAll_loop: "TConfig_ok c \<Longrightarrow> cfg_safe (DAC_ScaleAll_loop d n buf (c, s))"
  by (induction n arbitrary: d c s) (auto simp: cfg_safe_def Let_def)

lemma shape_raw:
  assumes "TConfig_ok c"
  shows "cfg_safe (DAC_Calibrate1_go buf (c, s))" "cfg_safe (DAC_Offset1_go buf (c, s))" "cfg_safe (DAC_Scale1_go buf (c, s))"
    "cfg_safe (DAC_OffsetAll_go buf (c, s))" "cfg_safe (DAC_ScaleAll_go buf (c, s))"
  using assms shape_DAC_OffsetAll_loop [OF assms] shape_DAC_ScaleAll_loop [OF assms]
  by (auto simp: cfg_safe_def DAC_Calibrate1_go_def DAC_Offset1_go_def DAC_Scale1_go_def DAC_OffsetAll_go_def
      DAC_ScaleAll_go_def Let_def bindS_def split: res.splits)

lemma shape_disk_items:
  assumes "TConfig_ok c"
  shows "cfg_safe (TBRD_Model_Go b (c, s))" "cfg_safe (TBRD_SerialNumber_Go b (c, s))"
    "cfg_safe (TDAC_Range1_Go p (c, s))" "cfg_safe (TCFG_Hostname_Go osl q (c, s))"
  using assms
  by (auto simp: cfg_safe_def TBRD_Model_Go_def TBRD_SerialNumber_Go_def TDAC_Range1_Go_def TCFG_Hostname_Go_def
      Let_def split_beta bindS_def split: res.splits exn.splits)

definition dev_cfg_safe :: "'a res \<times> ('h \<times> TConfig) \<Rightarrow> bool" where
  "dev_cfg_safe m \<longleftrightarrow> TConfig_ok (snd (snd m))"

lemma dev_shape_bindS:
  assumes "dev_cfg_safe m" and "\<And>x h c. TConfig_ok c \<Longrightarrow> dev_cfg_safe (f x (h, c))"
  shows "dev_cfg_safe (bindS m f)"
  using assms by (cases m; cases "fst m") (auto simp: bindS_def dev_cfg_safe_def)

lemma dev_shape_store:
  assumes "TConfig_ok c"
  shows "dev_cfg_safe (store_adc_scale i v (h, c))" "dev_cfg_safe (store_adc_offset i v (h, c))"
  using assms by (auto simp: dev_cfg_safe_def store_adc_scale_def store_adc_offset_def)

lemma dev_shape_loops:
  assumes "TConfig_ok c"
  shows "dev_cfg_safe (TADC_ScaleAll_loop L p is (h, c))" "dev_cfg_safe (TADC_OffsetAll_loop L p is (h, c))"
    "dev_cfg_safe (TADC_CalibrationAll_loop L q is (h, c))"
proof -
  show "dev_cfg_safe (TADC_ScaleAll_loop L p is (h, c))" using assms
    by (induction "is" arbitrary: h c) (simp add: dev_cfg_safe_def, auto simp: Let_def intro!: dev_shape_bindS dev_shape_store)
  show "dev_cfg_safe (TADC_OffsetAll_loop L p is (h, c))" using assms
    by (induction "is" arbitrary: h c) (simp add: dev_cfg_safe_def, auto simp: Let_def intro!: dev_shape_bindS dev_shape_store)
  show "dev_cfg_safe (TADC_CalibrationAll_loop L q is (h, c))" using assms
    by (induction "is" arbitrary: h c) (simp add: dev_cfg_safe_def, auto simp: Let_def intro!: dev_shape_bindS dev_shape_store)
qed

lemma dev_shape_items:
  assumes "TConfig_ok c"
  shows "dev_cfg_safe (TADC_Scale1_Go L p (h, c))" "dev_cfg_safe (TADC_Offset1_Go L p (h, c))"
    "dev_cfg_safe (TADC_Calibration1_Go L q (h, c))" "dev_cfg_safe (TBRD_Features_Go L r (h, c))"
    "dev_cfg_safe (TADC_ScaleAll_Go L w (h, c))" "dev_cfg_safe (TADC_OffsetAll_Go L w (h, c))"
    "dev_cfg_safe (TADC_CalibrationAll_Go L z (h, c))"
proof -
  show "dev_cfg_safe (TADC_Scale1_Go L p (h, c))" "dev_cfg_safe (TADC_Offset1_Go L p (h, c))"
    using assms by (auto simp: TADC_Scale1_Go_def TADC_Offset1_Go_def split_beta Let_def intro: dev_shape_store)
  show "dev_cfg_safe (TADC_Calibration1_Go L q (h, c))"
    using assms by (auto simp: TADC_Calibration1_Go_def split_beta Let_def intro!: dev_shape_bindS dev_shape_store)
  show "dev_cfg_safe (TBRD_Features_Go L r (h, c))"
    using assms by (auto simp: TBRD_Features_Go_def split_beta Let_def dev_cfg_safe_def)
  show "dev_cfg_safe (TADC_ScaleAll_Go L w (h, c))" "dev_cfg_safe (TADC_OffsetAll_Go L w (h, c))"
    "dev_cfg_safe (TADC_CalibrationAll_Go L z (h, c))"
    using dev_shape_loops [OF assms] by (simp_all add: TADC_ScaleAll_Go_def TADC_OffsetAll_Go_def TADC_CalibrationAll_Go_def)
qed

lemma shape_cfg_items:
  assumes "TConfig_ok c"
  shows "TConfig_ok (TBRD_NumberOfSubmuxes_Go p c)" "TConfig_ok (TBRD_SubmuxScale_Go q c)" "TConfig_ok (TBRD_SubmuxOffset_Go q c)"
  using assms by (simp_all add: TBRD_NumberOfSubmuxes_Go_def TBRD_SubmuxScale_Go_def TBRD_SubmuxOffset_Go_def Let_def)

definition server_ok :: "'h server \<Rightarrow> bool" where
  "server_ok s \<longleftrightarrow> TConfig_ok (cfg s)"

lemma on_state_shape:
  "server_ok s \<Longrightarrow> (\<And>c d. TConfig_ok c \<Longrightarrow> cfg_safe (f (c, d))) \<Longrightarrow> server_ok (snd (on_cfg_disk f s))"
  "server_ok s \<Longrightarrow> (\<And>h c. TConfig_ok c \<Longrightarrow> dev_cfg_safe (g (h, c))) \<Longrightarrow> server_ok (snd (on_dev_cfg g s))"
  "server_ok s \<Longrightarrow> (\<And>c. TConfig_ok c \<Longrightarrow> TConfig_ok (k c)) \<Longrightarrow> server_ok (on_cfg k s)"
  by (auto simp: server_ok_def on_cfg_disk_def on_dev_cfg_def on_cfg_def cfg_safe_def dev_cfg_safe_def split_beta)

lemma on_other_shape:
  "server_ok (snd (on_dev f s)) = server_ok s" "server_ok (snd (on_dev_adc g s)) = server_ok s"
  "server_ok (snd (on_upload u s)) = server_ok s" "server_ok (snd (on_finished k s)) = server_ok s"
  by (auto simp: server_ok_def on_dev_def on_dev_adc_def on_upload_def on_finished_def split_beta)

lemma server_ok_dev: "server_ok (s\<lparr>dev := h\<rparr>) = server_ok s"
  by (simp add: server_ok_def)

lemma item_Go_shape:
  assumes "server_ok s"
  shows "server_ok (snd (item_Go E it s))"
proof -
  have raw: "server_ok (snd (go_run E g b s))" for g b
    using assms by (cases g) (auto simp: on_other_shape intro!: on_state_shape shape_raw)
  have brd: "server_ok (snd (brd_Go E i s))" for i
    using assms by (cases i) (auto simp: snd_mapS on_other_shape intro!: on_state_shape shape_disk_items dev_shape_items shape_cfg_items)
  have reg: "server_ok (snd (reg_Go E i rc s))" for i rc
    using assms by (cases i) (auto simp: snd_mapS on_other_shape server_ok_dev split_beta Let_def)
  have dac: "server_ok (snd (dac_Go E i s))" for i
    using assms by (cases i) (auto simp: snd_mapS on_other_shape intro!: on_state_shape shape_disk_items)
  have adc: "server_ok (snd (adc_Go E i s))" for i
    using assms by (cases i) (auto simp: snd_mapS on_other_shape intro!: on_state_shape dev_shape_items)
  have sys: "server_ok (snd (sys_Go E i d rc s))" for i d rc
    using assms by (cases i) (auto simp: snd_mapS on_other_shape)
  have host: "server_ok (snd (on_cfg_disk (TCFG_Hostname_Go (os E) p) s))" for p
    using assms by (auto intro!: on_state_shape shape_disk_items)
  show ?thesis
    using assms raw brd reg dac adc sys host
    by (cases "it_body it") (auto simp: item_Go_def TDataItemBase_Go_def snd_mapS on_other_shape split: option.splits)
qed

subsection \<open>Messages\<close>

lemma cfg_BuildDataItem: "cfg (snd (BuildDataItem E did p s)) = cfg s"
proof -
  let ?b = "stuff (stuff [] did) (of_nat (length p) :: u16) @ p"
  obtain q s2 where e: "fromBytes E ?b s = (q, s2)" by fastforce
  then have "cfg s2 = cfg s" using cfg_fromBytes [of E ?b s] by simp
  with e show ?thesis
    by (cases q) (auto simp: BuildDataItem_def split: exn.splits)
qed

lemma run_item_shape:
  assumes "server_ok s"
  shows "server_ok (snd (run_item E i item s))"
proof -
  have build: "server_ok (snd (replace_item it (BuildSysItemError E j did e n t u)))" if "server_ok u" for it j did e n t u
    using that by (simp add: replace_item_def snd_mapS BuildSysItemError_def server_ok_def cfg_BuildDataItem)
  show ?thesis
  proof (cases item)
    case None
    then show ?thesis using build [OF assms] assms by (simp add: run_item_def Let_def)
  next
    case (Some it)
    obtain r u where ru: "item_Go E it s = (r, u)" by fastforce
    then have "server_ok u" using item_Go_shape [OF assms, of E it] by simp
    then show ?thesis
      using Some ru build
      by (cases r) (auto simp: run_item_def mapS_def Let_def split_beta split: exn.splits)
  qed
qed

lemma run_items_shape: "server_ok s \<Longrightarrow> server_ok (snd (run_items E i items s))"
proof (induction items arbitrary: i s)
  case Nil
  then show ?case by simp
next
  case (Cons item items)
  then show ?case
    by (auto simp: snd_mapS split_beta intro!: snd_bindS [where P = server_ok] run_item_shape)
qed

lemma RunMessage_shape: "server_ok s \<Longrightarrow> server_ok (snd (RunMessage E m s))"
  by (auto simp: RunMessage_def split_beta intro!: snd_bindS [where P = server_ok] run_items_shape)

lemma ActionThread_turn_shape: "server_ok s \<Longrightarrow> server_ok (snd (ActionThread_turn E a s))"
  by (auto simp: ActionThread_turn_def snd_mapS split: option.splits
      intro!: snd_bindS [where P = server_ok] RunMessage_shape)

lemma cfg_parse_loop: "cfg (snd (parse_loop E bs n acc s)) = cfg s"
proof (induction E bs n acc s rule: parse_loop.induct)
  case (1 E bs n acc s)
  show ?case
    using 1 cfg_fromBytes [of E bs s]
    by (subst parse_loop.simps) (auto simp: Let_def split: prod.splits res.splits)
qed

lemma cfg_GotMessage: "cfg (snd (GotMessage E f s)) = cfg s"
proof -
  have FB: "cfg (snd (FromBytes E f s)) = cfg s"
    by (auto simp: FromBytes_def parsePayload_def bindS_def Let_def cfg_parse_loop split: res.splits)
  have X: "cfg (snd (bindS (r, s) (\<lambda>x s. bindS (BuildSysError E st i n t s) (\<lambda>di s. (Ok (g di x), s))))) = cfg s"
    for r s st i n t and g :: "TDataItem option \<Rightarrow> TMessage \<Rightarrow> TMessage"
    by (auto simp: BuildSysError_def cfg_BuildDataItem intro!: snd_bindS [where P = "\<lambda>u. cfg u = cfg s"])
  show ?thesis
    using FB X by (auto simp: GotMessage_def split: prod.splits res.splits exn.splits)
qed

subsection \<open>Loading\<close>

definition keeps_shape :: "load \<Rightarrow> bool" where
  "keeps_shape f \<longleftrightarrow> (\<forall>c s. TConfig_ok c \<longrightarrow> cfg_safe (f (c, s)))"

lemma keeps_shape_seqS: "(\<And>m. m \<in> set ms \<Longrightarrow> keeps_shape m) \<Longrightarrow> keeps_shape (seqS ms)"
proof (induction ms)
  case Nil
  then show ?case by (simp add: keeps_shape_def cfg_safe_def)
next
  case (Cons m ms)
  then have "keeps_shape m" "keeps_shape (seqS ms)" by auto
  then show ?case by (auto simp: keeps_shape_def intro!: shape_bindS)
qed

lemma assign_shape:
  "TConfig_ok c \<Longrightarrow> (\<And>v. TConfig_ok (upd v c)) \<Longrightarrow> cfg_safe (assign upd c r)"
  by (auto simp: assign_def cfg_safe_def split: res.splits option.splits)

lemma keeps_shape_load:
  assumes "\<And>v c. TConfig_ok c \<Longrightarrow> TConfig_ok (upd v c)"
  shows "keeps_shape (load_string which upd key)"
  using assms by (auto simp: keeps_shape_def load_string_def intro: assign_shape)

lemma keeps_shape_load_numbers:
  "(\<And>v c. TConfig_ok c \<Longrightarrow> TConfig_ok (upd8 v c)) \<Longrightarrow> keeps_shape (load_u8 which upd8 key)"
  "(\<And>v c. TConfig_ok c \<Longrightarrow> TConfig_ok (upd32 v c)) \<Longrightarrow> keeps_shape (load_u32 which upd32 key)"
  "(\<And>v c. TConfig_ok c \<Longrightarrow> TConfig_ok (upd32 v c)) \<Longrightarrow> keeps_shape (load_float which upd32 key)"
  by (auto simp: keeps_shape_def load_u8_def load_u32_def load_float_def intro: assign_shape)

lemma keeps_shape_hostname: "keeps_shape load_hostname"
  by (auto simp: keeps_shape_def load_hostname_def cfg_safe_def TConfig_ok_def split_beta Let_def split: option.splits)

lemma keeps_shape_LoadConfig: "keeps_shape (LoadConfig which)"
  unfolding LoadConfig_def LoadBrdConfig_def LoadCalConfig_def LoadDacCalConfig_def LoadAdcCalConfig_def
    LoadDacConfig_def LoadAdcConfig_def LoadSubmuxConfig_def
  by (intro keeps_shape_seqS) (auto intro!: keeps_shape_seqS keeps_shape_load keeps_shape_load_numbers keeps_shape_hostname)

end
