(* ===== verification/Startup.thy ===== *)
theory Startup
  imports AdcItems
begin

text \<open>
  What surrounds the server in its process: the log (\<^verbatim>\<open>logging.h\<close>, \<^verbatim>\<open>logging.cpp\<close>) and the parts of \<^verbatim>\<open>aioenetd.cpp\<close> that
  read the environment and the arguments (\<open>Intro\<close>), find the device file (\<open>OpenDevFile\<close>) and prepare a listening
  socket (\<open>Bind\<close>, \<open>Listen\<close>).
\<close>

subsection \<open>The log\<close>

datatype LogLevel = L_Error | L_Warning | L_Info | L_Debug | L_Trace

primrec level_index :: "LogLevel \<Rightarrow> nat" where
  "level_index L_Error = 0" | "level_index L_Warning = 1" | "level_index L_Info = 2"
| "level_index L_Debug = 3" | "level_index L_Trace = 4"

lemma level_index_inject: "level_index a = level_index b \<longleftrightarrow> a = b"
  by (cases a; cases b) simp_all

text \<open>The levels compare as the integers of the enumeration.\<close>

instantiation LogLevel :: linorder
begin

definition "a \<le> b \<longleftrightarrow> level_index a \<le> level_index b" for a b :: LogLevel

definition "a < b \<longleftrightarrow> level_index a < level_index b" for a b :: LogLevel

instance
  by standard (auto simp: less_eq_LogLevel_def less_LogLevel_def level_index_inject)

end

primrec labelForLevel :: "LogLevel \<Rightarrow> string" where
  "labelForLevel L_Error = ''[ ERROR ]''"
| "labelForLevel L_Warning = ''[WARNING]''"
| "labelForLevel L_Info = ''[ INFO  ]''"
| "labelForLevel L_Debug = ''[ DEBUG ]''"
| "labelForLevel L_Trace = ''[ TRACE ]''"

primrec colorForLevel :: "LogLevel \<Rightarrow> string" where
  "colorForLevel L_Error = CHR 0x1B # ''[31m''"
| "colorForLevel L_Warning = CHR 0x1B # ''[33m''"
| "colorForLevel L_Info = CHR 0x1B # ''[32m''"
| "colorForLevel L_Debug = ''''"
| "colorForLevel L_Trace = CHR 0x1B # ''[36m''"

text \<open>
  The state of the log: the level, the time of the first line (a second and its nanoseconds, zero before it), the
  calls of the clock so far and what was printed. The clock and the formatting of a difference of times as a
  floating-point number of seconds are arguments.
\<close>

type_synonym timespec = "int \<times> int"

record clock_lib =
  clock_boottime :: "nat \<Rightarrow> timespec"
  clock_seconds :: "timespec \<Rightarrow> timespec \<Rightarrow> string"

record log_state =
  currentLogLevel :: LogLevel
  firsttime :: timespec
  clock_calls :: nat
  printed :: "string list"

record source_location =
  file_name :: string
  function_name :: string
  loc_line :: nat

definition log_start :: log_state where
  "log_start = \<lparr>currentLogLevel = L_Info, firsttime = (0, 0), clock_calls = 0, printed = []\<rparr>"

definition SetLogLevel :: "LogLevel \<Rightarrow> log_state \<Rightarrow> log_state" where
  "SetLogLevel level g = g\<lparr>currentLogLevel := level\<rparr>"

definition elapsedms :: "clock_lib \<Rightarrow> log_state \<Rightarrow> string \<times> log_state" where
  "elapsedms C g =
     (let up = clock_boottime C (clock_calls g);
          first = (if snd (firsttime g) = 0 then up else firsttime g)
      in (clock_seconds C up first @ ''s'', g\<lparr>clock_calls := Suc (clock_calls g), firsttime := first\<rparr>))"

text \<open>A conversion \<open>%<width>s\<close> of \<open>printf\<close>; a C string ends at its first null character.\<close>

definition c_str :: "string \<Rightarrow> string" where
  "c_str s = takeWhile (\<lambda>c. c \<noteq> CHR 0x00) s"

definition pad_left :: "nat \<Rightarrow> string \<Rightarrow> string" where
  "pad_left w s = replicate (w - length s) CHR '' '' @ s"

text \<open>The two overloads; without bytes the line ends with a line feed.\<close>

definition LogImpl_bytes ::
  "clock_lib \<Rightarrow> LogLevel \<Rightarrow> string \<Rightarrow> TBytes \<Rightarrow> bool \<Rightarrow> source_location \<Rightarrow> log_state \<Rightarrow> log_state" where
  "LogImpl_bytes C level intro bytes crlf loc g =
     (let msg = intro @ concat (map (\<lambda>b. to_hex b @ '' '') bytes);
          (t, g) = elapsedms C g;
          line = colorForLevel level @ labelForLevel level @ CHR 0x1B # ''[0m '' @ pad_left 14 (c_str t) @ '' ''
            @ CHR 0x1B # ''[32m'' @ pad_left 13 (file_name loc) @ '' '' @ function_name loc @ CHR 0x1B # ''[0m (''
            @ pad_left 5 (to_string (loc_line loc)) @ '') '' @ c_str msg @ (if crlf then [CHR 0x0A] else [])
      in g\<lparr>printed := printed g @ [line]\<rparr>)"

definition LogImpl ::
  "clock_lib \<Rightarrow> LogLevel \<Rightarrow> string \<Rightarrow> source_location \<Rightarrow> log_state \<Rightarrow> log_state" where
  "LogImpl C level message loc = LogImpl_bytes C level message [] True loc"

text \<open>
  \<open>LOG_IF\<close>: the text is computed only when the level is enabled. The macros that are meant to disable levels at
  compile time are never tested.
\<close>

definition LOG_IF :: "clock_lib \<Rightarrow> LogLevel \<Rightarrow> string res \<Rightarrow> source_location \<Rightarrow> log_state \<Rightarrow> unit res \<times> log_state" where
  "LOG_IF C level message loc g =
     (if level \<le> currentLogLevel g
      then (map_res (\<lambda>_. ()) message, case message of Ok m \<Rightarrow> LogImpl C level m loc g | _ \<Rightarrow> g)
      else (Ok (), g))"

lemma elapsedms_fields [simp]:
  "currentLogLevel (snd (elapsedms C g)) = currentLogLevel g" "printed (snd (elapsedms C g)) = printed g"
  by (simp_all add: elapsedms_def Let_def)

lemma LogImpl_fields:
  "currentLogLevel (LogImpl C l m loc g) = currentLogLevel g"
  "length (printed (LogImpl C l m loc g)) = Suc (length (printed g))"
  by (simp_all add: LogImpl_def LogImpl_bytes_def split_beta Let_def)

lemma LOG_IF_Ok:
  "LOG_IF C l (Ok m) loc g = (Ok (), if l \<le> currentLogLevel g then LogImpl C l m loc g else g)"
  by (simp add: LOG_IF_def)

lemma LOG_IF_level [simp]: "currentLogLevel (snd (LOG_IF C l m loc g)) = currentLogLevel g"
  by (simp add: LOG_IF_def LogImpl_fields split: res.splits)

text \<open>A line appears exactly when its level is at most the current one, so a higher level shows more.\<close>

lemma log_monotone:
  assumes "LOG_IF C l (Ok m) loc g = (Ok (), g')"
  shows "length (printed g') = length (printed g) + (if l \<le> currentLogLevel g then 1 else 0)"
  using assms by (auto simp: LOG_IF_Ok LogImpl_fields)

subsection \<open>\<open>Intro\<close>\<close>

record process =
  log :: log_state
  ControlListenPort :: int
  AdcListenPort :: int
  apci_fd :: int

definition process_start :: process where
  "process_start = \<lparr>log = log_start, ControlListenPort = 18767, AdcListenPort = 18767 + 1, apci_fd = - 1\<rparr>"

text \<open>
  \<open>sscanf\<close> with \<open>%d\<close>: white space, a sign and digits; without digits nothing is stored, and a number that no
  \<open>int\<close> holds is undefined.
\<close>

definition sscanf_d :: "string \<Rightarrow> int option res" where
  "sscanf_d s =
     (let t = dropWhile isspace (c_str s);
          neg = (t \<noteq> [] \<and> hd t = CHR ''-'');
          u = (if t \<noteq> [] \<and> hd t \<in> {CHR ''+'', CHR ''-''} then tl t else t);
          ds = takeWhile isdigit u;
          n = (if neg then - int (digits_value 10 ds) else int (digits_value 10 ds))
      in if ds = [] then Ok None
         else if - (2 ^ 31) \<le> n \<and> n < 2 ^ 31 then Ok (Some n) else Undef)"

definition level_of_text :: "string \<Rightarrow> LogLevel" where
  "level_of_text lvl =
     (if lvl = ''trace'' then L_Trace
      else if lvl = ''debug'' then L_Debug
      else if lvl = ''info'' then L_Info
      else if lvl = ''warning'' \<or> lvl = ''warn'' then L_Warning
      else L_Error)"

definition intro_loc :: "nat \<Rightarrow> source_location" where
  "intro_loc n = \<lparr>file_name = ''aioenetd.cpp'', function_name = ''Intro'', loc_line = n\<rparr>"

definition log_in :: "(log_state \<Rightarrow> 'a res \<times> log_state) \<Rightarrow> process \<Rightarrow> 'a res \<times> process" where
  "log_in f p = apsnd (\<lambda>g. p\<lparr>log := g\<rparr>) (f (log p))"

text \<open>The variable of the environment sets the level, the first argument (after the program's name) the control port.\<close>

definition Intro_level :: "clock_lib \<Rightarrow> string option \<Rightarrow> process \<Rightarrow> unit res \<times> process" where
  "Intro_level C env p =
     (case env of
        Some lvl \<Rightarrow>
          bindS (log_in (LOG_IF C L_Info (Ok (''AIOENET_LOG_LEVEL='' @ [CHR 0x27] @ lvl @ [CHR 0x27])) (intro_loc 370)) p)
            (\<lambda>_ p. (Ok (), p\<lparr>log := SetLogLevel (level_of_text (map tolower lvl)) (log p)\<rparr>))
      | None \<Rightarrow>
          log_in (LOG_IF C L_Info (Ok (''AIOENET_LOG_LEVEL not set, defaulting to '' @ [CHR 0x27] @ ''debInfoug'' @ [CHR 0x27]))
            (intro_loc 386)) (p\<lparr>log := SetLogLevel L_Info (log p)\<rparr>))"

definition Intro_port :: "clock_lib \<Rightarrow> string list \<Rightarrow> process \<Rightarrow> unit res \<times> process" where
  "Intro_port C argv p =
     (if length argv < 2
      then bindS (log_in (LOG_IF C L_Trace (Ok (''Warning: no tcp port specified.  Using default: ''
               @ int_to_string (ControlListenPort p))) (intro_loc 403)) p)
             (\<lambda>_. log_in (LOG_IF C L_Trace (case argv of [] \<Rightarrow> Undef
                | prog # _ \<Rightarrow> Ok (''Usage: '' @ prog @ '' {port_to_listen '' @ [CHR 0xE2, CHR 0x80, CHR 0x94] @ '' (i.e., 18767)}''))
                (intro_loc 404)))
      else case sscanf_d (argv ! 1) of
             Ok (Some n) \<Rightarrow> (Ok (), p\<lparr>ControlListenPort := n\<rparr>)
           | Ok None \<Rightarrow> (Ok (), p)
           | Throw e \<Rightarrow> (Throw e, p) | Undef \<Rightarrow> (Undef, p) | Hang \<Rightarrow> (Hang, p))"

definition Intro :: "clock_lib \<Rightarrow> string option \<Rightarrow> string list \<Rightarrow> string \<Rightarrow> process \<Rightarrow> unit res \<times> process" where
  "Intro C env argv now p =
     bindS (Intro_level C env p)
     (\<lambda>_ p. bindS (log_in (LOG_IF C L_Info (Ok (''AIOeNET Daemon 0.7.5 STARTING, it is now: '' @ now)) (intro_loc 390)) p)
     (\<lambda>_ p. bindS (Intro_port C argv p)
     (\<lambda>_ p. log_in (LOG_IF C L_Trace (Ok (''Control port: '' @ int_to_string (ControlListenPort p))) (intro_loc 409)) p)))"

lemma log_in_fields [simp]:
  "ControlListenPort (snd (log_in f p)) = ControlListenPort p" "AdcListenPort (snd (log_in f p)) = AdcListenPort p"
  "apci_fd (snd (log_in f p)) = apci_fd p" "fst (log_in f p) = fst (f (log p))" "log (snd (log_in f p)) = snd (f (log p))"
  by (simp_all add: log_in_def apsnd_def map_prod_def split_beta)

lemma log_in_Ok: "log_in (LOG_IF C l (Ok m) loc) p = (Ok (), snd (log_in (LOG_IF C l (Ok m) loc) p))"
  by (simp add: prod_eq_iff LOG_IF_Ok)

definition same_ports :: "process \<Rightarrow> process \<Rightarrow> bool" where
  "same_ports p p' \<longleftrightarrow> ControlListenPort p' = ControlListenPort p \<and> AdcListenPort p' = AdcListenPort p \<and> apci_fd p' = apci_fd p"

lemma log_line:
  "\<exists>p'. log_in (LOG_IF C l (Ok m) loc) p = (Ok (), p') \<and> same_ports p p'
     \<and> currentLogLevel (log p') = currentLogLevel (log p)"
  by (intro exI [of _ "snd (log_in (LOG_IF C l (Ok m) loc) p)"]) (simp add: prod_eq_iff LOG_IF_Ok same_ports_def LogImpl_fields)

lemma Intro_level_result:
  "\<exists>p'. Intro_level C env p = (Ok (), p') \<and> same_ports p p'
     \<and> currentLogLevel (log p') = (case env of None \<Rightarrow> L_Info | Some lvl \<Rightarrow> level_of_text (map tolower lvl))"
proof (cases env)
  case None
  then show ?thesis
    using log_line [where p = "p\<lparr>log := SetLogLevel L_Info (log p)\<rparr>"]
    by (simp add: Intro_level_def same_ports_def SetLogLevel_def del: append.simps)
next
  case (Some lvl)
  obtain p' where "log_in (LOG_IF C L_Info (Ok (''AIOENET_LOG_LEVEL='' @ [CHR 0x27] @ lvl @ [CHR 0x27])) (intro_loc 370)) p
      = (Ok (), p')" "same_ports p p'"
    using log_line by blast
  then show ?thesis
    using Some by (simp add: Intro_level_def same_ports_def SetLogLevel_def del: append.simps)
qed

lemma Intro_rest:
  assumes "\<And>p1. same_ports p p1 \<Longrightarrow> \<exists>p2. Intro_port C argv p1 = (Ok (), p2) \<and> R p2 \<and> log p2 = log p1"
    and "\<And>p2 p3. R p2 \<Longrightarrow> same_ports p2 p3 \<Longrightarrow> R p3"
  shows "\<exists>p'. Intro C env argv now p = (Ok (), p') \<and> R p'
    \<and> currentLogLevel (log p') = (case env of None \<Rightarrow> L_Info | Some lvl \<Rightarrow> level_of_text (map tolower lvl))"
proof -
  obtain p1 where p1: "Intro_level C env p = (Ok (), p1)" "same_ports p p1"
    "currentLogLevel (log p1) = (case env of None \<Rightarrow> L_Info | Some lvl \<Rightarrow> level_of_text (map tolower lvl))"
    using Intro_level_result by blast
  obtain p2 where p2: "log_in (LOG_IF C L_Info (Ok (''AIOeNET Daemon 0.7.5 STARTING, it is now: '' @ now)) (intro_loc 390)) p1 = (Ok (), p2)"
    "same_ports p1 p2" "currentLogLevel (log p2) = currentLogLevel (log p1)"
    using log_line by blast
  have "same_ports p p2" using p1(2) p2(2) by (simp add: same_ports_def)
  then obtain p3 where p3: "Intro_port C argv p2 = (Ok (), p3)" "R p3" "log p3 = log p2"
    using assms(1) by blast
  obtain p4 where "log_in (LOG_IF C L_Trace (Ok (''Control port: '' @ int_to_string (ControlListenPort p3))) (intro_loc 409)) p3 = (Ok (), p4)"
    "same_ports p3 p4" "currentLogLevel (log p4) = currentLogLevel (log p3)"
    using log_line by blast
  then show ?thesis
    using p1 p2 p3 assms(2) by (simp add: Intro_def del: append.simps)
qed

text \<open>
  The level the variable asks for, in capitals or not; text that names no level leaves errors only. The argument
  moves the control port, and the sample port stays where it was.
\<close>

lemma Intro_result:
  assumes "length argv \<ge> 2" and "sscanf_d (argv ! 1) = Ok n"
  shows "\<exists>p'. Intro C env argv now p = (Ok (), p')
    \<and> (AdcListenPort p' = AdcListenPort p \<and> apci_fd p' = apci_fd p
       \<and> ControlListenPort p' = (case n of None \<Rightarrow> ControlListenPort p | Some m \<Rightarrow> m))
    \<and> currentLogLevel (log p') = (case env of None \<Rightarrow> L_Info | Some lvl \<Rightarrow> level_of_text (map tolower lvl))"
  by (rule Intro_rest) (use assms in \<open>auto simp: Intro_port_def same_ports_def split: option.splits\<close>)

text \<open>The port next to the default makes both listeners ask for the same one.\<close>

lemma sample_port_does_not_move:
  "\<exists>p'. Intro C env [prog, ''18768''] now process_start = (Ok (), p') \<and> ControlListenPort p' = AdcListenPort p'"
proof -
  have "sscanf_d ([prog, ''18768''] ! 1) = Ok (Some 18768)"
    by (simp add: sscanf_d_def c_str_def isspace_def isdigit_def digits_value_def digit_val_def)
  then show ?thesis
    using Intro_result [of "[prog, ''18768'']" "Some 18768" C env now process_start]
    by (auto simp: process_start_def simp del: nth_Cons_Suc One_nat_def)
qed

subsection \<open>The device file\<close>

text \<open>
  \<open>OpenDevFile\<close> on the entries of \<^verbatim>\<open>/dev/apci\<close>, in the order of the iterator; no directory makes it throw. The
  descriptor is that of the first entry that opens, or the error of the last.
\<close>

fun open_devices :: "(string \<Rightarrow> int) \<Rightarrow> string list \<Rightarrow> int \<Rightarrow> int \<times> string" where
  "open_devices opens [] fd = (fd, [])"
| "open_devices opens (devfile # fs) fd =
     (if 0 \<le> opens devfile then (opens devfile, devfile) else open_devices opens fs (opens devfile))"

definition OpenDevFile ::
  "clock_lib \<Rightarrow> (string \<Rightarrow> int) \<Rightarrow> string list option \<Rightarrow> process \<Rightarrow> unit res \<times> process" where
  "OpenDevFile C opens entries p =
     (case entries of
        None \<Rightarrow> (Throw (RuntimeError ''filesystem error: directory iterator cannot open directory [/dev/apci]''), p)
      | Some fs \<Rightarrow>
          let (fd, devicefile) = open_devices opens fs (apci_fd p)
          in log_in (LOG_IF C L_Info (Ok (''Opening device @ '' @ devicefile))
               \<lparr>file_name = ''aioenetd.cpp'', function_name = ''OpenDevFile'', loc_line = 425\<rparr>) (p\<lparr>apci_fd := fd\<rparr>))"

lemma open_devices_first:
  "open_devices opens fs fd = (case filter (\<lambda>f. 0 \<le> opens f) fs of
     f # _ \<Rightarrow> (opens f, f) | [] \<Rightarrow> (if fs = [] then fd else opens (last fs), []))"
  by (induction fs arbitrary: fd) (auto split: list.splits)

text \<open>When no entry opens the server goes on without a board: the descriptor is negative and nothing is thrown.\<close>

lemma OpenDevFile_without_board:
  assumes "apci_fd p < 0" and "\<forall>f \<in> set fs. opens f < 0"
  shows "\<exists>p'. OpenDevFile C opens (Some fs) p = (Ok (), p') \<and> apci_fd p' < 0"
proof -
  have "filter (\<lambda>f. 0 \<le> opens f) fs = []" using assms(2) by (auto simp: filter_empty_conv)
  then have "fst (open_devices opens fs (apci_fd p)) < 0"
    using assms by (auto simp: open_devices_first)
  then show ?thesis
    by (auto simp: OpenDevFile_def split_beta prod_eq_iff LOG_IF_Ok)
qed

lemma OpenDevFile_opens:
  assumes "f \<in> set fs" and "0 \<le> opens f"
  shows "\<exists>p'. OpenDevFile C opens (Some fs) p = (Ok (), p') \<and> 0 \<le> apci_fd p' \<and> (\<exists>f' \<in> set fs. apci_fd p' = opens f')"
proof -
  obtain f' r where r: "filter (\<lambda>f. 0 \<le> opens f) fs = f' # r"
    using assms by (cases "filter (\<lambda>f. 0 \<le> opens f) fs") (auto simp: filter_empty_conv)
  have "f' \<in> set (filter (\<lambda>f. 0 \<le> opens f) fs)" unfolding r by simp
  then have "0 \<le> opens f'" "f' \<in> set fs" by auto
  then show ?thesis
    using r by (auto simp: OpenDevFile_def open_devices_first prod_eq_iff LOG_IF_Ok)
qed

subsection \<open>Listening sockets\<close>

text \<open>The address family, the port as the network gets it and no particular interface.\<close>

datatype family = AF_INET | AF_INET6

record sockaddr =
  sin_family :: family
  sin_port :: u16

record 'w socket_lib =
  sk_socket :: "family \<Rightarrow> 'w \<Rightarrow> int \<times> 'w"
  sk_reuse :: "int \<Rightarrow> 'w \<Rightarrow> int \<times> 'w"
  sk_bind :: "int \<Rightarrow> sockaddr \<Rightarrow> 'w \<Rightarrow> int \<times> 'w"
  sk_listen :: "int \<Rightarrow> int \<Rightarrow> 'w \<Rightarrow> int \<times> 'w"

text \<open>A step of the start that can end the process.\<close>

datatype 'a or_exit = Goes_on 'a | Exits

text \<open>
  \<open>Bind\<close>: the descriptor of a failed \<^verbatim>\<open>socket\<close> is compared with zero, and the option is set twice.
  The port is cut to sixteen bits.
\<close>

definition Bind :: "'w socket_lib \<Rightarrow> int \<Rightarrow> family \<Rightarrow> 'w \<Rightarrow> int or_exit \<times> 'w" where
  "Bind S Port iNET w =
     (let (Socket, w) = sk_socket S iNET w in
      if Socket = 0 then (Exits, w)
      else let (r, w) = sk_reuse S Socket w in
      if r < 0 then (Exits, w)
      else let (r, w) = sk_reuse S Socket w;
               (result, w) = sk_bind S Socket \<lparr>sin_family = iNET, sin_port = of_int Port\<rparr> w
           in (if result < 0 then Exits else Goes_on Socket, w))"

definition Listen :: "'w socket_lib \<Rightarrow> int \<Rightarrow> int \<Rightarrow> 'w \<Rightarrow> unit or_exit \<times> 'w" where
  "Listen S Socket num w =
     (let (r, w) = sk_listen S Socket num w in (if r < 0 then Exits else Goes_on (), w))"

text \<open>The socket of a listening thread: 32 waiting connections for control, one for samples.\<close>

definition listening_socket :: "'w socket_lib \<Rightarrow> int \<Rightarrow> family \<Rightarrow> int \<Rightarrow> 'w \<Rightarrow> int or_exit \<times> 'w" where
  "listening_socket S Port iNET num w =
     (case Bind S Port iNET w of
        (Exits, w) \<Rightarrow> (Exits, w)
      | (Goes_on Socket, w) \<Rightarrow>
          (case Listen S Socket num w of (Exits, w) \<Rightarrow> (Exits, w) | (Goes_on u, w) \<Rightarrow> (Goes_on Socket, w)))"

definition control_socket :: "'w socket_lib \<Rightarrow> process \<Rightarrow> 'w \<Rightarrow> int or_exit \<times> 'w" where
  "control_socket S p = listening_socket S (ControlListenPort p) AF_INET6 32"

definition adc_socket :: "'w socket_lib \<Rightarrow> process \<Rightarrow> 'w \<Rightarrow> int or_exit \<times> 'w" where
  "adc_socket S p = listening_socket S (AdcListenPort p) AF_INET6 1"

text \<open>A thread goes on only when every call succeeded, so no listener waits on a socket that is not listening.\<close>

lemma listening_socket_Goes_on:
  assumes "listening_socket S Port iNET num w = (Goes_on fd, w')"
  shows "\<exists>w1 w2 w3 w4 r1 r2 r3 r4. sk_socket S iNET w = (fd, w1) \<and> sk_reuse S fd w1 = (r1, w2) \<and> sk_reuse S fd w2 = (r2, w3)
    \<and> sk_bind S fd \<lparr>sin_family = iNET, sin_port = of_int Port\<rparr> w3 = (r3, w4) \<and> sk_listen S fd num w4 = (r4, w')
    \<and> fd \<noteq> 0 \<and> 0 \<le> r1 \<and> 0 \<le> r3 \<and> 0 \<le> r4"
  using assms
  by (auto simp: listening_socket_def Bind_def Listen_def Let_def split: prod.splits or_exit.splits if_splits)

text \<open>A port is taken modulo the size of the field, so an argument beyond it names another port.\<close>

lemma port_wraps: "Bind S (Port + 2 ^ 16) iNET w = Bind S Port iNET w"
proof -
  have "(of_int (Port + 2 ^ 16) :: u16) = of_int Port" by simp
  then show ?thesis by (simp only: Bind_def)
qed

end
