(* ===== verification/Lifecycle.thy ===== *)
theory Lifecycle
  imports ConfigShape Startup
begin

text \<open>
  The life of the process (\<open>main\<close>, \<open>exit_handler\<close> and the two listening threads of \<^verbatim>\<open>aioenetd.cpp\<close>) and
  the states its server reaches.
\<close>

subsection \<open>Start and end\<close>

text \<open>
  \<open>main\<close> up to the creation of the threads. The calibration is applied before the device file is opened, so
  the register writes go through the driver with the descriptor -1; \<open>unopened\<close> is the driver library as it
  behaves then. A logic error of the load is logged and ends the load.
\<close>

definition main_start :: "'h apci_lib \<Rightarrow> string \<Rightarrow> 'h server \<Rightarrow> unit res \<times> 'h server" where
  "main_start unopened version s =
     (let s = s\<lparr>cfg := InitConfig (cfg s)\<rparr>;
          s = s\<lparr>disk := InitializeConfigFiles version (cfg s) (disk s)\<rparr>;
          (r, s) = on_cfg_disk (LoadConfig CONFIG_CURRENT) s;
          started = (Ok (), s\<lparr>dev := ApplyConfig unopened (cfg s) (dev s)\<rparr>)
      in case r of
           Ok u \<Rightarrow> started
         | Throw e \<Rightarrow> (case e of LogicError w \<Rightarrow> started | RuntimeError w \<Rightarrow> (Throw (RuntimeError w), s))
         | Undef \<Rightarrow> (Undef, s)
         | Hang \<Rightarrow> (Hang, s))"

text \<open>
  All of \<open>main\<close> before the threads: \<open>Intro\<close>, the part above, and only then \<open>OpenDevFile\<close>. What leaves it as an
  exception ends the process.
\<close>

definition main_init ::
  "clock_lib \<Rightarrow> string option \<Rightarrow> string list \<Rightarrow> string \<Rightarrow> (string \<Rightarrow> int) \<Rightarrow> string list option \<Rightarrow> 'h apci_lib \<Rightarrow> string \<Rightarrow>
   process \<times> 'h server \<Rightarrow> unit res \<times> (process \<times> 'h server)" where
  "main_init C env argv now opens entries unopened version = (\<lambda>(p, s).
     bindS (let (r, p) = Intro C env argv now p in (r, (p, s)))
     (\<lambda>_ (p, s). bindS (let (r, s) = main_start unopened version s in (r, (p, s)))
     (\<lambda>_ (p, s). let (r, p) = OpenDevFile C opens entries p in (r, (p, s)))))"

lemma main_init_reaches:
  assumes "main_init C env argv now opens entries unopened version (p, s0) = (Ok (), (p', s))"
  shows "\<exists>version. main_start unopened version s0 = (Ok (), s)"
  using assms by (auto simp: main_init_def bindS_eq_Ok Let_def split: prod.splits)

definition bmResetEverything :: u32 where "bmResetEverything = 1"

text \<open>
  \<open>exit_handler\<close>: the flag, the wake-up of a streaming worker, the null action that wakes the action thread,
  the reset of the card and the configuration.
\<close>

definition exit_handler ::
  "'h env \<Rightarrow> TActionQueueItem SafeQueue \<times> 'h server \<Rightarrow> TActionQueueItem SafeQueue \<times> 'h server" where
  "exit_handler E = (\<lambda>(q, s).
     let s = s\<lparr>finished := True\<rparr>;
         s = s\<lparr>dev := snd (apci_cancel_irq (slib E) 1 (dev s))\<rparr>;
         q = enqueue None q;
         s = s\<lparr>dev := snd (out_reg (lib E) ofsReset bmResetEverything (dev s))\<rparr>;
         s = s\<lparr>disk := snd (SaveConfig CONFIG_CURRENT (cfg s) (disk s))\<rparr>
     in (q, s))"

text \<open>The handler of the signals that end the server; \<open>main\<close> sees the flag and calls \<open>exit_handler\<close>.\<close>

definition abort_handler :: "'h server \<Rightarrow> 'h server" where
  "abort_handler s = s\<lparr>finished := True\<rparr>"

subsection \<open>Listening\<close>

text \<open>
  What one turn of a listening loop meets: the flag \<open>done\<close> at the test, and how \<^verbatim>\<open>select\<close> returns. A ready socket
  comes with the descriptor \<^verbatim>\<open>accept\<close> returns, negative for an error. The flag is read again after an interrupted
  call and after a time-out.
\<close>

datatype select_result = Interrupted bool | Select_failed | Timed_out bool | Ready int

text \<open>The descriptors threads are started for, and the events that are left when the function returns.\<close>

fun HandleNewControlClients :: "(bool \<times> select_result) list \<Rightarrow> int list \<times> (bool \<times> select_result) list" where
  "HandleNewControlClients [] = ([], [])"
| "HandleNewControlClients ((done, ev) # evs) =
     (if done then ([], (done, ev) # evs)
      else case ev of
             Interrupted d \<Rightarrow> (if d then ([], evs) else HandleNewControlClients evs)
           | Select_failed \<Rightarrow> ([], evs)
           | Timed_out d \<Rightarrow> (if d then ([], evs) else HandleNewControlClients evs)
           | Ready fd \<Rightarrow>
               if fd < 0 then HandleNewControlClients evs
               else apfst ((#) fd) (HandleNewControlClients evs))"

text \<open>The listener of the sample port ends the process when it cannot accept (\<open>True\<close> in the middle).\<close>

fun HandleNewAdcClients :: "(bool \<times> select_result) list \<Rightarrow> (int \<times> TBytes) list \<times> bool \<times> (bool \<times> select_result) list" where
  "HandleNewAdcClients [] = ([], False, [])"
| "HandleNewAdcClients ((done, ev) # evs) =
     (if done then ([], False, (done, ev) # evs)
      else case ev of
             Interrupted d \<Rightarrow> (if d then ([], False, evs) else HandleNewAdcClients evs)
           | Select_failed \<Rightarrow> ([], False, evs)
           | Timed_out d \<Rightarrow> (if d then ([], False, evs) else HandleNewAdcClients evs)
           | Ready fd \<Rightarrow>
               if fd < 0 then ([], True, evs)
               else apfst ((#) (fd, SendAdcHello fd)) (HandleNewAdcClients evs))"

text \<open>The loop around it in \<open>ControlListenerThread\<close>.\<close>

lemma HandleNewControlClients_shorter:
  "\<not> fst e \<Longrightarrow> length (snd (HandleNewControlClients (e # evs))) \<le> length evs"
proof -
  have le: "length (snd (HandleNewControlClients es)) \<le> length es" for es
    by (induction es) (auto split: select_result.splits intro: le_SucI)
  assume "\<not> fst e"
  then show ?thesis
    by (cases e; cases "snd e") (auto intro: le)
qed

function ControlListenerThread :: "(bool \<times> select_result) list \<Rightarrow> int list" where
  "ControlListenerThread [] = []"
| "ControlListenerThread ((done, ev) # evs) =
     (if done then []
      else let (fds, rest) = HandleNewControlClients ((done, ev) # evs) in fds @ ControlListenerThread rest)"
  by pat_completeness auto
termination
proof (relation "measure length")
  fix done' ev evs x fds rest
  assume "\<not> done'" "x = HandleNewControlClients ((done', ev) # evs)" "(fds, rest) = x"
  then show "(rest, (done', ev) # evs) \<in> measure length"
    using HandleNewControlClients_shorter [of "(done', ev)" evs] by (auto simp: less_Suc_eq_le simp del: HandleNewControlClients.simps dest: sym)
qed simp

text \<open>\<open>AdcListenerThread\<close>; once the process has ended no other event is looked at.\<close>

lemma HandleNewAdcClients_shorter:
  "\<not> fst e \<Longrightarrow> length (snd (snd (HandleNewAdcClients (e # evs)))) \<le> length evs"
proof -
  have le: "length (snd (snd (HandleNewAdcClients es))) \<le> length es" for es
    by (induction es) (auto split: select_result.splits intro: le_SucI)
  assume "\<not> fst e"
  then show ?thesis
    by (cases e; cases "snd e") (auto intro: le)
qed

function AdcListenerThread :: "(bool \<times> select_result) list \<Rightarrow> (int \<times> TBytes) list \<times> bool" where
  "AdcListenerThread [] = ([], False)"
| "AdcListenerThread ((done, ev) # evs) =
     (if done then ([], False)
      else let (fds, exited, rest) = HandleNewAdcClients ((done, ev) # evs)
           in if exited then (fds, True) else apfst ((@) fds) (AdcListenerThread rest))"
  by pat_completeness auto
termination
proof (relation "measure length")
  fix done' ev evs x fds y exited rest
  assume "\<not> done'" "x = HandleNewAdcClients ((done', ev) # evs)" "(fds, y) = x" "(exited, rest) = y"
  then show "(rest, (done', ev) # evs) \<in> measure length"
    using HandleNewAdcClients_shorter [of "(done', ev)" evs]
    by (auto simp: less_Suc_eq_le simp del: HandleNewAdcClients.simps dest: sym)
qed simp

definition accepted :: "(bool \<times> select_result) list \<Rightarrow> int list" where
  "accepted = List.map_filter (\<lambda>(d, ev). case ev of Ready fd \<Rightarrow> if fd < 0 then None else Some fd | _ \<Rightarrow> None)"

lemma accepted_simps [simp]:
  "accepted [] = []"
  "accepted ((d, Ready fd) # evs) = (if fd < 0 then accepted evs else fd # accepted evs)"
  "accepted ((d, Select_failed) # evs) = accepted evs" "accepted ((d, Interrupted x) # evs) = accepted evs"
  "accepted ((d, Timed_out x) # evs) = accepted evs"
  by (simp_all add: accepted_def map_filter_simps)

definition running :: "(bool \<times> select_result) list \<Rightarrow> bool" where
  "running evs \<longleftrightarrow> (\<forall>(d, ev) \<in> set evs. \<not> d \<and> ev \<noteq> Interrupted True \<and> ev \<noteq> Timed_out True)"

lemma HandleNewControlClients_accepts:
  "running evs \<Longrightarrow> HandleNewControlClients evs = (fds, rest) \<Longrightarrow> accepted evs = fds @ accepted rest \<and> running rest"
  by (induction evs arbitrary: fds)
    (auto simp: running_def apfst_def map_prod_def split: select_result.splits if_splits prod.splits)

text \<open>
  While the server runs every accepted connection gets its receiver, in order, whatever calls of \<^verbatim>\<open>select\<close>
  and \<^verbatim>\<open>accept\<close> fail in between.
\<close>

lemma listener_accepts_all: "running evs \<Longrightarrow> ControlListenerThread evs = accepted evs"
proof (induction evs rule: ControlListenerThread.induct)
  case (2 d ev evs)
  obtain fds rest where h: "HandleNewControlClients ((d, ev) # evs) = (fds, rest)" by fastforce
  have "\<not> d" using 2(2) by (simp add: running_def)
  then show ?case
    using 2(1) [OF _ h [symmetric] refl] HandleNewControlClients_accepts [OF 2(2) h] h
    by (simp del: HandleNewControlClients.simps)
qed simp

text \<open>
  The other listener greets the connections up to the first it cannot accept and then ends the process, an
  event the control listener passes over.
\<close>

definition readies :: "(bool \<times> select_result) list \<Rightarrow> int list" where
  "readies = List.map_filter (\<lambda>(d, ev). case ev of Ready fd \<Rightarrow> Some fd | _ \<Rightarrow> None)"

lemma readies_simps [simp]:
  "readies [] = []" "readies ((d, Ready fd) # evs) = fd # readies evs"
  "readies ((d, Select_failed) # evs) = readies evs" "readies ((d, Interrupted x) # evs) = readies evs"
  "readies ((d, Timed_out x) # evs) = readies evs"
  by (simp_all add: readies_def map_filter_simps)

definition served :: "int list \<Rightarrow> (int \<times> TBytes) list" where
  "served fds = map (\<lambda>fd. (fd, SendAdcHello fd)) (takeWhile (\<lambda>fd. 0 \<le> fd) fds)"

lemma served_append: "\<forall>fd \<in> set xs. 0 \<le> fd \<Longrightarrow> served (xs @ ys) = served xs @ served ys"
  by (induction xs) (simp_all add: served_def)

lemma HandleNewAdcClients_serves:
  "running evs \<Longrightarrow> HandleNewAdcClients evs = (fds, exited, rest) \<Longrightarrow>
   if exited then fds = served (readies evs) \<and> (\<exists>fd \<in> set (readies evs). fd < 0)
   else \<exists>xs. (\<forall>fd \<in> set xs. 0 \<le> fd) \<and> readies evs = xs @ readies rest \<and> fds = served xs \<and> running rest"
proof (induction evs arbitrary: fds exited rest)
  case Nil
  then show ?case by (auto simp: served_def intro: exI [of _ "[]"])
next
  case (Cons e evs)
  obtain d ev where e: "e = (d, ev)" by fastforce
  obtain f x r where h: "HandleNewAdcClients evs = (f, x, r)" by (cases "HandleNewAdcClients evs")
  have run: "\<not> d" "running evs" "ev \<noteq> Interrupted True" "ev \<noteq> Timed_out True"
    using Cons.prems(1) e by (auto simp: running_def)
  note IH = Cons.IH [OF run(2) h]
  show ?case
  proof (cases ev)
    case (Ready fd)
    show ?thesis
    proof (cases "fd < 0")
      case False
      then have eq: "fds = (fd, SendAdcHello fd) # f" "exited = x" "rest = r"
        using Cons.prems(2) e run h Ready by auto
      show ?thesis
      proof (cases x)
        case False
        then obtain xs where "\<forall>fd \<in> set xs. 0 \<le> fd" "readies evs = xs @ readies r" "f = served xs" "running r"
          using IH by auto
        then show ?thesis
          using False \<open>\<not> fd < 0\<close> eq e Ready by (auto simp: served_def intro!: exI [of _ "fd # xs"])
      qed (use IH \<open>\<not> fd < 0\<close> eq e Ready in \<open>auto simp: served_def\<close>)
    qed (use Cons.prems(2) e run Ready in \<open>auto simp: served_def\<close>)
  next
    case (Interrupted y)
    then show ?thesis using Cons.prems(2) IH e run h by (cases y) auto
  next
    case (Timed_out y)
    then show ?thesis using Cons.prems(2) IH e run h by (cases y) auto
  next
    case Select_failed
    then show ?thesis using Cons.prems e by (auto simp: running_def served_def intro!: exI [of _ "[]"] split: if_splits)
  qed
qed

lemma adc_listener_serves:
  "running evs \<Longrightarrow> AdcListenerThread evs = (served (readies evs), \<exists>fd \<in> set (readies evs). fd < 0)"
proof (induction evs rule: AdcListenerThread.induct)
  case (2 d ev evs)
  obtain fds exited rest where h: "HandleNewAdcClients ((d, ev) # evs) = (fds, exited, rest)"
    by (cases "HandleNewAdcClients ((d, ev) # evs)")
  have d: "\<not> d" using 2(2) by (simp add: running_def)
  note serves = HandleNewAdcClients_serves [OF 2(2) h]
  show ?case
  proof (cases exited)
    case True
    then show ?thesis using serves h d by (simp del: HandleNewAdcClients.simps)
  next
    case False
    then obtain xs where xs: "\<forall>fd \<in> set xs. 0 \<le> fd" "readies ((d, ev) # evs) = xs @ readies rest"
      "fds = served xs" "running rest"
      using serves by auto
    then have "\<not> (\<exists>fd \<in> set xs. fd < 0)" by auto
    then show ?thesis
      using 2(1) [OF d h [symmetric] refl refl False xs(4)] xs h d False
      by (auto simp del: HandleNewAdcClients.simps simp: served_append)
  qed
qed (simp add: served_def)

subsection \<open>The states of the server\<close>

text \<open>
  From the start on: a frame is parsed, an action runs, a connection is greeted. The parts of the state
  threads share are taken one operation at a time.
\<close>

inductive server_reachable :: "'h env \<Rightarrow> 'h apci_lib \<Rightarrow> 'h server \<Rightarrow> bool" for E unopened where
  starts: "main_start unopened version s0 = (Ok (), s) \<Longrightarrow> server_reachable E unopened s"
| greets: "server_reachable E unopened s \<Longrightarrow> server_reachable E unopened (snd (SendControlHello E sock s))"
| parses: "server_reachable E unopened s \<Longrightarrow> server_reachable E unopened (snd (GotMessage E f s))"
| acts: "server_reachable E unopened s \<Longrightarrow> server_reachable E unopened (snd (ActionThread_turn E a s))"
| signal: "server_reachable E unopened s \<Longrightarrow> server_reachable E unopened (abort_handler s)"
| ends: "server_reachable E unopened s \<Longrightarrow> server_reachable E unopened (snd (exit_handler E (q, s)))"

lemma main_start_shape: "server_ok (snd (main_start unopened version s))"
proof -
  let ?s = "s\<lparr>cfg := InitConfig (cfg s), disk := InitializeConfigFiles version (InitConfig (cfg s)) (disk s)\<rparr>"
  obtain r t where l: "on_cfg_disk (LoadConfig CONFIG_CURRENT) ?s = (r, t)" by fastforce
  have "server_ok (snd (on_cfg_disk (LoadConfig CONFIG_CURRENT) ?s))"
    using keeps_shape_LoadConfig by (intro on_state_shape(1)) (simp_all add: server_ok_def keeps_shape_def)
  then have "server_ok t" using l by simp
  then show ?thesis
    using l by (auto simp: main_start_def server_ok_def Let_def split: res.splits exn.splits)
qed

lemma dac_hello_shape: "server_ok s \<Longrightarrow> server_ok (snd (dac_hello E cs p s))"
proof (induction cs arbitrary: p s)
  case (Cons c cs)
  then show ?case
    by (auto simp: server_ok_def cfg_fromBytes split_beta split: option.splits intro!: snd_bindS [where P = "\<lambda>t. TConfig_ok (cfg t)"])
qed simp

lemma go_all_shape: "server_ok s \<Longrightarrow> server_ok (snd (go_all E its p s))"
proof (induction its arbitrary: p s)
  case (Cons it its)
  obtain r t where rt: "bindS (it, s) (item_Go E) = (r, t)" by fastforce
  have "server_ok (snd (bindS (it, s) (item_Go E)))"
    using Cons.prems by (auto intro!: snd_bindS [where P = server_ok] item_Go_shape)
  then have "server_ok t" using rt by simp
  then show ?case using rt Cons.IH by (auto split: res.splits exn.splits)
qed simp

lemma server_ok_allocs: "server_ok (s\<lparr>allocs := n\<rparr>) = server_ok s"
  by (simp add: server_ok_def)

lemma fromBytes_shape: "server_ok s \<Longrightarrow> server_ok (snd (fromBytes E bs s))"
  by (simp add: server_ok_def cfg_fromBytes)

lemma greeting_shape: "server_ok s \<Longrightarrow> server_ok (snd (SendControlHello E sock s))"
  unfolding SendControlHello_def
  by (auto simp: server_ok_allocs split_beta
      intro!: snd_bindS [where P = server_ok] fromBytes_shape dac_hello_shape go_all_shape)

lemma server_reachable_ok: "server_reachable E unopened s \<Longrightarrow> server_ok s"
proof (induction rule: server_reachable.induct)
  case (starts version s0 s)
  then show ?case using main_start_shape [of unopened version s0] by simp
next
  case (greets s sock)
  then show ?case by (intro greeting_shape)
next
  case (parses s f)
  then show ?case by (simp add: server_ok_def cfg_GotMessage)
next
  case (acts s a)
  then show ?case by (intro ActionThread_turn_shape)
next
  case (signal s)
  then show ?case by (simp add: abort_handler_def server_ok_def)
next
  case (ends s q)
  then show ?case by (simp add: exit_handler_def server_ok_def Let_def)
qed

subsection \<open>The calibration at the start\<close>

lemma fold_state:
  assumes "\<And>x h. f x h = h"
  shows "fold f xs h = h"
  using assms by (induction xs) simp_all


subsection \<open>A start without a readable file\<close>

definition dead_fs :: "fs \<Rightarrow> bool" where
  "dead_fs s \<longleftrightarrow> (\<forall>k. fs_errno s k \<noteq> 0)"

definition loads_nothing :: "load \<Rightarrow> bool" where
  "loads_nothing f \<longleftrightarrow> (\<forall>c s. dead_fs s \<longrightarrow> (\<exists>s'. dead_fs s' \<and> f (c, s) = (Ok (), (c, s'))))"

lemma dead_fs_simps:
  "dead_fs s \<Longrightarrow> fs_errno s k = 0 \<longleftrightarrow> False" "dead_fs (s\<lparr>calls := n\<rparr>) = dead_fs s"
  by (simp_all add: dead_fs_def)

lemma dead_tick: "dead_fs s \<Longrightarrow> fst (tick s) \<noteq> 0 \<and> dead_fs (snd (tick s))"
  by (simp add: dead_fs_def tick_def)

lemma ReadConfigString_dead: "dead_fs s \<Longrightarrow> \<exists>s'. dead_fs s' \<and> ReadConfigString key which s = ((- 2, None), s')"
  by (simp add: ReadConfigString_def ReadConfigStringRaw_def sys_exists_def tick_def dead_fs_simps Let_def)

lemma loads_nothingI:
  "(\<And>c s. dead_fs s \<Longrightarrow> \<exists>s'. dead_fs s' \<and> f (c, s) = (Ok (), (c, s'))) \<Longrightarrow> loads_nothing f"
  by (simp add: loads_nothing_def)

lemma loads_nothing_load:
  "loads_nothing (load_string which upd key)" "loads_nothing (load_u8 which upd8 key)"
  "loads_nothing (load_u32 which upd32 key)" "loads_nothing (load_float which upd32 key)"
proof -
  have u32: "\<exists>s'. dead_fs s' \<and> ReadConfigU32 key which s = (Ok (- 2, None), s')" if "dead_fs s" for s
    using ReadConfigString_dead [OF that, of key which] by (auto simp: ReadConfigU32_def)
  have u8: "\<exists>s'. dead_fs s' \<and> ReadConfigU8 key which s = (Ok (- 2, None), s')" if "dead_fs s" for s
    using ReadConfigString_dead [OF that, of key which] by (auto simp: ReadConfigU8_def)
  have str: "\<exists>s'. dead_fs s' \<and> load_string which upd key (c, s) = (Ok (), (c, s'))" if "dead_fs s" for c s
    using ReadConfigString_dead [OF that, of key which] by (auto simp: load_string_def assign_def)
  have b: "\<exists>s'. dead_fs s' \<and> load_u8 which upd8 key (c, s) = (Ok (), (c, s'))" if "dead_fs s" for c s
    using u8 [OF that] by (auto simp: load_u8_def assign_def)
  have w: "\<exists>s'. dead_fs s' \<and> load_u32 which upd32 key (c, s) = (Ok (), (c, s'))" if "dead_fs s" for c s
    using u32 [OF that] by (auto simp: load_u32_def assign_def)
  have f: "\<exists>s'. dead_fs s' \<and> load_float which upd32 key (c, s) = (Ok (), (c, s'))" if "dead_fs s" for c s
    using u32 [OF that] by (auto simp: load_float_def ReadConfigFloat_def assign_def)
  show "loads_nothing (load_string which upd key)" "loads_nothing (load_u8 which upd8 key)"
    "loads_nothing (load_u32 which upd32 key)" "loads_nothing (load_float which upd32 key)"
    by (intro loads_nothingI str b w f; assumption)+
qed

lemma loads_nothing_seqS: "(\<And>m. m \<in> set ms \<Longrightarrow> loads_nothing m) \<Longrightarrow> loads_nothing (seqS ms)"
proof (induction ms)
  case Nil
  then show ?case by (auto simp: loads_nothing_def)
next
  case (Cons m ms)
  then have m: "loads_nothing m" "loads_nothing (seqS ms)" by auto
  show ?case unfolding loads_nothing_def
  proof (intro allI impI)
    fix c s assume "dead_fs s"
    then obtain s1 where "dead_fs s1" "m (c, s) = (Ok (), (c, s1))" using m(1) by (auto simp: loads_nothing_def)
    then show "\<exists>s'. dead_fs s' \<and> seqS (m # ms) (c, s) = (Ok (), (c, s'))"
      using m(2) by (auto simp: loads_nothing_def outcome_simps)
  qed
qed

lemma loads_nothing_hostname: "loads_nothing load_hostname"
  using dead_tick by (auto simp: loads_nothing_def load_hostname_def split_beta Let_def)

lemma loads_nothing_LoadConfig: "loads_nothing (LoadConfig which)"
  unfolding LoadConfig_def LoadBrdConfig_def LoadCalConfig_def LoadDacCalConfig_def LoadAdcCalConfig_def
    LoadDacConfig_def LoadAdcConfig_def LoadSubmuxConfig_def
  by (intro loads_nothing_seqS) (auto intro!: loads_nothing_seqS loads_nothing_load loads_nothing_hostname)

lemma InitializeConfigFiles_dead: "dead_fs s \<Longrightarrow> dead_fs (InitializeConfigFiles version c s)"
  by (simp add: InitializeConfigFiles_def EnsureConfigTree_def MkdirP_def sys_simple_def tick_def dead_fs_simps Let_def)

lemma load_dead:
  assumes "dead_fs (disk s)"
  shows "\<exists>d. LoadConfig CONFIG_CURRENT (InitConfig (cfg s), InitializeConfigFiles version (InitConfig (cfg s)) (disk s)) =
    (Ok (), (InitConfig (cfg s), d))"
proof -
  have "dead_fs (InitializeConfigFiles version (InitConfig (cfg s)) (disk s))"
    by (rule InitializeConfigFiles_dead [OF assms])
  then show ?thesis
    using loads_nothing_LoadConfig [of CONFIG_CURRENT] unfolding loads_nothing_def by blast
qed

lemma main_start_dead:
  assumes "dead_fs (disk s)"
  shows "\<exists>s'. main_start unopened version s = (Ok (), s') \<and> cfg s' = InitConfig (cfg s)"
  using load_dead [OF assms, of version] by (auto simp: main_start_def on_cfg_disk_def Let_def)

definition dead_server :: "bank server" where
  "dead_server = bank_server\<lparr>disk := empty_fs\<lparr>fs_errno := \<lambda>_. 5\<rparr>\<rparr>"

lemma dead_server: "dead_fs (disk dead_server)"
  by (simp add: dead_server_def dead_fs_def)

text \<open>The driver on a descriptor that is not open: every call reports an error and does nothing.\<close>

definition closed_lib :: "bank apci_lib" where
  "closed_lib = \<lparr>apci_read8 = \<lambda>d b r h. (- 1, 0, h), apci_read16 = \<lambda>d b r h. (- 1, 0, h),
     apci_read32 = \<lambda>d b r h. (- 1, 0, h), apci_write8 = \<lambda>d b r v h. (- 1, h),
     apci_write16 = \<lambda>d b r v h. (- 1, h), apci_write32 = \<lambda>d b r v h. (- 1, h)\<rparr>"


end
