(* ===== verification/Conversation.thy ===== *)
theory Conversation
  imports Lifecycle
begin

text \<open>
  All threads of the server together: the listener, one receiving thread for each connection, the queue and
  the action thread, over one server, in every order. A connection is the index of its thread; the clients are
  known by the descriptors of their sockets, which are given again once they are closed.
\<close>

subsection \<open>The threads\<close>

text \<open>
  Where a receiving thread is: before its greeting, at the test of its loop, in \<^verbatim>\<open>recv\<close>, in \<open>ProcessMessages\<close>, there with a message that
  is parsed and not queued yet, or before the given number of calls of \<^verbatim>\<open>close\<close>, and then at its end. Two histories
  are kept: the bytes it received and the frames whose messages it queued.
\<close>

datatype receiver_phase = Greets | Tests | Receives | Processes | Queues TMessage | Closes nat

record connection_thread =
  ct_socket :: int
  ct_phase :: receiver_phase
  ct_buffer :: TBytes
  ct_received :: TBytes
  ct_frames :: "TBytes list"

text \<open>
  Where the action thread is: before \<open>dequeue\<close>, in \<open>RunMessage\<close> with what the first items came to, or before
  \<open>SendResponse\<close>.
\<close>

datatype action_phase =
    Idle
  | Runs TActionQueueItem TMessage "(TDataItem option \<times> bool) list"
  | Replies TActionQueueItem TMessage

text \<open>A call of \<^verbatim>\<open>send\<close>: the connection that has the descriptor, and the action it answers, none for a greeting.\<close>

record sending =
  sd_socket :: int
  sd_peer :: "nat option"
  sd_action :: "TActionQueueItem option"
  sd_bytes :: TBytes

text \<open>
  The whole: the server, the queue, the action thread, the threads of the connections, the connection at each open
  descriptor, what was sent, and whether the listener is past its test of the flag, in \<^verbatim>\<open>select\<close>.
\<close>

record 'h conversation =
  cv_server :: "'h server"
  cv_queue :: "TActionQueueItem SafeQueue"
  cv_action :: action_phase
  cv_threads :: "connection_thread list"
  cv_peer :: "int \<rightharpoonup> nat"
  cv_sent :: "sending list"
  cv_selecting :: bool

definition conversation_init :: "'h server \<Rightarrow> 'h conversation" where
  "conversation_init s = \<lparr>cv_server = s, cv_queue = SafeQueue_new, cv_action = Idle, cv_threads = [],
     cv_peer = Map.empty, cv_sent = [], cv_selecting = False\<rparr>"

definition new_thread :: "int \<Rightarrow> connection_thread" where
  "new_thread k = \<lparr>ct_socket = k, ct_phase = Greets, ct_buffer = [], ct_received = [], ct_frames = []\<rparr>"

definition set_thread :: "nat \<Rightarrow> connection_thread \<Rightarrow> 'h conversation \<Rightarrow> 'h conversation" where
  "set_thread i t c = c\<lparr>cv_threads := (cv_threads c)[i := t]\<rparr>"

definition send_to :: "int \<Rightarrow> TActionQueueItem option \<Rightarrow> TBytes \<Rightarrow> 'h conversation \<Rightarrow> 'h conversation" where
  "send_to k a bs c =
     c\<lparr>cv_sent := cv_sent c @ [\<lparr>sd_socket = k, sd_peer = cv_peer c k, sd_action = a, sd_bytes = bs\<rparr>]\<rparr>"

text \<open>The complete frame at the front of a buffer, as the loop of \<open>ProcessMessages\<close> finds it.\<close>

definition front_frame :: "TBytes \<Rightarrow> TBytes option" where
  "front_frame buf =
     (if length buf < 5 \<or> maxPayloadLength < head_payload_size buf
         \<or> length buf < 6 + unat (head_payload_size buf) then None
      else Some (take (6 + unat (head_payload_size buf)) buf))"

definition as_receiver :: "connection_thread \<Rightarrow> 'h conversation \<Rightarrow> 'h receiver" where
  "as_receiver t c = \<lparr>rx_buffer = ct_buffer t, rx_queue = cv_queue c, rx_closed = [], rx_server = cv_server c\<rparr>"

definition is_request :: "TMessage \<Rightarrow> bool" where
  "is_request m \<longleftrightarrow> Id m = MId_Q \<or> Id m = MId_C \<or> Id m = MId_M"

subsection \<open>One step\<close>

text \<open>Whether the step is up to the process alone, or to a client, a signal or \<open>main\<close>.\<close>

datatype origin = Inside | Outside

text \<open>
  A step of the process as long as it lives: code that throws out of its thread, is undefined or never returns is
  no step. Between two steps any other thread may run. A message is parsed, an item is run and an answer is sent
  in one step each.
\<close>

inductive conversation_event :: "'h env \<Rightarrow> origin \<Rightarrow> 'h conversation \<Rightarrow> 'h conversation \<Rightarrow> bool" for E where
  selects: "\<not> finished (cv_server c) \<Longrightarrow> conversation_event E Outside c (c\<lparr>cv_selecting := True\<rparr>)"
| times_out: "conversation_event E Outside c (c\<lparr>cv_selecting := False\<rparr>)"
| accepts: "cv_selecting c \<Longrightarrow> 0 \<le> k \<Longrightarrow> cv_peer c k = None \<Longrightarrow>
    conversation_event E Outside c (c\<lparr>cv_threads := cv_threads c @ [new_thread k],
      cv_peer := (cv_peer c)(k \<mapsto> length (cv_threads c)), cv_selecting := False\<rparr>)"
| greets: "i < length (cv_threads c) \<Longrightarrow> t = cv_threads c ! i \<Longrightarrow> ct_phase t = Greets \<Longrightarrow>
    SendControlHello E (ct_socket t) (cv_server c) = (Ok bs, s) \<Longrightarrow>
    conversation_event E Inside c ((set_thread i (t\<lparr>ct_phase := Tests\<rparr>) (send_to (ct_socket t) None bs c))\<lparr>cv_server := s\<rparr>)"
| tests: "i < length (cv_threads c) \<Longrightarrow> t = cv_threads c ! i \<Longrightarrow> ct_phase t = Tests \<Longrightarrow>
    p = (if finished (cv_server c) then Closes 1 else Receives) \<Longrightarrow>
    conversation_event E Inside c (set_thread i (t\<lparr>ct_phase := p\<rparr>) c)"
| receives: "i < length (cv_threads c) \<Longrightarrow> t = cv_threads c ! i \<Longrightarrow> ct_phase t = Receives \<Longrightarrow>
    cv_peer c (ct_socket t) \<noteq> None \<Longrightarrow> bs \<noteq> [] \<Longrightarrow>
    conversation_event E Outside c (set_thread i (t\<lparr>ct_phase := Processes, ct_buffer := ct_buffer t @ bs,
      ct_received := ct_received t @ bs\<rparr>) c)"
| ends: "i < length (cv_threads c) \<Longrightarrow> t = cv_threads c ! i \<Longrightarrow> ct_phase t = Receives \<Longrightarrow> n \<in> {1, 2} \<Longrightarrow>
    conversation_event E Outside c (set_thread i (t\<lparr>ct_phase := Closes n\<rparr>) c)"
| closes: "i < length (cv_threads c) \<Longrightarrow> t = cv_threads c ! i \<Longrightarrow> ct_phase t = Closes (Suc n) \<Longrightarrow>
    conversation_event E Inside c ((set_thread i (t\<lparr>ct_phase := Closes n\<rparr>) c)\<lparr>cv_peer := (cv_peer c)(ct_socket t := None)\<rparr>)"
| waits: "i < length (cv_threads c) \<Longrightarrow> t = cv_threads c ! i \<Longrightarrow> ct_phase t = Processes \<Longrightarrow>
    front_frame (ct_buffer t) = None \<Longrightarrow> \<not> oversized (ct_buffer t) \<Longrightarrow>
    conversation_event E Inside c (set_thread i (t\<lparr>ct_phase := Tests\<rparr>) c)"
| refuses: "i < length (cv_threads c) \<Longrightarrow> t = cv_threads c ! i \<Longrightarrow> ct_phase t = Processes \<Longrightarrow>
    oversized (ct_buffer t) \<Longrightarrow>
    refuse_oversize E (ct_socket t) (head_payload_size (ct_buffer t)) (as_receiver t c) = (Ok (), r) \<Longrightarrow>
    conversation_event E Inside c ((set_thread i (t\<lparr>ct_phase := Tests, ct_buffer := rx_buffer r\<rparr>) c)\<lparr>cv_queue := rx_queue r,
      cv_server := rx_server r, cv_peer := (cv_peer c)(ct_socket t := None)\<rparr>)"
| parses: "i < length (cv_threads c) \<Longrightarrow> t = cv_threads c ! i \<Longrightarrow> ct_phase t = Processes \<Longrightarrow>
    front_frame (ct_buffer t) = Some f \<Longrightarrow> GotMessage E f (cv_server c) = (Ok m, s) \<Longrightarrow>
    conversation_event E Inside c ((set_thread i (t\<lparr>ct_phase := Queues m\<rparr>) c)\<lparr>cv_server := s\<rparr>)"
| queues: "i < length (cv_threads c) \<Longrightarrow> t = cv_threads c ! i \<Longrightarrow> ct_phase t = Queues m \<Longrightarrow>
    front_frame (ct_buffer t) = Some f \<Longrightarrow>
    conversation_event E Inside c ((set_thread i (t\<lparr>ct_phase := Processes, ct_buffer := drop (length f) (ct_buffer t),
      ct_frames := ct_frames t @ [f]\<rparr>) c)\<lparr>cv_queue := enqueue (Some \<lparr>Socket = ct_socket t, theMessage = Some m\<rparr>) (cv_queue c)\<rparr>)"
| takes: "cv_action c = Idle \<Longrightarrow> dequeue (finished (cv_server c)) (cv_queue c) = (Returns (Some a), q) \<Longrightarrow>
    theMessage a = Some m \<Longrightarrow>
    conversation_event E Inside c (c\<lparr>cv_queue := q, cv_action := (if is_request m then Runs a m [] else Replies a m)\<rparr>)"
| skips: "cv_action c = Idle \<Longrightarrow> \<not> finished (cv_server c) \<Longrightarrow> dequeue False (cv_queue c) = (Returns None, q) \<Longrightarrow>
    conversation_event E Inside c (c\<lparr>cv_queue := q\<rparr>)"
| runs: "cv_action c = Runs a m rs \<Longrightarrow> length rs < length (DataItems m) \<Longrightarrow>
    run_item E (length rs) (DataItems m ! length rs) (cv_server c) = (Ok r, s) \<Longrightarrow>
    conversation_event E Inside c (c\<lparr>cv_action := Runs a m (rs @ [r]), cv_server := s\<rparr>)"
| finishes: "cv_action c = Runs a m rs \<Longrightarrow> length rs = length (DataItems m) \<Longrightarrow>
    setMId (after_ids E) (if \<exists>r \<in> set rs. snd r then MId_E else MId_R) (m\<lparr>DataItems := map fst rs\<rparr>) = Ok m' \<Longrightarrow>
    conversation_event E Inside c (c\<lparr>cv_action := Replies a m'\<rparr>)"
| replies: "cv_action c = Replies a m \<Longrightarrow> SendResponse E (Socket a) m (cv_server c) = Ok (k, bs) \<Longrightarrow>
    conversation_event E Inside c ((send_to k (Some a) bs c)\<lparr>cv_action := Idle\<rparr>)"
| signal: "conversation_event E Outside c (c\<lparr>cv_server := abort_handler (cv_server c)\<rparr>)"
| exits: "finished (cv_server c) \<Longrightarrow> exit_handler E (cv_queue c, cv_server c) = (q, s) \<Longrightarrow>
    conversation_event E Outside c (c\<lparr>cv_queue := q, cv_server := s\<rparr>)"

definition conversation_step :: "'h env \<Rightarrow> 'h conversation \<Rightarrow> 'h conversation \<Rightarrow> bool" where
  "conversation_step E c d \<longleftrightarrow> (\<exists>l. conversation_event E l c d)"

lemma conversation_stepI: "conversation_event E l c d \<Longrightarrow> conversation_step E c d"
  by (auto simp: conversation_step_def)

inductive conversation_reachable :: "'h env \<Rightarrow> 'h server \<Rightarrow> 'h conversation \<Rightarrow> bool" for E s0 where
  begins: "conversation_reachable E s0 (conversation_init s0)"
| goes_on: "conversation_reachable E s0 c \<Longrightarrow> conversation_step E c d \<Longrightarrow> conversation_reachable E s0 d"

inductive_cases inside_stepE: "conversation_event E Inside c d"

subsection \<open>Frames\<close>

lemma cut_frames_front:
  "cut_frames buf = (case front_frame buf of None \<Rightarrow> ([], buf)
     | Some f \<Rightarrow> apfst ((#) f) (cut_frames (drop (length f) buf)))"
  by (simp add: cut_frames.simps [of buf] front_frame_def Let_def split_beta apfst_def map_prod_def min_absorb2)

lemma oversized_mono:
  assumes "oversized (snd (cut_frames as))"
  shows "oversized (snd (cut_frames (as @ bs)))"
proof -
  obtain fs r where c: "cut_frames as = (fs, r)" by fastforce
  with assms have o: "oversized (r @ bs)" "cut_frames (r @ bs) = ([], r @ bs)"
    using oversized_append [of r bs] by auto
  show ?thesis using cut_frames_append [OF c o(2)] o(1) by simp
qed

text \<open>The frames queued so far, and those still in the buffer, are the frames of all that was received.\<close>

definition frames_ok :: "connection_thread \<Rightarrow> bool" where
  "frames_ok t \<longleftrightarrow> cut_frames (ct_received t) = apfst ((@) (ct_frames t)) (cut_frames (ct_buffer t))"

lemma frames_ok_receives:
  assumes "frames_ok t"
  shows "frames_ok (t\<lparr>ct_phase := p, ct_buffer := ct_buffer t @ bs, ct_received := ct_received t @ bs\<rparr>)"
proof -
  obtain fs r where b: "cut_frames (ct_buffer t) = (fs, r)" by fastforce
  obtain gs rest where g: "cut_frames (r @ bs) = (gs, rest)" by fastforce
  have "cut_frames (ct_received t) = (ct_frames t @ fs, r)" using assms b by (simp add: frames_ok_def)
  from cut_frames_append [OF this g] cut_frames_append [OF b g] show ?thesis
    by (simp add: frames_ok_def)
qed

lemma frames_ok_queues:
  "frames_ok t \<Longrightarrow> front_frame (ct_buffer t) = Some f \<Longrightarrow>
     frames_ok (t\<lparr>ct_phase := p, ct_buffer := drop (length f) (ct_buffer t), ct_frames := ct_frames t @ [f]\<rparr>)"
  using cut_frames_front [of "ct_buffer t"] by (simp add: frames_ok_def apfst_def map_prod_def split_beta)

subsection \<open>Requests and answers\<close>

text \<open>The message of a frame, whatever the state of the server at the time, and the bytes that answer it.\<close>

definition parsed_as :: "'h env \<Rightarrow> TBytes \<Rightarrow> TMessage \<Rightarrow> bool" where
  "parsed_as E f m \<longleftrightarrow> (\<exists>s s'. GotMessage E f s = (Ok m, s'))"

definition turns :: "'h env \<Rightarrow> TMessage \<Rightarrow> (TDataItem option \<times> bool) list \<Rightarrow> bool" where
  "turns E m rs \<longleftrightarrow> length rs \<le> length (DataItems m) \<and>
     (\<forall>i < length rs. \<exists>s s'. run_item E i (DataItems m ! i) s = (Ok (rs ! i), s'))"

definition reply_to :: "'h env \<Rightarrow> TMessage \<Rightarrow> TMessage \<Rightarrow> bool" where
  "reply_to E m m' \<longleftrightarrow>
     (if is_request m
      then \<exists>rs. turns E m rs \<and> length rs = length (DataItems m) \<and>
        m' = \<lparr>Id = if \<exists>r \<in> set rs. snd r then MId_E else MId_R, DataItems = map fst rs\<rparr>
      else m' = m)"

definition answered :: "'h env \<Rightarrow> TMessage \<Rightarrow> TBytes \<Rightarrow> bool" where
  "answered E m bs \<longleftrightarrow> (\<exists>m' c. reply_to E m m' \<and> message_AsBytes (fp E) c m' True = Ok bs)"

lemma turns_append:
  "turns E m rs \<Longrightarrow> length rs < length (DataItems m) \<Longrightarrow>
     run_item E (length rs) (DataItems m ! length rs) s = (Ok r, s') \<Longrightarrow> turns E m (rs @ [r])"
  by (auto simp: turns_def nth_append less_Suc_eq)

lemma setMId_eq_Ok: "setMId ids mid m = Ok m' \<longleftrightarrow> isValidMessageID ids mid \<and> m' = m\<lparr>Id := mid\<rparr>"
  by (auto simp: setMId_def)

lemma SendResponse_eq_Ok:
  "SendResponse E k m s = Ok (k', bs) \<longleftrightarrow> k' = k \<and> message_AsBytes (fp E) (cfg s) m True = Ok bs"
  by (cases "message_AsBytes (fp E) (cfg s) m True") (auto simp: SendResponse_def)

subsection \<open>What holds of every thread\<close>

definition sound :: "connection_thread \<Rightarrow> bool" where
  "sound t \<longleftrightarrow> \<not> oversized (snd (cut_frames (ct_received t)))"

definition thread_ok :: "'h env \<Rightarrow> connection_thread \<Rightarrow> bool" where
  "thread_ok E t \<longleftrightarrow> (\<forall>m. ct_phase t = Queues m \<longrightarrow> front_frame (ct_buffer t) \<noteq> None) \<and> (sound t \<longrightarrow> frames_ok t \<and>
     (case ct_phase t of
        Processes \<Rightarrow> True
      | Queues m \<Rightarrow> \<exists>f. front_frame (ct_buffer t) = Some f \<and> parsed_as E f m
      | Greets \<Rightarrow> ct_frames t = [] \<and> front_frame (ct_buffer t) = None
      | _ \<Rightarrow> front_frame (ct_buffer t) = None))"

definition action_ok :: "'h env \<Rightarrow> action_phase \<Rightarrow> bool" where
  "action_ok E p \<longleftrightarrow>
     (case p of
        Idle \<Rightarrow> True
      | Runs a m rs \<Rightarrow> theMessage a = Some m \<and> is_request m \<and> turns E m rs
      | Replies a m' \<Rightarrow> \<exists>m. theMessage a = Some m \<and> reply_to E m m')"

definition sending_ok :: "'h env \<Rightarrow> sending \<Rightarrow> bool" where
  "sending_ok E d \<longleftrightarrow> (case sd_action d of None \<Rightarrow> True
     | Some a \<Rightarrow> Socket a = sd_socket d \<and> (\<exists>m. theMessage a = Some m \<and> answered E m (sd_bytes d)))"

lemma frames_ok_phase: "frames_ok (t\<lparr>ct_phase := p\<rparr>) = frames_ok t"
  by (simp add: frames_ok_def)

lemma sound_simps [simp]:
  "sound (t\<lparr>ct_phase := p\<rparr>) = sound t" "sound (t\<lparr>ct_buffer := b\<rparr>) = sound t" "sound (t\<lparr>ct_frames := fs\<rparr>) = sound t"
  by (simp_all add: sound_def)

lemma sound_received:
  "sound (t\<lparr>ct_phase := p, ct_buffer := b, ct_received := ct_received t @ bs\<rparr>) \<Longrightarrow> sound t"
  using oversized_mono by (auto simp: sound_def)

lemma thread_ok_refused:
  assumes "thread_ok E t" and "oversized (ct_buffer t)"
  shows "\<not> sound t"
proof
  assume s: "sound t"
  with assms(1) have "frames_ok t" by (simp add: thread_ok_def)
  moreover have "cut_frames (ct_buffer t) = ([], ct_buffer t)"
    using assms(2) by (simp add: cut_frames_front front_frame_def oversized_def)
  ultimately have "snd (cut_frames (ct_received t)) = ct_buffer t" by (simp add: frames_ok_def)
  with s assms(2) show False by (simp add: sound_def)
qed

definition threads_ok :: "'h env \<Rightarrow> 'h conversation \<Rightarrow> bool" where
  "threads_ok E c \<longleftrightarrow> (\<forall>t \<in> set (cv_threads c). thread_ok E t) \<and> action_ok E (cv_action c) \<and>
     (\<forall>d \<in> set (cv_sent c). sending_ok E d)"

lemma conversation_fields [simp]:
  "cv_threads (set_thread i t c) = (cv_threads c)[i := t]" "cv_sent (set_thread i t c) = cv_sent c"
  "cv_peer (set_thread i t c) = cv_peer c" "cv_action (set_thread i t c) = cv_action c"
  "cv_queue (set_thread i t c) = cv_queue c" "cv_server (set_thread i t c) = cv_server c"
  "cv_threads (send_to k a bs c) = cv_threads c" "cv_peer (send_to k a bs c) = cv_peer c"
  "cv_action (send_to k a bs c) = cv_action c" "cv_queue (send_to k a bs c) = cv_queue c"
  "cv_server (send_to k a bs c) = cv_server c"
  "cv_sent (send_to k a bs c) =
     cv_sent c @ [\<lparr>sd_socket = k, sd_peer = cv_peer c k, sd_action = a, sd_bytes = bs\<rparr>]"
  by (simp_all add: set_thread_def send_to_def)

lemma threads_ok_set:
  assumes "threads_ok E c" and "thread_ok E t"
  shows "threads_ok E (set_thread i t c)"
  using assms set_update_subset_insert [of "cv_threads c" i t] by (auto simp: threads_ok_def set_thread_def)

lemma threads_ok_keep:
  "threads_ok E (c\<lparr>cv_server := s\<rparr>) = threads_ok E c" "threads_ok E (c\<lparr>cv_queue := q\<rparr>) = threads_ok E c"
  "threads_ok E (c\<lparr>cv_peer := p\<rparr>) = threads_ok E c" "threads_ok E (c\<lparr>cv_selecting := b\<rparr>) = threads_ok E c"
  by (simp_all add: threads_ok_def)

lemma threads_ok_action: "threads_ok E c \<Longrightarrow> action_ok E p \<Longrightarrow> threads_ok E (c\<lparr>cv_action := p\<rparr>)"
  by (simp add: threads_ok_def)

lemma threads_ok_send:
  "threads_ok E c \<Longrightarrow> sending_ok E \<lparr>sd_socket = k, sd_peer = cv_peer c k, sd_action = a, sd_bytes = bs\<rparr> \<Longrightarrow>
     threads_ok E (send_to k a bs c)"
  by (auto simp: threads_ok_def send_to_def)

lemma threads_ok_nth: "threads_ok E c \<Longrightarrow> i < length (cv_threads c) \<Longrightarrow> thread_ok E (cv_threads c ! i)"
  by (simp add: threads_ok_def)

lemma threads_ok_step:
  assumes "conversation_event E l c d" and "threads_ok E c"
  shows "threads_ok E d"
  using assms
proof (induction rule: conversation_event.induct)
  case (accepts c k)
  then show ?case
    by (auto simp: threads_ok_def thread_ok_def new_thread_def frames_ok_def front_frame_def cut_frames_short)
next
  case (greets i c t bs s)
  have "thread_ok E (t\<lparr>ct_phase := Tests\<rparr>)"
    using threads_ok_nth [OF greets(5,1)] greets(2,3) by (simp add: thread_ok_def frames_ok_phase)
  then show ?case
    using greets(5) by (simp add: threads_ok_keep threads_ok_set threads_ok_send sending_ok_def)
next
  case (tests i c t p)
  have "thread_ok E (t\<lparr>ct_phase := p\<rparr>)"
    using threads_ok_nth [OF tests(5,1)] tests(2-4) by (simp add: thread_ok_def frames_ok_phase)
  then show ?case using tests(5) by (simp add: threads_ok_set)
next
  case (receives i c t bs)
  have "thread_ok E (t\<lparr>ct_phase := Processes, ct_buffer := ct_buffer t @ bs, ct_received := ct_received t @ bs\<rparr>)"
    using threads_ok_nth [OF receives(6,1)] receives(2) sound_received [of t bs] frames_ok_receives [of t]
    by (auto simp: thread_ok_def)
  then show ?case using receives(6) by (rule threads_ok_set [rotated])
next
  case (ends i c t n)
  have "thread_ok E (t\<lparr>ct_phase := Closes n\<rparr>)"
    using threads_ok_nth [OF ends(5,1)] ends(2,3) by (simp add: thread_ok_def frames_ok_phase)
  then show ?case using ends(5) by (simp add: threads_ok_set)
next
  case (closes i c t n)
  have "thread_ok E (t\<lparr>ct_phase := Closes n\<rparr>)"
    using threads_ok_nth [OF closes(4,1)] closes(2,3) by (simp add: thread_ok_def frames_ok_phase)
  then show ?case using closes(4) by (simp add: threads_ok_keep threads_ok_set)
next
  case (waits i c t)
  have "thread_ok E (t\<lparr>ct_phase := Tests\<rparr>)"
    using threads_ok_nth [OF waits(6,1)] waits(2,3,4) by (simp add: thread_ok_def frames_ok_phase)
  then show ?case using waits(6) by (simp add: threads_ok_set)
next
  case (refuses i c t r)
  have "\<not> sound t" using thread_ok_refused [of E t] threads_ok_nth [OF refuses(6,1)] refuses(2,4) by simp
  then have "thread_ok E (t\<lparr>ct_phase := Tests, ct_buffer := rx_buffer r\<rparr>)" by (simp add: thread_ok_def)
  then show ?case using refuses(6) by (simp add: threads_ok_keep threads_ok_set)
next
  case (parses i c t f m s)
  have "thread_ok E (t\<lparr>ct_phase := Queues m\<rparr>)"
    using threads_ok_nth [OF parses(6,1)] parses(2-5) by (auto simp: thread_ok_def frames_ok_phase parsed_as_def)
  then show ?case using parses(6) by (simp add: threads_ok_keep threads_ok_set)
next
  case (queues i c t m f)
  have "thread_ok E (t\<lparr>ct_phase := Processes, ct_buffer := drop (length f) (ct_buffer t), ct_frames := ct_frames t @ [f]\<rparr>)"
    using threads_ok_nth [OF queues(5,1)] queues(2,4) frames_ok_queues [of t f] by (auto simp: thread_ok_def)
  then show ?case using queues(5) by (simp add: threads_ok_keep threads_ok_set)
next
  case (takes c a q m)
  have "action_ok E (if is_request m then Runs a m [] else Replies a m)"
    using takes(3) by (auto simp: action_ok_def turns_def reply_to_def)
  then show ?case using takes(4) threads_ok_action [of E "c\<lparr>cv_queue := q\<rparr>"] by (simp add: threads_ok_keep)
next
  case (runs c a m rs r s)
  have "action_ok E (Runs a m rs)" using runs(1,4) by (simp add: threads_ok_def)
  then have "action_ok E (Runs a m (rs @ [r]))" using turns_append [OF _ runs(2,3)] by (simp add: action_ok_def)
  from threads_ok_action [OF runs(4) this] show ?case by (simp add: threads_ok_keep)
next
  case (finishes c a m rs m')
  have "action_ok E (Runs a m rs)" using finishes(1,4) by (simp add: threads_ok_def)
  moreover have "m' = \<lparr>Id = if \<exists>r \<in> set rs. snd r then MId_E else MId_R, DataItems = map fst rs\<rparr>"
    using finishes(3) by (cases m) (simp add: setMId_eq_Ok)
  ultimately have "action_ok E (Replies a m')" using finishes(2) by (auto simp: action_ok_def reply_to_def)
  then show ?case using finishes(4) by (simp add: threads_ok_action)
next
  case (replies c a m k bs)
  have "action_ok E (Replies a m)" using replies(1,3) by (simp add: threads_ok_def)
  then have "sending_ok E \<lparr>sd_socket = k, sd_peer = cv_peer c k, sd_action = Some a, sd_bytes = bs\<rparr>"
    using replies(2) by (auto simp: sending_ok_def action_ok_def answered_def SendResponse_eq_Ok)
  then show ?case
    using replies(3) by (intro threads_ok_action threads_ok_send) (simp_all add: action_ok_def)
qed (simp_all add: threads_ok_keep)

subsection \<open>Whose messages are where\<close>

text \<open>Every action taken or queued, the oldest first.\<close>

fun current :: "action_phase \<Rightarrow> TActionQueueItem list" where
  "current Idle = []"
| "current (Runs a m rs) = [a]"
| "current (Replies a m) = [a]"

definition actions :: "'h conversation \<Rightarrow> TActionQueueItem list" where
  "actions c = List.map_filter sd_action (cv_sent c) @ current (cv_action c) @ List.map_filter id (sq_q (cv_queue c))"

lemma map_filter_append: "List.map_filter f (xs @ ys) = List.map_filter f xs @ List.map_filter f ys"
  by (simp add: map_filter_def)

lemma actions_simps [simp]:
  "actions (c\<lparr>cv_selecting := b\<rparr>) = actions c" "actions (c\<lparr>cv_server := s\<rparr>) = actions c" "actions (c\<lparr>cv_peer := p\<rparr>) = actions c"
  "actions (c\<lparr>cv_threads := ts\<rparr>) = actions c" "actions (set_thread i t c) = actions c"
  "actions (send_to k None bs c) = actions c"
  "q = cv_queue c \<Longrightarrow> actions (c\<lparr>cv_queue := enqueue None q\<rparr>) = actions c"
  "q = cv_queue c \<Longrightarrow> actions (c\<lparr>cv_queue := enqueue (Some a) q\<rparr>) = actions c @ [a]"
  by (simp_all add: actions_def set_thread_def send_to_def enqueue_def map_filter_append)

definition sockets :: "'h conversation \<Rightarrow> int list" where
  "sockets c = map ct_socket (cv_threads c)"

text \<open>No other connection has had the descriptor of connection \<open>n\<close>, up to now.\<close>

definition sole :: "'h conversation \<Rightarrow> nat \<Rightarrow> bool" where
  "sole c n \<longleftrightarrow> n < length (sockets c) \<and> (\<forall>j < length (sockets c). sockets c ! j = sockets c ! n \<longrightarrow> j = n)"

text \<open>Every action and every answer belongs to the socket of a thread, every client to the thread of its connection.\<close>

definition sockets_ok :: "'h conversation \<Rightarrow> bool" where
  "sockets_ok c \<longleftrightarrow>
     (\<forall>k j. cv_peer c k = Some j \<longrightarrow> j < length (sockets c) \<and> sockets c ! j = k) \<and>
     (\<forall>d \<in> set (cv_sent c). sd_socket d \<in> set (sockets c) \<and>
        (\<forall>j. sd_peer d = Some j \<longrightarrow> j < length (sockets c) \<and> sockets c ! j = sd_socket d)) \<and>
     (\<forall>a \<in> set (actions c). Socket a \<in> set (sockets c))"

lemma sockets_simps [simp]:
  "sockets (c\<lparr>cv_selecting := b\<rparr>) = sockets c" "sockets (c\<lparr>cv_server := s\<rparr>) = sockets c" "sockets (c\<lparr>cv_peer := p\<rparr>) = sockets c"
  "sockets (c\<lparr>cv_action := p'\<rparr>) = sockets c" "sockets (c\<lparr>cv_queue := q\<rparr>) = sockets c"
  "sockets (send_to k a bs c) = sockets c"
  "sockets (c\<lparr>cv_threads := cv_threads c @ [t]\<rparr>) = sockets c @ [ct_socket t]"
  by (simp_all add: sockets_def send_to_def)

lemma sockets_set_thread [simp]:
  "ct_socket t = ct_socket (cv_threads c ! i) \<Longrightarrow> sockets (set_thread i t c) = sockets c"
  by (cases "i < length (cv_threads c)")
    (auto simp: sockets_def set_thread_def map_update list_update_same_conv list_update_beyond)

text \<open>What each step does to the actions.\<close>

lemma actions_takes:
  "cv_action c = Idle \<Longrightarrow> dequeue f (cv_queue c) = (Returns (Some a), q) \<Longrightarrow> current p = [a] \<Longrightarrow>
     actions (c\<lparr>cv_queue := q, cv_action := p\<rparr>) = actions c"
  by (cases "sq_q (cv_queue c)") (auto simp: actions_def dequeue_def split: if_splits)

lemma actions_skips:
  "dequeue False (cv_queue c) = (Returns None, q) \<Longrightarrow> actions (c\<lparr>cv_queue := q\<rparr>) = actions c"
  by (cases "sq_q (cv_queue c)") (auto simp: actions_def dequeue_def)

lemma actions_current: "current p = current (cv_action c) \<Longrightarrow> actions (c\<lparr>cv_action := p\<rparr>) = actions c"
  by (simp add: actions_def)

lemma actions_replies:
  "current (cv_action c) = [a] \<Longrightarrow> actions ((send_to k (Some a) bs c)\<lparr>cv_action := Idle\<rparr>) = actions c"
  by (simp add: actions_def send_to_def map_filter_append)

lemma refuse_oversize_queue:
  "refuse_oversize E k n r = (Ok (), r') \<Longrightarrow>
     rx_queue r' = enqueue (Some \<lparr>Socket = k, theMessage = None\<rparr>) (rx_queue r)"
  by (auto simp: refuse_oversize_def outcome_simps Disconnect_def rx_enqueue_def split: prod.splits)

lemma exit_handler_queue: "exit_handler E (q, s) = (q', s') \<Longrightarrow> q' = enqueue None q"
  by (auto simp: exit_handler_def Let_def)

lemma sole_other: "sole c n \<Longrightarrow> i < length (sockets c) \<Longrightarrow> i \<noteq> n \<Longrightarrow> sockets c ! i \<noteq> sockets c ! n"
  by (auto simp: sole_def)

subsection \<open>The order of the answers\<close>

definition action_of :: "'h env \<Rightarrow> TBytes \<Rightarrow> TActionQueueItem \<Rightarrow> bool" where
  "action_of E f a \<longleftrightarrow> (\<exists>m. theMessage a = Some m \<and> parsed_as E f m)"

text \<open>
  A connection, with the actions of its socket and what was sent to it: first its greeting, then answers; and
  the actions are those of its frames.
\<close>

definition talk :: "'h env \<Rightarrow> connection_thread \<Rightarrow> TActionQueueItem list \<Rightarrow> sending list \<Rightarrow> bool" where
  "talk E t as ds \<longleftrightarrow>
     (if ct_phase t = Greets then as = [] \<and> ds = []
      else \<exists>g rs. ds = g # rs \<and> sd_action g = None \<and> (\<forall>r \<in> set rs. sd_action r \<noteq> None)) \<and>
     (sound t \<longrightarrow> list_all2 (action_of E) (ct_frames t) as)"

definition talk_ok :: "'h env \<Rightarrow> 'h conversation \<Rightarrow> nat \<Rightarrow> bool" where
  "talk_ok E c n \<longleftrightarrow> (let t = cv_threads c ! n in
     talk E t (filter (\<lambda>a. Socket a = ct_socket t) (actions c)) (filter (\<lambda>d. sd_socket d = ct_socket t) (cv_sent c)))"

definition talks_ok :: "'h env \<Rightarrow> 'h conversation \<Rightarrow> bool" where
  "talks_ok E c \<longleftrightarrow> (\<forall>n. sole c n \<longrightarrow> talk_ok E c n)"

text \<open>A step that changes only thread \<open>i\<close>, and what concerns its socket.\<close>

lemma talks_ok_thread:
  assumes "talks_ok E c" and "i < length (cv_threads c)" and "k = ct_socket (cv_threads c ! i)"
    and "cv_threads d = (cv_threads c)[i := t]" and "ct_socket t = k"
    and "\<And>k'. k' \<noteq> k \<Longrightarrow> filter (\<lambda>a. Socket a = k') (actions d) = filter (\<lambda>a. Socket a = k') (actions c)"
    and "\<And>k'. k' \<noteq> k \<Longrightarrow> filter (\<lambda>a. sd_socket a = k') (cv_sent d) = filter (\<lambda>a. sd_socket a = k') (cv_sent c)"
    and "talk E (cv_threads c ! i) (filter (\<lambda>a. Socket a = k) (actions c)) (filter (\<lambda>a. sd_socket a = k) (cv_sent c)) \<Longrightarrow>
      talk E t (filter (\<lambda>a. Socket a = k) (actions d)) (filter (\<lambda>a. sd_socket a = k) (cv_sent d))"
  shows "talks_ok E d"
  unfolding talks_ok_def
proof (intro allI impI)
  fix n assume n: "sole d n"
  have soc: "sockets d = sockets c"
    using assms(3,4,5) by (simp add: sockets_def map_update list_update_same_conv assms(2))
  then have c: "sole c n" "n < length (cv_threads c)" using n unfolding sole_def by (simp_all add: sockets_def)
  then have ok: "talk_ok E c n" using assms(1) by (simp add: talks_ok_def)
  show "talk_ok E d n"
  proof (cases "n = i")
    case True
    then show ?thesis using ok assms(2-5,8) by (simp add: talk_ok_def Let_def)
  next
    case False
    then have "ct_socket (cv_threads c ! n) \<noteq> k"
      using sole_other [OF c(1), of i] assms(2,3) c(2) by (simp add: sockets_def)
    with False ok assms(4,6,7) show ?thesis by (simp add: talk_ok_def Let_def)
  qed
qed

text \<open>A step of the action thread.\<close>

lemma talks_ok_same:
  assumes "talks_ok E c" and "cv_threads d = cv_threads c" and "actions d = actions c"
    and "cv_sent d = cv_sent c"
  shows "talks_ok E d"
  using assms by (simp add: talks_ok_def talk_ok_def sole_def sockets_def)

lemma talks_ok_phase:
  assumes "talks_ok E c" and "i < length (cv_threads c)" and "t = cv_threads c ! i" and "ct_phase t \<noteq> Greets"
    and "p \<noteq> Greets" and "cv_threads d = (cv_threads c)[i := t\<lparr>ct_phase := p\<rparr>]" and "actions d = actions c"
    and "cv_sent d = cv_sent c"
  shows "talks_ok E d"
  by (rule talks_ok_thread [OF assms(1,2) refl assms(6)]) (use assms(3-5,7,8) in \<open>simp_all add: talk_def\<close>)

lemma talks_ok_step:
  assumes "conversation_event E l c d" and "threads_ok E c" and "sockets_ok c" and "talks_ok E c"
  shows "talks_ok E d"
  using assms
proof (induction rule: conversation_event.induct)
  case (accepts c k)
  let ?d = "c\<lparr>cv_threads := cv_threads c @ [new_thread k], cv_peer := (cv_peer c)(k \<mapsto> length (cv_threads c)), cv_selecting := False\<rparr>"
  show ?case unfolding talks_ok_def
  proof (intro allI impI)
    fix n assume n: "sole ?d n"
    have soc: "sockets ?d = sockets c @ [k]" by (simp add: sockets_def new_thread_def)
    show "talk_ok E ?d n"
    proof (cases "n < length (cv_threads c)")
      case True
      then have "sole c n" using n unfolding sole_def soc by (auto simp: nth_append sockets_def)
      with True accepts(6) show ?thesis by (simp add: talks_ok_def talk_ok_def nth_append)
    next
      case False
      then have new: "n = length (sockets c)" using n unfolding sole_def soc by (simp add: sockets_def)
      have "k \<notin> set (sockets c)"
      proof
        assume "k \<in> set (sockets c)"
        then obtain i where "i < length (sockets c)" "sockets c ! i = k" by (auto simp: in_set_conv_nth)
        with n new show False unfolding sole_def soc by (auto simp: nth_append dest: spec [of _ i])
      qed
      then have "filter (\<lambda>a. Socket a = k) (actions c) = []" "filter (\<lambda>d. sd_socket d = k) (cv_sent c) = []"
        using accepts(5) by (auto simp: sockets_ok_def filter_empty_conv)
      then show ?thesis using new by (simp add: talk_ok_def talk_def new_thread_def sockets_def)
    qed
  qed
next
  case (greets i c t bs s)
  have "ct_frames t = []" if "sound t"
    using threads_ok_nth [OF greets(5,1)] greets(2,3) that by (simp add: thread_ok_def)
  with greets show ?case
    by (intro talks_ok_thread [where t = "t\<lparr>ct_phase := Tests\<rparr>", OF greets(7,1) refl]) (auto simp: talk_def)
next
  case (receives i c t bs)
  then show ?case
    using sound_received [of t bs]
    by (intro talks_ok_thread [where t = "t\<lparr>ct_phase := Processes, ct_buffer := ct_buffer t @ bs,
      ct_received := ct_received t @ bs\<rparr>", OF receives(8,1) refl]) (auto simp: talk_def)
next
  case (selects c)
  then show ?case by (intro talks_ok_same [OF selects(4)]) auto
next
  case (times_out c)
  then show ?case by (intro talks_ok_same [OF times_out(3)]) auto
next
  case (tests i c t p)
  then show ?case by (intro talks_ok_phase [OF tests(7,1,2)]) auto
next
  case (ends i c t n)
  then show ?case by (intro talks_ok_phase [OF ends(7,1,2)]) auto
next
  case (closes i c t n)
  then show ?case by (intro talks_ok_phase [OF closes(6,1,2)]) auto
next
  case (waits i c t)
  then show ?case by (intro talks_ok_phase [OF waits(8,1,2)]) auto
next
  case (refuses i c t r)
  have "\<not> sound t" using thread_ok_refused [of E t] threads_ok_nth [OF refuses(6,1)] refuses(2,4) by simp
  with refuses show ?case
    by (intro talks_ok_thread [where t = "t\<lparr>ct_phase := Tests, ct_buffer := rx_buffer r\<rparr>", OF refuses(8,1) refl])
      (auto simp: talk_def refuse_oversize_queue [OF refuses(5)] as_receiver_def)
next
  case (parses i c t f m s)
  then show ?case by (intro talks_ok_phase [OF parses(8,1,2)]) auto
next
  case (queues i c t m f)
  have "parsed_as E f m" if "sound t"
    using threads_ok_nth [OF queues(5,1)] queues(2,3,4) that by (simp add: thread_ok_def)
  with queues show ?case
    by (intro talks_ok_thread [where t = "t\<lparr>ct_phase := Processes, ct_buffer := drop (length f) (ct_buffer t),
      ct_frames := ct_frames t @ [f]\<rparr>", OF queues(7,1) refl])
      (auto simp: talk_def action_of_def intro!: list_all2_appendI)
next
  case (takes c a q m)
  then show ?case by (intro talks_ok_same [OF takes(6)]) (auto simp: actions_takes)
next
  case (skips c q)
  then show ?case by (intro talks_ok_same [OF skips(6)]) (auto simp: actions_skips)
next
  case (runs c a m rs r s)
  then show ?case by (intro talks_ok_same [OF runs(6)]) (auto simp: actions_current)
next
  case (finishes c a m rs m')
  then show ?case by (intro talks_ok_same [OF finishes(6)]) (auto simp: actions_current)
next
  case (replies c a m k bs)
  have k: "k = Socket a" using replies(2) by (simp add: SendResponse_eq_Ok)
  have "a \<in> set (actions c)" using replies(1) by (simp add: actions_def)
  then have "k \<in> set (sockets c)" using replies(4) k by (simp add: sockets_ok_def)
  then obtain i where i: "i < length (cv_threads c)" "ct_socket (cv_threads c ! i) = k"
    by (auto simp: sockets_def in_set_conv_nth)
  let ?d = "(send_to k (Some a) bs c)\<lparr>cv_action := Idle\<rparr>"
  have same: "actions ?d = actions c" using replies(1) by (simp add: actions_replies)
  have some: "filter (\<lambda>a. Socket a = k) (actions c) \<noteq> []"
    using \<open>a \<in> set (actions c)\<close> k by (auto simp: filter_empty_conv)
  show ?case
    by (rule talks_ok_thread [OF replies(5) i(1) refl, of _ "cv_threads c ! i"])
      (use same some i in \<open>auto simp: talk_def\<close>)
next
  case (signal c)
  then show ?case by (intro talks_ok_same [OF signal(3)]) auto
next
  case (exits c q s)
  then show ?case by (intro talks_ok_same [OF exits(5)]) (simp_all add: exit_handler_queue [OF exits(2)])
qed

lemma socket_in: "i < length (cv_threads c) \<Longrightarrow> ct_socket (cv_threads c ! i) \<in> set (sockets c)"
  by (auto simp: sockets_def)

lemma sockets_ok_step:
  assumes "conversation_event E l c d" and "sockets_ok c"
  shows "sockets_ok d"
  using assms
proof (induction rule: conversation_event.induct)
  case (accepts c k)
  have "sockets (c\<lparr>cv_threads := cv_threads c @ [new_thread k], cv_peer := (cv_peer c)(k \<mapsto> length (cv_threads c)), cv_selecting := False\<rparr>) =
    sockets c @ [k]" "length (sockets c) = length (cv_threads c)" by (simp_all add: sockets_def new_thread_def)
  with accepts(4) show ?case by (auto simp: sockets_ok_def nth_append intro: less_SucI)
next
  case (greets i c t bs s)
  then show ?case using socket_in [OF greets(1)] by (auto simp: sockets_ok_def)
next
  case (queues i c t m f)
  then show ?case using socket_in [OF queues(1)] by (auto simp: sockets_ok_def)
next
  case (takes c a q m)
  then show ?case by (auto simp: sockets_ok_def actions_takes)
next
  case (skips c q)
  then show ?case by (simp add: sockets_ok_def actions_skips)
next
  case (runs c a m rs r s)
  then show ?case by (simp add: sockets_ok_def actions_current)
next
  case (finishes c a m rs m')
  then show ?case by (simp add: sockets_ok_def actions_current)
next
  case (replies c a m k bs)
  have "k = Socket a" "a \<in> set (actions c)"
    using replies(1,2) by (simp_all add: SendResponse_eq_Ok actions_def)
  with replies show ?case by (auto simp: sockets_ok_def actions_replies)
next
  case (exits c q s)
  then show ?case by (simp add: sockets_ok_def exit_handler_queue [OF exits(2)])
next
  case (refuses i c t r)
  then show ?case
    using socket_in [OF refuses(1)]
    by (auto simp: sockets_ok_def refuse_oversize_queue [OF refuses(5)] as_receiver_def split: if_splits)
qed (auto simp: sockets_ok_def split: if_splits)

text \<open>While a connection is open, everything sent to its socket went to its client.\<close>

definition peers_ok :: "'h conversation \<Rightarrow> bool" where
  "peers_ok c \<longleftrightarrow> (\<forall>n. sole c n \<and> cv_peer c (sockets c ! n) = Some n \<longrightarrow>
     (\<forall>d \<in> set (cv_sent c). sd_socket d = sockets c ! n \<longrightarrow> sd_peer d = Some n))"

lemma sole_sockets: "sockets d = sockets c \<Longrightarrow> sole d n = sole c n"
  by (simp add: sole_def)

lemma peers_ok_keep:
  assumes "peers_ok c" and "sockets d = sockets c" and "cv_sent d = cv_sent c"
    and "\<And>k. cv_peer d k = cv_peer c k \<or> cv_peer d k = None"
  shows "peers_ok d"
  unfolding peers_ok_def
proof (intro allI impI ballI)
  fix n x
  assume n: "sole d n \<and> cv_peer d (sockets d ! n) = Some n" and x: "x \<in> set (cv_sent d)" "sd_socket x = sockets d ! n"
  then have "sole c n" "cv_peer c (sockets c ! n) = Some n"
    using assms(4) [of "sockets c ! n"] sole_sockets [OF assms(2), of n] unfolding assms(2) by simp_all
  then show "sd_peer x = Some n" using x assms(1) unfolding assms(2,3) peers_ok_def by blast
qed

lemma peers_ok_send:
  assumes "peers_ok c" and "sockets d = sockets c" and "cv_peer d = cv_peer c"
    and "cv_sent d = cv_sent c @ [\<lparr>sd_socket = k, sd_peer = cv_peer c k, sd_action = a, sd_bytes = bs\<rparr>]"
  shows "peers_ok d"
  using assms(1) unfolding peers_ok_def assms(2-4) sole_sockets [OF assms(2)] by auto

lemma peers_ok_step:
  assumes "conversation_event E l c d" and "sockets_ok c" and "peers_ok c"
  shows "peers_ok d"
  using assms
proof (induction rule: conversation_event.induct)
  case (accepts c k)
  let ?d = "c\<lparr>cv_threads := cv_threads c @ [new_thread k], cv_peer := (cv_peer c)(k \<mapsto> length (cv_threads c)), cv_selecting := False\<rparr>"
  have soc: "sockets ?d = sockets c @ [k]" and len: "length (sockets c) = length (cv_threads c)"
    by (simp_all add: sockets_def new_thread_def)
  show ?case unfolding peers_ok_def
  proof (intro allI impI ballI)
    fix n x
    assume n: "sole ?d n \<and> cv_peer ?d (sockets ?d ! n) = Some n"
      and "x \<in> set (cv_sent ?d)" and x: "sd_socket x = sockets ?d ! n"
    then have xc: "x \<in> set (cv_sent c)" by simp
    then obtain i where i: "i < length (sockets c)" "sockets c ! i = sd_socket x"
      using accepts(4) by (metis sockets_ok_def in_set_conv_nth)
    then have "sockets ?d ! i = sockets ?d ! n" "i < length (sockets ?d)" using x soc by (simp_all add: nth_append)
    then have "i = n" using n by (simp add: sole_def)
    then have "sole c n" "cv_peer c (sockets c ! n) = Some n"
      using n i(1) len unfolding sole_def soc by (auto simp: nth_append split: if_splits)
    then show "sd_peer x = Some n" using accepts(5) xc i(2) \<open>i = n\<close> by (simp add: peers_ok_def)
  qed
next
  case (greets i c t bs s)
  then show ?case by (intro peers_ok_send [OF greets(6)]) simp_all
next
  case (replies c a m k bs)
  then show ?case by (intro peers_ok_send [OF replies(4)]) simp_all
qed (erule peers_ok_keep; simp)+

lemma conversation_invariant:
  "conversation_reachable E s0 c \<Longrightarrow> threads_ok E c \<and> sockets_ok c \<and> talks_ok E c \<and> peers_ok c"
proof (induction rule: conversation_reachable.induct)
  case begins
  show ?case
    by (simp add: threads_ok_def sockets_ok_def talks_ok_def peers_ok_def conversation_init_def action_ok_def sole_def
        sockets_def actions_def SafeQueue_new_def)
next
  case (goes_on c d)
  then show ?case using threads_ok_step talks_ok_step sockets_ok_step peers_ok_step
    unfolding conversation_step_def by blast
qed

subsection \<open>Properties\<close>

text \<open>The frames a connection has received, and the answers sent to its socket, in order.\<close>

definition frames_of :: "'h conversation \<Rightarrow> nat \<Rightarrow> TBytes list" where
  "frames_of c n = fst (cut_frames (ct_received (cv_threads c ! n)))"

definition answers_of :: "'h conversation \<Rightarrow> nat \<Rightarrow> sending list" where
  "answers_of c n = filter (\<lambda>d. sd_socket d = ct_socket (cv_threads c ! n) \<and> sd_action d \<noteq> None) (cv_sent c)"

text \<open>Every receiver waits for bytes or has ended, the queue is empty, and the action thread waits.\<close>

definition at_rest :: "'h conversation \<Rightarrow> bool" where
  "at_rest c \<longleftrightarrow> (\<forall>t \<in> set (cv_threads c). ct_phase t = Receives \<or> ct_phase t = Closes 0) \<and> cv_action c = Idle \<and> sq_q (cv_queue c) = []"

lemma answers_actions:
  "\<forall>d \<in> set ds. sending_ok E d \<Longrightarrow>
     filter (\<lambda>a. Socket a = k) (List.map_filter sd_action ds) =
     map (the \<circ> sd_action) (filter (\<lambda>d. sd_socket d = k \<and> sd_action d \<noteq> None) ds)"
  by (induction ds) (auto simp: sending_ok_def split: option.splits)

text \<open>The actions of a socket: those answered, and those on their way.\<close>

lemma actions_of_socket:
  assumes "threads_ok E c" and "k = ct_socket (cv_threads c ! n)"
  shows "filter (\<lambda>a. Socket a = k) (actions c) = map (the \<circ> sd_action) (answers_of c n) @
    filter (\<lambda>a. Socket a = k) (current (cv_action c) @ List.map_filter id (sq_q (cv_queue c)))"
  using assms answers_actions [of "cv_sent c" E k] by (simp add: actions_def answers_of_def threads_ok_def)

lemma conversation_core:
  assumes "conversation_reachable E s0 c" and "sole c n" and "sound (cv_threads c ! n)"
  shows "\<exists>pending rest. frames_of c n = ct_frames (cv_threads c ! n) @ rest \<and>
    list_all2 (action_of E) (ct_frames (cv_threads c ! n)) (map (the \<circ> sd_action) (answers_of c n) @ pending) \<and>
    (at_rest c \<longrightarrow> pending = [] \<and> rest = [])"
proof -
  let ?t = "cv_threads c ! n"
  have inv: "threads_ok E c" "talk_ok E c n" and n: "n < length (cv_threads c)"
    using conversation_invariant [OF assms(1)] assms(2) by (auto simp: talks_ok_def sole_def sockets_def)
  have t: "thread_ok E ?t" by (rule threads_ok_nth [OF inv(1) n])
  let ?p = "filter (\<lambda>a. Socket a = ct_socket ?t) (current (cv_action c) @ List.map_filter id (sq_q (cv_queue c)))"
  have "list_all2 (action_of E) (ct_frames ?t) (map (the \<circ> sd_action) (answers_of c n) @ ?p)"
    using inv(2) assms(3) actions_of_socket [OF inv(1) refl, of n] by (simp add: talk_ok_def talk_def Let_def)
  moreover have "frames_of c n = ct_frames ?t @ fst (cut_frames (ct_buffer ?t))"
    using t assms(3) by (simp add: thread_ok_def frames_ok_def frames_of_def)
  moreover have "?p = [] \<and> fst (cut_frames (ct_buffer ?t)) = []" if "at_rest c"
  proof -
    have "ct_phase ?t = Receives \<or> ct_phase ?t = Closes 0" using that n by (simp add: at_rest_def)
    then have "front_frame (ct_buffer ?t) = None" using t assms(3) by (auto simp: thread_ok_def)
    then show ?thesis using that by (simp add: cut_frames_front at_rest_def)
  qed
  ultimately show ?thesis by blast
qed

lemma answer_of_action:
  assumes "conversation_reachable E s0 c" and "sole c n" and "d \<in> set (answers_of c n)"
  shows "\<exists>m. theMessage (the (sd_action d)) = Some m \<and> answered E m (sd_bytes d)"
    and "sd_peer d = Some n \<or> sd_peer d = None \<and> cv_peer c (ct_socket (cv_threads c ! n)) = None"
proof -
  have d: "d \<in> set (cv_sent c)" "sd_socket d = sockets c ! n" "sd_action d \<noteq> None"
    and n: "sockets c ! n = ct_socket (cv_threads c ! n)"
    using assms(2,3) by (auto simp: answers_of_def sole_def sockets_def)
  have inv: "threads_ok E c" "sockets_ok c" "peers_ok c" using conversation_invariant [OF assms(1)] by auto
  then show "\<exists>m. theMessage (the (sd_action d)) = Some m \<and> answered E m (sd_bytes d)"
    using d(1,3) by (auto simp: threads_ok_def sending_ok_def)
  have peer: "j = n" if "cv_peer c (sockets c ! n) = Some j" for j
    using that inv(2) assms(2) unfolding sockets_ok_def sole_def by blast
  have sent: "j = n" if "sd_peer d = Some j" for j
  proof -
    have "j < length (sockets c)" "sockets c ! j = sockets c ! n"
      using that inv(2) d(1,2) by (auto simp: sockets_ok_def)
    then show ?thesis using assms(2) by (simp add: sole_def)
  qed
  show "sd_peer d = Some n \<or> sd_peer d = None \<and> cv_peer c (ct_socket (cv_threads c ! n)) = None"
  proof (cases "cv_peer c (sockets c ! n)")
    case None
    then show ?thesis using sent n by (cases "sd_peer d") auto
  next
    case (Some j)
    then show ?thesis using inv(3) assms(2) d(1,2) peer [OF Some] by (simp add: peers_ok_def)
  qed
qed


end
