(* ===== verification/ConversationRun.thy ===== *)
theory ConversationRun
  imports Conversation
begin

text \<open>
  Runs of the process of \<open>Conversation\<close>: the functions of the threads are runs, a request and its answer, what becomes
  of an answer when its descriptor is given away, that the threads come to rest with every request answered, and
  what holds of the configuration in every interleaving.
\<close>

subsection \<open>A conversation\<close>

lemma finished_go_all:
  assumes "\<forall>it \<in> set its. \<forall>s. finished (snd (item_Go E it s)) = finished s"
  shows "finished (snd (go_all E (map Ok its) P s)) = finished s"
  using assms
proof (induction its arbitrary: P s)
  case (Cons it its)
  obtain r t where g: "item_Go E it s = (r, t)" by fastforce
  have "finished t = finished s" using Cons.prems g by (metis list.set_intros(1) snd_conv)
  with Cons g show ?case by (auto split: res.splits exn.splits)
qed simp

lemma finished_dac_hello: "finished (snd (dac_hello E chs P s)) = finished s"
proof (induction E chs P s rule: dac_hello.induct)
  case (2 E channel channels payload s)
  show ?case
    using 2 finished_fromBytes [of E "stuff [] DId_DAC_Range1 @ [5, 0, of_nat channel] @ stuff [] (dacRanges (cfg s) ! channel)" s]
    by (auto simp: bindS_def split: res.splits prod.splits)
qed simp

lemma finished_SendControlHello: "finished (snd (SendControlHello E k s)) = finished s"
proof -
  have go: "finished (snd (go_all E (hello_items E n) P t)) = finished t" for n P t
  proof -
    obtain its where its: "hello_items E n = map Ok its"
      "\<forall>it \<in> set its. \<forall>s. finished (snd (item_Go E it s)) = finished s"
    proof (rule that)
      let ?its = "map (\<lambda>r. case r of Ok it \<Rightarrow> it | _ \<Rightarrow> NYI_invalid) (hello_items E n)"
      show "hello_items E n = map Ok ?its"
        by (simp add: hello_items_def Let_def TBRD_GetNumberOfAdcChannels_new_def)
      show "\<forall>it \<in> set ?its. \<forall>s. finished (snd (item_Go E it s)) = finished s"
        by (simp add: hello_items_def Let_def TBRD_GetNumberOfAdcChannels_new_def item_Go_def mapS_def
            on_dev_def on_dev_cfg_def split_beta)
    qed
    then show ?thesis using finished_go_all by metis
  qed
  show ?thesis
    unfolding SendControlHello_def
    by (auto simp: go finished_fromBytes finished_dac_hello split_beta
        intro!: snd_bindS [where P = "\<lambda>t. finished t = finished s"])
qed

text \<open>A run of the process.\<close>

abbreviation conversation_run :: "'h env \<Rightarrow> 'h conversation \<Rightarrow> 'h conversation \<Rightarrow> bool" where
  "conversation_run E \<equiv> (conversation_step E)\<^sup>*\<^sup>*"

lemma conversation_run_reachable:
  "conversation_run E c d \<Longrightarrow> conversation_reachable E s0 c \<Longrightarrow> conversation_reachable E s0 d"
  by (induction rule: rtranclp_induct) (auto intro: conversation_reachable.goes_on)

lemma update_order: "c\<lparr>cv_action := p, cv_server := s\<rparr> = c\<lparr>cv_server := s, cv_action := p\<rparr>"
  by simp

lemma run_items_steps:
  assumes "run_items E (length rs) items s = (Ok (items', err), s')"
    and "DataItems m = done @ items" and "length done = length rs"
  shows "\<exists>rs'. conversation_run E (c\<lparr>cv_action := Runs a m rs, cv_server := s\<rparr>)
      (c\<lparr>cv_action := Runs a m (rs @ rs'), cv_server := s'\<rparr>) \<and>
    map fst rs' = items' \<and> (err \<longleftrightarrow> (\<exists>r \<in> set rs'. snd r)) \<and> length rs' = length items"
  using assms
proof (induction items arbitrary: rs s items' err "done")
  case Nil
  then show ?case by (intro exI [of _ "[]"]) simp
next
  case (Cons item items)
  obtain r s1 items1 err1 where r: "run_item E (length rs) item s = (Ok r, s1)"
    and rest: "run_items E (length (rs @ [r])) items s1 = (Ok (items1, err1), s')"
    and res: "items' = fst r # items1" "err \<longleftrightarrow> snd r \<or> err1"
    using Cons.prems(1) by (clarsimp simp: outcome_simps)
  have "DataItems m ! length rs = item" "length rs < length (DataItems m)"
    using Cons.prems(2,3) by (simp_all add: nth_append)
  then have step: "conversation_step E (c\<lparr>cv_action := Runs a m rs, cv_server := s\<rparr>)
      (c\<lparr>cv_action := Runs a m (rs @ [r]), cv_server := s1\<rparr>)"
    using conversation_event.runs [THEN conversation_stepI, of "c\<lparr>cv_action := Runs a m rs, cv_server := s\<rparr>" a m rs E r s1] r by simp
  obtain rs' where "conversation_run E (c\<lparr>cv_action := Runs a m (rs @ [r]), cv_server := s1\<rparr>)
      (c\<lparr>cv_action := Runs a m ((rs @ [r]) @ rs'), cv_server := s'\<rparr>)"
    "map fst rs' = items1" "err1 \<longleftrightarrow> (\<exists>r \<in> set rs'. snd r)" "length rs' = length items"
    using Cons.IH [OF rest, of "done @ [item]"] Cons.prems(2,3) by auto
  then show ?case
    using converse_rtranclp_into_rtranclp [where r = "conversation_step E", OF step] res
    by (intro exI [of _ "r # rs'"]) auto
qed

text \<open>What a call of \<open>ProcessMessages\<close> leaves behind, put back into the state of all threads.\<close>

definition received_by :: "nat \<Rightarrow> TBytes list \<Rightarrow> 'h receiver \<Rightarrow> 'h conversation \<Rightarrow> 'h conversation" where
  "received_by i fs r c = (let t = cv_threads c ! i in
     (set_thread i (t\<lparr>ct_phase := Tests, ct_buffer := rx_buffer r, ct_frames := ct_frames t @ fs\<rparr>) c)\<lparr>cv_queue := rx_queue r,
       cv_server := rx_server r, cv_peer := if rx_closed r = [] then cv_peer c else (cv_peer c)(ct_socket t := None)\<rparr>)"

lemma front_frame_cases:
  obtains (short) "front_frame b = None" "length b < 5 \<or> \<not> maxPayloadLength < head_payload_size b \<and> length b < 6 + unat (head_payload_size b)"
      "\<not> oversized b"
  | (long) "oversized b" "front_frame b = None"
  | (frame) "front_frame b = Some (take (6 + unat (head_payload_size b)) b)" "5 \<le> length b"
      "\<not> maxPayloadLength < head_payload_size b" "6 + unat (head_payload_size b) \<le> length b"
  by (auto simp: front_frame_def oversized_def split: if_splits) (meson not_less)+

lemma refuse_oversize_closes:
  "refuse_oversize E k n r = (Ok (), r') \<Longrightarrow> rx_closed r' \<noteq> []"
  by (auto simp: refuse_oversize_def outcome_simps Disconnect_def split: prod.splits)

lemma ProcessMessages_steps:
  assumes "ProcessMessages E k r = (Ok (), r')" and "rx_closed r = []" and "i < length (cv_threads c)"
    and "cv_threads c ! i = t" and "ct_phase t = Processes" and "ct_socket t = k"
    and "ct_buffer t = rx_buffer r" and "cv_queue c = rx_queue r" and "cv_server c = rx_server r"
  shows "\<exists>fs. conversation_run E c (received_by i fs r' c)"
  using assms
proof (induction E k r arbitrary: c t rule: ProcessMessages.induct)
  case (1 E k r)
  let ?b = "rx_buffer r"
  show ?case
  proof (cases rule: front_frame_cases [of ?b])
    case short
    then have "r' = r" using "1.prems"(1) ProcessMessages_incomplete [of r E k] by auto
    moreover have "conversation_step E c (set_thread i (t\<lparr>ct_phase := Tests\<rparr>) c)"
      using conversation_event.waits [THEN conversation_stepI, of i c t E] "1.prems" short by simp
    moreover have "set_thread i (t\<lparr>ct_phase := Tests\<rparr>) c = received_by i [] r c"
      using "1.prems" by (cases c; cases t) (simp add: received_by_def set_thread_def)
    ultimately show ?thesis by (intro exI [of _ "[]"]) auto
  next
    case long
    have r: "as_receiver t c = r" using "1.prems" by (cases r) (simp add: as_receiver_def)
    have ref: "refuse_oversize E k (head_payload_size ?b) r = (Ok (), r')"
      using "1.prems"(1) long(1) by (subst (asm) ProcessMessages.simps) (auto simp: Let_def oversized_def)
    have "conversation_step E c ((set_thread i (t\<lparr>ct_phase := Tests, ct_buffer := rx_buffer r'\<rparr>) c)\<lparr>cv_queue := rx_queue r',
        cv_server := rx_server r', cv_peer := (cv_peer c)(ct_socket t := None)\<rparr>)"
      using conversation_event.refuses [THEN conversation_stepI, of i c t E r'] "1.prems" long ref r by simp
    moreover have "received_by i [] r' c = (set_thread i (t\<lparr>ct_phase := Tests, ct_buffer := rx_buffer r'\<rparr>) c)\<lparr>cv_queue := rx_queue r',
        cv_server := rx_server r', cv_peer := (cv_peer c)(ct_socket t := None)\<rparr>"
      using "1.prems" refuse_oversize_closes [OF ref] by (cases t) (simp add: received_by_def)
    ultimately show ?thesis by (intro exI [of _ "[]"]) auto
  next
    case frame
    let ?n = "6 + unat (head_payload_size ?b)" and ?f = "take (6 + unat (head_payload_size ?b)) ?b"
    obtain m s where m: "GotMessage E ?f (rx_server r) = (Ok m, s)"
      and rest: "ProcessMessages E k ((rx_enqueue k (Some m) r)\<lparr>rx_server := s, rx_buffer := drop ?n ?b\<rparr>) = (Ok (), r')"
      using "1.prems"(1) ProcessMessages_frame [OF frame(2,3) refl frame(4), of E k]
      by (auto split: prod.splits res.splits)
    let ?c1 = "(set_thread i (t\<lparr>ct_phase := Queues m\<rparr>) c)\<lparr>cv_server := s\<rparr>"
    have s1: "conversation_step E c ?c1"
      using conversation_event.parses [THEN conversation_stepI, of i c t ?f E m s] "1.prems" frame(1) m by simp
    let ?t2 = "t\<lparr>ct_phase := Processes, ct_buffer := drop ?n ?b, ct_frames := ct_frames t @ [?f]\<rparr>"
    let ?q2 = "enqueue (Some \<lparr>Socket = k, theMessage = Some m\<rparr>) (rx_queue r)"
    let ?c2 = "(set_thread i ?t2 c)\<lparr>cv_queue := ?q2, cv_server := s\<rparr>"
    have "?c2 = (set_thread i (t\<lparr>ct_phase := Processes, ct_buffer := drop (length ?f) (ct_buffer t),
        ct_frames := ct_frames t @ [?f]\<rparr>) ?c1)\<lparr>cv_queue := enqueue (Some \<lparr>Socket = ct_socket t, theMessage = Some m\<rparr>) (cv_queue ?c1)\<rparr>"
      using "1.prems" frame(4) by (cases c) (simp add: set_thread_def min_absorb2)
    then have s2: "conversation_step E ?c1 ?c2"
      using conversation_event.queues [THEN conversation_stepI, of i ?c1 "t\<lparr>ct_phase := Queues m\<rparr>" m ?f E] "1.prems" frame(1)
      by (cases t) simp
    have "\<exists>fs. conversation_run E ?c2 (received_by i fs r' ?c2)"
      using "1.IH" [of _ ?n "Ok m" s m ?c2 ?t2, OF _ refl] "1.prems" rest frame m
      by (simp add: rx_enqueue_def)
    then obtain fs where fs: "conversation_run E ?c2 (received_by i fs r' ?c2)" by blast
    have eq: "received_by i fs r' ?c2 = received_by i (?f # fs) r' c"
      using "1.prems" by (cases c; cases t) (simp add: received_by_def set_thread_def Let_def)
    have "conversation_run E c (received_by i fs r' ?c2)"
      by (rule converse_rtranclp_into_rtranclp [OF s1 converse_rtranclp_into_rtranclp [OF s2 fs]])
    then show ?thesis unfolding eq by blast
  qed
qed

text \<open>A turn of the action thread.\<close>

lemma ActionThread_turn_steps:
  assumes "ActionThread_turn E a (cv_server c) = (Ok (k, bs), s')" and "cv_action c = Idle"
    and "dequeue (finished (cv_server c)) (cv_queue c) = (Returns (Some a), q)"
  shows "conversation_run E c ((send_to k (Some a) bs c)\<lparr>cv_queue := q, cv_server := s'\<rparr>)"
proof -
  obtain m where m: "theMessage a = Some m"
    using assms(1) by (auto simp: ActionThread_turn_def split: option.splits)
  let ?d = "c\<lparr>cv_queue := q\<rparr>"
  have take: "conversation_step E c (?d\<lparr>cv_action := (if is_request m then Runs a m [] else Replies a m)\<rparr>)"
    using conversation_event.takes [THEN conversation_stepI, OF assms(2,3) m] by simp
  have "\<exists>m' s. conversation_run E c (?d\<lparr>cv_action := Replies a m', cv_server := s\<rparr>) \<and> SendResponse E (Socket a) m' s = Ok (k, bs) \<and> s = s'"
  proof (cases "is_request m")
    case False
    then have "SendResponse E (Socket a) m (cv_server c) = Ok (k, bs)" "s' = cv_server c"
      using assms(1) m by (auto simp: ActionThread_turn_def is_request_def)
    with False take show ?thesis by (intro exI [of _ m] exI [of _ s']) (auto intro!: r_into_rtranclp)
  next
    case True
    then obtain items err s m' where run: "run_items E 0 (DataItems m) (cv_server c) = (Ok (items, err), s)"
      and id: "setMId (after_ids E) (if err then MId_E else MId_R) (m\<lparr>DataItems := items\<rparr>) = Ok m'"
      and send: "SendResponse E (Socket a) m' s = Ok (k, bs)" and s: "s' = s"
      using assms(1) m by (auto simp: ActionThread_turn_def is_request_def RunMessage_def outcome_simps split: if_splits)
    obtain rs where rs: "conversation_run E (?d\<lparr>cv_action := Runs a m [], cv_server := cv_server c\<rparr>)
        (?d\<lparr>cv_action := Runs a m rs, cv_server := s\<rparr>)" "map fst rs = items" "err \<longleftrightarrow> (\<exists>r \<in> set rs. snd r)"
        "length rs = length (DataItems m)"
      using run_items_steps [of E "[]" "DataItems m" "cv_server c" items err s m "[]" a ?d] run by auto
    have "conversation_step E (?d\<lparr>cv_action := Runs a m rs, cv_server := s\<rparr>) (?d\<lparr>cv_action := Replies a m', cv_server := s\<rparr>)"
      using conversation_event.finishes [THEN conversation_stepI, of "?d\<lparr>cv_action := Runs a m rs, cv_server := s\<rparr>" a m rs E m'] rs(2-4) id
      by (simp add: update_order)
    with rs(1) take True have "conversation_run E c (?d\<lparr>cv_action := Replies a m', cv_server := s\<rparr>)"
      by (auto intro: converse_rtranclp_into_rtranclp rtranclp.rtrancl_into_rtrancl)
    with send s show ?thesis by blast
  qed
  then obtain m' where run: "conversation_run E c (?d\<lparr>cv_action := Replies a m', cv_server := s'\<rparr>)"
    and send: "SendResponse E (Socket a) m' s' = Ok (k, bs)" by blast
  have "(send_to k (Some a) bs (?d\<lparr>cv_action := Replies a m', cv_server := s'\<rparr>))\<lparr>cv_action := Idle\<rparr> =
      (send_to k (Some a) bs c)\<lparr>cv_queue := q, cv_server := s'\<rparr>"
    using assms(2) by (cases c) (simp add: send_to_def)
  then have "conversation_step E (?d\<lparr>cv_action := Replies a m', cv_server := s'\<rparr>)
      ((send_to k (Some a) bs c)\<lparr>cv_queue := q, cv_server := s'\<rparr>)"
    using conversation_event.replies [THEN conversation_stepI, of "?d\<lparr>cv_action := Replies a m', cv_server := s'\<rparr>" a m' E k bs] send by simp
  with run show ?thesis by simp
qed

text \<open>
  C5: The functions of the threads are runs of the process. When no other thread moves, a turn of the action thread
  from \<open>dequeue\<close> to \<open>SendResponse\<close>, as the code runs it, is a run: it leaves the same state of the server and sends
  the same bytes. And a call of \<open>ProcessMessages\<close> by a receiver is a run: it leaves the same buffer, queue and
  server, and the socket closed if the call closed it.
\<close>

theorem thread_functions_are_runs:
  shows "(ActionThread_turn E a (cv_server c) = (Ok (k, bs), s') \<and> cv_action c = Idle \<and>
        dequeue (finished (cv_server c)) (cv_queue c) = (Returns (Some a), q) \<longrightarrow>
      conversation_run E c ((send_to k (Some a) bs c)\<lparr>cv_queue := q, cv_server := s'\<rparr>)) \<and>
    (i < length (cv_threads c) \<and> cv_threads c ! i = t \<and> ct_phase t = Processes \<and>
        ProcessMessages E (ct_socket t) (as_receiver t c) = (Ok (), r) \<longrightarrow>
      (\<exists>fs. conversation_run E c (received_by i fs r c)))"
proof -
  have "\<exists>fs. conversation_run E c (received_by i fs r c)"
    if "i < length (cv_threads c)" "cv_threads c ! i = t" "ct_phase t = Processes"
      "ProcessMessages E (ct_socket t) (as_receiver t c) = (Ok (), r)"
    by (rule ProcessMessages_steps [OF that(4) _ that(1-3) refl]) (simp_all add: as_receiver_def)
  then show ?thesis by (intro conjI impI; (elim conjE)?) (erule (2) ActionThread_turn_steps, blast)
qed

subsection \<open>A request and its answer\<close>

text \<open>A client connects, is greeted and sends the request that sets a digital line.\<close>

definition set_line_action :: "int \<Rightarrow> u8 \<Rightarrow> TActionQueueItem" where
  "set_line_action k n = \<lparr>Socket = k, theMessage = Some \<lparr>Id = MId_Q, DataItems = [Some (set_line_item n)]\<rparr>\<rparr>"

definition line_requested :: "int \<Rightarrow> u8 \<Rightarrow> TBytes \<Rightarrow> 'h server \<Rightarrow> 'h conversation" where
  "line_requested k n hello s =
     \<lparr>cv_server = s, cv_queue = enqueue (Some (set_line_action k n)) SafeQueue_new, cv_action = Idle,
      cv_threads = [\<lparr>ct_socket = k, ct_phase = Receives, ct_buffer = [], ct_received = set_line_frame MId_Q n,
        ct_frames = [set_line_frame MId_Q n]\<rparr>],
      cv_peer = [k \<mapsto> 0], cv_sent = [\<lparr>sd_socket = k, sd_peer = Some 0, sd_action = None, sd_bytes = hello\<rparr>], cv_selecting = False\<rparr>"

lemma line_request_reachable:
  assumes "0 \<le> k" and "\<not> finished s0" and "SendControlHello E k s0 = (Ok hello, s)"
  shows "conversation_reachable E s0 (line_requested k n hello (s\<lparr>allocs := allocs s + 1\<rparr>))"
proof -
  let ?f = "set_line_frame MId_Q n"
  let ?t = "\<lambda>p b r. \<lparr>ct_socket = k, ct_phase = p, ct_buffer = b, ct_received = r, ct_frames = []\<rparr>"
  let ?c = "\<lambda>s t ds. \<lparr>cv_server = s, cv_queue = SafeQueue_new, cv_action = Idle, cv_threads = [t],
    cv_peer = [k \<mapsto> 0], cv_sent = ds, cv_selecting = False\<rparr>"
  let ?h = "[\<lparr>sd_socket = k, sd_peer = Some 0, sd_action = None, sd_bytes = hello\<rparr>]"
  let ?s = "s\<lparr>allocs := allocs s + 1\<rparr>"
  have fin: "\<not> finished s" using finished_SendControlHello [of E k s0] assms(2,3) by simp
  have "conversation_step E (conversation_init s0) ((conversation_init s0)\<lparr>cv_selecting := True\<rparr>)"
    using conversation_event.selects [THEN conversation_stepI, of "conversation_init s0" E] assms(2)
    by (simp add: conversation_init_def)
  moreover have "conversation_step E ((conversation_init s0)\<lparr>cv_selecting := True\<rparr>) (?c s0 (?t Greets [] []) [])"
    using conversation_event.accepts [THEN conversation_stepI, of "(conversation_init s0)\<lparr>cv_selecting := True\<rparr>" k E] assms(1)
    by (simp add: conversation_init_def new_thread_def)
  moreover have "conversation_step E (?c s0 (?t Greets [] []) []) (?c s (?t Tests [] []) ?h)"
    using conversation_event.greets [THEN conversation_stepI, of 0 "?c s0 (?t Greets [] []) []" _ E hello s] assms(3)
    by (simp add: set_thread_def send_to_def)
  moreover have "conversation_step E (?c s (?t Tests [] []) ?h) (?c s (?t Receives [] []) ?h)"
    using conversation_event.tests [THEN conversation_stepI, of 0 "?c s (?t Tests [] []) ?h" _ Receives E] fin
    by (simp add: set_thread_def)
  moreover have "conversation_step E (?c s (?t Receives [] []) ?h) (?c s (?t Processes ?f ?f) ?h)"
    using conversation_event.receives [THEN conversation_stepI, of 0 "?c s (?t Receives [] []) ?h" _ ?f E]
    by (simp add: set_thread_def set_line_frame_def)
  ultimately have "conversation_reachable E s0 (?c s (?t Processes ?f ?f) ?h)"
    using conversation_reachable.begins [of E s0] conversation_reachable.goes_on by meson
  moreover have "conversation_run E (?c s (?t Processes ?f ?f) ?h) (line_requested k n hello ?s)"
  proof -
    let ?m = "\<lparr>Id = MId_Q, DataItems = [Some (set_line_item n)]\<rparr>"
    have front: "front_frame ?f = Some ?f"
      by (simp add: front_frame_def set_line_frame_def head_payload_size_def)
    have "isValidMessageID (after_ids E) MId_Q" by (rule ValidMessageIDs_valid) (simp add: ValidMessageIDs_def)
    then have "GotMessage E ?f s = (Ok ?m, ?s)" by (simp add: GotMessage_def set_line_parsed)
    then have "conversation_step E (?c s (?t Processes ?f ?f) ?h) (?c ?s (?t (Queues ?m) ?f ?f) ?h)"
      using conversation_event.parses [THEN conversation_stepI, of 0 "?c s (?t Processes ?f ?f) ?h" _ ?f E ?m ?s] front
      by (simp add: set_thread_def)
    moreover let ?d = "\<lambda>p. (line_requested k n hello ?s)\<lparr>cv_threads := [\<lparr>ct_socket = k, ct_phase = p,
      ct_buffer = [], ct_received = ?f, ct_frames = [?f]\<rparr>]\<rparr>"
    have "conversation_step E (?c ?s (?t (Queues ?m) ?f ?f) ?h) (?d Processes)"
      using conversation_event.queues [THEN conversation_stepI, of 0 "?c ?s (?t (Queues ?m) ?f ?f) ?h" _ ?m ?f E] front
      by (simp add: set_thread_def line_requested_def set_line_action_def)
    moreover have "conversation_step E (?d Processes) (?d Tests)"
      using conversation_event.waits [THEN conversation_stepI, of 0 "?d Processes" _ E]
      by (simp add: set_thread_def line_requested_def front_frame_def oversized_def)
    moreover have "conversation_step E (?d Tests) (line_requested k n hello ?s)"
      using conversation_event.tests [THEN conversation_stepI, of 0 "?d Tests" _ Receives E] fin
      by (simp add: set_thread_def line_requested_def)
    ultimately show ?thesis by (meson converse_rtranclp_into_rtranclp rtranclp.rtrancl_refl)
  qed
  ultimately show ?thesis using conversation_run_reachable by blast
qed

text \<open>The action thread answers it.\<close>

lemma line_request_answered:
  assumes "conversation_reachable E s0 c" and "cv_action c = Idle" and "cv_queue c = enqueue (Some (set_line_action k n)) SafeQueue_new"
    and "\<not> finished (cv_server c)" and "unat n < 32"
  shows "\<exists>s. \<not> finished s \<and> conversation_reachable E s0
    ((send_to k (Some (set_line_action k n)) (set_line_frame MId_R n) c)\<lparr>cv_queue := SafeQueue_new, cv_server := s\<rparr>)"
proof -
  obtain s where "ActionThread_turn E (set_line_action k n) (cv_server c) = (Ok (k, set_line_frame MId_R n), s)" "\<not> finished s"
    using assms(4) set_line_run [OF assms(5), of MId_Q E k "cv_server c"] by (simp add: set_line_action_def)
  moreover have "dequeue (finished (cv_server c)) (cv_queue c) = (Returns (Some (set_line_action k n)), SafeQueue_new)"
    using assms(3,4) by (simp add: dequeue_def enqueue_def SafeQueue_new_def)
  ultimately show ?thesis
    using ActionThread_turn_steps [OF _ assms(2)] conversation_run_reachable [OF _ assms(1)] by blast
qed

lemma set_line_cut: "cut_frames (set_line_frame mid n) = ([set_line_frame mid n], [])"
proof -
  have "head_payload_size (set_line_frame mid n) = 5" "length (set_line_frame mid n) = 11"
    by (simp_all add: set_line_frame_def head_payload_size_def)
  then show ?thesis by (simp add: cut_frames.simps [of "set_line_frame mid n"] cut_frames_short)
qed

lemma bank_greeting:
  obtains hello s where "SendControlHello bank_env 7 (bank_server\<lparr>cfg := InitConfig blank_config\<rparr>) = (Ok hello, s)"
    and "\<not> finished s"
proof -
  obtain hello s where h: "SendControlHello bank_env 7 (bank_server\<lparr>cfg := InitConfig blank_config\<rparr>) = (Ok hello, s)"
    using greeting_core [of "bank_server\<lparr>cfg := InitConfig blank_config\<rparr>" bank_env 7]
    by (auto simp: InitConfig_def bank_server_def)
  moreover have "\<not> finished s"
    using finished_SendControlHello [of bank_env 7 "bank_server\<lparr>cfg := InitConfig blank_config\<rparr>"] h
    by (simp add: bank_server_def)
  ultimately show ?thesis by (rule that)
qed

text \<open>On the example board: the request has been answered and the server waits.\<close>

lemma bank_conversation:
  obtains s0 c where "conversation_reachable bank_env s0 c" and "sole c 0" and "sound (cv_threads c ! 0)" and "at_rest c"
    and "map sd_bytes (answers_of c 0) = [set_line_frame MId_R 3]" and "\<not> finished (cv_server c)"
    and "cv_action c = Idle" and "cv_queue c = SafeQueue_new" and "map ct_phase (cv_threads c) = [Receives]"
proof -
  obtain hello s where h: "SendControlHello bank_env 7 (bank_server\<lparr>cfg := InitConfig blank_config\<rparr>) = (Ok hello, s)"
    "\<not> finished s" by (rule bank_greeting)
  let ?s0 = "bank_server\<lparr>cfg := InitConfig blank_config\<rparr>" and ?c = "line_requested 7 3 hello (s\<lparr>allocs := allocs s + 1\<rparr>)"
  have "conversation_reachable bank_env ?s0 ?c"
    using line_request_reachable [OF _ _ h(1)] by (simp add: bank_server_def)
  moreover have "unat (3 :: u8) < 32" by simp
  ultimately obtain t where t: "\<not> finished t" and
    r: "conversation_reachable bank_env ?s0 ((send_to 7 (Some (set_line_action 7 3)) (set_line_frame MId_R 3) ?c)\<lparr>cv_queue := SafeQueue_new,
      cv_server := t\<rparr>)" (is "conversation_reachable _ _ ?d")
    using line_request_answered [of bank_env ?s0 ?c 7 3] h(2) by (auto simp: line_requested_def)
  have "sole ?d 0" by (simp add: sole_def sockets_def line_requested_def)
  moreover have "sound (cv_threads ?d ! 0)"
    by (simp add: sound_def line_requested_def set_line_cut oversized_def)
  moreover have "at_rest ?d" by (simp add: at_rest_def line_requested_def SafeQueue_new_def)
  moreover have "map sd_bytes (answers_of ?d 0) = [set_line_frame MId_R 3]" by (simp add: answers_of_def line_requested_def)
  moreover have "\<not> finished (cv_server ?d)" "cv_action ?d = Idle" "cv_queue ?d = SafeQueue_new" "map ct_phase (cv_threads ?d) = [Receives]"
    using t by (simp_all add: line_requested_def)
  ultimately show ?thesis by (rule that [OF r])
qed


theorem thread_functions_are_runs_witness:
  "\<exists>c d. conversation_run bank_env c d \<and> map sd_bytes (cv_sent c) = [] \<and> map sd_bytes (cv_sent d) = [set_line_frame MId_R 3]"
proof -
  let ?c = "(conversation_init bank_server)\<lparr>cv_queue := enqueue (Some (set_line_action 7 3)) SafeQueue_new\<rparr>"
  have "unat (3 :: u8) < 32" by simp
  then obtain s where "ActionThread_turn bank_env (set_line_action 7 3) (cv_server ?c) = (Ok (7, set_line_frame MId_R 3), s)"
    using set_line_run [of 3 MId_Q bank_env 7 "cv_server ?c"] by (simp add: set_line_action_def)
  moreover have "dequeue (finished (cv_server ?c)) (cv_queue ?c) = (Returns (Some (set_line_action 7 3)), SafeQueue_new)"
    by (simp add: dequeue_def enqueue_def SafeQueue_new_def conversation_init_def bank_server_def)
  moreover have "cv_action ?c = Idle" by (simp add: conversation_init_def)
  ultimately have "conversation_run bank_env ?c
      ((send_to 7 (Some (set_line_action 7 3)) (set_line_frame MId_R 3) ?c)\<lparr>cv_queue := SafeQueue_new, cv_server := s\<rparr>)"
    using thread_functions_are_runs by blast
  then show ?thesis by (intro exI conjI, assumption) (simp_all add: conversation_init_def)
qed

text \<open>
  C34: A client may be sent the answer to a stranger. An action keeps the number of its socket. When a client sends a
  request and hangs up before the action thread takes it, and the next client to connect is given the same descriptor,
  the answer goes to the next client: to one that has sent nothing and has not been greeted yet.
\<close>

theorem answer_reaches_stranger:
  assumes "0 \<le> k" and "\<not> finished s0" and "SendControlHello E k s0 = (Ok hello, s)" and "unat n < 32"
  shows "\<exists>c d. conversation_reachable E s0 c \<and> d \<in> set (cv_sent c) \<and> sd_peer d = Some 1 \<and>
    sd_action d = Some (set_line_action k n) \<and> sd_bytes d = set_line_frame MId_R n \<and>
    ct_received (cv_threads c ! 0) = set_line_frame MId_Q n \<and>
    ct_received (cv_threads c ! 1) = [] \<and> ct_phase (cv_threads c ! 1) = Greets"
proof -
  let ?s = "s\<lparr>allocs := allocs s + 1\<rparr>"
  let ?c0 = "line_requested k n hello ?s"
  let ?t = "\<lambda>p. (cv_threads ?c0 ! 0)\<lparr>ct_phase := p\<rparr>"
  let ?c1 = "set_thread 0 (?t (Closes 1)) ?c0"
  let ?c2 = "(set_thread 0 (?t (Closes 0)) ?c0)\<lparr>cv_peer := Map.empty\<rparr>"
  let ?c2' = "?c2\<lparr>cv_selecting := True\<rparr>"
  let ?c3 = "?c2\<lparr>cv_threads := cv_threads ?c2 @ [new_thread k], cv_peer := [k \<mapsto> 1]\<rparr>"
  have fin: "\<not> finished s" using finished_SendControlHello [of E k s0] assms(2,3) by simp
  have "conversation_step E ?c0 ?c1"
    using conversation_event.ends [THEN conversation_stepI, of 0 ?c0 "cv_threads ?c0 ! 0" 1 E] by (simp add: line_requested_def)
  moreover have "conversation_step E ?c1 ?c2"
    using conversation_event.closes [THEN conversation_stepI, of 0 ?c1 "?t (Closes 1)" 0 E] by (simp add: line_requested_def set_thread_def)
  moreover have "conversation_step E ?c2 ?c2'"
    using conversation_event.selects [THEN conversation_stepI, of ?c2 E] fin by (simp add: line_requested_def)
  moreover have "conversation_step E ?c2' ?c3"
    using conversation_event.accepts [THEN conversation_stepI, of ?c2' k E] assms(1) by (simp add: line_requested_def set_thread_def)
  ultimately have "conversation_run E ?c0 ?c3" by (meson converse_rtranclp_into_rtranclp rtranclp.rtrancl_refl)
  then have "conversation_reachable E s0 ?c3"
    using conversation_run_reachable line_request_reachable [OF assms(1-3)] by blast
  from line_request_answered [OF this, of k n] obtain t where
    r: "conversation_reachable E s0 ((send_to k (Some (set_line_action k n)) (set_line_frame MId_R n) ?c3)\<lparr>cv_queue := SafeQueue_new,
      cv_server := t\<rparr>)" (is "conversation_reachable _ _ ?c4")
    using assms(4) fin by (auto simp: line_requested_def)
  let ?d = "\<lparr>sd_socket = k, sd_peer = Some 1, sd_action = Some (set_line_action k n), sd_bytes = set_line_frame MId_R n\<rparr>"
  have "?d \<in> set (cv_sent ?c4)" by simp
  moreover have "cv_threads ?c4 = [?t (Closes 0), new_thread k]" by (simp add: line_requested_def)
  ultimately show ?thesis
    using r by (intro exI [of _ ?c4] exI [of _ ?d]) (simp add: line_requested_def new_thread_def)
qed

theorem answer_reaches_stranger_witness:
  "\<exists>s0 c d. conversation_reachable bank_env s0 c \<and> d \<in> set (cv_sent c) \<and> sd_peer d = Some 1 \<and>
     sd_action d = Some (set_line_action 7 3)"
proof -
  obtain hello s where h: "SendControlHello bank_env 7 (bank_server\<lparr>cfg := InitConfig blank_config\<rparr>) = (Ok hello, s)"
    by (rule bank_greeting)
  have "\<not> finished (bank_server\<lparr>cfg := InitConfig blank_config\<rparr>)" "unat (3 :: u8) < 32" by (simp_all add: bank_server_def)
  with answer_reaches_stranger [OF _ _ h] show ?thesis by fastforce
qed

text \<open>
  After a hang-up the receiver closes its descriptor twice. When a client connects in between and is given the same
  descriptor, the second close cuts it off before it is greeted.
\<close>

lemma second_close_cuts_stranger:
  assumes "0 \<le> k" and "\<not> finished s0" and "SendControlHello E k s0 = (Ok hello, s)"
  shows "\<exists>c d. conversation_reachable E s0 c \<and> cv_peer c k = Some 1 \<and> cv_threads c ! 1 = new_thread k \<and>
    ct_phase (cv_threads c ! 0) = Closes 1 \<and> conversation_step E c d \<and> cv_peer d k = None \<and> cv_threads d ! 1 = new_thread k"
proof -
  let ?s = "s\<lparr>allocs := allocs s + 1\<rparr>"
  let ?c0 = "line_requested k 0 hello ?s"
  let ?t = "\<lambda>p. (cv_threads ?c0 ! 0)\<lparr>ct_phase := p\<rparr>"
  let ?c1 = "set_thread 0 (?t (Closes 2)) ?c0"
  let ?c2 = "(set_thread 0 (?t (Closes 1)) ?c0)\<lparr>cv_peer := Map.empty\<rparr>"
  let ?c2' = "?c2\<lparr>cv_selecting := True\<rparr>"
  let ?c3 = "?c2\<lparr>cv_threads := cv_threads ?c2 @ [new_thread k], cv_peer := [k \<mapsto> 1]\<rparr>"
  let ?c4 = "(set_thread 0 (?t (Closes 0)) ?c3)\<lparr>cv_peer := (cv_peer ?c3)(k := None)\<rparr>"
  have fin: "\<not> finished s" using finished_SendControlHello [of E k s0] assms(2,3) by simp
  have "conversation_step E ?c0 ?c1"
    using conversation_event.ends [THEN conversation_stepI, of 0 ?c0 "cv_threads ?c0 ! 0" 2 E] by (simp add: line_requested_def)
  moreover have "conversation_step E ?c1 ?c2"
    using conversation_event.closes [THEN conversation_stepI, of 0 ?c1 "?t (Closes 2)" 1 E]
    by (simp add: line_requested_def set_thread_def numeral_2_eq_2)
  moreover have "conversation_step E ?c2 ?c2'"
    using conversation_event.selects [THEN conversation_stepI, of ?c2 E] fin by (simp add: line_requested_def)
  moreover have "conversation_step E ?c2' ?c3"
    using conversation_event.accepts [THEN conversation_stepI, of ?c2' k E] assms(1)
    by (simp add: line_requested_def set_thread_def)
  ultimately have "conversation_run E ?c0 ?c3" by (meson converse_rtranclp_into_rtranclp rtranclp.rtrancl_refl)
  then have "conversation_reachable E s0 ?c3"
    using conversation_run_reachable line_request_reachable [OF assms] by blast
  moreover have "conversation_step E ?c3 ?c4"
    using conversation_event.closes [THEN conversation_stepI, of 0 ?c3 "?t (Closes 1)" 0 E]
    by (simp add: line_requested_def set_thread_def)
  moreover have "cv_threads ?c3 = [?t (Closes 1), new_thread k]" "cv_threads ?c4 = [?t (Closes 0), new_thread k]"
    by (simp_all add: line_requested_def)
  ultimately show ?thesis by (intro exI [of _ ?c3] exI [of _ ?c4]) simp
qed

subsection \<open>The server comes to rest\<close>

text \<open>
  What is left to do: first in the receivers, where a byte of the buffer counts twice; then in the queue and in the
  action thread, where every item counts.
\<close>

fun receiver_work :: "receiver_phase \<Rightarrow> nat" where
  "receiver_work Greets = 3"
| "receiver_work Tests = 2"
| "receiver_work Receives = 0"
| "receiver_work Processes = 3"
| "receiver_work (Queues m) = 2"
| "receiver_work (Closes n) = n"

definition receivers_work :: "'h conversation \<Rightarrow> nat" where
  "receivers_work c = sum_list (map (\<lambda>t. 2 * length (ct_buffer t) + receiver_work (ct_phase t)) (cv_threads c))"

definition queued_work :: "TActionQueueItem option \<Rightarrow> nat" where
  "queued_work a = (case a of None \<Rightarrow> 1 | Some b \<Rightarrow> (case theMessage b of None \<Rightarrow> 3 | Some m \<Rightarrow> 3 + length (DataItems m)))"

fun action_work :: "action_phase \<Rightarrow> nat" where
  "action_work Idle = 0"
| "action_work (Runs a m rs) = 2 + (length (DataItems m) - length rs)"
| "action_work (Replies a m) = 1"

definition actions_work :: "'h conversation \<Rightarrow> nat" where
  "actions_work c = sum_list (map queued_work (sq_q (cv_queue c))) + action_work (cv_action c)"

definition work_order :: "('h conversation \<times> 'h conversation) set" where
  "work_order = measures [receivers_work, actions_work]"

lemma work_order_wf: "wf work_order"
  by (simp add: work_order_def)

lemma sum_list_less:
  assumes "i < length xs" and "f y < f (xs ! i)"
  shows "sum_list (map f (xs[i := y])) < (sum_list (map f xs) :: nat)"
  using assms
proof (induction xs arbitrary: i)
  case (Cons x xs)
  then show ?case by (cases i) auto
qed simp

lemma receivers_work_less:
  assumes "i < length (cv_threads c)" and "cv_threads d = (cv_threads c)[i := t]"
    and "2 * length (ct_buffer t) + receiver_work (ct_phase t) <
      2 * length (ct_buffer (cv_threads c ! i)) + receiver_work (ct_phase (cv_threads c ! i))"
  shows "(d, c) \<in> work_order"
  using sum_list_less [OF assms(1), of "\<lambda>t. 2 * length (ct_buffer t) + receiver_work (ct_phase t)" t] assms(2,3)
  by (simp add: work_order_def receivers_work_def)

lemma actions_work_less:
  "cv_threads d = cv_threads c \<Longrightarrow> actions_work d < actions_work c \<Longrightarrow> (d, c) \<in> work_order"
  by (simp add: work_order_def receivers_work_def)

lemma front_frame_length: "front_frame b = Some f \<Longrightarrow> 6 \<le> length f \<and> length f \<le> length b"
  by (auto simp: front_frame_def split: if_splits)

lemma refuse_oversize_buffer: "refuse_oversize E k n r = (Ok (), r') \<Longrightarrow> rx_buffer r' = []"
  by (auto simp: refuse_oversize_def outcome_simps Disconnect_def split: prod.splits)

lemma inside_step_works:
  assumes "conversation_event E l c d" and "l = Inside"
  shows "(d, c) \<in> work_order"
  using assms
proof (induction rule: conversation_event.induct)
  case (greets i c t bs s)
  then show ?case by (intro receivers_work_less [where t = "t\<lparr>ct_phase := Tests\<rparr>"]) auto
next
  case (tests i c t p)
  then show ?case by (intro receivers_work_less [where t = "t\<lparr>ct_phase := p\<rparr>"]) auto
next
  case (closes i c t n)
  then show ?case by (intro receivers_work_less [where t = "t\<lparr>ct_phase := Closes n\<rparr>"]) auto
next
  case (waits i c t)
  then show ?case by (intro receivers_work_less [where t = "t\<lparr>ct_phase := Tests\<rparr>"]) auto
next
  case (refuses i c t r)
  then show ?case
    by (intro receivers_work_less [where t = "t\<lparr>ct_phase := Tests, ct_buffer := rx_buffer r\<rparr>"])
      (auto simp: refuse_oversize_buffer)
next
  case (parses i c t f m s)
  then show ?case by (intro receivers_work_less [where t = "t\<lparr>ct_phase := Queues m\<rparr>"]) auto
next
  case (queues i c t m f)
  then show ?case
    using front_frame_length [OF queues(4)]
    by (intro receivers_work_less [where t = "t\<lparr>ct_phase := Processes, ct_buffer := drop (length f) (ct_buffer t),
      ct_frames := ct_frames t @ [f]\<rparr>"]) auto
next
  case (takes c a q m)
  then show ?case
    by (intro actions_work_less; cases "sq_q (cv_queue c)")
      (auto simp: dequeue_def actions_work_def queued_work_def split: if_splits)
next
  case (skips c q)
  then show ?case
    by (intro actions_work_less; cases "sq_q (cv_queue c)")
      (auto simp: dequeue_def actions_work_def queued_work_def split: if_splits)
next
  case (runs c a m rs r s)
  then show ?case by (intro actions_work_less) (auto simp: actions_work_def)
next
  case (finishes c a m rs m')
  then show ?case by (intro actions_work_less) (auto simp: actions_work_def)
next
  case (replies c a m k bs)
  then show ?case by (intro actions_work_less) (auto simp: actions_work_def)
qed simp_all

text \<open>Code of a thread that does not return normally in the state it is called in.\<close>

definition receiver_fails :: "'h env \<Rightarrow> 'h conversation \<Rightarrow> connection_thread \<Rightarrow> bool" where
  "receiver_fails E c t \<longleftrightarrow>
     (case ct_phase t of
        Greets \<Rightarrow> \<nexists>bs s. SendControlHello E (ct_socket t) (cv_server c) = (Ok bs, s)
      | Processes \<Rightarrow>
          (case front_frame (ct_buffer t) of
             Some f \<Rightarrow> \<nexists>m s. GotMessage E f (cv_server c) = (Ok m, s)
           | None \<Rightarrow> oversized (ct_buffer t) \<and>
               (\<nexists>r. refuse_oversize E (ct_socket t) (head_payload_size (ct_buffer t)) (as_receiver t c) = (Ok (), r)))
      | _ \<Rightarrow> False)"

definition action_fails :: "'h env \<Rightarrow> 'h conversation \<Rightarrow> bool" where
  "action_fails E c \<longleftrightarrow>
     (case cv_action c of
        Idle \<Rightarrow> \<exists>a q. dequeue (finished (cv_server c)) (cv_queue c) = (Returns (Some a), q) \<and> theMessage a = None
      | Runs a m rs \<Rightarrow> length rs < length (DataItems m) \<and>
          (\<nexists>r s. run_item E (length rs) (DataItems m ! length rs) (cv_server c) = (Ok r, s))
      | Replies a m \<Rightarrow> \<nexists>bs. message_AsBytes (fp E) (cfg (cv_server c)) m True = Ok bs)"

lemma stopped_receiver:
  assumes "\<And>d. \<not> conversation_event E Inside c d" and "t \<in> set (cv_threads c)"
    and "thread_ok E t" and "\<not> receiver_fails E c t"
  shows "ct_phase t = Receives \<or> ct_phase t = Closes 0"
proof -
  obtain i where i: "i < length (cv_threads c)" "t = cv_threads c ! i"
    using assms(2) by (auto simp: in_set_conv_nth)
  show ?thesis
  proof (cases "ct_phase t")
    case Greets
    then show ?thesis
      using assms(1,4) conversation_event.greets [OF i Greets, of E] by (auto simp: receiver_fails_def)
  next
    case Tests
    then show ?thesis using assms(1) conversation_event.tests [OF i Tests refl, of E] by blast
  next
    case Processes
    show ?thesis
    proof (cases rule: front_frame_cases [of "ct_buffer t"])
      case short
      then show ?thesis using assms(1) conversation_event.waits [OF i Processes, of E] by blast
    next
      case long
      then obtain r where "refuse_oversize E (ct_socket t) (head_payload_size (ct_buffer t)) (as_receiver t c) = (Ok (), r)"
        using assms(4) Processes by (auto simp: receiver_fails_def)
      then show ?thesis using assms(1) conversation_event.refuses [OF i Processes long(1)] by blast
    next
      case frame
      then obtain m s where "GotMessage E (take (6 + unat (head_payload_size (ct_buffer t))) (ct_buffer t)) (cv_server c) = (Ok m, s)"
        using assms(4) Processes by (auto simp: receiver_fails_def)
      then show ?thesis using assms(1) conversation_event.parses [OF i Processes frame(1)] by blast
    qed
  next
    case (Queues m)
    then obtain f where "front_frame (ct_buffer t) = Some f" using assms(3) by (auto simp: thread_ok_def)
    then show ?thesis using assms(1) conversation_event.queues [OF i Queues] by blast
  next
    case (Closes n)
    then show ?thesis using assms(1) conversation_event.closes [OF i, of _ E] by (cases n) auto
  qed simp
qed

lemma stopped_action:
  assumes "\<And>d. \<not> conversation_event E Inside c d" and "action_ok E (cv_action c)" and "\<not> action_fails E c"
    and "\<not> finished (cv_server c)"
  shows "cv_action c = Idle \<and> sq_q (cv_queue c) = []"
proof (cases "cv_action c")
  case Idle
  have "sq_q (cv_queue c) = []"
  proof (rule ccontr)
    assume q: "sq_q (cv_queue c) \<noteq> []"
    then have deq: "dequeue False (cv_queue c) = (Returns (hd (sq_q (cv_queue c))), (cv_queue c)\<lparr>sq_q := tl (sq_q (cv_queue c))\<rparr>)"
      by (simp add: dequeue_def)
    show False
    proof (cases "hd (sq_q (cv_queue c))")
      case None
      then show False using conversation_event.skips [OF Idle assms(4)] deq assms(1) by auto
    next
      case (Some a)
      then obtain m where "theMessage a = Some m" using assms(3,4) Idle deq by (auto simp: action_fails_def)
      then show False using conversation_event.takes [OF Idle] deq assms(1,4) Some by fastforce
    qed
  qed
  with Idle show ?thesis by simp
next
  case (Runs a m rs)
  show ?thesis
  proof (cases "length rs < length (DataItems m)")
    case True
    then obtain r s where "run_item E (length rs) (DataItems m ! length rs) (cv_server c) = (Ok r, s)"
      using assms(3) Runs by (auto simp: action_fails_def)
    then show ?thesis using assms(1) conversation_event.runs [OF Runs True] by blast
  next
    case False
    then have len: "length rs = length (DataItems m)" using assms(2) Runs by (simp add: action_ok_def turns_def)
    have "isValidMessageID (after_ids E) MId_E" "isValidMessageID (after_ids E) MId_R"
      by (auto intro!: ValidMessageIDs_valid simp: ValidMessageIDs_def)
    then have "\<exists>m'. setMId (after_ids E) (if \<exists>r \<in> set rs. snd r then MId_E else MId_R) (m\<lparr>DataItems := map fst rs\<rparr>) = Ok m'"
      by (simp add: setMId_def)
    then show ?thesis using assms(1) conversation_event.finishes [OF Runs len] by blast
  qed
next
  case (Replies a m)
  then obtain bs where "SendResponse E (Socket a) m (cv_server c) = Ok (Socket a, bs)"
    using assms(3) by (auto simp: action_fails_def SendResponse_def)
  then show ?thesis using assms(1) conversation_event.replies [OF Replies] by blast
qed

lemma rest_stops:
  assumes "at_rest c"
  shows "\<not> conversation_event E Inside c d"
proof
  assume step: "conversation_event E Inside c d"
  have phase: "ct_phase (cv_threads c ! i) = Receives \<or> ct_phase (cv_threads c ! i) = Closes 0"
    if "i < length (cv_threads c)" for i
    using assms that by (simp add: at_rest_def)
  have idle: "cv_action c = Idle" "sq_q (cv_queue c) = []" using assms by (simp_all add: at_rest_def)
  from step show False
    by (cases rule: inside_stepE) (use phase idle in \<open>force simp: dequeue_def split: if_splits\<close>)+
qed



subsection \<open>The configuration under every interleaving\<close>

lemma refuse_oversize_cfg:
  assumes "refuse_oversize E k n r = (Ok (), r')"
  shows "cfg (rx_server r') = cfg (rx_server r)"
proof -
  let ?e = "\<lambda>s. BuildSysError E Stage_Parse (ErrIndex ERR_MSG_LEN_MISMATCH) n ''Payload length exceeds maxPayloadLength'' s"
  have "cfg (snd (?e s)) = cfg s" for s by (simp add: BuildSysError_def cfg_BuildDataItem)
  moreover obtain di where "?e (rx_server r) = (Ok di, rx_server r')"
    using assms by (auto simp: refuse_oversize_def outcome_simps Disconnect_def rx_enqueue_def split: prod.splits)
  ultimately show ?thesis by (metis snd_conv)
qed

lemma conversation_server_ok:
  assumes "conversation_event E l c d" and "server_ok (cv_server c)"
  shows "server_ok (cv_server d)"
  using assms
proof (induction rule: conversation_event.induct)
  case (greets i c t bs s)
  then show ?case using greeting_shape [of "cv_server c" E "ct_socket t"] by simp
next
  case (refuses i c t r)
  then show ?case using refuse_oversize_cfg [OF refuses(5)] by (simp add: server_ok_def as_receiver_def)
next
  case (parses i c t f m s)
  then show ?case using cfg_GotMessage [of E f "cv_server c"] by (simp add: server_ok_def)
next
  case (runs c a m rs r s)
  then show ?case using run_item_shape [of "cv_server c" E "length rs" "DataItems m ! length rs"] by simp
next
  case (signal c)
  then show ?case by (simp add: abort_handler_def server_ok_def)
next
  case (exits c q s)
  then show ?case by (auto simp: exit_handler_def server_ok_def Let_def)
qed simp_all



end
