(* ===== verification/Atomicity.thy ===== *)
theory Atomicity
  imports ConversationRun
begin

text \<open>
  What the other threads do to the server while the action thread runs a message: parsing and greeting leave
  alone what the items of messages work on.
\<close>

subsection \<open>What parsing leaves alone\<close>

text \<open>
  A relation between the server before and after, which holds when memory is allocated and when the stream is
  claimed: the parser does nothing else.
\<close>

locale parse_frame =
  fixes kept :: "'h server \<Rightarrow> 'h server \<Rightarrow> bool"
  assumes kept_refl: "kept s s"
    and kept_trans: "kept s t \<Longrightarrow> kept t u \<Longrightarrow> kept s u"
    and kept_allocs: "kept s (s\<lparr>allocs := n\<rparr>)"
    and kept_adc: "kept s (s\<lparr>adc := a\<rparr>)"
begin

lemma bind: "kept s (snd m) \<Longrightarrow> (\<And>x t. kept s t \<Longrightarrow> kept s (snd (f x t))) \<Longrightarrow> kept s (snd (bindS m f))"
  by (rule snd_bindS [where P = "kept s"])

lemma body: "kept s (snd (body_construct E k b s))"
  by (cases k) (auto simp: split_beta Let_def kept_refl kept_adc)

lemma item: "kept s (snd (construct E k did b s))"
  using kept_trans [OF body kept_allocs] by (auto simp: construct_def split_beta Let_def)

lemma factory: "kept s (snd (fromBytes E bs s))"
  unfolding fromBytes_def Let_def
  by (intro bind snd_If [where P = "kept s"])
    (auto simp: snd_mapS kept_refl intro: kept_trans [OF _ kept_allocs] kept_trans [OF _ item] split: option.split)

lemma built: "kept s (snd (BuildDataItem E did p s))"
proof -
  let ?b = "stuff (stuff [] did) (of_nat (length p) :: u16) @ p"
  obtain q t where e: "fromBytes E ?b s = (q, t)" by fastforce
  then have "kept s t" using factory [of s E ?b] by simp
  with e show ?thesis by (cases q) (auto simp: BuildDataItem_def split: exn.splits)
qed

lemma items: "kept s (snd (parse_loop E bs n acc s))"
proof (induction E bs n acc s rule: parse_loop.induct)
  case (1 E bs n acc s)
  show ?case
    using 1 factory [of s E bs]
    by (subst parse_loop.simps) (auto simp: Let_def kept_refl split: prod.splits res.splits intro: kept_trans)
qed

lemma message: "kept s (snd (FromBytes E f s))"
  by (auto simp: FromBytes_def parsePayload_def Let_def items kept_refl intro!: bind snd_If [where P = "kept s"])

lemma received: "kept s (snd (GotMessage E f s))"
proof -
  have err: "kept s (snd (BuildSysError E st i n x t))" if "kept s t" for st i n x t
    using kept_trans [OF that built] by (simp add: BuildSysError_def)
  obtain q t where q: "FromBytes E f s = (q, t)" by fastforce
  then have "kept s t" using message [of s E f] by simp
  with q show ?thesis
    by (cases q) (auto simp: GotMessage_def split_beta split: exn.splits intro!: bind err)
qed

lemma refused: "refuse_oversize E k n r = (Ok (), r') \<Longrightarrow> kept (rx_server r) (rx_server r')"
proof -
  assume r: "refuse_oversize E k n r = (Ok (), r')"
  let ?e = "\<lambda>s. BuildSysError E Stage_Parse (ErrIndex ERR_MSG_LEN_MISMATCH) n ''Payload length exceeds maxPayloadLength'' s"
  have "kept s (snd (?e s))" for s by (simp add: BuildSysError_def built)
  moreover obtain di where "?e (rx_server r) = (Ok di, rx_server r')"
    using r by (auto simp: refuse_oversize_def outcome_simps Disconnect_def rx_enqueue_def split: prod.splits)
  ultimately show "kept (rx_server r) (rx_server r')" by (metis snd_conv)
qed

lemma ranges: "kept s (snd (dac_hello E cs p s))"
proof (induction E cs p s rule: dac_hello.induct)
  case (2 E channel channels payload s)
  show ?case
    using factory [of s E "stuff [] DId_DAC_Range1 @ [5, 0, of_nat channel] @ stuff [] (dacRanges (cfg s) ! channel)"] 2
    by (auto simp: bindS_def kept_refl split: res.splits prod.splits intro: kept_trans)
qed (simp add: kept_refl)

end

subsection \<open>What the server works on\<close>

text \<open>
  The board, the configuration but for the features byte, the files, the upload and the flag of the end. The features
  byte is what a greeting reads from the board.
\<close>

definition untouched :: "'h server \<Rightarrow> 'h server \<Rightarrow> bool" where
  "untouched s t \<longleftrightarrow> dev t = dev s \<and> (cfg t)\<lparr>features := 0\<rparr> = (cfg s)\<lparr>features := 0\<rparr> \<and> disk t = disk s \<and>
     upl t = upl s \<and> finished t = finished s"

interpretation board: parse_frame untouched
  by unfold_locales (auto simp: untouched_def)

text \<open>A board whose identification registers are read without an effect on it.\<close>

definition quiet_ids :: "'h apci_lib \<Rightarrow> bool" where
  "quiet_ids L \<longleftrightarrow> (\<forall>r \<in> {ofsFeatures, ofsDeviceID, ofsAdcBaseClock, ofsFpgaID}. \<forall>h. snd (in_reg L r h) = h)"

lemma go_all_untouched:
  assumes "\<forall>it \<in> set its. \<forall>s. untouched s (snd (item_Go E it s))"
  shows "untouched s (snd (go_all E (map Ok its) P s))"
  using assms
proof (induction its arbitrary: P s)
  case Nil
  then show ?case by (simp add: board.kept_refl)
next
  case (Cons it its)
  obtain r t where g: "item_Go E it s = (r, t)" by fastforce
  then have "untouched s t" using Cons.prems by (metis list.set_intros(1) snd_conv)
  with Cons g show ?case by (auto split: res.splits exn.splits intro: board.kept_trans)
qed

lemma hello_items_untouched:
  assumes "quiet_ids (lib E)"
  shows "untouched s (snd (go_all E (hello_items E n) P s))"
proof -
  let ?its = "map (\<lambda>r. case r of Ok it \<Rightarrow> it | _ \<Rightarrow> NYI_invalid) (hello_items E n)"
  have items: "hello_items E n = map Ok ?its"
    by (simp add: hello_items_def Let_def TBRD_GetNumberOfAdcChannels_new_def)
  have quiet: "snd (in_reg (lib E) ofsFeatures h) = h" "snd (in_reg (lib E) ofsDeviceID h) = h"
    "snd (in_reg (lib E) ofsAdcBaseClock h) = h" "snd (in_reg (lib E) ofsFpgaID h) = h" for h
    using assms by (simp_all add: quiet_ids_def)
  have "\<forall>it \<in> set ?its. \<forall>s. untouched s (snd (item_Go E it s))"
    using quiet
    by (simp add: hello_items_def Let_def TBRD_GetNumberOfAdcChannels_new_def item_Go_def mapS_def on_dev_def on_dev_cfg_def
        TBRD_Features_Go_def TBRD_DeviceID_Go_def TBRD_FpgaId_Go_def TADC_BaseClock_Go_def
        TBRD_FpgaId_new_def TBRD_DeviceID_new_def TBRD_Features_new_def split_beta untouched_def)
  then show ?thesis using go_all_untouched items by metis
qed

lemma greeting_untouched:
  assumes "quiet_ids (lib E)"
  shows "untouched s (snd (SendControlHello E k s))"
proof -
  have go: "untouched s (snd (go_all E (hello_items E n) P (t\<lparr>allocs := a\<rparr>)))" if "untouched s t" for n P t a
    using board.kept_trans [OF board.kept_trans [OF that board.kept_allocs] hello_items_untouched [OF assms]] .
  show ?thesis
    unfolding SendControlHello_def
    by (auto simp: split_beta board.factory go intro!: board.bind intro: board.kept_trans [OF _ board.ranges])
qed

subsection \<open>A message runs alone\<close>


lemma bank_quiet: "quiet_ids (lib bank_env)"
  by (simp add: quiet_ids_def bank_env_def bank_lib_def in_reg_def in8_def in16_def in32_def widthFromOffset_def)


end
