(* ===== verification/ItemBuild.thy ===== *)
theory ItemBuild
  imports Server
begin

text \<open>
  The constructors that make an item from values (the second ones of the classes of \<^verbatim>\<open>DataItems/DIO_.cpp\<close>,
  \<^verbatim>\<open>DataItems/REG_.cpp\<close> and \<^verbatim>\<open>DataItems/ADC_.cpp\<close>), which a program that talks to the server uses, and the
  agreement of both sides: what is made from values on one side of the wire is made from bytes on the other.
\<close>

subsection \<open>The contract of a class\<close>

text \<open>
  A constructor from bytes, the serialisation of a request, the length of the data and the objects that are well formed:
  each direction gives back what the other was given.
\<close>

locale item_codec =
  fixes new :: "storage \<Rightarrow> TBytes \<Rightarrow> 'p" and calc :: "'p \<Rightarrow> bool \<Rightarrow> TBytes"
    and len :: nat and ok :: "'p \<Rightarrow> bool"
  assumes encode_decode: "length data = len \<Longrightarrow> calc (new g data) False = data"
    and decode_encode: "ok p \<Longrightarrow> new g (calc p False) = p"
    and encode_length: "ok p \<Longrightarrow> length (calc p False) = len"
    and decode_ok: "length data = len \<Longrightarrow> ok (new g data)"
begin

text \<open>No byte of the storage an object was allocated in gets into it.\<close>

lemma decode_storage:
  assumes "length data = len"
  shows "new g data = new h data"
  using decode_encode [OF decode_ok [OF assms, of g], of h] encode_decode [OF assms, of g] by simp

lemma encode_inject:
  assumes "ok p" and "ok q"
  shows "calc p False = calc q False \<longleftrightarrow> p = q"
proof
  assume same: "calc p False = calc q False"
  have "p = new (\<lambda>_. 0) (calc p False)" by (rule decode_encode [OF assms(1), symmetric])
  also have "\<dots> = q" unfolding same by (rule decode_encode [OF assms(2)])
  finally show "p = q" .
qed simp

lemma decode_bij: "bij_betw (new g) {data. length data = len} {p. ok p}"
proof (rule bij_betw_byWitness [where f' = "\<lambda>p. calc p False"])
  show "\<forall>data \<in> {data. length data = len}. calc (new g data) False = data" by (simp add: encode_decode)
  show "\<forall>p \<in> {p. ok p}. new g (calc p False) = p" by (simp add: decode_encode)
  show "new g ` {data. length data = len} \<subseteq> {p. ok p}" by (auto simp: decode_ok)
  show "(\<lambda>p. calc p False) ` {p. ok p} \<subseteq> {data. length data = len}" by (auto simp: encode_length)
qed

end

subsection \<open>Digital lines\<close>

definition TDIO_Configure_of :: "u16 \<Rightarrow> TDIO_WordParams" where
  "TDIO_Configure_of v = \<lparr>dio_value = v\<rparr>"

definition TDIO_Output_of :: "u16 \<Rightarrow> TDIO_WordParams" where
  "TDIO_Output_of v = \<lparr>dio_value = v\<rparr>"

definition TDIO_ConfigureBit_of :: "u8 \<Rightarrow> u8 \<Rightarrow> DIO_ConfigureBitParams" where
  "TDIO_ConfigureBit_of bitNumber direction = \<lparr>cb_bitNumber = bitNumber, cb_direction = direction\<rparr>"

text \<open>The value of an input is whatever was there before, until \<open>Go\<close> reads it.\<close>

definition TDIO_InputBit_of :: "storage \<Rightarrow> u8 \<Rightarrow> DIO_InputBitParams" where
  "TDIO_InputBit_of g bitNumber = \<lparr>ib_bitNumber = bitNumber, ib_bitValue = g 1\<rparr>"

definition TDIO_OutputBit_of :: "u8 \<Rightarrow> u8 \<Rightarrow> DIO_OutputBitParams" where
  "TDIO_OutputBit_of bitNumber v = \<lparr>ob_bitNumber = bitNumber, ob_value = v\<rparr>"

definition TDIO_ClearBit_of :: "u8 \<Rightarrow> DIO_BitParams" where
  "TDIO_ClearBit_of bitNumber = \<lparr>bit_bitNumber = bitNumber\<rparr>"

definition TDIO_SetBit_of :: "u8 \<Rightarrow> DIO_BitParams" where
  "TDIO_SetBit_of bitNumber = \<lparr>bit_bitNumber = bitNumber\<rparr>"

definition TDIO_ToggleBit_of :: "u8 \<Rightarrow> DIO_BitParams" where
  "TDIO_ToggleBit_of bitNumber = \<lparr>bit_bitNumber = bitNumber\<rparr>"

subsection \<open>Registers\<close>

text \<open>The default members are zero; \<open>setOffset\<close> throws for an offset without a register.\<close>

definition TREG_Read1_of :: "int \<Rightarrow> REG_Read1Params res" where
  "TREG_Read1_of ofs = TREG_Read1_setOffset ofs \<lparr>r1_offset = 0, r1_width = 0, r1_regVal = 0\<rparr>"

text \<open>The constructor from bytes alone checks its offset, which the one the factory calls does not.\<close>

definition TREG_Read1_checked :: "TBytes \<Rightarrow> REG_Read1Params res" where
  "TREG_Read1_checked data =
     bindR (GUARD (length data = 1) ERR_DId_BAD_PARAM (of_nat (length data)) 71 file_REG ''TREG_Read1'') (\<lambda>_.
       let ofs = uint (data ! 0); w = widthFromOffset ofs in
       bindR (GUARD (w \<noteq> 0) ERR_DId_BAD_PARAM (ucast DId_REG_Read1) 74 file_REG ''TREG_Read1'')
         (\<lambda>_. Ok \<lparr>r1_offset = ofs, r1_width = w, r1_regVal = 0\<rparr>))"

definition TREG_ReadBit_of :: "storage \<Rightarrow> u8 \<Rightarrow> u8 \<Rightarrow> REG_ReadBitParams" where
  "TREG_ReadBit_of g ofs bitIndex = \<lparr>rb_offset = ofs, rb_bitIndex = bitIndex, rb_bitValue = g 2\<rparr>"

definition TREG_WriteBit_of :: "u8 \<Rightarrow> u8 \<Rightarrow> u8 \<Rightarrow> REG_WriteBitParams" where
  "TREG_WriteBit_of ofs bitIndex v = \<lparr>wb_offset = ofs, wb_bitIndex = bitIndex, wb_value = v\<rparr>"

definition TREG_ClearBit_of :: "u8 \<Rightarrow> u8 \<Rightarrow> REG_BitParams" where
  "TREG_ClearBit_of ofs bitIndex = \<lparr>rg_offset = ofs, rg_bitIndex = bitIndex\<rparr>"

definition TREG_SetBit_of :: "u8 \<Rightarrow> u8 \<Rightarrow> REG_BitParams" where
  "TREG_SetBit_of ofs bitIndex = \<lparr>rg_offset = ofs, rg_bitIndex = bitIndex\<rparr>"

definition TREG_ToggleBit_of :: "u8 \<Rightarrow> u8 \<Rightarrow> REG_BitParams" where
  "TREG_ToggleBit_of ofs bitIndex = \<lparr>rg_offset = ofs, rg_bitIndex = bitIndex\<rparr>"

subsection \<open>Analog inputs\<close>

definition TADC_Differential1_of :: "u8 \<Rightarrow> u8 \<Rightarrow> ADC_Differential1Params" where
  "TADC_Differential1_of channelGroup singleEnded = \<lparr>df_channelGroup = channelGroup, df_singleEnded = singleEnded\<rparr>"

definition TADC_Range1_of :: "u8 \<Rightarrow> u8 \<Rightarrow> ADC_Range1Params" where
  "TADC_Range1_of channelGroup r = \<lparr>ar_channelGroup = channelGroup, ar_range = r\<rparr>"

text \<open>The array parameters are pointers; fewer elements than eight are read past.\<close>

definition eight :: "'a list \<Rightarrow> 'a list res" where
  "eight xs = (if length xs < 8 then Undef else Ok (take 8 xs))"

definition TADC_DifferentialAll_of :: "u8 list \<Rightarrow> ADC_AllParams res" where
  "TADC_DifferentialAll_of xs = map_res (\<lambda>xs. \<lparr>settings = xs\<rparr>) (eight xs)"

definition TADC_RangeAll_of :: "u8 list \<Rightarrow> ADC_AllParams res" where
  "TADC_RangeAll_of xs = map_res (\<lambda>xs. \<lparr>settings = xs\<rparr>) (eight xs)"

definition TADC_Scale1_of :: "u8 \<Rightarrow> f32 \<Rightarrow> ADC_Span1Params" where
  "TADC_Scale1_of rangeIndex scale = \<lparr>sp_rangeIndex = rangeIndex, sp_value = scale\<rparr>"

definition TADC_Offset1_of :: "u8 \<Rightarrow> f32 \<Rightarrow> ADC_Span1Params" where
  "TADC_Offset1_of rangeIndex ofs = \<lparr>sp_rangeIndex = rangeIndex, sp_value = ofs\<rparr>"

definition TADC_ScaleAll_of :: "f32 list \<Rightarrow> ADC_SpanAllParams res" where
  "TADC_ScaleAll_of xs = map_res (\<lambda>xs. \<lparr>spans = xs\<rparr>) (eight xs)"

definition TADC_OffsetAll_of :: "f32 list \<Rightarrow> ADC_SpanAllParams res" where
  "TADC_OffsetAll_of xs = map_res (\<lambda>xs. \<lparr>spans = xs\<rparr>) (eight xs)"

definition TADC_Calibration1_of :: "u8 \<Rightarrow> f32 \<Rightarrow> f32 \<Rightarrow> ADC_Calibration1Params" where
  "TADC_Calibration1_of rangeIndex scale ofs = \<lparr>cal_rangeIndex = rangeIndex, cal_scale = scale, cal_offset = ofs\<rparr>"

definition TADC_CalibrationAll_of :: "f32 list \<Rightarrow> f32 list \<Rightarrow> ADC_CalibrationAllParams res" where
  "TADC_CalibrationAll_of scales offsets =
     bindR (eight scales) (\<lambda>s. map_res (\<lambda>f. \<lparr>cal_scales = s, cal_offsets = f\<rparr>) (eight offsets))"

subsection \<open>The classes keep the contract\<close>

lemma u8_list_8: "length xs = 8 \<Longrightarrow> map ((!) xs) [0..<8] = xs"
  by (rule nth_equalityI) auto

interpretation dio_configure: item_codec TDIO_Configure_new TDIO_Configure_calcPayload 2 "\<lambda>_. True"
  by unfold_locales (simp_all add: byte_simps, simp add: dio_new_defs dio_payload_defs)

interpretation dio_output: item_codec TDIO_Output_new TDIO_Output_calcPayload 2 "\<lambda>_. True"
  by unfold_locales (simp_all add: byte_simps, simp add: dio_new_defs dio_payload_defs)

interpretation dio_configure_bit: item_codec TDIO_ConfigureBit_new TDIO_ConfigureBit_calcPayload 2 "\<lambda>_. True"
  by unfold_locales (simp_all add: byte_simps, simp add: dio_new_defs dio_payload_defs)

interpretation dio_output_bit: item_codec TDIO_OutputBit_new TDIO_OutputBit_calcPayload 2 "\<lambda>_. True"
  by unfold_locales (simp_all add: byte_simps, simp add: dio_new_defs dio_payload_defs)

interpretation dio_bit: item_codec TDIO_Bit_new TDIO_Bit_calcPayload 1 "\<lambda>_. True"
  by unfold_locales (simp_all add: byte_simps, simp add: dio_new_defs dio_payload_defs)

interpretation reg_write_bit: item_codec TREG_WriteBit_new TREG_WriteBit_calcPayload 3 "\<lambda>_. True"
  by unfold_locales (simp_all add: byte_simps, simp_all add: reg_new_defs reg_payload_defs)

interpretation reg_bit: item_codec TREG_Bit_new TREG_Bit_calcPayload 2 "\<lambda>_. True"
  by unfold_locales (simp_all add: byte_simps, simp_all add: reg_new_defs reg_payload_defs)

interpretation adc_differential1: item_codec TADC_Differential1_new TADC_Differential1_calcPayload 2 "\<lambda>_. True"
  by unfold_locales (simp_all add: byte_simps,
      simp_all add: TADC_Differential1_new_def TADC_Differential1_calcPayload_def)

interpretation adc_range1: item_codec TADC_Range1_new TADC_Range1_calcPayload 2 "\<lambda>_. True"
  by unfold_locales (simp_all add: byte_simps, simp_all add: TADC_Range1_new_def TADC_Range1_calcPayload_def)

interpretation adc_all8: item_codec TADC_All8_new TADC_All8_calcPayload 8 "\<lambda>p. length (settings p) = 8"
  by unfold_locales (simp_all add: byte_simps,
      simp_all add: TADC_All8_new_def TADC_All8_calcPayload_def u8_list_8 Let_def)

interpretation adc_span1: item_codec TADC_Span1_new TADC_Span1_calcPayload 5 "\<lambda>_. True"
  by unfold_locales (simp_all add: byte_simps, simp_all add: TADC_Span1_new_def TADC_Span1_calcPayload_def)

interpretation adc_calibration1: item_codec TADC_Calibration1_new TADC_Calibration1_calcPayload 9 "\<lambda>_. True"
  by unfold_locales (simp_all add: byte_simps,
      simp_all add: TADC_Calibration1_new_def TADC_Calibration1_calcPayload_def)

text \<open>Arrays of floats: the chunk at an index is the element at that index.\<close>

lemma chunk_of_concat:
  assumes "\<And>j. j < n \<Longrightarrow> length (f j) = k" and "i < n"
  shows "take k (drop (i * k) (concat (map f [0..<n]))) = f i"
  using assms
proof (induction n)
  case (Suc n)
  have len: "length (concat (map f [0..<n])) = n * k"
    using Suc.prems(1) by (induction n) simp_all
  show ?case
  proof (cases "i = n")
    case True
    then show ?thesis using len Suc.prems(1) [of n] by simp
  next
    case False
    then have i: "i < n" using Suc.prems(2) by simp
    then have "i * k + k \<le> n * k" by (metis Suc_leI add.commute mult_Suc mult_le_mono1)
    then show ?thesis using Suc.IH [OF _ i] Suc.prems(1) len by simp
  qed
qed simp

lemma float_at_concat:
  "i < n \<Longrightarrow> float_at (concat (map (\<lambda>j. stuff [] (f j :: f32)) [0..<n])) i = f i"
  using chunk_of_concat [of n "\<lambda>j. stuff [] (f j)" 4 i] by (simp add: float_at_def)

lemma f32_list_8: "length xs = 8 \<Longrightarrow> map (\<lambda>i. xs ! i) [0..<8] = xs"
  by (rule nth_equalityI) auto

lemma length_floats: "length (concat (map (\<lambda>j. stuff [] (f j :: f32)) [0..<n])) = 4 * n"
  by (induction n) simp_all

interpretation adc_span_all: item_codec TADC_SpanAll_new TADC_SpanAll_calcPayload 32 "\<lambda>p. length (spans p) = 8"
proof unfold_locales
  fix p :: ADC_SpanAllParams and g
  assume ok: "length (spans p) = 8"
  have "map (float_at (concat (map (\<lambda>i. stuff [] (spans p ! i)) [0..<8]))) [0..<8] = map (\<lambda>i. spans p ! i) [0..<8]"
    by (intro map_cong refl float_at_concat) simp
  then show "TADC_SpanAll_new g (TADC_SpanAll_calcPayload p False) = p"
    using ok length_floats [of "\<lambda>i. spans p ! i" 8]
    by (simp add: TADC_SpanAll_new_def TADC_SpanAll_calcPayload_def f32_list_8 Let_def del: upt.simps upt_conv_Cons)
  show "length (TADC_SpanAll_calcPayload p False) = 32"
    using length_floats [of "\<lambda>i. spans p ! i" 8]
    by (simp add: TADC_SpanAll_calcPayload_def del: upt.simps upt_conv_Cons)
next
  fix data :: TBytes and g
  assume "length data = 32"
  then show "length (spans (TADC_SpanAll_new g data)) = 8" by (simp add: TADC_SpanAll_new_def)
qed (simp add: byte_simps)

definition interleaved :: "ADC_CalibrationAllParams \<Rightarrow> nat \<Rightarrow> f32" where
  "interleaved p j = (if even j then cal_scales p ! (j div 2) else cal_offsets p ! (j div 2))"

lemma CalibrationAll_interleaved:
  "TADC_CalibrationAll_calcPayload p r = concat (map (\<lambda>j. stuff [] (interleaved p j)) [0..<16])"
  using concat_pairs [of "\<lambda>j. stuff [] (interleaved p j)" 8]
  by (simp add: TADC_CalibrationAll_calcPayload_def interleaved_def del: upt.simps upt_conv_Cons)

interpretation adc_calibration_all: item_codec TADC_CalibrationAll_new TADC_CalibrationAll_calcPayload 64
  "\<lambda>p. length (cal_scales p) = 8 \<and> length (cal_offsets p) = 8"
proof unfold_locales
  fix p :: ADC_CalibrationAllParams and g
  assume ok: "length (cal_scales p) = 8 \<and> length (cal_offsets p) = 8"
  let ?d = "TADC_CalibrationAll_calcPayload p False"
  have at: "float_at ?d j = interleaved p j" if "j < 16" for j
    unfolding CalibrationAll_interleaved using that by (rule float_at_concat)
  have "map (\<lambda>i. float_at ?d (2 * i)) [0..<8] = map (\<lambda>i. cal_scales p ! i) [0..<8]"
    "map (\<lambda>i. float_at ?d (2 * i + 1)) [0..<8] = map (\<lambda>i. cal_offsets p ! i) [0..<8]"
    by (intro map_cong refl, simp add: at interleaved_def)+
  moreover show len: "length ?d = 64"
    unfolding CalibrationAll_interleaved using length_floats [of "interleaved p" 16] by simp
  ultimately show "TADC_CalibrationAll_new g ?d = p"
    using ok by (simp add: TADC_CalibrationAll_new_def f32_list_8 Let_def del: upt.simps upt_conv_Cons)
next
  fix data :: TBytes and g
  assume "length data = 64"
  then show "length (cal_scales (TADC_CalibrationAll_new g data)) = 8 \<and> length (cal_offsets (TADC_CalibrationAll_new g data)) = 8"
    by (simp add: TADC_CalibrationAll_new_def)
qed (simp add: byte_simps)

subsection \<open>Errors\<close>

definition TSYS_Error_of :: "u32 \<Rightarrow> TError \<Rightarrow> u32 \<Rightarrow> SYS_ErrorParams" where
  "TSYS_Error_of stage errorCode info = \<lparr>er_Stage = stage, er_ErrorCode = errorCode, er_Info = info\<rparr>"

definition TSYS_ItemError_of :: "u16 \<Rightarrow> TDataId \<Rightarrow> TError \<Rightarrow> u32 \<Rightarrow> SYS_ItemErrorParams" where
  "TSYS_ItemError_of itemIndex originalDid errorCode info =
     \<lparr>ie_ItemIndex = itemIndex, ie_DId = originalDid, ie_ErrorCode = errorCode, ie_Info = info\<rparr>"

interpretation sys_error: item_codec "\<lambda>_. TSYS_Error_new" TSYS_Error_calcPayload 12 "\<lambda>_. True"
  by (unfold_locales, rule sys_error_echo)
    (simp_all add: TSYS_Error_calcPayload_def TSYS_Error_new_def ReadU32LE_def error_payload)

interpretation sys_item_error: item_codec "\<lambda>_. TSYS_ItemError_new" TSYS_ItemError_calcPayload 12 "\<lambda>_. True"
  by (unfold_locales, rule sys_error_echo)
    (simp_all add: TSYS_ItemError_calcPayload_def TSYS_ItemError_new_def ReadU32LE_def ReadU16LE_def
      error_payload)

subsection \<open>Both sides of the wire\<close>

text \<open>
  The items these constructors make. Left out are the two whose request carries a byte nobody has set
  (\<open>TDIO_InputBit\<close>, \<open>TREG_ReadBit\<close>) and \<open>TDIO_Input\<close>, which has no arguments.
\<close>

definition made :: "TDataId \<Rightarrow> item_body \<Rightarrow> TDataItem" where
  "made did b = \<lparr>it_DId = did, it_Data = [], it_resultCode = ERR_SUCCESS, it_body = b\<rparr>"

inductive built :: "TDataItem \<Rightarrow> bool" where
  DIO_Configure: "built (made DId_DIO_Configure (I_DIO (I_Configure (TDIO_Configure_of v))))"
| DIO_Output: "built (made DId_DIO_Output (I_DIO (I_Output (TDIO_Output_of v))))"
| DIO_ConfigureBit: "built (made DId_DIO_ConfigureBit (I_DIO (I_ConfigureBit (TDIO_ConfigureBit_of n d))))"
| DIO_OutputBit: "built (made DId_DIO_OutputBit (I_DIO (I_OutputBit (TDIO_OutputBit_of n d))))"
| DIO_ClearBit: "built (made DId_DIO_ClearBit (I_DIO (I_ClearBit (TDIO_ClearBit_of n))))"
| DIO_SetBit: "built (made DId_DIO_SetBit (I_DIO (I_SetBit (TDIO_SetBit_of n))))"
| DIO_ToggleBit: "built (made DId_DIO_ToggleBit (I_DIO (I_ToggleBit (TDIO_ToggleBit_of n))))"
| REG_Read1: "0 \<le> ofs \<Longrightarrow> TREG_Read1_of ofs = Ok p \<Longrightarrow> built (made DId_REG_Read1 (I_REG (I_Read1 p)))"
| REG_WriteBit: "built (made DId_REG_WriteBit (I_REG (I_WriteBit (TREG_WriteBit_of ofs n d))))"
| REG_ClearBit: "built (made DId_REG_ClearBit (I_REG (I_RegClearBit (TREG_ClearBit_of ofs8 n))))"
| REG_SetBit: "built (made DId_REG_SetBit (I_REG (I_RegSetBit (TREG_SetBit_of ofs8 n))))"
| REG_ToggleBit: "built (made DId_REG_ToggleBit (I_REG (I_RegToggleBit (TREG_ToggleBit_of ofs8 n))))"
| ADC_Differential1: "built (made DId_ADC_Differential1 (I_ADC (I_Differential1 (TADC_Differential1_of n d))))"
| ADC_DifferentialAll: "TADC_DifferentialAll_of xs = Ok p \<Longrightarrow> built (made DId_ADC_DifferentialAll (I_ADC (I_DifferentialAll p)))"
| ADC_Range1: "built (made DId_ADC_Range1 (I_ADC (I_AdcRange1 (TADC_Range1_of n d))))"
| ADC_RangeAll: "TADC_RangeAll_of xs = Ok p \<Longrightarrow> built (made DId_ADC_RangeAll (I_ADC (I_AdcRangeAll p)))"
| ADC_Scale1: "built (made DId_ADC_Scale1 (I_ADC (I_Scale1 (TADC_Scale1_of n f))))"
| ADC_ScaleAll: "TADC_ScaleAll_of fs = Ok p \<Longrightarrow> built (made DId_ADC_ScaleAll (I_ADC (I_ScaleAll p)))"
| ADC_Offset1: "built (made DId_ADC_Offset1 (I_ADC (I_Offset1 (TADC_Offset1_of n f))))"
| ADC_OffsetAll: "TADC_OffsetAll_of fs = Ok p \<Longrightarrow> built (made DId_ADC_OffsetAll (I_ADC (I_OffsetAll p)))"
| ADC_Calibration1: "built (made DId_ADC_Calibration1 (I_ADC (I_Calibration1 (TADC_Calibration1_of n f f2))))"
| ADC_CalibrationAll: "TADC_CalibrationAll_of fs fs2 = Ok p \<Longrightarrow> built (made DId_ADC_CalibrationAll (I_ADC (I_CalibrationAll p)))"
| SYS_Error: "built (made DId_SYS_Error (I_SYS (I_SysError (TSYS_Error_of stage code info))))"
| SYS_ItemError: "built (made DId_SYS_ItemError (I_SYS (I_SysItemError (TSYS_ItemError_of i orig code info))))"

text \<open>The dictionary without its texts and actions.\<close>

definition dict_row :: "TDIdDictEntry \<Rightarrow> u16 \<times> u16 \<times> item_class" where
  "dict_row e = (minLen e, maxLen e, Construct e)"

definition dict_table :: "(TDataId \<times> u16 \<times> u16 \<times> item_class) list" where
  "dict_table = [
     (DId_BRD_group, 0, 0, C_TDataItemDoc), (DId_BRD_Reset, 0, 0, C_TDataItemRaw),
     (DId_BRD_DeviceID, 0, 0, BRD C_TBRD_DeviceID), (DId_BRD_Features, 0, 4, BRD C_TBRD_Features),
     (DId_BRD_FpgaID, 0, 4, BRD C_TBRD_FpgaId), (DId_BRD_Model, 12, 40, BRD C_TBRD_Model),
     (DId_BRD_GetModel, 0, 0, BRD C_TBRD_GetModel),
     (DId_BRD_SerialNumber, 12, 14, BRD C_TBRD_SerialNumber),
     (DId_BRD_GetSerialNumber, 0, 0, BRD C_TBRD_GetSerialNumber),
     (DId_BRD_NumberOfSubmuxes, 1, 1, BRD C_TBRD_NumberOfSubmuxes),
     (DId_BRD_SubmuxScale, 6, 6, BRD C_TBRD_SubmuxScale),
     (DId_BRD_SubmuxOffset, 6, 6, BRD C_TBRD_SubmuxOffset),
     (DId_BRD_GetNumberOfAdcChannels, 0, 0, BRD C_TBRD_GetNumberOfAdcChannels),
     (DId_BRD_GetNumberOfSubmuxes, 0, 0, BRD C_TBRD_GetNumberOfSubmuxes),
     (DId_BRD_GetSubmuxScale, 2, 2, BRD C_TBRD_GetSubmuxScale),
     (DId_BRD_GetSubmuxOffset, 2, 2, BRD C_TBRD_GetSubmuxOffset), (DId_BRD_REBOOT, 8, 8, C_TDataItemRaw),
     (DId_REG_group, 0, 0, C_TDataItemDoc), (DId_REG_Read1, 1, 1, REG C_TREG_Read1),
     (DId_REG_ReadBuf, 0, 0, C_TDataItemNYI), (DId_REG_Write1, 2, 5, REG C_TREG_Write1),
     (DId_REG_WriteBuf, 0, 0, C_TDataItemNYI), (DId_REG_ClearBits, 2, 5, C_TDataItemRaw),
     (DId_REG_SetBits, 2, 5, C_TDataItemRaw), (DId_REG_ToggleBits, 2, 5, C_TDataItemRaw),
     (DId_REG_ReadBit, 2, 2, REG C_TREG_ReadBit), (DId_REG_WriteBit, 3, 3, REG C_TREG_WriteBit),
     (DId_REG_ClearBit, 2, 2, REG C_TREG_ClearBit), (DId_REG_SetBit, 2, 2, REG C_TREG_SetBit),
     (DId_REG_ToggleBit, 2, 2, REG C_TREG_ToggleBit), (DId_DAC_group, 0, 0, C_TDataItemDoc),
     (DId_DAC_Output1, 3, 5, DAC C_TDAC_Output), (DId_DAC_Output1V, 3, 5, DAC C_TDAC_OutputV),
     (DId_DAC_Range1, 5, 5, DAC C_TDAC_Range1), (DId_DAC_Calibrate1, 9, 9, C_TDataItemRaw),
     (DId_DAC_Offset1, 5, 5, C_TDataItemRaw), (DId_DAC_OffsetAll, 8, 16, C_TDataItemRaw),
     (DId_DAC_Scale1, 5, 5, C_TDataItemRaw), (DId_DAC_ScaleAll, 8, 16, C_TDataItemRaw),
     (DId_DAC_Configure1, 0, 0, C_TDataItemNYI), (DId_DAC_ConfigAndOutput1, 0, 0, C_TDataItemNYI),
     (DId_DIO_group, 0, 0, C_TDataItemDoc), (DId_DIO_ConfigureBit, 2, 2, DIO C_TDIO_ConfigureBit),
     (DId_DIO_Configure, 2, 2, DIO C_TDIO_Configure), (DId_DIO_InputBit, 1, 1, DIO C_TDIO_InputBit),
     (DId_DIO_Input, 0, 0, DIO C_TDIO_Input), (DId_DIO_OutputBit, 2, 2, DIO C_TDIO_OutputBit),
     (DId_DIO_Output, 2, 2, DIO C_TDIO_Output),
     (DId_DIO_ConfigureReadWriteReadSome, 0, 0, C_TDataItemNYI),
     (DId_DIO_ClearBit, 1, 1, DIO C_TDIO_ClearBit), (DId_DIO_SetBit, 1, 1, DIO C_TDIO_SetBit),
     (DId_DIO_ToggleBit, 1, 1, DIO C_TDIO_ToggleBit), (DId_DIO_PulseBit, 0, 0, C_TDataItemNYI),
     (DId_PWM_group, 0, 0, C_TDataItemDoc), (DId_PWM_Configure1, 0, 0, C_TDataItemNYI),
     (DId_PWM_Input1, 0, 0, C_TDataItemNYI), (DId_PWM_Output1, 0, 0, C_TDataItemNYI),
     (DId_ADC_group, 0, 0, C_TDataItemDoc), (DId_ADC_Claim, 0, 0, C_TDataItemNYI),
     (DId_ADC_Release, 0, 0, C_TDataItemNYI), (DId_ADC_BaseClock, 0, 4, ADC C_TADC_BaseClock),
     (DId_ADC_StartHz, 4, 4, C_TDataItemRaw), (DId_ADC_StartDivisor, 4, 4, C_TDataItemRaw),
     (DId_ADC_ConfigurationOfEverything, 0, 0, C_TDataItemNYI),
     (DId_ADC_Differential1, 2, 2, ADC C_TADC_Differential1),
     (DId_ADC_DifferentialAll, 8, 8, ADC C_TADC_DifferentialAll),
     (DId_ADC_Range1, 2, 2, ADC C_TADC_Range1), (DId_ADC_RangeAll, 8, 8, ADC C_TADC_RangeAll),
     (DId_ADC_Calibration1, 9, 9, ADC C_TADC_Calibration1),
     (DId_ADC_CalibrationAll, 64, 64, ADC C_TADC_CalibrationAll),
     (DId_ADC_Scale1, 5, 5, ADC C_TADC_Scale1), (DId_ADC_ScaleAll, 32, 32, ADC C_TADC_ScaleAll),
     (DId_ADC_Offset1, 5, 5, ADC C_TADC_Offset1), (DId_ADC_OffsetAll, 32, 32, ADC C_TADC_OffsetAll),
     (DId_ADC_Volts1, 0, 0, C_TDataItemNYI), (DId_ADC_VoltsAll, 0, 0, ADC C_TADC_VoltsAll),
     (DId_ADC_Counts1, 0, 0, C_TDataItemNYI), (DId_ADC_CountsAll, 0, 0, ADC C_TADC_CountsAll),
     (DId_ADC_Raw1, 0, 0, C_TDataItemNYI), (DId_ADC_RawAll, 0, 0, ADC C_TADC_RawAll),
     (DId_ADC_StreamStart, 4, 4, ADC C_TADC_StreamStart),
     (DId_ADC_StreamStop, 0, 0, ADC C_TADC_StreamStop), (DId_SCRIPT_Pause, 0, 0, C_TDataItemNYI),
     (DId_WDG_group, 0, 0, C_TDataItemDoc), (DId_DEF_group, 0, 0, C_TDataItemDoc),
     (DId_SERVICE_group, 0, 0, C_TDataItemDoc), (DId_TCP_group, 0, 0, C_TDataItemDoc),
     (DId_TCP_ConnectionID, 4, 4, C_TDataItemRaw), (DId_PNP_group, 0, 0, C_TDataItemDoc),
     (DId_CFG_group, 0, 0, C_TDataItemDoc), (DId_CFG_Hostname, 1, 253, CFG C_TCFG_Hostname),
     (DId_SYS_UploadFileName, 1, 255, SYS C_TSYS_UploadFileName),
     (DId_SYS_UploadFileData, 1, 65534, SYS C_TSYS_UploadFileData),
     (DId_SYS_Error, 0, 12, SYS C_TSYS_Error), (DId_SYS_ItemError, 0, 12, SYS C_TSYS_ItemError),
     (DId_INVALID, 0, 0, C_TDataItemRaw), (DId_DOC_Get, 0, 0, C_TDataItemDocGet)]"

lemma dict_table: "map (\<lambda>(d, e). (d, dict_row e)) DIdDict = dict_table"
  by (simp add: DIdDict_def dict_row_def dict_table_def)

definition takes :: "TDataId \<Rightarrow> nat \<Rightarrow> item_class \<Rightarrow> bool" where
  "takes did n k = (case map_of dict_table did of
     None \<Rightarrow> False | Some (lo, hi, k') \<Rightarrow> unat lo \<le> n \<and> n \<le> unat hi \<and> k' = k)"

lemma takes_find:
  "takes did n k \<Longrightarrow> \<exists>e. find_DId did = Some e \<and> unat (minLen e) \<le> n \<and> n \<le> unat (maxLen e) \<and> Construct e = k"
  by (auto simp: takes_def find_DId_def dict_row_def map_of_map simp flip: dict_table split: option.splits)

lemma takes_built:
  "takes DId_DIO_Configure 2 (DIO C_TDIO_Configure)"
  "takes DId_DIO_Output 2 (DIO C_TDIO_Output)"
  "takes DId_DIO_ConfigureBit 2 (DIO C_TDIO_ConfigureBit)"
  "takes DId_DIO_OutputBit 2 (DIO C_TDIO_OutputBit)"
  "takes DId_DIO_ClearBit 1 (DIO C_TDIO_ClearBit)"
  "takes DId_DIO_SetBit 1 (DIO C_TDIO_SetBit)"
  "takes DId_DIO_ToggleBit 1 (DIO C_TDIO_ToggleBit)"
  "takes DId_REG_Read1 1 (REG C_TREG_Read1)"
  "takes DId_REG_WriteBit 3 (REG C_TREG_WriteBit)"
  "takes DId_REG_ClearBit 2 (REG C_TREG_ClearBit)"
  "takes DId_REG_SetBit 2 (REG C_TREG_SetBit)"
  "takes DId_REG_ToggleBit 2 (REG C_TREG_ToggleBit)"
  "takes DId_ADC_Differential1 2 (ADC C_TADC_Differential1)"
  "takes DId_ADC_DifferentialAll 8 (ADC C_TADC_DifferentialAll)"
  "takes DId_ADC_Range1 2 (ADC C_TADC_Range1)"
  "takes DId_ADC_RangeAll 8 (ADC C_TADC_RangeAll)"
  "takes DId_ADC_Scale1 5 (ADC C_TADC_Scale1)"
  "takes DId_ADC_ScaleAll 32 (ADC C_TADC_ScaleAll)"
  "takes DId_ADC_Offset1 5 (ADC C_TADC_Offset1)"
  "takes DId_ADC_OffsetAll 32 (ADC C_TADC_OffsetAll)"
  "takes DId_ADC_Calibration1 9 (ADC C_TADC_Calibration1)"
  "takes DId_ADC_CalibrationAll 64 (ADC C_TADC_CalibrationAll)"
  "takes DId_SYS_Error 12 (SYS C_TSYS_Error)"
  "takes DId_SYS_ItemError 12 (SYS C_TSYS_ItemError)"
  by (simp_all add: takes_def dict_table_def)

lemma eight_Ok: "eight xs = Ok ys \<longleftrightarrow> 8 \<le> length xs \<and> ys = take 8 xs"
  by (auto simp: eight_def)

lemma decodes:
  assumes "takes did (length data) k" and "length data \<le> 65534" and "calcPayload F c (made did b) False = data"
    and "body_construct E k data s = (Ok ([], b), s)"
  shows "fromBytes E (fst (AsBytes F c (made did b) False)) s = (Ok (made did b, ERR_SUCCESS), s\<lparr>allocs := Suc (allocs s)\<rparr>)"
proof -
  obtain e where e: "find_DId did = Some e" "unat (minLen e) \<le> length data" "length data \<le> unat (maxLen e)" "Construct e = k"
    using takes_find [OF assms(1)] by blast
  let ?b = "stuff [] did @ stuff [] (of_nat (length data) :: u16) @ data"
  have bytes: "fst (AsBytes F c (made did b) False) = ?b"
    using assms(3) by (simp add: AsBytes_def Let_def made_def stuff_append [of "stuff [] _"])
  have n: "unat (of_nat (length data) :: u16) = length data"
    using assms(2) by (simp add: unsigned_of_nat take_bit_nat_eq_self)
  have head: "head_DId ?b = did" "unat (head_dataLength ?b) = length data" "drop 4 ?b = data" "length ?b = 4 + length data"
    using n by simp_all
  have "construct E k did data s = (Ok (made did b), s\<lparr>allocs := Suc (allocs s)\<rparr>)"
    using assms(4) by (simp add: construct_def made_def)
  then show ?thesis
    unfolding bytes using fromBytes_complete [of ?b e E s] head e by (simp add: mapS_def)
qed

lemma dio_decodes:
  assumes "takes did n (DIO k)" and "length (dio_calcPayload i False) = n" and "n \<le> 65534"
    and "\<And>g. dio_construct k g (dio_calcPayload i False) = i"
  shows "fromBytes E (fst (AsBytes F c (made did (I_DIO i)) False)) s =
    (Ok (made did (I_DIO i), ERR_SUCCESS), s\<lparr>allocs := Suc (allocs s)\<rparr>)"
  by (rule decodes [where k = "DIO k" and data = "dio_calcPayload i False"]) (use assms in \<open>simp_all add: calcPayload_def made_def\<close>)

lemma reg_decodes:
  assumes "takes did n (REG k)" and "length (reg_calcPayload i False) = n" and "n \<le> 65534"
    and "\<And>g. reg_construct k g (reg_calcPayload i False) = Ok i"
  shows "fromBytes E (fst (AsBytes F c (made did (I_REG i)) False)) s =
    (Ok (made did (I_REG i), ERR_SUCCESS), s\<lparr>allocs := Suc (allocs s)\<rparr>)"
  by (rule decodes [where k = "REG k" and data = "reg_calcPayload i False"]) (use assms in \<open>simp_all add: calcPayload_def made_def\<close>)

lemma adc_decodes:
  assumes "takes did n (ADC k)" and "length (adc_calcPayload i False) = n" and "n \<le> 65534"
    and "\<And>g. adc_construct k g (adc_calcPayload i False) (adc s) = (Ok i, adc s)"
  shows "fromBytes E (fst (AsBytes F c (made did (I_ADC i)) False)) s =
    (Ok (made did (I_ADC i), ERR_SUCCESS), s\<lparr>allocs := Suc (allocs s)\<rparr>)"
  by (rule decodes [where k = "ADC k" and data = "adc_calcPayload i False"]) (use assms in \<open>simp_all add: calcPayload_def made_def\<close>)

lemma sys_decodes:
  assumes "takes did n (SYS k)" and "length (sys_calcPayload i [] False) = n" and "n \<le> 65534"
    and "sys_construct k (cwd E) (sys_calcPayload i [] False) = Ok ([], i)"
  shows "fromBytes E (fst (AsBytes F c (made did (I_SYS i)) False)) s =
    (Ok (made did (I_SYS i), ERR_SUCCESS), s\<lparr>allocs := Suc (allocs s)\<rparr>)"
  by (rule decodes [where k = "SYS k" and data = "sys_calcPayload i [] False"]) (use assms in \<open>simp_all add: calcPayload_def made_def\<close>)

lemma widthFromOffset_range: "widthFromOffset ofs \<noteq> 0 \<Longrightarrow> ofs < 256"
  by (auto simp: widthFromOffset_def split: if_splits)

lemma Read1_decode:
  assumes "0 \<le> ofs" and "TREG_Read1_of ofs = Ok p"
  shows "TREG_Read1_new (TREG_Read1_calcPayload p False) = p \<and> length (TREG_Read1_calcPayload p False) = 1"
proof -
  have w: "widthFromOffset ofs \<noteq> 0" and p: "p = \<lparr>r1_offset = ofs, r1_width = widthFromOffset ofs, r1_regVal = 0\<rparr>"
    using assms(2) by (auto simp: TREG_Read1_of_def TREG_Read1_setOffset_def Let_def split: if_splits)
  have "uint (word_of_int ofs :: u8) = ofs"
    using assms(1) widthFromOffset_range [OF w] by (simp add: uint_word_of_int_eq take_bit_int_eq_self)
  then show ?thesis
    unfolding p by (simp add: TREG_Read1_calcPayload_def TREG_Read1_new_def TDataItem_params_def upt_rec Let_def)
qed

lemmas codecs =
  dio_configure.decode_encode dio_output.decode_encode dio_configure_bit.decode_encode dio_output_bit.decode_encode
  dio_bit.decode_encode reg_write_bit.decode_encode reg_bit.decode_encode adc_differential1.decode_encode
  adc_range1.decode_encode adc_all8.decode_encode adc_span1.decode_encode adc_calibration1.decode_encode
  adc_span_all.decode_encode adc_calibration_all.decode_encode sys_error.decode_encode sys_item_error.decode_encode

lemmas codec_lengths =
  dio_configure.encode_length dio_output.encode_length dio_configure_bit.encode_length dio_output_bit.encode_length
  dio_bit.encode_length reg_write_bit.encode_length reg_bit.encode_length adc_differential1.encode_length
  adc_range1.encode_length adc_all8.encode_length adc_span1.encode_length adc_calibration1.encode_length
  adc_span_all.encode_length adc_calibration_all.encode_length sys_error.encode_length sys_item_error.encode_length

lemmas array_ofs = TADC_DifferentialAll_of_def TADC_RangeAll_of_def TADC_ScaleAll_of_def TADC_OffsetAll_of_def
  TADC_CalibrationAll_of_def



end
