(* ===== verification/ItemText.thy ===== *)
theory ItemText
  imports ServerRun
begin

text \<open>
  The human-readable texts of items and messages (every \<open>AsString\<close>), which the server builds for its log: for
  every item it parses, and for the greeting it sends. The texts are built whether or not the log line is
  written, so a text that is not defined would be a failure of the parser.
\<close>

subsection \<open>Streams of text\<close>

text \<open>
  A stream with \<open>std::hex\<close> writes lower-case digits, and a width pads on the left with the fill character. How a
  \<open>float\<close> is written, by a stream and by \<open>std::to_string\<close>, belongs to the C++ library.
\<close>

record float_text =
  stream_float :: "f32 \<Rightarrow> string"
  to_string_float :: "f32 \<Rightarrow> string"

definition setw :: "char \<Rightarrow> nat \<Rightarrow> string \<Rightarrow> string" where
  "setw fill w s = replicate (w - length s) fill @ s"

definition hex_out :: "nat \<Rightarrow> nat \<Rightarrow> string" where
  "hex_out w n = setw CHR ''0'' w (to_chars 16 n)"

definition eight_of :: "string \<Rightarrow> (nat \<Rightarrow> string) \<Rightarrow> string" where
  "eight_of sep f = concat (map (\<lambda>i. f i @ (if i < 7 then sep else [])) [0..<8])"

abbreviation (input) u8_out :: "u8 \<Rightarrow> string" where "u8_out b \<equiv> to_string (unat b)"

text \<open>\<open>to_hex\<close> of bytes: two upper-case digits each, and a space between two bytes unless it is not wanted.\<close>

fun to_hex_bytes :: "TBytes \<Rightarrow> bool \<Rightarrow> string" where
  "to_hex_bytes [] spaced = []"
| "to_hex_bytes [b] spaced = map toupper (hex_out 2 (unat b))"
| "to_hex_bytes (b # c # bs) spaced =
     map toupper (hex_out 2 (unat b)) @ (if spaced then '' '' else []) @ to_hex_bytes (c # bs) spaced"

subsection \<open>Digital lines\<close>

definition TDIO_Configure_AsString :: "TDIO_WordParams \<Rightarrow> bool \<Rightarrow> string" where
  "TDIO_Configure_AsString p bAsReply =
     ''TDIO_Configure(value=0x'' @ hex_out 4 (unat (dio_value p)) @ '')''"

definition TDIO_Output_AsString :: "TDIO_WordParams \<Rightarrow> bool \<Rightarrow> string" where
  "TDIO_Output_AsString p bAsReply =
     ''TDIO_Output(value=0x'' @ hex_out 4 (unat (dio_value p)) @ '')''"

definition TDIO_Input_AsString :: "TDIO_WordParams \<Rightarrow> bool \<Rightarrow> string" where
  "TDIO_Input_AsString p bAsReply =
     ''TDIO_Input('' @ (if bAsReply then ''value=0x'' @ hex_out 4 (unat (dio_value p)) else ''pending'') @ '')''"

definition TDIO_ConfigureBit_AsString :: "DIO_ConfigureBitParams \<Rightarrow> bool \<Rightarrow> string" where
  "TDIO_ConfigureBit_AsString p bAsReply =
     ''TDIO_ConfigureBit(bitNumber='' @ u8_out (cb_bitNumber p) @ '', direction='' @ u8_out (cb_direction p) @ '')''"

definition TDIO_InputBit_AsString :: "DIO_InputBitParams \<Rightarrow> bool \<Rightarrow> string" where
  "TDIO_InputBit_AsString p bAsReply =
     ''TDIO_InputBit(bitNumber='' @ u8_out (ib_bitNumber p)
       @ (if bAsReply then '', value='' @ u8_out (ib_bitValue p) else []) @ '')''"

definition TDIO_OutputBit_AsString :: "DIO_OutputBitParams \<Rightarrow> bool \<Rightarrow> string" where
  "TDIO_OutputBit_AsString p bAsReply =
     ''DIO_OutputBit(bitNumber='' @ u8_out (ob_bitNumber p) @ '', value='' @ u8_out (ob_value p) @ '')''"

definition TDIO_ClearBit_AsString :: "DIO_BitParams \<Rightarrow> bool \<Rightarrow> string" where
  "TDIO_ClearBit_AsString p bAsReply =
     ''TDIO_ClearBit(bitNumber='' @ u8_out (bit_bitNumber p) @ '')''"

definition TDIO_SetBit_AsString :: "DIO_BitParams \<Rightarrow> bool \<Rightarrow> string" where
  "TDIO_SetBit_AsString p bAsReply =
     ''TDIO_SetBit(bitNumber='' @ u8_out (bit_bitNumber p) @ '')''"

definition TDIO_ToggleBit_AsString :: "DIO_BitParams \<Rightarrow> bool \<Rightarrow> string" where
  "TDIO_ToggleBit_AsString p bAsReply =
     ''TDIO_ToggleBit(bitNumber='' @ u8_out (bit_bitNumber p) @ '')''"

subsection \<open>Registers\<close>

text \<open>The value is the word behind the pointer of \<open>getResultValue\<close>; the fill character stays set.\<close>

definition TREG_Read1_AsString :: "REG_Read1Params \<Rightarrow> bool \<Rightarrow> string" where
  "TREG_Read1_AsString p bAsReply =
     ''REG_Read1('' @ hex_out 2 (unat (word_of_int (r1_offset p) :: u32)) @ '')''
       @ (if bAsReply
          then '' '' @ arrow @ '' '' @ (if r1_width p = 8 then hex_out 2 (unat (r1_regVal p AND 0xFF))
                                 else hex_out 8 (unat (r1_regVal p)))
          else [])"

definition TREG_Writes_AsString :: "REG_WritesParams \<Rightarrow> bool \<Rightarrow> string" where
  "TREG_Writes_AsString p bAsReply =
     concat (map (\<lambda>aWrite. ''REG_Write1('' @ hex_out 2 (unat (w_offset aWrite)) @ '', ''
       @ hex_out (unat (w_width aWrite) div 8 * 2) (unat (w_value aWrite)) @ ''); '') (Writes p))"

definition TREG_ReadBit_AsString :: "REG_ReadBitParams \<Rightarrow> bool \<Rightarrow> string" where
  "TREG_ReadBit_AsString p bAsReply =
     ''TREG_ReadBit(offset=0x'' @ hex_out 2 (unat (rb_offset p)) @ '', bitIndex='' @ u8_out (rb_bitIndex p)
       @ (if bAsReply then '', value='' @ u8_out (rb_bitValue p) else []) @ '')''"

definition TREG_WriteBit_AsString :: "REG_WriteBitParams \<Rightarrow> bool \<Rightarrow> string" where
  "TREG_WriteBit_AsString p bAsReply =
     ''TREG_WriteBit(offset=0x'' @ hex_out 2 (unat (wb_offset p)) @ '', bitIndex='' @ u8_out (wb_bitIndex p)
       @ '', value='' @ u8_out (wb_value p) @ '')''"

definition TREG_ClearBit_AsString :: "REG_BitParams \<Rightarrow> bool \<Rightarrow> string" where
  "TREG_ClearBit_AsString p bAsReply =
     ''TREG_ClearBit(offset=0x'' @ hex_out 2 (unat (rg_offset p)) @ '', bitIndex='' @ u8_out (rg_bitIndex p) @ '')''"

definition TREG_SetBit_AsString :: "REG_BitParams \<Rightarrow> bool \<Rightarrow> string" where
  "TREG_SetBit_AsString p bAsReply =
     ''TREG_SetBit(offset=0x'' @ hex_out 2 (unat (rg_offset p)) @ '', bitIndex='' @ u8_out (rg_bitIndex p) @ '')''"

definition TREG_ToggleBit_AsString :: "REG_BitParams \<Rightarrow> bool \<Rightarrow> string" where
  "TREG_ToggleBit_AsString p bAsReply =
     ''TREG_ToggleBit(offset=0x'' @ hex_out 2 (unat (rg_offset p)) @ '', bitIndex='' @ u8_out (rg_bitIndex p) @ '')''"

subsection \<open>Analogue outputs\<close>

definition TDAC_Output_AsString :: "TDataId \<Rightarrow> TDAC_Output \<Rightarrow> bool \<Rightarrow> string res" where
  "TDAC_Output_AsString did p bAsReply =
     bindR (getDIdDesc did) (\<lambda>desc. Ok (''DAC_Output('' @ u8_out (dacChannel p) @ '', 0x'' @ to_hex (dacCounts p)
       @ '') '' @ desc))"

definition TDAC_OutputV_AsString :: "TDataId \<Rightarrow> TDAC_Output \<Rightarrow> bool \<Rightarrow> string res" where
  "TDAC_OutputV_AsString did p bAsReply =
     bindR (getDIdDesc did) (\<lambda>desc. Ok (''DAC_Output('' @ u8_out (dacChannel p) @ '', 0x'' @ to_hex (dacCounts p)
       @ '') '' @ desc))"

definition TDAC_Range1_AsString :: "TDAC_Range1 \<Rightarrow> bool \<Rightarrow> string" where
  "TDAC_Range1_AsString p bAsReply =
     ''DAC_Range1('' @ u8_out (rng_dacChannel p) @ '',0x'' @ to_hex (rng_dacRange p) @ '')''"

subsection \<open>Board\<close>

text \<open>The generic text of a read-only value, which its three classes replace.\<close>

definition TReadOnlyConfig_AsString :: "TDataId \<Rightarrow> 'a::len word ReadOnlyConfigParams \<Rightarrow> bool \<Rightarrow> string" where
  "TReadOnlyConfig_AsString did p bAsReply =
     (case find_DId did of None \<Rightarrow> ''Unknown TReadOnlyConfig DId='' @ to_string (unat did)
      | Some e \<Rightarrow> if bAsReply then desc e @ '' '' @ arrow @ '' '' @ to_hex (ro_config p) else desc e)"

definition TBRD_FpgaId_AsString :: "u32 ReadOnlyConfigParams \<Rightarrow> bool \<Rightarrow> string" where
  "TBRD_FpgaId_AsString p bAsReply =
     ''BRD_FpgaId() '' @ (if bAsReply then arrow else ''?'') @ '' '' @ to_hex (ro_config p)"

definition TBRD_DeviceID_AsString :: "u16 ReadOnlyConfigParams \<Rightarrow> bool \<Rightarrow> string" where
  "TBRD_DeviceID_AsString p bAsReply =
     ''BRD_DeviceID() '' @ (if bAsReply then arrow else ''?'') @ '' '' @ to_hex (ro_config p)"

definition TBRD_Features_AsString :: "u8 ReadOnlyConfigParams \<Rightarrow> bool \<Rightarrow> string" where
  "TBRD_Features_AsString p bAsReply =
     ''BRD_Features() '' @ (if bAsReply then arrow else ''?'') @ '' '' @ to_hex (ro_config p)"

definition TBRD_Model_AsString :: "TConfig \<Rightarrow> TBytes \<Rightarrow> bool \<Rightarrow> string" where
  "TBRD_Model_AsString c rawBytes bAsReply =
     (if bAsReply then ''BRD_Model() '' @ arrow @ '' '' @ [CHR 0x22] @ Model c @ [CHR 0x22]
      else ''BRD_Model('' @ [CHR 0x22] @ bytes_string rawBytes @ [CHR 0x22] @ '')'')"

definition TBRD_GetModel_AsString :: "TConfig \<Rightarrow> bool \<Rightarrow> string" where
  "TBRD_GetModel_AsString c bAsReply =
     ''BRD_GetModel()'' @ (if bAsReply then '' '' @ arrow @ '' '' @ [CHR 0x22] @ Model c @ [CHR 0x22] else [])"

definition TBRD_SerialNumber_AsString :: "TConfig \<Rightarrow> TBytes \<Rightarrow> bool \<Rightarrow> string" where
  "TBRD_SerialNumber_AsString c rawBytes bAsReply =
     (if bAsReply then ''BRD_SerialNumber() '' @ arrow @ '' '' @ [CHR 0x22] @ SerialNumber c @ [CHR 0x22]
      else ''BRD_SerialNumber('' @ [CHR 0x22] @ bytes_string rawBytes @ [CHR 0x22] @ '')'')"

definition TBRD_GetSerialNumber_AsString :: "TConfig \<Rightarrow> bool \<Rightarrow> string" where
  "TBRD_GetSerialNumber_AsString c bAsReply =
     ''BRD_GetSerialNumber()'' @ (if bAsReply then '' '' @ arrow @ '' '' @ [CHR 0x22] @ SerialNumber c @ [CHR 0x22] else [])"

definition TBRD_GetNumberOfAdcChannels_AsString :: "TConfig \<Rightarrow> bool \<Rightarrow> string" where
  "TBRD_GetNumberOfAdcChannels_AsString c bAsReply =
     ''BRD_GetNumberOfAdcChannels()'' @ (if bAsReply then '' -> '' else '' ? '') @ u8_out (adcChannels c)"

definition TBRD_NumberOfSubmuxes_AsString :: "NumberOfSubmuxParams \<Rightarrow> bool \<Rightarrow> string" where
  "TBRD_NumberOfSubmuxes_AsString p bAsReply =
     ''TBRD_NumberOfSubmuxes('' @ u8_out (ns_value p) @ '')''"

definition TBRD_GetNumberOfSubmuxes_AsString :: "NumberOfSubmuxParams \<Rightarrow> bool \<Rightarrow> string" where
  "TBRD_GetNumberOfSubmuxes_AsString p bAsReply =
     ''TBRD_GetNumberOfSubmuxes()'' @ (if bAsReply then '' '' @ arrow @ '' '' @ u8_out (ns_value p) else [])"

definition TBRD_SubmuxScale_AsString :: "float_text \<Rightarrow> SubmuxParams \<Rightarrow> bool \<Rightarrow> string" where
  "TBRD_SubmuxScale_AsString T p bAsReply =
     ''TBRD_SubmuxScale[submux '' @ u8_out (sm_submuxIndex p) @ ''][group '' @ u8_out (sm_gainGroupIndex p)
       @ ''] = '' @ to_string_float T (sm_value p)"

definition TBRD_GetSubmuxScale_AsString :: "float_text \<Rightarrow> SubmuxParams \<Rightarrow> bool \<Rightarrow> string" where
  "TBRD_GetSubmuxScale_AsString T p bAsReply =
     ''TBRD_GetSubmuxScale[submux '' @ u8_out (sm_submuxIndex p) @ ''][group '' @ u8_out (sm_gainGroupIndex p)
       @ '']'' @ (if bAsReply then '' '' @ arrow @ '' '' @ stream_float T (sm_value p) else [])"

definition TBRD_SubmuxOffset_AsString :: "float_text \<Rightarrow> SubmuxParams \<Rightarrow> bool \<Rightarrow> string" where
  "TBRD_SubmuxOffset_AsString T p bAsReply =
     ''TBRD_SubmuxOffset[submux '' @ u8_out (sm_submuxIndex p) @ ''][group '' @ u8_out (sm_gainGroupIndex p)
       @ ''] = '' @ to_string_float T (sm_value p)"

definition TBRD_GetSubmuxOffset_AsString :: "float_text \<Rightarrow> SubmuxParams \<Rightarrow> bool \<Rightarrow> string" where
  "TBRD_GetSubmuxOffset_AsString T p bAsReply =
     ''TBRD_GetSubmuxOffset[submux '' @ u8_out (sm_submuxIndex p) @ ''][group '' @ u8_out (sm_gainGroupIndex p)
       @ '']'' @ (if bAsReply then '' '' @ arrow @ '' '' @ stream_float T (sm_value p) else [])"

subsection \<open>Analogue inputs\<close>

definition TADC_BaseClock_AsString :: "ADC_BaseClockParams \<Rightarrow> bool \<Rightarrow> string" where
  "TADC_BaseClock_AsString p bAsReply =
     ''ADC_BaseClock() ? '' @ to_string (unat (baseClock p))"

definition TADC_StreamStart_AsString :: "TDataId \<Rightarrow> ADC_StreamStartParams \<Rightarrow> bool \<Rightarrow> string res" where
  "TADC_StreamStart_AsString did p bAsReply =
     bindR (getDIdDesc did) (\<lambda>msg.
       Ok (if bAsReply then msg @ '', ConnectionID = '' @ to_hex (argConnectionID p) else msg))"

definition TADC_StreamStop_AsString :: "TDataId \<Rightarrow> bool \<Rightarrow> string res" where
  "TADC_StreamStop_AsString did bAsReply =
     getDIdDesc did"

definition TADC_Differential1_AsString :: "ADC_Differential1Params \<Rightarrow> bool \<Rightarrow> string" where
  "TADC_Differential1_AsString p bAsReply =
     ''TADC_Differential1(channelGroup='' @ u8_out (df_channelGroup p) @ '', ''
       @ (if df_singleEnded p \<noteq> 0 then ''single-ended'' else ''differential'') @ '')''"

definition TADC_DifferentialAll_AsString :: "ADC_AllParams \<Rightarrow> bool \<Rightarrow> string" where
  "TADC_DifferentialAll_AsString p bAsReply =
     ''TADC_DifferentialAll(settings=['' @ eight_of '', '' (\<lambda>i. u8_out (settings p ! i)) @ ''])''"

definition TADC_Range1_AsString :: "ADC_Range1Params \<Rightarrow> bool \<Rightarrow> string" where
  "TADC_Range1_AsString p bAsReply =
     ''TADC_Range1(channelGroup='' @ u8_out (ar_channelGroup p) @ '', range=0x'' @ hex_out 2 (unat (ar_range p)) @ '')''"

definition TADC_RangeAll_AsString :: "ADC_AllParams \<Rightarrow> bool \<Rightarrow> string" where
  "TADC_RangeAll_AsString p bAsReply =
     ''TADC_RangeAll(ranges=['' @ eight_of '', '' (\<lambda>i. ''0x'' @ hex_out 0 (unat (settings p ! i))) @ ''])''"

definition TADC_Scale1_AsString :: "float_text \<Rightarrow> ADC_Span1Params \<Rightarrow> bool \<Rightarrow> string" where
  "TADC_Scale1_AsString T p bAsReply =
     ''TADC_Scale1(rangeIndex='' @ u8_out (sp_rangeIndex p) @ '', scale='' @ stream_float T (sp_value p) @ '')''"

definition TADC_ScaleAll_AsString :: "float_text \<Rightarrow> ADC_SpanAllParams \<Rightarrow> bool \<Rightarrow> string" where
  "TADC_ScaleAll_AsString T p bAsReply =
     ''TADC_ScaleAll(scales=['' @ eight_of '', '' (\<lambda>i. stream_float T (spans p ! i)) @ ''])''"

definition TADC_Offset1_AsString :: "float_text \<Rightarrow> ADC_Span1Params \<Rightarrow> bool \<Rightarrow> string" where
  "TADC_Offset1_AsString T p bAsReply =
     ''TADC_Offset1(rangeIndex='' @ u8_out (sp_rangeIndex p) @ '', offset='' @ stream_float T (sp_value p) @ '')''"

definition TADC_OffsetAll_AsString :: "float_text \<Rightarrow> ADC_SpanAllParams \<Rightarrow> bool \<Rightarrow> string" where
  "TADC_OffsetAll_AsString T p bAsReply =
     ''TADC_OffsetAll(offsets=['' @ eight_of '', '' (\<lambda>i. stream_float T (spans p ! i)) @ ''])''"

definition TADC_Calibration1_AsString :: "float_text \<Rightarrow> ADC_Calibration1Params \<Rightarrow> bool \<Rightarrow> string" where
  "TADC_Calibration1_AsString T p bAsReply =
     ''TADC_Calibration1(rangeIndex='' @ u8_out (cal_rangeIndex p) @ '', scale='' @ stream_float T (cal_scale p)
       @ '', offset='' @ stream_float T (cal_offset p) @ '')''"

definition TADC_CalibrationAll_AsString :: "float_text \<Rightarrow> ADC_CalibrationAllParams \<Rightarrow> bool \<Rightarrow> string" where
  "TADC_CalibrationAll_AsString T p bAsReply =
     ''TADC_CalibrationAll('' @ eight_of ''; '' (\<lambda>i. ''range '' @ to_string i @ '': scale='' @
       stream_float T (cal_scales p ! i) @ '', offset='' @ stream_float T (cal_offsets p ! i)) @ '')''"

definition TADC_RawAll_AsString :: "TBytes \<Rightarrow> bool \<Rightarrow> string" where
  "TADC_RawAll_AsString rawBytes bAsReply =
     ''ADC_RawAll()'' @ (if bAsReply then '' -> '' @ to_string (length rawBytes div 4) @ '' u32'' else [])"

definition TADC_CountsAll_AsString :: "TBytes \<Rightarrow> bool \<Rightarrow> string" where
  "TADC_CountsAll_AsString rawBytes bAsReply =
     ''ADC_CountsAll()'' @ (if bAsReply then '' -> '' @ to_string (length rawBytes div 2) @ '' u16'' else [])"

definition TADC_VoltsAll_AsString :: "TBytes \<Rightarrow> bool \<Rightarrow> string" where
  "TADC_VoltsAll_AsString rawBytes bAsReply =
     ''ADC_VoltsAll()'' @ (if bAsReply then '' -> '' @ to_string (length rawBytes div 4) @ '' floats'' else [])"

subsection \<open>Host name, uploads, errors, documentation\<close>

text \<open>The host name is read up to its terminating zero.\<close>

definition TCFG_Hostname_AsString :: "HostnameParams \<Rightarrow> bool \<Rightarrow> string res" where
  "TCFG_Hostname_AsString p bAsReply =
     (if 0 \<in> set (hn_hostname p)
      then Ok (''TCFG_Hostname('' @ [CHR 0x22] @ bytes_string (takeWhile (\<lambda>b. b \<noteq> 0) (hn_hostname p)) @
               [CHR 0x22] @ '')'')
      else Undef)"

definition TSYS_UploadFileName_AsString :: "TDataId \<Rightarrow> bool \<Rightarrow> string res" where
  "TSYS_UploadFileName_AsString did bAsReply = getDIdDesc did"

definition TSYS_UploadFileData_AsString :: "TDataId \<Rightarrow> bool \<Rightarrow> string res" where
  "TSYS_UploadFileData_AsString did bAsReply = getDIdDesc did"

text \<open>The loop over the table of texts, up to its null pointer; the index is the negated argument.\<close>

fun err_msg_loop :: "string list \<Rightarrow> u32 \<Rightarrow> u32 \<Rightarrow> string" where
  "err_msg_loop [] i idx = ''Unknown error''"
| "err_msg_loop (m # ms) i idx = (if i = idx then m else err_msg_loop ms (i + 1) idx)"

definition SafeErrMsgFromCode :: "u32 \<Rightarrow> string" where
  "SafeErrMsgFromCode code = (let idx = - code in err_msg_loop err_msg 0 idx)"

definition TSYS_Error_AsString :: "SYS_ErrorParams \<Rightarrow> bool \<Rightarrow> string" where
  "TSYS_Error_AsString p bAsReply =
     (let idx = - er_ErrorCode p
      in ''SYS_Error(Stage='' @ to_hex (er_Stage p) @ '', ErrorCode='' @ to_hex (er_ErrorCode p)
         @ '' (idx='' @ to_string (unat idx) @ '' '' @ SafeErrMsgFromCode (er_ErrorCode p)
         @ ''), Info='' @ to_hex (er_Info p) @ '')'')"

definition TSYS_ItemError_AsString :: "SYS_ItemErrorParams \<Rightarrow> bool \<Rightarrow> string" where
  "TSYS_ItemError_AsString p bAsReply =
     (let idx = - ie_ErrorCode p
      in ''SYS_ItemError(ItemIndex='' @ to_string (unat (ie_ItemIndex p)) @ '', DId=0x'' @ to_hex (ie_DId p)
         @ '', ErrorCode='' @ to_hex (ie_ErrorCode p) @ '' (idx='' @ to_string (unat idx) @ '' ''
         @ SafeErrMsgFromCode (ie_ErrorCode p) @ ''), Info='' @ to_hex (ie_Info p) @ '')'')"

definition TDataItemDoc_AsString :: "TDataId \<Rightarrow> bool \<Rightarrow> string" where
  "TDataItemDoc_AsString did bAsReply = ''TDataItemDoc(group=0x'' @ hex_out 2 (unat (GetMSB did)) @ '')''"

definition TDataItemDocGet_AsString :: "TDataId \<Rightarrow> bool \<Rightarrow> string" where
  "TDataItemDocGet_AsString did bAsReply = ''TDataItemDocGet(DId=0x'' @ hex_out 4 (unat did) @ '')''"

definition TDataItemNYI_AsString :: "bool \<Rightarrow> string" where
  "TDataItemNYI_AsString bAsReply = ''TDataItemNYI: Not Yet Implemented''"

definition TDataItemRaw_AsString :: "TDataId \<Rightarrow> TBytes \<Rightarrow> bool \<Rightarrow> string res" where
  "TDataItemRaw_AsString did rawBytes bAsReply =
     bindR (getDIdDesc did) (\<lambda>desc.
       Ok (''TDataItemRaw, DId='' @ to_hex did @ '' '' @ desc @ '', size='' @ to_string (length rawBytes)
           @ '': '' @ to_hex_bytes rawBytes True))"

text \<open>The texts of the base class, which every class replaces.\<close>

definition TDataItemBase_AsString :: "TDataItem \<Rightarrow> bool \<Rightarrow> string res" where
  "TDataItemBase_AsString item bAsReply =
     bindR (getDIdDesc (it_DId item)) (\<lambda>desc.
       Ok (desc @ '', Data bytes: '' @ to_string (length (it_Data item)) @ '': ''
           @ concat (map (\<lambda>byt. map toupper (hex_out 2 (unat byt)) @ '' '') (it_Data item))))"

definition AsStringBase :: "TDataItem \<Rightarrow> bool \<Rightarrow> string" where
  "AsStringBase item bAsReply =
     (case find_DId (it_DId item) of Some e \<Rightarrow> desc e | None \<Rightarrow> ''Unknown DId'') @ '' (DId=''
     @ to_string (unat (it_DId item)) @ '')''"

subsection \<open>The virtual function\<close>

fun brd_AsString :: "float_text \<Rightarrow> TConfig \<Rightarrow> brd_item \<Rightarrow> bool \<Rightarrow> string" where
  "brd_AsString T c (I_FpgaId p) r = TBRD_FpgaId_AsString p r"
| "brd_AsString T c (I_DeviceID p) r = TBRD_DeviceID_AsString p r"
| "brd_AsString T c (I_Features p) r = TBRD_Features_AsString p r"
| "brd_AsString T c (I_Model b) r = TBRD_Model_AsString c b r"
| "brd_AsString T c (I_GetModel b) r = TBRD_GetModel_AsString c r"
| "brd_AsString T c (I_SerialNumber b) r = TBRD_SerialNumber_AsString c b r"
| "brd_AsString T c (I_GetSerialNumber b) r = TBRD_GetSerialNumber_AsString c r"
| "brd_AsString T c (I_GetNumberOfAdcChannels p) r = TBRD_GetNumberOfAdcChannels_AsString c r"
| "brd_AsString T c (I_NumberOfSubmuxes p) r = TBRD_NumberOfSubmuxes_AsString p r"
| "brd_AsString T c (I_GetNumberOfSubmuxes p) r = TBRD_GetNumberOfSubmuxes_AsString p r"
| "brd_AsString T c (I_SubmuxScale p) r = TBRD_SubmuxScale_AsString T p r"
| "brd_AsString T c (I_SubmuxOffset p) r = TBRD_SubmuxOffset_AsString T p r"
| "brd_AsString T c (I_GetSubmuxScale p) r = TBRD_GetSubmuxScale_AsString T p r"
| "brd_AsString T c (I_GetSubmuxOffset p) r = TBRD_GetSubmuxOffset_AsString T p r"

fun reg_AsString :: "reg_item \<Rightarrow> bool \<Rightarrow> string" where
  "reg_AsString (I_Read1 p) r = TREG_Read1_AsString p r"
| "reg_AsString (I_Write1 p) r = TREG_Writes_AsString p r"
| "reg_AsString (I_ReadBit p) r = TREG_ReadBit_AsString p r"
| "reg_AsString (I_WriteBit p) r = TREG_WriteBit_AsString p r"
| "reg_AsString (I_RegClearBit p) r = TREG_ClearBit_AsString p r"
| "reg_AsString (I_RegSetBit p) r = TREG_SetBit_AsString p r"
| "reg_AsString (I_RegToggleBit p) r = TREG_ToggleBit_AsString p r"

fun dac_AsString :: "TDataId \<Rightarrow> dac_item \<Rightarrow> bool \<Rightarrow> string res" where
  "dac_AsString did (I_Output1 p) r = TDAC_Output_AsString did p r"
| "dac_AsString did (I_Output1V p) r = TDAC_OutputV_AsString did p r"
| "dac_AsString did (I_DacRange1 p) r = Ok (TDAC_Range1_AsString p r)"

fun dio_AsString :: "dio_item \<Rightarrow> bool \<Rightarrow> string" where
  "dio_AsString (I_Configure p) r = TDIO_Configure_AsString p r"
| "dio_AsString (I_Input p) r = TDIO_Input_AsString p r"
| "dio_AsString (I_Output p) r = TDIO_Output_AsString p r"
| "dio_AsString (I_ConfigureBit p) r = TDIO_ConfigureBit_AsString p r"
| "dio_AsString (I_InputBit p) r = TDIO_InputBit_AsString p r"
| "dio_AsString (I_OutputBit p) r = TDIO_OutputBit_AsString p r"
| "dio_AsString (I_ClearBit p) r = TDIO_ClearBit_AsString p r"
| "dio_AsString (I_SetBit p) r = TDIO_SetBit_AsString p r"
| "dio_AsString (I_ToggleBit p) r = TDIO_ToggleBit_AsString p r"

fun adc_AsString :: "float_text \<Rightarrow> TDataId \<Rightarrow> adc_item \<Rightarrow> bool \<Rightarrow> string res" where
  "adc_AsString T did (I_BaseClock p) r = Ok (TADC_BaseClock_AsString p r)"
| "adc_AsString T did (I_StreamStart p b) r = TADC_StreamStart_AsString did p r"
| "adc_AsString T did I_StreamStop r = TADC_StreamStop_AsString did r"
| "adc_AsString T did (I_Differential1 p) r = Ok (TADC_Differential1_AsString p r)"
| "adc_AsString T did (I_DifferentialAll p) r = Ok (TADC_DifferentialAll_AsString p r)"
| "adc_AsString T did (I_AdcRange1 p) r = Ok (TADC_Range1_AsString p r)"
| "adc_AsString T did (I_AdcRangeAll p) r = Ok (TADC_RangeAll_AsString p r)"
| "adc_AsString T did (I_Scale1 p) r = Ok (TADC_Scale1_AsString T p r)"
| "adc_AsString T did (I_ScaleAll p) r = Ok (TADC_ScaleAll_AsString T p r)"
| "adc_AsString T did (I_Offset1 p) r = Ok (TADC_Offset1_AsString T p r)"
| "adc_AsString T did (I_OffsetAll p) r = Ok (TADC_OffsetAll_AsString T p r)"
| "adc_AsString T did (I_Calibration1 p) r = Ok (TADC_Calibration1_AsString T p r)"
| "adc_AsString T did (I_CalibrationAll p) r = Ok (TADC_CalibrationAll_AsString T p r)"
| "adc_AsString T did (I_RawAll b) r = Ok (TADC_RawAll_AsString b r)"
| "adc_AsString T did (I_CountsAll b) r = Ok (TADC_CountsAll_AsString b r)"
| "adc_AsString T did (I_VoltsAll b) r = Ok (TADC_VoltsAll_AsString b r)"

fun sys_AsString :: "TDataId \<Rightarrow> sys_item \<Rightarrow> bool \<Rightarrow> string res" where
  "sys_AsString did I_UploadFileName r = TSYS_UploadFileName_AsString did r"
| "sys_AsString did I_UploadFileData r = TSYS_UploadFileData_AsString did r"
| "sys_AsString did (I_SysError p) r = Ok (TSYS_Error_AsString p r)"
| "sys_AsString did (I_SysItemError p) r = Ok (TSYS_ItemError_AsString p r)"

definition item_AsString :: "float_text \<Rightarrow> TConfig \<Rightarrow> TDataItem \<Rightarrow> bool \<Rightarrow> string res" where
  "item_AsString T c item r =
     (case it_body item of
        I_Raw b \<Rightarrow> TDataItemRaw_AsString (it_DId item) b r
      | I_NYI b \<Rightarrow> Ok (TDataItemNYI_AsString r)
      | I_Doc \<Rightarrow> Ok (TDataItemDoc_AsString (it_DId item) r)
      | I_DocGet \<Rightarrow> Ok (TDataItemDocGet_AsString (it_DId item) r)
      | I_BRD i \<Rightarrow> Ok (brd_AsString T c i r)
      | I_REG i \<Rightarrow> Ok (reg_AsString i r)
      | I_DAC i \<Rightarrow> dac_AsString (it_DId item) i r
      | I_DIO i \<Rightarrow> Ok (dio_AsString i r)
      | I_ADC i \<Rightarrow> adc_AsString T (it_DId item) i r
      | I_Hostname p \<Rightarrow> TCFG_Hostname_AsString p r
      | I_SYS i \<Rightarrow> sys_AsString (it_DId item) i r)"

text \<open>A message: a heading, and a numbered line for each item. A null item is dereferenced.\<close>

fun item_lines :: "float_text \<Rightarrow> TConfig \<Rightarrow> bool \<Rightarrow> nat \<Rightarrow> TDataItem option list \<Rightarrow> string res" where
  "item_lines T c r itemNumber [] = Ok []"
| "item_lines T c r itemNumber (None # items) = Undef"
| "item_lines T c r itemNumber (Some item # items) =
     bindR (item_AsString T c item r) (\<lambda>line. bindR (item_lines T c r (itemNumber + 1) items) (\<lambda>lines.
       Ok ([CHR 0x0A, CHR 0x09, CHR 0x09] @ ''   '' @ setw CHR '' '' 2 (to_string (itemNumber + 1)) @ '': '' @ line
           @ lines)))"

definition message_AsString :: "float_text \<Rightarrow> TConfig \<Rightarrow> TMessage \<Rightarrow> bool \<Rightarrow> string res" where
  "message_AsString T c m bAsReply =
     bindR (item_lines T c bAsReply 0 (DataItems m)) (\<lambda>lines.
       Ok (''Message = MId: '' @ [CHR 0x27] @ [char_of (unat (Id m))] @ [CHR 0x27] @ '', # DataItems: ''
           @ to_string (length (DataItems m)) @ lines))"

subsection \<open>Texts are defined\<close>

text \<open>
  What an item needs to have a text: an id of the dictionary, or a class that does not look its id up, and a host
  name that ends.
\<close>

definition describable :: "TDataItem \<Rightarrow> bool" where
  "describable item \<longleftrightarrow>
     (find_DId (it_DId item) \<noteq> None \<or> (\<exists>b. it_body item = I_NYI b)) \<and>
     (\<forall>p. it_body item = I_Hostname p \<longrightarrow> 0 \<in> set (hn_hostname p))"

lemma getDIdDesc_known: "find_DId did \<noteq> None \<Longrightarrow> \<exists>t. getDIdDesc did = Ok t"
  by (auto simp: getDIdDesc_def split: option.splits)

lemma describable_text:
  assumes "describable item"
  shows "\<exists>t. item_AsString T c item r = Ok t"
proof (cases "\<exists>b. it_body item = I_NYI b")
  case True
  then show ?thesis by (auto simp: item_AsString_def)
next
  case False
  then have "find_DId (it_DId item) \<noteq> None" using assms by (simp add: describable_def)
  then obtain d where d: "getDIdDesc (it_DId item) = Ok d" using getDIdDesc_known by blast
  have dac: "\<exists>t. dac_AsString (it_DId item) i r = Ok t" for i
    by (cases i) (simp_all add: TDAC_Output_AsString_def TDAC_OutputV_AsString_def d)
  have adc: "\<exists>t. adc_AsString T (it_DId item) i r = Ok t" for i
    by (cases i) (simp_all add: TADC_StreamStart_AsString_def TADC_StreamStop_AsString_def d)
  have sys: "\<exists>t. sys_AsString (it_DId item) i r = Ok t" for i
    by (cases i) (simp_all add: TSYS_UploadFileName_AsString_def TSYS_UploadFileData_AsString_def d)
  show ?thesis
    using assms d dac adc sys
    by (cases "it_body item")
      (simp_all add: item_AsString_def TDataItemRaw_AsString_def TCFG_Hostname_AsString_def describable_def)
qed

lemma construct_body:
  assumes "construct E k did b s = (Ok item, s')" and "it_body item = I_Hostname p"
  shows "0 \<in> set (hn_hostname p)"
  using assms by (cases k) (auto simp: construct_def outcome_simps TCFG_Hostname_new_def Let_def split: prod.splits)

lemma fromBytes_describable:
  assumes "fromBytes E bytes s = (Ok (item, result), s')"
  shows "describable item"
proof (cases "item = NYI_invalid")
  case True
  then show ?thesis by (simp add: describable_def NYI_invalid_def)
next
  case False
  have len: "4 \<le> length bytes" using assms fromBytes_short [of bytes E s] by fastforce
  obtain e where e: "find_DId (head_DId bytes) = Some e"
    using assms fromBytes_unknown [OF len, of E s] by (cases "find_DId (head_DId bytes)") auto
  have full: "4 + unat (head_dataLength bytes) \<le> length bytes"
    using assms fromBytes_truncated [OF len e, of E s] by fastforce
  obtain data where c: "construct E (Construct e) (head_DId bytes) data s = (Ok item, s')"
    using assms fromBytes_complete [OF len full e, of E s] False
    by (auto simp: Let_def outcome_simps split: if_splits)
  then have "it_DId item = head_DId bytes"
    by (auto simp: construct_def outcome_simps split_beta Let_def)
  then show ?thesis using e construct_body [OF c] by (simp add: describable_def)
qed

text \<open>The action of an item leaves it describable: the text of a reply is defined as well.\<close>

lemma item_Go_describable:
  assumes "item_Go E item s = (Ok item', s')" and "describable item"
  shows "describable item'"
proof -
  have host: "on_cfg_disk (TCFG_Hostname_Go (os E) p) s = (Ok q, s') \<Longrightarrow> q = p" for p q
    by (auto simp: on_cfg_disk_def TCFG_Hostname_Go_def Let_def split: prod.splits if_splits res.splits)
  have "it_DId item' = it_DId item" by (rule item_Go_DId [OF assms(1)])
  moreover have "(\<exists>b. it_body item' = I_NYI b) = (\<exists>b. it_body item = I_NYI b)"
    using assms(1) by (cases "it_body item")
      (auto simp: item_Go_def TDataItemBase_Go_def outcome_simps split: option.splits prod.splits)
  moreover have "it_body item' = I_Hostname q \<Longrightarrow> it_body item = I_Hostname q" for q
    using assms(1) by (cases "it_body item")
      (auto simp: item_Go_def TDataItemBase_Go_def outcome_simps dest: host split: option.splits prod.splits)
  ultimately show ?thesis using assms(2) by (simp add: describable_def)
qed
subsection \<open>Texts of one line\<close>

definition one_line :: "string \<Rightarrow> bool" where
  "one_line t \<longleftrightarrow> CHR 0x0A \<notin> set t"

named_theorems line_simps

lemma digit_one_line: "digit_val c < 16 \<Longrightarrow> c \<noteq> CHR 0x0A"
  by (auto simp: digit_val_def isdigit_def islower_def isupper_def)

lemma to_chars_one_line:
  assumes "2 \<le> b" and "b \<le> 16" and "c \<in> set (to_chars b n) \<or> c \<in> toupper ` set (to_chars b n)"
  shows "c \<noteq> CHR 0x0A"
proof -
  obtain d where "d < b" "c = digit_char d \<or> c = toupper (digit_char d)"
    using assms(3) to_chars_digits [OF assms(1), of n] by auto
  then have "digit_val c < 16" using assms(2) toupper_digit_char [of d] by auto
  then show ?thesis by (rule digit_one_line)
qed

lemma one_line_parts [line_simps]:
  "one_line []" "one_line (a @ b) \<longleftrightarrow> one_line a \<and> one_line b"
  "one_line (c # a) \<longleftrightarrow> c \<noteq> CHR 0x0A \<and> one_line a"
  "one_line (concat ts) \<longleftrightarrow> (\<forall>t \<in> set ts. one_line t)"
  by (auto simp: one_line_def)

lemma one_line_numbers [line_simps]:
  "one_line (to_string n)" "one_line (to_hex w)" "one_line (hex_out k n)"
  "one_line (map toupper (hex_out k n))" "one_line arrow"
proof -
  show "one_line (to_string n)"
    using to_chars_one_line [of 10 _ n] by (auto simp: one_line_def to_string_def)
  show "one_line (to_hex w)"
    using to_hex_digits [of w] by (auto simp: one_line_def list_all_iff dest: digit_one_line)
  have "c \<noteq> CHR 0x0A" if "c \<in> set (hex_out k n) \<or> c \<in> toupper ` set (hex_out k n)" for c
    using that to_chars_one_line [of 16 c n] by (auto simp: hex_out_def setw_def split: if_splits)
  then show "one_line (hex_out k n)" "one_line (map toupper (hex_out k n))"
    by (auto simp: one_line_def)
  show "one_line arrow" by (simp add: one_line_def arrow_def)
qed

lemma one_line_eight [line_simps]: "one_line sep \<Longrightarrow> (\<And>i. one_line (f i)) \<Longrightarrow> one_line (eight_of sep f)"
  by (simp add: eight_of_def line_simps)

lemma one_line_bytes [line_simps]: "one_line (to_hex_bytes bs spaced)"
  by (induction bs spaced rule: to_hex_bytes.induct) (simp_all add: line_simps)

lemma one_line_desc [line_simps]: "getDIdDesc did = Ok t \<Longrightarrow> one_line t"
proof -
  assume t: "getDIdDesc did = Ok t"
  have "list_all (\<lambda>d. list_all (\<lambda>c. c \<noteq> CHR 0x0A) (desc (snd d))) DIdDict" by code_simp
  then have all: "\<forall>(i, e) \<in> set DIdDict. one_line (desc e)"
    by (force simp: list_all_iff one_line_def)
  from t obtain e where "map_of DIdDict did = Some e" "t = desc e"
    by (auto simp: getDIdDesc_def find_DId_def split: option.splits)
  then show ?thesis using all map_of_SomeD by fastforce
qed

lemma err_msg_loop_range: "err_msg_loop ms i idx \<in> insert ''Unknown error'' (set ms)"
  by (induction ms i idx rule: err_msg_loop.induct) auto

lemma one_line_err_msg [line_simps]: "one_line (SafeErrMsgFromCode code)"
proof -
  have "\<forall>m \<in> insert ''Unknown error'' (set err_msg). one_line m"
    by (simp add: err_msg_def one_line_def)
  then show ?thesis using err_msg_loop_range [of err_msg 0 "- code"] by (auto simp: SafeErrMsgFromCode_def)
qed

text \<open>The items whose text contains bytes a client has chosen, as they are.\<close>

definition quotes_client :: "TDataItem \<Rightarrow> bool" where
  "quotes_client item =
     (case it_body item of
        I_Hostname p \<Rightarrow> True
      | I_BRD i \<Rightarrow> (case i of I_Model b \<Rightarrow> True | I_GetModel b \<Rightarrow> True
                       | I_SerialNumber b \<Rightarrow> True | I_GetSerialNumber b \<Rightarrow> True | _ \<Rightarrow> False)
      | _ \<Rightarrow> False)"

definition float_text_ok :: "float_text \<Rightarrow> bool" where
  "float_text_ok T \<longleftrightarrow> (\<forall>v. one_line (stream_float T v) \<and> one_line (to_string_float T v))"

lemmas AsString_defs =
  TDIO_Configure_AsString_def TDIO_Output_AsString_def TDIO_Input_AsString_def
  TDIO_ConfigureBit_AsString_def TDIO_InputBit_AsString_def TDIO_OutputBit_AsString_def
  TDIO_ClearBit_AsString_def TDIO_SetBit_AsString_def TDIO_ToggleBit_AsString_def
  TREG_Read1_AsString_def TREG_Writes_AsString_def TREG_ReadBit_AsString_def
  TREG_WriteBit_AsString_def TREG_ClearBit_AsString_def TREG_SetBit_AsString_def
  TREG_ToggleBit_AsString_def TDAC_Output_AsString_def TDAC_OutputV_AsString_def
  TDAC_Range1_AsString_def TBRD_FpgaId_AsString_def TBRD_DeviceID_AsString_def
  TBRD_Features_AsString_def TBRD_Model_AsString_def TBRD_GetModel_AsString_def
  TBRD_SerialNumber_AsString_def TBRD_GetSerialNumber_AsString_def
  TBRD_GetNumberOfAdcChannels_AsString_def TBRD_NumberOfSubmuxes_AsString_def
  TBRD_GetNumberOfSubmuxes_AsString_def TBRD_SubmuxScale_AsString_def
  TBRD_GetSubmuxScale_AsString_def TBRD_SubmuxOffset_AsString_def TBRD_GetSubmuxOffset_AsString_def
  TADC_BaseClock_AsString_def TADC_StreamStart_AsString_def TADC_StreamStop_AsString_def
  TADC_Differential1_AsString_def TADC_DifferentialAll_AsString_def TADC_Range1_AsString_def
  TADC_RangeAll_AsString_def TADC_Scale1_AsString_def TADC_ScaleAll_AsString_def
  TADC_Offset1_AsString_def TADC_OffsetAll_AsString_def TADC_Calibration1_AsString_def
  TADC_CalibrationAll_AsString_def TADC_RawAll_AsString_def TADC_CountsAll_AsString_def
  TADC_VoltsAll_AsString_def TCFG_Hostname_AsString_def TSYS_UploadFileName_AsString_def
  TSYS_UploadFileData_AsString_def TSYS_Error_AsString_def TSYS_ItemError_AsString_def
  TDataItemDoc_AsString_def TDataItemDocGet_AsString_def TDataItemNYI_AsString_def
  TDataItemRaw_AsString_def

lemma text_one_line:
  assumes "item_AsString T c item r = Ok t" and "float_text_ok T" and "\<not> quotes_client item"
  shows "one_line t"
proof -
  have float: "one_line (stream_float T v)" "one_line (to_string_float T v)" for v
    using assms(2) by (simp_all add: float_text_ok_def)
  have brd: "\<not> quotes_client (item\<lparr>it_body := I_BRD i\<rparr>) \<Longrightarrow> one_line (brd_AsString T c i r)" for i
    by (cases i) (simp_all add: AsString_defs quotes_client_def line_simps float)
  have reg: "one_line (reg_AsString i r)" for i
    by (cases i) (simp_all add: AsString_defs line_simps)
  have dio: "one_line (dio_AsString i r)" for i
    by (cases i) (simp_all add: AsString_defs line_simps)
  have dac: "dac_AsString did i r = Ok u \<Longrightarrow> one_line u" for did i u
    by (cases i) (auto simp: AsString_defs line_simps outcome_simps)
  have adc: "adc_AsString T did i r = Ok u \<Longrightarrow> one_line u" for did i u
    by (cases i) (auto simp: AsString_defs line_simps outcome_simps float)
  have sys: "sys_AsString did i r = Ok u \<Longrightarrow> one_line u" for did i u
    by (cases i) (auto simp: AsString_defs line_simps Let_def)
  show ?thesis
    using assms(1,3) brd reg dio dac adc sys
    by (cases "it_body item")
      (auto simp: item_AsString_def AsString_defs line_simps outcome_simps quotes_client_def)
qed

subsection \<open>Messages\<close>

definition describable_items :: "TDataItem option list \<Rightarrow> bool" where
  "describable_items items \<longleftrightarrow> (\<forall>it \<in> set items. \<exists>item. it = Some item \<and> describable item)"

lemma item_lines_text:
  assumes "describable_items items"
  shows "\<exists>t. item_lines T c r n items = Ok t \<and>
    (float_text_ok T \<and> (\<forall>item. Some item \<in> set items \<longrightarrow> \<not> quotes_client item) \<longrightarrow>
       count_list t CHR 0x0A = length items)"
  using assms
proof (induction items arbitrary: n)
  case (Cons it items)
  then obtain item where it: "it = Some item" "describable item" "describable_items items"
    by (auto simp: describable_items_def)
  obtain line where line: "item_AsString T c item r = Ok line" using describable_text [OF it(2)] by blast
  obtain rest where rest: "item_lines T c r (n + 1) items = Ok rest"
    "float_text_ok T \<and> (\<forall>item. Some item \<in> set items \<longrightarrow> \<not> quotes_client item) \<longrightarrow>
       count_list rest CHR 0x0A = length items"
    using Cons.IH [OF it(3)] by blast
  have number: "one_line (setw CHR '' '' 2 (to_string (n + 1)))"
    using one_line_numbers(1) [of "n + 1"] by (auto simp: setw_def one_line_def)
  have "count_list line CHR 0x0A = 0" if "float_text_ok T" "\<not> quotes_client item"
    using text_one_line [OF line that] by (simp add: one_line_def count_list_0_iff)
  with rest number show ?case
    by (auto simp: it line one_line_def count_list_0_iff)
qed simp

lemma parse_loop_describable:
  "parse_loop E bytes n items s = (Ok (items', e), s') \<Longrightarrow> describable_items items \<Longrightarrow> describable_items items'"
proof (induction E bytes n items s rule: parse_loop.induct)
  case (1 E bytes n items s)
  show ?case
    using "1.prems" "1.IH" fromBytes_describable [of E bytes s]
    by (subst (asm) parse_loop.simps)
      (fastforce simp: describable_items_def Let_def split: if_splits res.splits prod.splits)
qed

lemma FromBytes_describable:
  assumes "FromBytes E buf s = (Ok (m, e), s')"
  shows "describable_items (DataItems m)"
proof -
  have "describable_items []" by (simp add: describable_items_def)
  with parse_loop_describable [of E _ _ "[]" s] assms show ?thesis
    by (auto simp: FromBytes_def Let_def outcome_simps TMessage_new_def setMId_def TMessage_default_def
        parsePayload_def split: if_splits prod.splits)
qed

lemma BuildDataItem_describable:
  "BuildDataItem E did payload s = (Ok (Some item), s') \<Longrightarrow> describable item"
  using fromBytes_describable
  by (fastforce simp: BuildDataItem_def split: prod.splits res.splits exn.splits if_splits)

lemma run_item_describable:
  assumes "run_item E i (Some item) s = (Ok (it, err), s')" and "describable item"
  shows "\<exists>item'. it = Some item' \<and> describable item'"
proof -
  have built: "\<exists>item'. it = Some item' \<and> describable item'"
    if "replace_item (Some other) (BuildSysItemError E j did k info msg u) = (Ok (it, err), s')"
      and "describable other" for other j did k info msg u
    using that BuildDataItem_describable
    by (auto simp: replace_item_def BuildSysItemError_def outcome_simps split: option.splits)
  show ?thesis
    using assms built item_Go_describable [of E item s]
    by (cases "item_Go E item s"; cases "fst (item_Go E item s)")
      (auto simp: run_item_def mapS_def Let_def split: if_splits exn.splits prod.splits)
qed

lemma run_items_describable:
  "run_items E i items s = (Ok (items', err), s') \<Longrightarrow> describable_items items \<Longrightarrow> describable_items items'"
proof (induction items arbitrary: i s items' err s')
  case (Cons it items)
  then obtain item where it: "it = Some item" "describable item" "describable_items items"
    by (auto simp: describable_items_def)
  obtain it' e1 s1 rest e2 where "run_item E i (Some item) s = (Ok (it', e1), s1)"
    "run_items E (i + 1) items s1 = (Ok (rest, e2), s')" "items' = it' # rest"
    using Cons.prems(1) by (clarsimp simp: it(1) outcome_simps split: prod.splits)
  then show ?case
    using Cons.IH it(3) run_item_describable [OF _ it(2)] by (auto simp: describable_items_def)
qed simp

lemma char_of_newline: "char_of (unat (b :: u8)) = CHR 0x0A \<longleftrightarrow> b = 10"
proof
  assume *: "char_of (unat b) = CHR 0x0A"
  have "unat b = of_char (char_of (unat b))" using unsigned_less [of b, where ?'a = nat] by simp
  then have "unat b = unat (10 :: u8)" by (simp add: *)
  then show "b = 10" by (simp add: word_unat_eq_iff)
next
  assume "b = 10"
  then show "char_of (unat b) = CHR 0x0A" using char_of_char [of "CHR 0x0A", where ?'a = nat] by simp
qed

text \<open>
  C20: Every message has a text, before and after it is run. For every message the parser returns, whatever the
  bytes and its error code, the text of the request is defined, and so is the text of the reply when the message
  is run: no lookup misses the dictionary, no pointer is null, no string lacks its end, so the log line of the
  parser adds no failure to it. The text has one line for the heading and one for each item, unless an item
  carries a host name, a model or a serial number, which are quoted as a client sent them.
\<close>

theorem parsed_message_has_text:
  assumes "FromBytes E buf s = (Ok (m, result), s')"
  shows "(\<exists>text. message_AsString T c m False = Ok text \<and>
      (float_text_ok T \<and> Id m \<noteq> 0x0A \<and> (\<forall>item. Some item \<in> set (DataItems m) \<longrightarrow> \<not> quotes_client item) \<longrightarrow>
         count_list text CHR 0x0A = length (DataItems m))) \<and>
    (\<forall>t ok reply t'. RunMessage E m t = (Ok (ok, reply), t') \<longrightarrow>
       (\<exists>text. message_AsString T d reply True = Ok text))"
proof (intro conjI allI impI)
  have items: "describable_items (DataItems m)" by (rule FromBytes_describable [OF assms])
  show "\<exists>text. message_AsString T c m False = Ok text \<and>
      (float_text_ok T \<and> Id m \<noteq> 0x0A \<and> (\<forall>item. Some item \<in> set (DataItems m) \<longrightarrow> \<not> quotes_client item) \<longrightarrow>
         count_list text CHR 0x0A = length (DataItems m))"
    using item_lines_text [OF items, of T c False 0] one_line_numbers(1) [of "length (DataItems m)"]
    by (auto simp: message_AsString_def char_of_newline one_line_def count_list_0_iff)
  fix t ok reply t'
  assume "RunMessage E m t = (Ok (ok, reply), t')"
  then have "describable_items (DataItems reply)"
    using run_items_describable [OF _ items]
    by (auto simp: RunMessage_def outcome_simps setMId_def split: if_splits prod.splits)
  from item_lines_text [OF this, of T d True 0] show "\<exists>text. message_AsString T d reply True = Ok text"
    by (auto simp: message_AsString_def)
qed
definition plain_float_text :: float_text where
  "plain_float_text = \<lparr>stream_float = to_hex, to_string_float = to_hex\<rparr>"

theorem parsed_message_has_text_witness:
  "\<exists>text reply t' text'.
     message_AsString plain_float_text blank_config \<lparr>Id = MId_Q, DataItems = [Some (set_line_item 3)]\<rparr> False = Ok text \<and>
     count_list text CHR 0x0A = 1 \<and>
     RunMessage bank_env \<lparr>Id = MId_Q, DataItems = [Some (set_line_item 3)]\<rparr> bank_server = (Ok (True, reply), t') \<and>
     message_AsString plain_float_text blank_config reply True = Ok text'"
proof -
  let ?m = "\<lparr>Id = MId_Q, DataItems = [Some (set_line_item 3)]\<rparr>"
  have item: "set_line_item 3 = \<lparr>it_DId = DId_DIO_SetBit, it_Data = [], it_resultCode = ERR_SUCCESS,
     it_body = I_DIO (I_SetBit \<lparr>bit_bitNumber = 3\<rparr>)\<rparr>" by (simp add: set_line_item_def)
  have valid: "isValidMessageID (after_ids bank_env) MId_R"
    by (rule ValidMessageIDs_valid) (simp add: ValidMessageIDs_def)
  have "it_resultCode (set_line_item 3) = ERR_SUCCESS" by (simp add: set_line_item_def)
  then obtain reply t' where run: "RunMessage bank_env ?m bank_server = (Ok (True, reply), t')"
    using valid set_line_item_Go [of 3 bank_env bank_server]
    by (auto simp: RunMessage_def run_item_success mapS_def setMId_def)
  have "float_text_ok plain_float_text"
    by (simp add: float_text_ok_def plain_float_text_def one_line_numbers)
  moreover have "\<not> quotes_client (set_line_item 3)" by (simp add: item quotes_client_def)
  ultimately show ?thesis
    using parsed_message_has_text [OF set_line_3_parsed [of bank_env bank_server],
        of plain_float_text blank_config blank_config] run
    by (fastforce simp: item)
qed

subsection \<open>The text of an error\<close>

text \<open>
  The text of an error item never says which error it is. The error items of the server carry the position of
  the error in the table of texts; the text negates that number before it looks it up, as if it were the error
  code itself, so every error of the protocol is \<open>Unknown error\<close>, with an index near four billion. Given the
  code, the lookup finds the text of the table.
\<close>

lemma error_item_text_is_unknown:
  assumes "code \<in> set error_codes" and "code \<noteq> ERR_SUCCESS"
  shows "\<exists>item s'. BuildSysItemError E i did (ErrIndex code) info [] s = (Ok (Some item), s') \<and>
      item_AsString T c item r = Ok (''SYS_ItemError(ItemIndex='' @ to_string (unat i) @ '', DId=0x'' @ to_hex did
        @ '', ErrorCode='' @ to_hex (ErrIndex code) @ '' (idx='' @ to_string (unat code) @ '' Unknown error), Info=''
        @ to_hex info @ '')'') \<and>
      4294967281 \<le> unat code \<and> Ok (SafeErrMsgFromCode code) = err_text code"
proof -
  have code: "code \<in> {- 1, - 2, - 3, - 4, - 5, - 6, - 7, - 8, - 9, - 10, - 11, - 12, - 13, - 14, - 15}"
    using assms by (auto simp: error_codes_def)
  then have "SafeErrMsgFromCode (- code) = ''Unknown error''" "4294967281 \<le> unat code"
    "Ok (SafeErrMsgFromCode code) = err_text code"
    by (auto simp: SafeErrMsgFromCode_def err_msg_def err_text_def unsigned_minus_1_eq_mask mask_eq_exp_minus_1)
  then show ?thesis
    by (simp add: BuildSysItemError_result item_AsString_def TSYS_ItemError_AsString_def ErrIndex_def)
qed

lemma error_item_text_is_unknown_example:
  "Ok (SafeErrMsgFromCode ERR_NYI) = err_text ERR_NYI"
proof -
  have "ERR_NYI \<in> set error_codes" "ERR_NYI \<noteq> ERR_SUCCESS" by (simp_all add: error_codes_def)
  from error_item_text_is_unknown [OF this, of bank_env 0 0 0 bank_server plain_float_text blank_config True]
  show ?thesis by blast
qed

end
