(* ===== verification/TestVectors.thy ===== *)
theory TestVectors
  imports ItemText
begin

text \<open>
  The messages of the test program (\<^verbatim>\<open>test.cpp\<close>), checked against the model: how they are parsed, what they do
  to the board and to the configuration, and what the validators make of them. The program itself no longer fits
  the classes (it makes objects of \<open>TDataItem\<close>, which has become a template).
\<close>

subsection \<open>The byte strings\<close>

definition test_msg :: TBytes where
  "test_msg = [0x4D, 0x24, 0x00, 0x00, 0x00,
     0x05, 0x01, 0x05, 0x00, 0x30, 0x00, 0x80, 0x30, 0x00,
     0x05, 0x01, 0x05, 0x00, 0x30, 0x00, 0x80, 0x31, 0x00,
     0x05, 0x01, 0x05, 0x00, 0x30, 0x00, 0x80, 0x32, 0x00,
     0x05, 0x01, 0x05, 0x00, 0x30, 0x00, 0x80, 0x33, 0x00, 0xDD]"

definition REG_Read3C :: TBytes where
  "REG_Read3C = [0x4D, 0x05, 0x00, 0x00, 0x00, 0x01, 0x01, 0x01, 0x00, 0x3C, 0x6F]"

definition test_calibrate :: TBytes where
  "test_calibrate = stuff (stuff [0x0C, 0x02, 0x09, 0x00, 0x01] (0x3F800000 :: f32)) (0xBF800000 :: f32)"

definition write_item :: "u32 \<Rightarrow> TDataItem" where
  "write_item v = \<lparr>it_DId = DId_REG_Write1, it_Data = [], it_resultCode = ERR_SUCCESS,
     it_body = I_REG (I_Write1 \<lparr>Writes = [\<lparr>w_offset = 0x30, w_width = 32, w_value = v\<rparr>]\<rparr>)\<rparr>"

lemma test_msg_parses:
  "map_res fst (fst (FromBytes bank_env test_msg bank_server)) =
     Ok \<lparr>Id = MId_M, DataItems = map (Some \<circ> write_item) [0x308000, 0x318000, 0x328000, 0x338000]\<rparr>"
  by code_simp

lemma REG_Read3C_parses:
  "map_res fst (fst (FromBytes bank_env REG_Read3C bank_server)) =
     Ok \<lparr>Id = MId_M, DataItems = [Some \<lparr>it_DId = DId_REG_Read1, it_Data = [], it_resultCode = ERR_SUCCESS,
       it_body = I_REG (I_Read1 \<lparr>r1_offset = 0x3C, r1_width = 32, r1_regVal = 0\<rparr>)\<rparr>]\<rparr>"
  by code_simp

text \<open>Run by the server, the last of the four writes is what the register holds, and the reply is an \<open>R\<close>.\<close>

lemma test_msg_runs:
  "(let (r, s) = RunMessage bank_env
          \<lparr>Id = MId_M, DataItems = map (Some \<circ> write_item) [0x308000, 0x318000, 0x328000, 0x338000]\<rparr> bank_server
    in (map_res (\<lambda>(ok, m). (ok, Id m, length (DataItems m))) r, bank_cell (dev s) 0x30)) =
   (Ok (True, MId_R, 4), 0x338000)"
  by code_simp

text \<open>
  The calibration item puts the scale before the offset; the function of the dictionary, and its description, have
  the offset first. So channel 1 gets the scale -1 and the offset 1.
\<close>

lemma test_calibrate_parses:
  "map_res fst (fst (fromBytes bank_env test_calibrate bank_server)) = Ok \<lparr>it_DId = DId_DAC_Calibrate1,
     it_Data = [1, 0, 0, 0x80, 0x3F, 0, 0, 0x80, 0xBF], it_resultCode = ERR_SUCCESS,
     it_body = I_Raw [1, 0, 0, 0x80, 0x3F, 0, 0, 0x80, 0xBF]\<rparr>"
  by code_simp

lemma test_calibrate_swaps:
  "fst (snd (DAC_Calibrate1_go [1, 0, 0, 0x80, 0x3F, 0, 0, 0x80, 0xBF] (c, d))) =
     set_dac_offset 1 0x3F800000 (set_dac_scale 1 0xBF800000 c)"
proof -
  have "le_read [0, 0, 0x80, 0x3F] = (0x3F800000 :: f32)" "le_read [0, 0, 0x80, 0xBF] = (0xBF800000 :: f32)"
    by code_simp+
  then show ?thesis by (simp add: DAC_Calibrate1_go_def GUARD_def Let_def del: le_read.simps)
qed

subsection \<open>The driver of the tests\<close>

text \<open>
  \<open>RunMessage\<close> of the test program: each item is described, serialised and run. A logic error ends the loop;
  the items so far have been run.
\<close>

fun test_items ::
  "float_text \<Rightarrow> 'h env \<Rightarrow> TDataItem option list \<Rightarrow> 'h server \<Rightarrow> TDataItem option list \<times> unit res \<times> 'h server"
where
  "test_items T E [] s = ([], Ok (), s)"
| "test_items T E (None # items) s = (None # items, Undef, s)"
| "test_items T E (Some anItem # items) s =
     (case item_AsString T (cfg s) anItem True of
        Ok line \<Rightarrow>
          (let anItem = snd (AsBytes (fp E) (cfg s) anItem True) in
           case item_Go E anItem s of
             (Ok anItem, s) \<Rightarrow>
               (let (items, r, s) = test_items T E items s in (Some anItem # items, r, s))
           | (Throw e, s) \<Rightarrow> (Some anItem # items, Throw e, s)
           | (Undef, s) \<Rightarrow> (Some anItem # items, Undef, s)
           | (Hang, s) \<Rightarrow> (Some anItem # items, Hang, s))
      | Throw e \<Rightarrow> (Some anItem # items, Throw e, s)
      | Undef \<Rightarrow> (Some anItem # items, Undef, s)
      | Hang \<Rightarrow> (Some anItem # items, Hang, s))"

definition test_RunMessage ::
  "float_text \<Rightarrow> 'h env \<Rightarrow> TMessage \<Rightarrow> 'h server \<Rightarrow> (bool \<times> TMessage) res \<times> 'h server" where
  "test_RunMessage T E aMessage s =
     (let (items, r, s) = test_items T E (DataItems aMessage) s; m = aMessage\<lparr>DataItems := items\<rparr> in
      (case bindR r (\<lambda>_. setMId (after_ids E) MId_R m) of
         Ok m \<Rightarrow> bindR (message_AsString T (cfg s) m True) (\<lambda>_. Ok (True, m))
       | Throw (LogicError what) \<Rightarrow>
           bindR (setMId (after_ids E) MId_X m) (\<lambda>m. bindR (message_AsString T (cfg s) m True) (\<lambda>_. Ok (False, m)))
       | Throw (RuntimeError what) \<Rightarrow> Throw (RuntimeError what)
       | Undef \<Rightarrow> Undef
       | Hang \<Rightarrow> Hang, s))"

lemma test_RunMessage_read:
  "map_res (\<lambda>(ok, m). (ok, Id m, map (map_option it_Data) (DataItems m))) (fst (test_RunMessage plain_float_text bank_env
     \<lparr>Id = MId_M, DataItems = [Some \<lparr>it_DId = DId_REG_Read1, it_Data = [], it_resultCode = ERR_SUCCESS,
       it_body = I_REG (I_Read1 \<lparr>r1_offset = 0x3C, r1_width = 32, r1_regVal = 0\<rparr>)\<rparr>]\<rparr> bank_server)) =
   Ok (True, MId_R, [Some [0x3C, 0, 0, 0, 0]])"
  by code_simp

text \<open>\<open>test\<close>: the verdict of the validator, and whether it is the expected one.\<close>

definition test :: "TBytes \<Rightarrow> TBytes \<Rightarrow> TError \<Rightarrow> (TError \<times> bool) res" where
  "test after Msg expectedResult = map_res (\<lambda>result. (result, result = expectedResult)) (validateMessage after Msg)"

subsection \<open>The validator counts a byte too many\<close>

text \<open>
  \<open>slicing\<close> takes both ends, so the validator looks at one byte more than the item has, and compares the length of
  its data plus one with the dictionary. A single item of the longest length the dictionary allows is refused, and
  one a byte too short is accepted; the parser does neither.
\<close>

lemma validator_off_by_one:
  assumes "find_DId did = Some e" and "0 < length data" and "length data < 65535"
  shows "validatePayload (stuff [] did @ stuff [] (of_nat (length data) :: u16) @ data @ [checksum]) =
    Ok (if unat (minLen e) \<le> length data + 1 \<and> length data + 1 \<le> unat (maxLen e) then ERR_SUCCESS
        else ERR_MSG_PAYLOAD_DATAITEM_LEN_MISMATCH)"
proof -
  let ?n = "of_nat (length data) :: u16"
  let ?p = "stuff [] did @ stuff [] ?n @ data @ [checksum]"
  have n: "unat ?n = length data" using assms(3) by (simp add: unsigned_of_nat take_bit_nat_eq_self)
  then have "?n \<noteq> 0" using assms(2) by (metis unat_0 less_irrefl)
  have head: "head_DId ?p = did" "head_dataLength ?p = ?n" "length ?p = 5 + length data"
    by simp_all
  have slice: "slicing ?p 0 (4 + length data) = Ok ?p" using head(3) by (simp add: slicing_def)
  have "validateDataItem ?p = validateDataItemPayload did (data @ [checksum])"
    using assms(1) \<open>?n \<noteq> 0\<close> head by (simp add: validateDataItem_def isValidDataItemID_def)
  also have "\<dots> = Ok (if unat (minLen e) \<le> length data + 1 \<and> length data + 1 \<le> unat (maxLen e) then ERR_SUCCESS
      else ERR_MSG_PAYLOAD_DATAITEM_LEN_MISMATCH)"
    using validate_known [OF assms(1), of "data @ [checksum]"] assms(3) by simp
  finally have v: "validateDataItem ?p = \<dots>" .
  have last: "validatePayload [checksum] = Ok ERR_SUCCESS" by (simp add: validatePayload.simps)
  have "drop (4 + length data) ?p = [checksum]" by simp
  then show ?thesis
    using assms(2) n head slice v last by (subst validatePayload.simps) (simp add: Let_def)
qed

lemma test_messages_refused:
  "test (after_ids bank_env) test_msg ERR_SUCCESS = Ok (ERR_MSG_PAYLOAD_DATAITEM_LEN_MISMATCH, False)"
  "test (after_ids bank_env) REG_Read3C ERR_SUCCESS = Ok (ERR_MSG_PAYLOAD_DATAITEM_LEN_MISMATCH, False)"
  by code_simp+
end
