(* ===== verification/Accessories.thy ===== *)
theory Accessories
  imports DataItem Message
begin

text \<open>
  What no other theory needs: the calls of \<^verbatim>\<open>apci.cpp\<close> the daemon does not make, what the host name item asks of
  the system once its files are written, constructors and accessors for clients, and the second versions of the
  byte writers, which are the first.
\<close>

subsection \<open>The driver\<close>

text \<open>Each call gives the status first, then what it stores through its pointers.\<close>

record 'h board_calls =
  apci_get_devices :: "'h \<Rightarrow> int \<times> 'h"
  apci_get_device_info :: "nat \<Rightarrow> 'h \<Rightarrow> (int \<times> u32 \<times> u64 list) \<times> 'h"
  apci_wait_for_irq :: "nat \<Rightarrow> 'h \<Rightarrow> int \<times> 'h"
  apci_dma_data_ready :: "nat \<Rightarrow> 'h \<Rightarrow> (int \<times> int \<times> int \<times> int) \<times> 'h"
  apci_dma_data_done :: "nat \<Rightarrow> int \<Rightarrow> 'h \<Rightarrow> int \<times> 'h"

definition apciGetDevices :: "'h board_calls \<Rightarrow> 'h \<Rightarrow> int \<times> 'h" where
  "apciGetDevices B h = apci_get_devices B h"

definition apciGetDeviceInfo :: "'h board_calls \<Rightarrow> 'h \<Rightarrow> (int \<times> u32 \<times> u64 list) \<times> 'h" where
  "apciGetDeviceInfo B h = apci_get_device_info B 0 h"

definition apciWaitForIRQ :: "'h board_calls \<Rightarrow> 'h \<Rightarrow> int \<times> 'h" where
  "apciWaitForIRQ B h = apci_wait_for_irq B 0 h"

definition apciDmaDataReady :: "'h board_calls \<Rightarrow> 'h \<Rightarrow> (int \<times> int \<times> int \<times> int) \<times> 'h" where
  "apciDmaDataReady B h = apci_dma_data_ready B 0 h"

definition apciDmaDataDone :: "'h board_calls \<Rightarrow> int \<Rightarrow> 'h \<Rightarrow> int \<times> 'h" where
  "apciDmaDataDone B slots h = apci_dma_data_done B 0 slots h"

subsection \<open>The host name\<close>

text \<open>
  What \<open>TCFG_Hostname::Go\<close> asks of the system: the name of the running kernel, and two commands, each if its program
  may be executed. Every result is only logged.
\<close>

datatype os_command = sethostname string | os_system string

definition hostname_commands :: "(string \<Rightarrow> bool) \<Rightarrow> string \<Rightarrow> os_command list" where
  "hostname_commands executable requested =
     [sethostname requested] @
     (if executable ''/usr/bin/hostnamectl'' \<or> executable ''/bin/hostnamectl''
      then [os_system ''hostnamectl set-hostname --static --transient --pretty >/dev/null 2>&1''] else []) @
     (if executable ''/usr/sbin/avahi-daemon'' \<or> executable ''/sbin/avahi-daemon''
      then [os_system ''systemctl try-restart avahi-daemon.service >/dev/null 2>&1''] else [])"

definition TCFG_Hostname_commands ::
  "os_lib \<Rightarrow> (string \<Rightarrow> bool) \<Rightarrow> HostnameParams \<Rightarrow> fs \<Rightarrow> os_command list" where
  "TCFG_Hostname_commands sys executable p s =
     (let requested = SanitizeHostname (bytes_string (takeWhile (\<lambda>b. b \<noteq> 0) (hn_hostname p))) in
     if \<not> IsValidHostname requested then []
     else case WriteFileAtomic sys ''/etc/hostname'' (requested @ [CHR 0x0A]) s of
            (Ok u, s) \<Rightarrow> (case fst (UpdateEtcHosts127011 sys requested s) of
                             Undef \<Rightarrow> [] | Hang \<Rightarrow> [] | _ \<Rightarrow> hostname_commands executable requested)
          | _ \<Rightarrow> [])"

text \<open>The commands run exactly when the configuration takes the name, and the kernel is given that name.\<close>

lemma hostname_commands_name:
  assumes "TCFG_Hostname_Go sys p (c, s) = (r, (c', s'))" and "TCFG_Hostname_commands sys executable p s \<noteq> []"
  shows "r = Ok p \<and> hd (TCFG_Hostname_commands sys executable p s) = sethostname (Hostname c')"
  using assms
  by (auto simp: TCFG_Hostname_Go_def TCFG_Hostname_commands_def hostname_commands_def Let_def
      split: if_splits prod.splits res.splits)

lemma hostname_commands_none:
  assumes "TCFG_Hostname_Go sys p (c, s) = (r, (c', s'))" and "TCFG_Hostname_commands sys executable p s = []"
  shows "Hostname c' = Hostname c"
  using assms
  by (auto simp: TCFG_Hostname_Go_def TCFG_Hostname_commands_def hostname_commands_def Let_def
      split: if_splits prod.splits res.splits)

text \<open>The command that is to store the name for good does not contain it.\<close>

lemma hostnamectl_without_name:
  "os_system cmd \<in> set (hostname_commands executable a) \<longleftrightarrow> os_system cmd \<in> set (hostname_commands executable b)"
  by (auto simp: hostname_commands_def)

subsection \<open>Constructors and accessors\<close>

definition getResultCode :: "TDataItem \<Rightarrow> TError" where
  "getResultCode item = it_resultCode item"

text \<open>A pointer to the result; the base class has none.\<close>

definition TDataItemBase_getResultValue :: "TDataItem \<Rightarrow> TBytes option" where
  "TDataItemBase_getResultValue item = None"

definition TDIO_Input_getResultValue :: "TDIO_WordParams \<Rightarrow> u16" where
  "TDIO_Input_getResultValue p = dio_value p"

definition TDIO_InputBit_getResultValue :: "DIO_InputBitParams \<Rightarrow> u8" where
  "TDIO_InputBit_getResultValue p = ib_bitValue p"

definition TREG_ReadBit_getResultValue :: "REG_ReadBitParams \<Rightarrow> u8" where
  "TREG_ReadBit_getResultValue p = rb_bitValue p"

text \<open>The result a client asks for is the result the server sends.\<close>

lemma getResultValue_sent:
  "TDIO_Input_calcPayload p True = stuff [] (TDIO_Input_getResultValue p)"
  by (simp add: TDIO_Input_calcPayload_def TDIO_Input_getResultValue_def u16_bytes_def stuff_def numeral_2_eq_2)

text \<open>The constructors of items without a payload, and of the register constants by offset.\<close>

definition TDataItemDoc_new :: "TDataId \<Rightarrow> TDataItem" where
  "TDataItemDoc_new did = \<lparr>it_DId = did, it_Data = [], it_resultCode = ERR_SUCCESS, it_body = I_Doc\<rparr>"

definition TDataItemDocGet_new :: "TDataId \<Rightarrow> TDataItem" where
  "TDataItemDocGet_new did = \<lparr>it_DId = did, it_Data = [], it_resultCode = ERR_SUCCESS, it_body = I_DocGet\<rparr>"

definition TReadOnlyConfig_new :: "storage \<Rightarrow> TBytes \<Rightarrow> 'a::len word ReadOnlyConfigParams" where
  "TReadOnlyConfig_new g bytes =
     (let n = LENGTH('a) div 8
      in \<lparr>ro_config = le_read (take n (TDataItem_params g (n + 1) bytes)), ro_offset = 0\<rparr>)"

definition TReadOnlyConfig_at :: "storage \<Rightarrow> u8 \<Rightarrow> 'a::len word ReadOnlyConfigParams" where
  "TReadOnlyConfig_at g offset = (TReadOnlyConfig_new g [])\<lparr>ro_offset := offset\<rparr>"

lemma TReadOnlyConfig_new_instances:
  "TBRD_FpgaId_new g b = (TReadOnlyConfig_new g b)\<lparr>ro_offset := word_of_int ofsFpgaID\<rparr>"
  "TBRD_DeviceID_new g b = (TReadOnlyConfig_new g b)\<lparr>ro_offset := word_of_int ofsDeviceID\<rparr>"
  by (simp_all add: TBRD_FpgaId_new_def TBRD_DeviceID_new_def TReadOnlyConfig_new_def)

text \<open>
  The parameters of \<open>TREG_Writes\<close> are a vector, an object of 24 bytes, which the base class overwrites with the bytes
  it is given when there are enough.
\<close>

definition TREG_Writes_new :: "TDataId \<Rightarrow> TBytes \<Rightarrow> TDataItem res" where
  "TREG_Writes_new did bytes =
     (if 24 \<le> length bytes then Undef
      else Ok \<lparr>it_DId = did, it_Data = [], it_resultCode = ERR_SUCCESS, it_body = I_REG (I_Write1 \<lparr>Writes = []\<rparr>)\<rparr>)"

definition TSYS_UploadFileData_new :: "TDataId \<Rightarrow> TBytes \<Rightarrow> TDataItem" where
  "TSYS_UploadFileData_new did buf = \<lparr>it_DId = did, it_Data = buf, it_resultCode = ERR_SUCCESS,
     it_body = I_SYS I_UploadFileData\<rparr>"

definition TSYS_UploadFileData_calcPayload :: "TDataItem \<Rightarrow> bool \<Rightarrow> TBytes" where
  "TSYS_UploadFileData_calcPayload item bAsReply = it_Data item"

text \<open>They are the objects the factory makes, and what it serialises.\<close>

lemma constructors_agree:
  "body_construct E C_TDataItemDoc b s = (Ok (it_Data (TDataItemDoc_new did), it_body (TDataItemDoc_new did)), s)"
  "body_construct E C_TDataItemDocGet b s = (Ok (it_Data (TDataItemDocGet_new did), it_body (TDataItemDocGet_new did)), s)"
  "body_construct E (SYS C_TSYS_UploadFileData) b s =
     (Ok (it_Data (TSYS_UploadFileData_new did b), it_body (TSYS_UploadFileData_new did b)), s)"
  "calcPayload F c (TSYS_UploadFileData_new did b) r = TSYS_UploadFileData_calcPayload (TSYS_UploadFileData_new did b) r"
  by (simp_all add: TDataItemDoc_new_def TDataItemDocGet_new_def TSYS_UploadFileData_new_def calcPayload_def
      TSYS_UploadFileData_calcPayload_def)

subsection \<open>Writers of bytes\<close>

fun push_loop :: "nat \<Rightarrow> TBytes \<Rightarrow> u32 \<Rightarrow> TBytes" where
  "push_loop 0 buf len = buf"
| "push_loop (Suc n) buf len = push_loop n (buf @ [ucast (len AND 0xFF)]) (drop_bit 8 len)"

definition pushLen :: "TBytes \<Rightarrow> u32 \<Rightarrow> TBytes" where
  "pushLen buf len = push_loop 4 buf len"

definition WriteU16LE :: "TBytes \<Rightarrow> u16 \<Rightarrow> TBytes" where
  "WriteU16LE bs v = bs @ [ucast (v AND 0xFF)] @ [ucast (drop_bit 8 v AND 0xFF)]"

definition WriteU32LE :: "TBytes \<Rightarrow> u32 \<Rightarrow> TBytes" where
  "WriteU32LE bs v = bs @ [ucast (v AND 0xFF)] @ [ucast (drop_bit 8 v AND 0xFF)] @ [ucast (drop_bit 16 v AND 0xFF)] @
     [ucast (drop_bit 24 v AND 0xFF)]"

text \<open>The specialisation of \<open>stuff\<close> for a text, and for a number whose bits are given.\<close>

definition stuff_string :: "TBytes \<Rightarrow> string \<Rightarrow> TBytes" where
  "stuff_string buf v = foldl (\<lambda>buf c. buf @ [of_nat (of_char c)]) buf v"

definition stuff_float :: "TBytes \<Rightarrow> u32 \<Rightarrow> TBytes" where
  "stuff_float buf v = stuff buf v"

text \<open>Every writer of a number is \<open>stuff\<close>, and the length of a message is written by two of them.\<close>

lemma push_loop_stuff: "push_loop n buf len = buf @ stuff_loop n len"
  by (induction n arbitrary: buf len) simp_all

lemma stuff_loop_4: "stuff_loop (Suc (Suc (Suc (Suc 0)))) v =
    [ucast (v AND 0xFF), ucast (drop_bit 8 v AND 0xFF), ucast (drop_bit 16 v AND 0xFF), ucast (drop_bit 24 v AND 0xFF)]"
  by (simp only: stuff_loop.simps drop_bit_drop_bit) simp

lemma writers_agree:
  "pushLen buf len = stuff buf len" "pushLen buf len = appendLengthBytes buf len"
  "WriteU16LE buf w = stuff buf w" "WriteU32LE buf len = stuff buf len"
proof -
  have four: "(4 :: nat) = Suc (Suc (Suc (Suc 0)))" by simp
  show "pushLen buf len = stuff buf len" "pushLen buf len = appendLengthBytes buf len"
    by (simp_all add: pushLen_def push_loop_stuff stuff_def appendLengthBytes_def del: stuff_loop.simps)
  show "WriteU16LE buf w = stuff buf w" by (simp add: WriteU16LE_def stuff_def numeral_2_eq_2)
  have "stuff buf len = buf @ stuff_loop 4 len" by (simp add: stuff_def del: stuff_loop.simps)
  then show "WriteU32LE buf len = stuff buf len" unfolding four stuff_loop_4 by (simp add: WriteU32LE_def)
qed

lemma stuff_string_bytes: "stuff_string buf v = buf @ string_bytes v"
  by (induction v arbitrary: buf) (simp_all add: stuff_string_def string_bytes_def)

end
