(* ===== verification/WebServer.thy ===== *)
theory WebServer
  imports Prelude
begin

text \<open>
  \<^verbatim>\<open>eNET-WWW.c\<close>: the handlers of the web server, a program of its own beside the daemon, on the library
  \<^verbatim>\<open>mongoose\<close>. The handlers keep no state: what they do is the list of the calls they make. The comparison
  \<^verbatim>\<open>mg_vcmp\<close> is an argument.
\<close>

subsection \<open>The handlers\<close>

datatype mg_call =
    mg_serve_http string string string
  | mg_send_head nat nat string
  | mg_printf string
  | mg_mgr_init
  | mg_bind string
  | mg_set_protocol_http_websocket
  | mg_mgr_poll nat

text \<open>
  A request: its path, the memory from where the path begins (the text of the request goes on behind the path,
  as the library cuts it out without copying), and the length of the body.
\<close>

record http_message =
  hm_uri :: string
  hm_memory :: string
  hm_body_len :: nat

definition serve_static :: "http_message \<Rightarrow> mg_call list" where
  "serve_static hm =
     (let path = take 99 (''www'' @ takeWhile (\<lambda>c. c \<noteq> CHR 0x00) (hm_memory hm))
      in [mg_serve_http path ''.'' ''text/html''])"

definition handle_api :: "(string \<Rightarrow> string \<Rightarrow> int) \<Rightarrow> http_message \<Rightarrow> mg_call list" where
  "handle_api mg_vcmp hm =
     (if mg_vcmp (hm_uri hm) ''/api/data'' = 0
      then [mg_send_head 200 (hm_body_len hm) ''Content-Type: application/json'',
            mg_printf (CHR 0x7B # CHR 0x22 # ''adc'' @ CHR 0x22 # '': [1.23, 2.34, 3.45]'' @ [CHR 0x7D])]
      else [mg_send_head 404 0 ''Content-Type: text/plain'', mg_printf ''Not Found''])"

datatype mg_event = MG_EV_HTTP_REQUEST | MG_EV_other

definition ev_handler :: "(string \<Rightarrow> string \<Rightarrow> int) \<Rightarrow> mg_event \<Rightarrow> http_message \<Rightarrow> mg_call list" where
  "ev_handler mg_vcmp ev hm =
     (case ev of
        MG_EV_HTTP_REQUEST \<Rightarrow>
          if mg_vcmp (hm_uri hm) ''/api/'' = 0 then handle_api mg_vcmp hm else serve_static hm
      | MG_EV_other \<Rightarrow> [])"

text \<open>The calls of \<open>main\<close> up to turn \<open>n\<close> of its loop, which does not end.\<close>

definition web_main :: "nat \<Rightarrow> mg_call list" where
  "web_main n = [mg_mgr_init, mg_bind ''80'', mg_set_protocol_http_websocket] @ replicate n (mg_mgr_poll 1000)"

subsection \<open>What a client is sent\<close>

text \<open>
  The data are never sent: the handler of the interface runs for the path \<^verbatim>\<open>/api/\<close> alone and answers the path
  \<^verbatim>\<open>/api/data\<close> alone. A request for the data is served as a file, one for the interface is not found.
\<close>

lemma api_data_never_sent:
  assumes "\<And>a b. mg_vcmp a b = 0 \<longleftrightarrow> a = b"
  shows "mg_send_head 200 n h \<notin> set (ev_handler mg_vcmp ev hm)"
    and "hm_uri hm = ''/api/data'' \<Longrightarrow> ev_handler mg_vcmp MG_EV_HTTP_REQUEST hm = serve_static hm"
    and "hm_uri hm = ''/api/'' \<Longrightarrow> ev_handler mg_vcmp MG_EV_HTTP_REQUEST hm =
      [mg_send_head 404 0 ''Content-Type: text/plain'', mg_printf ''Not Found'']"
  by (cases ev) (auto simp: ev_handler_def handle_api_def serve_static_def assms)

text \<open>The name of a served file has the rest of the request in it.\<close>

lemma served_path_has_request:
  "serve_static \<lparr>hm_uri = ''/a'', hm_memory = ''/a HTTP/1.1'', hm_body_len = 0\<rparr> =
     [mg_serve_http ''www/a HTTP/1.1'' ''.'' ''text/html'']"
  by (simp add: serve_static_def)

end
