(* ===== verification/Spec2Isabelle.thy ===== *)
theory Spec2Isabelle
  imports ConfigStore AdcStream SelfUpdate ErrorReplies Atomicity ItemBuild TestVectors Accessories WebServer
begin

text \<open>
  \<^bold>\<open>The eNET-AIO TCP server.\<close> A model of \<^verbatim>\<open>aioenetd\<close>, the daemon that lets network clients work the
  registers of an eNET-AIO data acquisition board, and the theorems that make it correct or show where
  it is not.

  \<^bold>\<open>The program.\<close> A client connects to the control port and is greeted. Its bytes are collected by a
  receiving thread, cut into messages (an id, a 32-bit payload length, a payload of data items, a
  checksum), parsed into objects, one class per item id, and queued. One action thread takes messages
  from the queue, runs the items one after the other, replaces those that fail by error items, and
  sends the message back. The items read and write the board's registers through a driver library,
  keep a configuration that is stored in one small file per key, and start and stop a stream of samples.

  \<^bold>\<open>Theories.\<close>
  \<^item> \<^verbatim>\<open>Prelude\<close>: machine words, the outcome type \<open>res\<close> (a value, a C++ exception, behaviour the language
    leaves undefined, or an endless loop) and its composition, little-endian bytes (\<open>stuff\<close>).
  \<^item> \<^verbatim>\<open>EnetTypes\<close>: error codes, item ids, wire headers (\<^verbatim>\<open>TError.h\<close>, \<^verbatim>\<open>eNET-types.h\<close>).
  \<^item> \<^verbatim>\<open>Utilities\<close>: \<^verbatim>\<open>utilities.h\<close> and \<^verbatim>\<open>utilities.cpp\<close> apart from files: numbers as text, the guard macro,
    host names, upload paths.
  \<^item> \<^verbatim>\<open>Registers\<close>: \<^verbatim>\<open>apci.cpp\<close>, the offsets of \<^verbatim>\<open>eNET-AIO16-16F.h\<close>, the polling loop.
  \<^item> \<^verbatim>\<open>DioItems\<close>, \<^verbatim>\<open>RegItems\<close>, \<^verbatim>\<open>DacItems\<close>, \<^verbatim>\<open>BrdItems\<close>, \<^verbatim>\<open>CfgSysItems\<close>, \<^verbatim>\<open>AdcItems\<close>, \<^verbatim>\<open>AdcScan\<close>: the item
    classes of the files of the same names below \<^verbatim>\<open>DataItems/\<close>, each with its constructor (\<open>_new\<close>), its
    action (\<open>_Go\<close>) and its serialisation (\<open>_calcPayload\<close>).
  \<^item> \<^verbatim>\<open>AdcStream\<close>: \<^verbatim>\<open>adc.cpp\<close>: the worker and the logger as a step relation over the ring buffer and its
    semaphores, its invariant, and how a stream can end.
  \<^item> \<^verbatim>\<open>SelfUpdate\<close>: \<open>Update\<close> and \<open>Revert\<close> of \<^verbatim>\<open>DataItems/SYS_.cpp\<close> on a disk with links that remembers its states;
    what uploads can reach.
  \<^item> \<^verbatim>\<open>FileSystem\<close>, \<^verbatim>\<open>Config\<close>, \<^verbatim>\<open>ConfigStore\<close>: the file calls \<^verbatim>\<open>config.cpp\<close> and the atomic writer make, the
    configuration and its trees, and the proofs about what is stored.
  \<^item> \<^verbatim>\<open>DidDict\<close>, \<^verbatim>\<open>DataItem\<close>, \<^verbatim>\<open>ItemCodec\<close>: \<^verbatim>\<open>DataItems/TDataItem.cpp\<close>: the dictionary of ids, the factory, the
    dispatch of the virtual functions over the state of the server, and the codec laws.
  \<^item> \<^verbatim>\<open>Message\<close>: \<^verbatim>\<open>TMessage.cpp\<close>. \<^verbatim>\<open>ActionQueue\<close>: \<^verbatim>\<open>safe_queue.h\<close>. \<^verbatim>\<open>Server\<close>: \<^verbatim>\<open>aioenetd.cpp\<close>.
  \<^item> \<^verbatim>\<open>Framing\<close>, \<^verbatim>\<open>ServerRun\<close>, \<^verbatim>\<open>ErrorReplies\<close>, \<^verbatim>\<open>Greeting\<close>: proofs about \<^verbatim>\<open>aioenetd.cpp\<close> as a whole: the byte
    stream against its frames, a message against its turns and from socket to register and back, what a
    client is told when something is wrong, and what it is greeted with.
  \<^item> \<^verbatim>\<open>Startup\<close>: \<^verbatim>\<open>logging.h\<close>, \<^verbatim>\<open>logging.cpp\<close>, and the arguments, the device file and the listening sockets of
    \<^verbatim>\<open>aioenetd.cpp\<close>. \<^verbatim>\<open>Lifecycle\<close>: \<open>main\<close>, the listeners and \<open>exit_handler\<close>, the states a server reaches, and what
    holds in all of them; \<^verbatim>\<open>ConfigShape\<close>: that no item, message or load changes the sizes of the arrays of the
    configuration.
  \<^item> \<^verbatim>\<open>Conversation\<close>, \<^verbatim>\<open>ConversationRun\<close>: all threads of the server together, as a step relation over one server, one
    queue, a thread for each connection and the descriptors of their sockets: the listener accepts, a receiver
    greets, receives, parses and queues (\<open>threadReceiver\<close>), the action thread takes an action, runs its items and
    answers (\<open>ActionThread\<close>). Its invariant gives the order of the answers; its steps make up the functions of
    \<^verbatim>\<open>Server\<close>; a measure shows that they come to rest; and descriptors that are given again show where the order fails.
    \<^verbatim>\<open>Atomicity\<close>: what parsing and greeting leave alone (a locale over relations of the server before and after), so
    that a message is run as a whole.
  \<^item> \<^verbatim>\<open>ItemBuild\<close>: the constructors that make items from values, for the client's side of the wire; the contract
    of a class as a locale (\<open>item_codec\<close>), interpreted on their classes, and that the server gets what a client
    built. \<^verbatim>\<open>ItemText\<close>: the text of every class of items and of messages (\<open>AsString\<close>), which the parser and the
    greeting build for the log: that it is always defined, and where it quotes a client. \<^verbatim>\<open>TestVectors\<close>: the
    messages of the test program, evaluated in the model.
  \<^item> \<^verbatim>\<open>Accessories\<close>: the calls of \<^verbatim>\<open>apci.cpp\<close> the daemon does not make, what the host name item asks of the system,
    constructors and accessors for clients. \<^verbatim>\<open>WebServer\<close>: the handlers of \<^verbatim>\<open>eNET-WWW.c\<close>, a program beside the daemon.

  \<^bold>\<open>Parameters.\<close> What the program calls and does not contain is an argument: the driver library (a record
  of functions over an abstract device state), floating point, sleeping and the clock, the errors of
  system calls, the text of a floating-point number, the contents of fresh memory, the bytes that follow a
  table in memory. Properties that need a board that answers assume that named registers store what is
  written to them, or that the FIFO behaves as a FIFO; each has a witness on a concrete board (\<open>bank_lib\<close>, \<open>scan_lib\<close>).

  \<^bold>\<open>Bounds.\<close> No fuel is used: the parsers recurse on the length of their input, the polling loop counts
  down from its own limit, and the loops that may not end are defined through \<open>partial_function\<close>, where
  not returning is \<open>Hang\<close>.

  \<^bold>\<open>Interleaving.\<close> In \<^verbatim>\<open>Conversation\<close> a message is parsed, an item is run and an answer is sent in one step each, and
    any other thread may move between two steps; a connection is known by the index of its thread, a client by
    the descriptor \<^verbatim>\<open>accept\<close> gave. Code that throws out of its thread, is undefined or never returns makes no step:
    the relation describes the process while it lives, and \<open>receiver_fails\<close> and \<open>action_fails\<close> name the states where it
    would not go on. The sample stream (\<^verbatim>\<open>AdcStream\<close>) is a step relation of its own.

  \<^bold>\<open>Not modelled.\<close> What the log lines of the server say beside the texts of items and messages, which
  changes no state; how a floating-point number is written in a text (a parameter); threads beyond the order of
  their operations (\<open>pthread_create\<close>, the joins and waits of \<open>exit_handler\<close>); the greeting and the \<open>main\<close> of the
  test program (\<^verbatim>\<open>test.cpp\<close>), which make objects of a class that is now a template and print; the template
  \<open>TConfigField\<close>, which is instantiated nowhere; class declarations, whose functions are modelled where they are
  defined; the library \<^verbatim>\<open>mongoose\<close>.
\<close>

end
